(* ===== verification/Prelude.thy ===== *)
theory Prelude
  imports Main "HOL-Library.Sublist"
begin

text \<open>
  Shared vocabulary of the development: the collections of simplification rules, the result
  type that stands for Go's \<open>(value, error)\<close> pairs, Go maps as association lists without
  repeated keys, and the generic facts on lists and options that the components use.
\<close>

named_theorems go_consts \<open>string constants of pkg/constants, unfolded where they are compared\<close>
named_theorems result_elims \<open>inversion of the result monad\<close>

section \<open>Results\<close>

text \<open>
  A Go function returning \<open>(T, error)\<close> becomes a function into \<open>'e + 'a\<close>: \<open>Inl\<close> is the
  non-nil error, \<open>Inr\<close> the value. \<open>rbind m f\<close> is the statement sequence
  \<open>x, err := m; if err != nil { return err }; f(x)\<close>.
\<close>

definition rbind :: "'e + 'a \<Rightarrow> ('a \<Rightarrow> 'e + 'b) \<Rightarrow> 'e + 'b" where
  "rbind m f = (case m of Inl e \<Rightarrow> Inl e | Inr x \<Rightarrow> f x)"

definition require :: "bool \<Rightarrow> 'e \<Rightarrow> 'e + unit" where
  "require b e = (if b then Inr () else Inl e)"

definition map_err :: "('e \<Rightarrow> 'f) \<Rightarrow> 'e + 'a \<Rightarrow> 'f + 'a" where
  "map_err w m = (case m of Inl e \<Rightarrow> Inl (w e) | Inr x \<Rightarrow> Inr x)"

definition is_ok :: "'e + 'a \<Rightarrow> bool" where
  "is_ok m = (case m of Inl _ \<Rightarrow> False | Inr _ \<Rightarrow> True)"

text \<open>Go's \<open>for\<close> loop that stops at the first error and collects the results in order.\<close>

fun rmap :: "('a \<Rightarrow> 'e + 'b) \<Rightarrow> 'a list \<Rightarrow> 'e + 'b list" where
  "rmap f [] = Inr []"
| "rmap f (x # xs) = rbind (f x) (\<lambda>y. rbind (rmap f xs) (\<lambda>ys. Inr (y # ys)))"

text \<open>Go's \<open>for\<close> loop whose body only checks and returns the first error.\<close>

fun rforeach :: "('a \<Rightarrow> 'e + unit) \<Rightarrow> 'a list \<Rightarrow> 'e + unit" where
  "rforeach f [] = Inr ()"
| "rforeach f (x # xs) = rbind (f x) (\<lambda>_. rforeach f xs)"

section \<open>Go maps\<close>

text \<open>
  A Go \<open>map[string]V\<close> is an association list whose keys are distinct; the order of the list is
  the order in which one execution iterates over the map. Lookups are \<open>map_of\<close>.
\<close>

type_synonym 'v gomap = "(string \<times> 'v) list"

definition gomap_wf :: "'v gomap \<Rightarrow> bool" where
  "gomap_wf m = distinct (map fst m)"

fun gomap_put :: "string \<Rightarrow> 'v \<Rightarrow> 'v gomap \<Rightarrow> 'v gomap" where
  "gomap_put k v [] = [(k, v)]"
| "gomap_put k v ((k', v') # m) = (if k = k' then (k, v) # m else (k', v') # gomap_put k v m)"

text \<open>Order-preserving removal of later duplicates, as a specification for the two loops of
  the source that do it with a \<open>seen\<close> map.\<close>

fun first_occurrences :: "'a list \<Rightarrow> 'a list" where
  "first_occurrences [] = []"
| "first_occurrences (x # xs) = x # filter (\<lambda>y. y \<noteq> x) (first_occurrences xs)"

section \<open>Facts on results\<close>

lemma rbind_simps [simp]:
  "rbind (Inl e) f = Inl e"
  "rbind (Inr x) f = f x"
  by (simp_all add: rbind_def)

lemma rbind_Inr_conv [result_elims]:
  "rbind m f = Inr y \<longleftrightarrow> (\<exists>x. m = Inr x \<and> f x = Inr y)"
  by (cases m) (auto simp: rbind_def)

lemma rbind_Inl_conv:
  "rbind m f = Inl e \<longleftrightarrow> m = Inl e \<or> (\<exists>x. m = Inr x \<and> f x = Inl e)"
  by (cases m) (auto simp: rbind_def)

lemma require_simps [simp]:
  "require True e = Inr ()"
  "require False e = Inl e"
  by (simp_all add: require_def)

lemma require_Inr_conv [result_elims]: "require b e = Inr u \<longleftrightarrow> b"
  by (simp add: require_def)

lemma require_Inl_conv: "require b e = Inl e' \<longleftrightarrow> \<not> b \<and> e' = e"
  by (auto simp: require_def)

lemma map_err_simps [simp]:
  "map_err w (Inl e) = Inl (w e)"
  "map_err w (Inr x) = Inr x"
  by (simp_all add: map_err_def)

lemma map_err_Inr_conv [result_elims]: "map_err w m = Inr x \<longleftrightarrow> m = Inr x"
  by (cases m) simp_all

lemma map_err_Inl_conv: "map_err w m = Inl e \<longleftrightarrow> (\<exists>e'. m = Inl e' \<and> e = w e')"
  by (cases m) auto

lemma is_ok_simps [simp]:
  "is_ok (Inl e) = False"
  "is_ok (Inr x) = True"
  by (simp_all add: is_ok_def)

lemma is_ok_conv: "is_ok m \<longleftrightarrow> (\<exists>x. m = Inr x)"
  by (cases m) simp_all

lemma rmap_cong [fundef_cong]:
  "xs = ys \<Longrightarrow> (\<And>x. x \<in> set ys \<Longrightarrow> f x = g x) \<Longrightarrow> rmap f xs = rmap g ys"
  by (induction ys arbitrary: xs) simp_all

lemma rbind_cong [fundef_cong]:
  "m = m' \<Longrightarrow> (\<And>x. m' = Inr x \<Longrightarrow> f x = g x) \<Longrightarrow> rbind m f = rbind m' g"
  by (cases m') simp_all

lemma rmap_Inr_conv: "rmap f xs = Inr ys \<longleftrightarrow> list_all2 (\<lambda>x y. f x = Inr y) xs ys"
  by (induction xs arbitrary: ys) (auto simp: rbind_Inr_conv list_all2_Cons1)

lemma rmap_id: "(\<And>x. x \<in> set xs \<Longrightarrow> f x = Inr x) \<Longrightarrow> rmap f xs = Inr xs"
  by (induction xs) simp_all

lemma rmap_length: "rmap f xs = Inr ys \<Longrightarrow> length ys = length xs"
  by (induction xs arbitrary: ys) (auto simp: rbind_Inr_conv)

lemma rmap_total: "(\<And>x. x \<in> set xs \<Longrightarrow> \<exists>y. f x = Inr y) \<Longrightarrow> \<exists>ys. rmap f xs = Inr ys"
  by (induction xs) (force simp: rbind_Inr_conv)+

lemma rforeach_cong [fundef_cong]:
  "xs = ys \<Longrightarrow> (\<And>x. x \<in> set ys \<Longrightarrow> f x = g x) \<Longrightarrow> rforeach f xs = rforeach g ys"
  by (induction ys arbitrary: xs) simp_all

lemma rforeach_Inr_conv [result_elims]:
  "rforeach f xs = Inr u \<longleftrightarrow> (\<forall>x\<in>set xs. f x = Inr ())"
  by (induction xs) (auto simp: rbind_Inr_conv)

lemma rforeach_append:
  "rforeach f (xs @ ys) = rbind (rforeach f xs) (\<lambda>_. rforeach f ys)"
  by (induction xs) (simp_all add: rbind_def split: sum.splits)

section \<open>Facts on Go maps and lists\<close>

lemma gomap_put_keys: "set (map fst (gomap_put k v m)) = insert k (set (map fst m))"
  by (induction m rule: gomap_put.induct) auto

lemma gomap_put_wf: "gomap_wf m \<Longrightarrow> gomap_wf (gomap_put k v m)"
  unfolding gomap_wf_def
proof (induction k v m rule: gomap_put.induct)
  case (2 k v k' v' m)
  then show ?case using gomap_put_keys [of k v m] by auto
qed simp

lemma gomap_put_lookup: "map_of (gomap_put k v m) = (map_of m)(k \<mapsto> v)"
  by (induction m rule: gomap_put.induct) (auto simp: fun_eq_iff)

lemma set_first_occurrences [simp]: "set (first_occurrences xs) = set xs"
  by (induction xs) auto

lemma distinct_first_occurrences [simp]: "distinct (first_occurrences xs)"
  by (induction xs) auto

lemma filter_insert_first_occurrences:
  "filter (\<lambda>x. x \<notin> insert s seen) xs = filter (\<lambda>x. x \<notin> seen) (filter (\<lambda>y. y \<noteq> s) xs)"
  "s \<in> seen \<Longrightarrow> filter (\<lambda>x. x \<notin> seen) (filter (\<lambda>y. y \<noteq> s) xs) = filter (\<lambda>x. x \<notin> seen) xs"
  by (induction xs) auto

lemma first_occurrences_distinct_id: "distinct xs \<Longrightarrow> first_occurrences xs = xs"
proof (induction xs)
  case (Cons x xs)
  then show ?case by (auto intro: filter_True)
qed simp

lemma first_occurrences_filter:
  "first_occurrences (filter P xs) = filter P (first_occurrences xs)"
proof (induction xs)
  case (Cons x xs)
  have "filter P (filter (\<lambda>y. y \<noteq> x) ys) = filter (\<lambda>y. y \<noteq> x) (filter P ys)" for ys
    by (simp add: conj_commute)
  moreover have "\<not> P x \<Longrightarrow> filter P (filter (\<lambda>y. y \<noteq> x) ys) = filter P ys" for ys
    by (induction ys) auto
  ultimately show ?case using Cons by simp
qed simp

end
