(* ===== verification/Go_Strings.thy ===== *)
theory Go_Strings
  imports Prelude "HOL-Library.Char_ord" "HOL-Library.List_Lexorder"
begin

text \<open>
  The parts of Go's string handling that the sources use. A Go string is a sequence of bytes,
  so it is a HOL \<open>string\<close>. A \<open>for _, r := range s\<close> loop visits runes: \<open>decode_rune\<close> is
  UTF-8 decoding with Go's rule that an invalid byte yields U+FFFD and is one byte wide, and
  \<open>runes\<close> lists the runes with the bytes they come from. Case mapping and space tests are given
  on runes; of the non-ASCII letters only those whose case mapping meets ASCII matter, because
  every comparison in the sources is with an ASCII constant, and the other non-ASCII runes are
  left as they are.
\<close>

section \<open>Bytes and runes\<close>

definition byte :: "char \<Rightarrow> nat" where
  "byte c = of_char c"

definition rune_error :: nat where
  "rune_error = 65533"

definition is_cont :: "char \<Rightarrow> bool" where
  "is_cont c = (128 \<le> byte c \<and> byte c \<le> 191)"

fun decode2 :: "nat \<Rightarrow> string \<Rightarrow> nat \<times> nat" where
  "decode2 b (c1 # _) =
     (if is_cont c1 then ((b - 192) * 64 + (byte c1 - 128), 2) else (rune_error, 1))"
| "decode2 b _ = (rune_error, 1)"

fun decode3 :: "nat \<Rightarrow> string \<Rightarrow> nat \<times> nat" where
  "decode3 b (c1 # c2 # _) =
     (if (if b = 224 then 160 else 128) \<le> byte c1 \<and>
         byte c1 \<le> (if b = 237 then 159 else 191) \<and> is_cont c2
      then ((b - 224) * 4096 + (byte c1 - 128) * 64 + (byte c2 - 128), 3)
      else (rune_error, 1))"
| "decode3 b _ = (rune_error, 1)"

fun decode4 :: "nat \<Rightarrow> string \<Rightarrow> nat \<times> nat" where
  "decode4 b (c1 # c2 # c3 # _) =
     (if (if b = 240 then 144 else 128) \<le> byte c1 \<and>
         byte c1 \<le> (if b = 244 then 143 else 191) \<and> is_cont c2 \<and> is_cont c3
      then ((b - 240) * 262144 + (byte c1 - 128) * 4096 + (byte c2 - 128) * 64
            + (byte c3 - 128), 4)
      else (rune_error, 1))"
| "decode4 b _ = (rune_error, 1)"

fun decode_rune :: "string \<Rightarrow> nat \<times> nat" where
  "decode_rune [] = (rune_error, 0)"
| "decode_rune (c # cs) =
     (let b = byte c in
      if b < 128 then (b, 1)
      else if 194 \<le> b \<and> b \<le> 223 then decode2 b cs
      else if 224 \<le> b \<and> b \<le> 239 then decode3 b cs
      else if 240 \<le> b \<and> b \<le> 244 then decode4 b cs
      else (rune_error, 1))"

lemma decode2_width: "1 \<le> snd (decode2 b cs)"
  by (cases "(b, cs)" rule: decode2.cases) simp_all

lemma decode3_width: "1 \<le> snd (decode3 b cs)"
  by (cases "(b, cs)" rule: decode3.cases) simp_all

lemma decode4_width: "1 \<le> snd (decode4 b cs)"
  by (cases "(b, cs)" rule: decode4.cases) simp_all

lemma decode_rune_width: "s \<noteq> [] \<Longrightarrow> 1 \<le> snd (decode_rune s)"
  using decode2_width decode3_width decode4_width by (cases s) (simp_all add: Let_def)

function runes :: "string \<Rightarrow> (nat \<times> string) list" where
  "runes s =
     (if s = [] then []
      else (fst (decode_rune s), take (snd (decode_rune s)) s)
             # runes (drop (snd (decode_rune s)) s))"
  by pat_completeness auto
termination
proof (relation "measure length")
  fix s :: string
  assume "s \<noteq> []"
  then show "(drop (snd (decode_rune s)) s, s) \<in> measure length"
    using decode_rune_width [of s] by (simp add: length_greater_0_conv [symmetric] del: length_greater_0_conv)
qed simp

declare runes.simps [simp del]

definition rune_list :: "string \<Rightarrow> nat list" where
  "rune_list s = map fst (runes s)"

text \<open>\<open>utf8.ValidString\<close>: no rune of the string came from an invalid byte. A genuine U+FFFD is
  three bytes wide.\<close>

definition valid_utf8 :: "string \<Rightarrow> bool" where
  "valid_utf8 s = list_all (\<lambda>(r, bs). \<not> (r = rune_error \<and> length bs = 1)) (runes s)"

section \<open>Case mapping, spaces\<close>

text \<open>\<open>unicode.ToLower\<close> where it can yield an ASCII letter: A to Z, U+0130 and U+212A.\<close>

definition lower_rune :: "nat \<Rightarrow> nat" where
  "lower_rune r = (if 65 \<le> r \<and> r \<le> 90 then r + 32
                   else if r = 304 then 105 else if r = 8490 then 107 else r)"

text \<open>The simple case folding class that \<open>strings.EqualFold\<close> uses, where it meets ASCII: A to Z
  with a to z, U+017F with s and U+212A with k.\<close>

definition fold_rune :: "nat \<Rightarrow> nat" where
  "fold_rune r = (if 65 \<le> r \<and> r \<le> 90 then r + 32
                  else if r = 383 then 115 else if r = 8490 then 107 else r)"

definition to_lower :: "string \<Rightarrow> nat list" where
  "to_lower s = map lower_rune (rune_list s)"

text \<open>\<open>strings.ToLower(s) == t\<close> and \<open>strings.EqualFold(s, t)\<close> for an ASCII constant \<open>t\<close>.\<close>

definition lower_eq :: "string \<Rightarrow> string \<Rightarrow> bool" where
  "lower_eq s t = (to_lower s = map byte t)"

definition equal_fold :: "string \<Rightarrow> string \<Rightarrow> bool" where
  "equal_fold s t = (map fold_rune (rune_list s) = map fold_rune (rune_list t))"

text \<open>\<open>unicode.IsSpace\<close>\<close>

definition is_space :: "nat \<Rightarrow> bool" where
  "is_space r = (r \<in> {9, 10, 11, 12, 13, 32, 133, 160, 5760, 8232, 8233, 8239, 8287, 12288} \<or>
                 (8192 \<le> r \<and> r \<le> 8202))"

text \<open>\<open>unicode.IsControl\<close>: category Cc.\<close>

definition is_control :: "nat \<Rightarrow> bool" where
  "is_control r = (r < 32 \<or> (127 \<le> r \<and> r < 160))"

definition trim_space :: "string \<Rightarrow> string" where
  "trim_space s =
     concat (map snd (rev (dropWhile (\<lambda>(r, _). is_space r)
       (rev (dropWhile (\<lambda>(r, _). is_space r) (runes s))))))"

section \<open>Searching and cutting\<close>

definition has_prefix :: "string \<Rightarrow> string \<Rightarrow> bool" where
  "has_prefix s p = prefix p s"

definition has_suffix :: "string \<Rightarrow> string \<Rightarrow> bool" where
  "has_suffix s p = suffix p s"

definition contains :: "string \<Rightarrow> string \<Rightarrow> bool" where
  "contains s p = sublist p s"

definition cut_prefix :: "string \<Rightarrow> string \<Rightarrow> string option" where
  "cut_prefix s p = (if prefix p s then Some (drop (length p) s) else None)"

text \<open>\<open>strings.Cut(s, sep)\<close> for a one-byte separator: the part before the first separator, the
  part after it, and whether there was one.\<close>

fun cut :: "char \<Rightarrow> string \<Rightarrow> string \<times> string \<times> bool" where
  "cut sep [] = ([], [], False)"
| "cut sep (c # cs) =
     (if c = sep then ([], cs, True)
      else (case cut sep cs of (a, b, found) \<Rightarrow> (c # a, b, found)))"

text \<open>\<open>strings.Split(s, sep)\<close> for a one-byte separator.\<close>

fun split_on :: "char \<Rightarrow> string \<Rightarrow> string list" where
  "split_on sep [] = [[]]"
| "split_on sep (c # cs) =
     (if c = sep then [] # split_on sep cs
      else (case split_on sep cs of [] \<Rightarrow> [[c]] | p # ps \<Rightarrow> (c # p) # ps))"

text \<open>\<open>strings.ReplaceAll(s, old, new)\<close> for a non-empty \<open>old\<close>: leftmost, non-overlapping.\<close>

function replace_all :: "string \<Rightarrow> string \<Rightarrow> string \<Rightarrow> string" where
  "replace_all s old new =
     (if s = [] \<or> old = [] then s
      else if prefix old s then new @ replace_all (drop (length old) s) old new
      else hd s # replace_all (tl s) old new)"
  by pat_completeness auto
termination
  by (relation "measure (\<lambda>(s, old, new). length s)") auto

declare replace_all.simps [simp del]

text \<open>\<open>strings.Count(s, sub)\<close> for a non-empty \<open>sub\<close>: non-overlapping occurrences.\<close>

function count_sub :: "string \<Rightarrow> string \<Rightarrow> nat" where
  "count_sub s sub =
     (if s = [] \<or> sub = [] then 0
      else if prefix sub s then Suc (count_sub (drop (length sub) s) sub)
      else count_sub (tl s) sub)"
  by pat_completeness auto
termination
  by (relation "measure (\<lambda>(s, sub). length s)") auto

declare count_sub.simps [simp del]

section \<open>Character classes of the regular expressions\<close>

definition is_lower :: "char \<Rightarrow> bool" where
  "is_lower c = (97 \<le> byte c \<and> byte c \<le> 122)"

definition is_upper :: "char \<Rightarrow> bool" where
  "is_upper c = (65 \<le> byte c \<and> byte c \<le> 90)"

definition is_digit :: "char \<Rightarrow> bool" where
  "is_digit c = (48 \<le> byte c \<and> byte c \<le> 57)"

definition is_alnum :: "char \<Rightarrow> bool" where
  "is_alnum c = (is_lower c \<or> is_upper c \<or> is_digit c)"

text \<open>A pattern \<open>^[F][R]{0,n}$\<close>: one byte of the first class, then at most \<open>n\<close> of the second.\<close>

fun token_match :: "(char \<Rightarrow> bool) \<Rightarrow> (char \<Rightarrow> bool) \<Rightarrow> nat \<Rightarrow> string \<Rightarrow> bool" where
  "token_match first rest n [] = False"
| "token_match first rest n (c # cs) = (first c \<and> length cs \<le> n \<and> list_all rest cs)"

section \<open>Facts on runes\<close>

lemma byte_less [simp]: "byte c < 256"
  by (simp add: byte_def)

lemma byte_inject [simp]: "byte c = byte d \<longleftrightarrow> c = d"
  by (simp add: byte_def)

lemma decode_rune_ascii: "byte c < 128 \<Longrightarrow> decode_rune (c # cs) = (byte c, 1)"
  by (simp add: Let_def)

text \<open>Every rune that does not come from a single ASCII byte is at least U+0080.\<close>

lemma decode2_ge: "194 \<le> b \<Longrightarrow> 128 \<le> fst (decode2 b cs)"
  by (cases "(b, cs)" rule: decode2.cases) (auto simp: rune_error_def intro: trans_le_add1)

lemma decode3_ge: "224 \<le> b \<Longrightarrow> 128 \<le> fst (decode3 b cs)"
proof (cases "(b, cs)" rule: decode3.cases)
  case (1 b' c1 c2 r)
  assume "224 \<le> b"
  moreover have "160 \<le> byte c1 \<Longrightarrow> 128 \<le> (byte c1 - 128) * 64" by simp
  ultimately show ?thesis using 1 by (cases "b = 224") (auto simp: rune_error_def)
qed (simp_all add: rune_error_def)

lemma decode4_ge: "240 \<le> b \<Longrightarrow> 128 \<le> fst (decode4 b cs)"
proof (cases "(b, cs)" rule: decode4.cases)
  case (1 b' c1 c2 c3 r)
  assume "240 \<le> b"
  moreover have "144 \<le> byte c1 \<Longrightarrow> 128 \<le> (byte c1 - 128) * 4096" by simp
  ultimately show ?thesis using 1 by (cases "b = 240") (auto simp: rune_error_def)
qed (simp_all add: rune_error_def)

lemma decode_rune_nonascii: "128 \<le> byte c \<Longrightarrow> 128 \<le> fst (decode_rune (c # cs))"
  by (simp add: Let_def decode2_ge decode3_ge decode4_ge rune_error_def)

lemma runes_Nil [simp]: "runes [] = []"
  by (simp add: runes.simps)

lemma runes_ascii: "byte c < 128 \<Longrightarrow> runes (c # cs) = (byte c, [c]) # runes cs"
  by (simp add: runes.simps [of "c # cs"] decode_rune_ascii del: decode_rune.simps)

lemma runes_nonascii: "128 \<le> byte c \<Longrightarrow> \<exists>r bs rest. runes (c # cs) = (r, bs) # rest \<and> 128 \<le> r"
  using decode_rune_nonascii [of c cs] by (auto simp: runes.simps [of "c # cs"])

lemma concat_runes: "concat (map snd (runes s)) = s"
proof (induction s rule: runes.induct)
  case (1 s)
  then show ?case by (cases "s = []") (simp_all add: runes.simps [of s])
qed

lemma rune_list_Nil [simp]: "rune_list [] = []"
  by (simp add: rune_list_def)

lemma rune_list_ascii: "byte c < 128 \<Longrightarrow> rune_list (c # cs) = byte c # rune_list cs"
  by (simp add: rune_list_def runes_ascii)

lemma runes_all_ascii: "list_all (\<lambda>c. byte c < 128) s \<Longrightarrow> runes s = map (\<lambda>c. (byte c, [c])) s"
  by (induction s) (simp_all add: runes_ascii)

lemma rune_list_all_ascii: "list_all (\<lambda>c. byte c < 128) s \<Longrightarrow> rune_list s = map byte s"
  by (induction s) (simp_all add: rune_list_ascii)

text \<open>A range loop that accepts only runes below U+0080 satisfying \<open>P\<close> accepts exactly the
  strings whose bytes are all ASCII and satisfy \<open>P\<close>; invalid UTF-8 is refused with the rest.\<close>

lemma rune_list_all_iff:
  "list_all (\<lambda>r. r < 128 \<and> P r) (rune_list s) \<longleftrightarrow> list_all (\<lambda>c. byte c < 128 \<and> P (byte c)) s"
proof (induction s)
  case (Cons c cs)
  show ?case
  proof (cases "byte c < 128")
    case True
    then show ?thesis using Cons by (simp add: rune_list_ascii)
  next
    case False
    then obtain r bs rest where "runes (c # cs) = (r, bs) # rest" "128 \<le> r"
      using runes_nonascii [of c cs] by auto
    then show ?thesis using False by (simp add: rune_list_def)
  qed
qed simp

lemma printable_runes_iff:
  "list_all (\<lambda>r. \<not> (r < 33 \<or> r > 126 \<or> r \<in> S)) (rune_list s) \<longleftrightarrow>
   list_all (\<lambda>c. 33 \<le> byte c \<and> byte c \<le> 126 \<and> byte c \<notin> S) s"
proof -
  have eq: "(\<not> (r < 33 \<or> r > 126 \<or> r \<in> S)) = (r < 128 \<and> (33 \<le> r \<and> r \<le> 126 \<and> r \<notin> S))" for r :: nat
    by auto
  have eq': "(b < 128 \<and> (33 \<le> b \<and> b \<le> 126 \<and> b \<notin> S)) = (33 \<le> b \<and> b \<le> 126 \<and> b \<notin> S)" for b :: nat
    by auto
  show ?thesis unfolding eq unfolding rune_list_all_iff unfolding eq' by (rule refl)
qed

text \<open>An ASCII byte is never swallowed by a multi-byte sequence: it is a rune of the range loop.\<close>

lemma decode2_cont: "list_all (\<lambda>c. 128 \<le> byte c) (take (snd (decode2 b cs) - 1) cs)"
  by (cases "(b, cs)" rule: decode2.cases) (auto simp: is_cont_def)

lemma decode3_cont: "list_all (\<lambda>c. 128 \<le> byte c) (take (snd (decode3 b cs) - 1) cs)"
  by (cases "(b, cs)" rule: decode3.cases) (simp_all add: is_cont_def split: if_splits)

lemma decode4_cont: "list_all (\<lambda>c. 128 \<le> byte c) (take (snd (decode4 b cs) - 1) cs)"
  by (cases "(b, cs)" rule: decode4.cases) (simp_all add: is_cont_def split: if_splits)

lemma decode_rune_cont:
  "128 \<le> byte c \<Longrightarrow> list_all (\<lambda>c. 128 \<le> byte c) (take (snd (decode_rune (c # cs)) - 1) cs)"
  using decode2_cont decode3_cont decode4_cont by (simp add: Let_def)

lemma ascii_byte_is_rune: "c \<in> set s \<Longrightarrow> byte c < 128 \<Longrightarrow> byte c \<in> set (rune_list s)"
proof (induction s rule: runes.induct)
  case (1 s)
  show ?case
  proof (cases s)
    case (Cons d ds)
    show ?thesis
    proof (cases "byte d < 128")
      case True
      then have "snd (decode_rune s) = 1" by (simp add: Cons decode_rune_ascii del: decode_rune.simps)
      then show ?thesis using 1 True Cons by (auto simp: rune_list_ascii)
    next
      case False
      let ?w = "snd (decode_rune s)"
      have "take ?w s = d # take (?w - 1) ds"
        using decode_rune_width [of s] Cons by (cases ?w) auto
      then have "list_all (\<lambda>c. 128 \<le> byte c) (take ?w s)"
        using decode_rune_cont [of d ds] False Cons by (simp del: decode_rune.simps)
      then have "c \<notin> set (take ?w s)" using "1.prems"(2) by (auto simp: list_all_iff)
      then have "c \<in> set (drop ?w s)" using "1.prems"(1) by (metis Un_iff append_take_drop_id set_append)
      then have "byte c \<in> set (rune_list (drop ?w s))" using 1 Cons by blast
      then show ?thesis using Cons by (subst rune_list_def, subst runes.simps) (simp add: rune_list_def)
    qed
  qed (use 1 in simp)
qed

section \<open>Facts on cutting and splitting\<close>

lemma cut_prefix_Some_conv: "cut_prefix s p = Some t \<longleftrightarrow> s = p @ t"
  by (auto simp: cut_prefix_def prefix_def)

lemma cut_prefix_append [simp]: "cut_prefix (p @ t) p = Some t"
  by (simp add: cut_prefix_Some_conv)

lemma has_prefix_conv: "has_prefix s p \<longleftrightarrow> (\<exists>t. s = p @ t)"
  by (auto simp: has_prefix_def prefix_def)

lemma cut_found:
  "cut sep s = (a, b, True) \<Longrightarrow> s = a @ sep # b \<and> sep \<notin> set a"
  by (induction s arbitrary: a b) (auto split: if_splits prod.splits)

lemma cut_not_found:
  "cut sep s = (a, b, False) \<Longrightarrow> a = s \<and> b = [] \<and> sep \<notin> set s"
  by (induction s arbitrary: a b) (auto split: if_splits prod.splits)

lemma cut_first: "sep \<notin> set a \<Longrightarrow> cut sep (a @ sep # b) = (a, b, True)"
  by (induction a) auto

lemma sep_inject:
  assumes "sep \<notin> set a" "sep \<notin> set b"
  shows "a @ sep # x = b @ sep # y \<longleftrightarrow> a = b \<and> x = y"
  using assms
proof (induction a arbitrary: b)
  case Nil
  then show ?case by (cases b) auto
next
  case (Cons c a)
  then show ?case by (cases b) auto
qed

lemma split_on_nonempty [simp]: "split_on sep s \<noteq> []"
  by (induction s) (auto split: list.splits)

lemma split_on_no_sep: "sep \<notin> set s \<Longrightarrow> split_on sep s = [s]"
  by (induction s) auto

lemma split_on_parts: "p \<in> set (split_on sep s) \<Longrightarrow> sep \<notin> set p"
  by (induction s arbitrary: p) (auto split: list.splits if_splits)

lemma split_on_Cons: "sep \<notin> set a \<Longrightarrow> split_on sep (a @ sep # b) = a # split_on sep b"
  by (induction a) auto

lemma replace_all_Nil [simp]: "replace_all [] old new = []"
  by (simp add: replace_all.simps)

lemma replace_all_absent: "\<not> sublist old s \<Longrightarrow> replace_all s old new = s"
proof (induction s)
  case (Cons c cs)
  then have "\<not> prefix old (c # cs)" and "\<not> sublist old cs"
    by (auto simp: sublist_Cons_right)
  then show ?case using Cons.IH by (simp add: replace_all.simps [of "c # cs"])
qed simp

lemma token_match_bounds: "token_match f r n s \<Longrightarrow> 1 \<le> length s \<and> length s \<le> Suc n"
  by (cases s) auto

lemma token_match_chars:
  "token_match f r n s \<Longrightarrow> c \<in> set s \<Longrightarrow> f c \<or> r c"
  by (cases s) (auto simp: list_all_iff)

end
