(* ===== verification/Go_Json.thy ===== *)
theory Go_Json
  imports Go_Strings
begin

text \<open>
  The part of \<open>encoding/json\<close> and \<open>encoding/base64\<close> the sources use. A JSON value decoded into
  Go's \<open>any\<close> is a \<open>json\<close>: \<open>nil\<close>, \<open>bool\<close>, \<open>float64\<close>, \<open>string\<close>, \<open>[]any\<close> and
  \<open>map[string]any\<close>. A number is kept as its literal; where its value as a \<open>float64\<close> matters,
  \<open>number_of\<close> gives the integer when the literal denotes an integer of magnitude at most 2^53 (every
  such integer is a \<open>float64\<close>), and otherwise the literal, whose rounding is not carried out. \<open>json_unmarshal\<close> is \<open>json.Unmarshal\<close> into \<open>any\<close>:
  grammar, escapes, replacement of invalid UTF-8, later duplicate keys replacing earlier ones, the
  nesting limit of 10000 and the range error for literals beyond the largest \<open>float64\<close>.
  \<open>json_parse\<close> is the syntax alone, as a decoder that keeps number literals and sees every key does.
\<close>

section \<open>Values\<close>

datatype json =
    JNull
  | JBool bool
  | JNum string
  | JStr string
  | JArr "json list"
  | JObj "(string \<times> json) list"

text \<open>Type assertions \<open>v.(T)\<close> with the comma-ok form, and \<open>m[k]\<close> on a \<open>map[string]any\<close>, which
  is \<open>nil\<close> for an absent key.\<close>

fun as_string :: "json \<Rightarrow> string option" where
  "as_string (JStr s) = Some s"
| "as_string _ = None"

fun as_bool :: "json \<Rightarrow> bool option" where
  "as_bool (JBool b) = Some b"
| "as_bool _ = None"

fun as_array :: "json \<Rightarrow> json list option" where
  "as_array (JArr vs) = Some vs"
| "as_array _ = None"

fun as_object :: "json \<Rightarrow> json gomap option" where
  "as_object (JObj m) = Some m"
| "as_object _ = None"

definition field :: "json gomap \<Rightarrow> string \<Rightarrow> json" where
  "field m k = (case map_of m k of None \<Rightarrow> JNull | Some v \<Rightarrow> v)"

definition has_key :: "'v gomap \<Rightarrow> string \<Rightarrow> bool" where
  "has_key m k = (map_of m k \<noteq> None)"

text \<open>The string elements of an array, in order: the loop that appends \<open>item.(string)\<close> and skips
  the rest.\<close>

definition strings_of :: "json list \<Rightarrow> string list" where
  "strings_of vs = List.map_filter as_string vs"

section \<open>Formatting\<close>

function nat_str :: "nat \<Rightarrow> string" where
  "nat_str n = (if n < 10 then [char_of (48 + n)] else nat_str (n div 10) @ [char_of (48 + n mod 10)])"
  by pat_completeness auto
termination by (relation "measure id") auto

declare nat_str.simps [simp del]

definition int_str :: "int \<Rightarrow> string" where
  "int_str i = (if i < 0 then CHR ''-'' # nat_str (nat (- i)) else nat_str (nat i))"

text \<open>\<open>%v\<close> of a \<open>float64\<close> holding an integer is \<open>%g\<close> with the shortest digits: plain digits
  below 10^6, otherwise the significant digits without trailing zeros and a two-digit exponent.\<close>

definition strip_zeros :: "string \<Rightarrow> string" where
  "strip_zeros ds = rev (dropWhile (\<lambda>c. c = CHR ''0'') (rev ds))"

definition exponent_str :: "nat \<Rightarrow> string" where
  "exponent_str e = ''e+'' @ (if e < 10 then CHR ''0'' # nat_str e else nat_str e)"

definition mantissa_str :: "string \<Rightarrow> string" where
  "mantissa_str ds = (case ds of [] \<Rightarrow> [] | [d] \<Rightarrow> [d] | d # rest \<Rightarrow> d # CHR ''.'' # rest)"

definition float_int_str :: "int \<Rightarrow> string" where
  "float_int_str i =
     (let ds = nat_str (nat \<bar>i\<bar>); sign = (if i < 0 then ''-'' else '''') in
      if length ds \<le> 6 then sign @ ds
      else sign @ mantissa_str (strip_zeros ds) @ exponent_str (length ds - 1))"

definition join :: "string \<Rightarrow> string list \<Rightarrow> string" where
  "join sep xs = (case xs of [] \<Rightarrow> [] | y # ys \<Rightarrow> y @ concat (map (\<lambda>z. sep @ z) ys))"

section \<open>Numbers\<close>

definition digit_val :: "char \<Rightarrow> nat" where
  "digit_val c = byte c - 48"

fun digits_val :: "int \<Rightarrow> string \<Rightarrow> int" where
  "digits_val acc [] = acc"
| "digits_val acc (c # cs) = digits_val (10 * acc + int (digit_val c)) cs"

text \<open>The pieces of a literal \<open>-?int(.frac)?([eE][+-]?exp)?\<close> and the rest of the input.\<close>

record num_lit =
  nl_neg :: bool
  nl_int :: string
  nl_frac :: string
  nl_exp :: int

definition scan_int :: "string \<Rightarrow> (string \<times> string) option" where
  "scan_int s =
     (case s of
        [] \<Rightarrow> None
      | c # cs \<Rightarrow> if c = CHR ''0'' then Some ([c], cs)
                  else if is_digit c then Some (takeWhile is_digit s, dropWhile is_digit s)
                  else None)"

definition scan_frac :: "string \<Rightarrow> (string \<times> string) option" where
  "scan_frac s =
     (if s \<noteq> [] \<and> hd s = CHR ''.'' then
        if takeWhile is_digit (tl s) = [] then None
        else Some (takeWhile is_digit (tl s), dropWhile is_digit (tl s))
      else Some ([], s))"

definition scan_exp_digits :: "bool \<Rightarrow> string \<Rightarrow> (int \<times> string) option" where
  "scan_exp_digits neg s =
     (if takeWhile is_digit s = [] then None
      else let e = digits_val 0 (takeWhile is_digit s) in
           Some (if neg then - e else e, dropWhile is_digit s))"

definition scan_exp :: "string \<Rightarrow> (int \<times> string) option" where
  "scan_exp s =
     (case s of
        [] \<Rightarrow> Some (0, s)
      | c # cs \<Rightarrow>
          if c = CHR ''e'' \<or> c = CHR ''E'' then
            (case cs of
               [] \<Rightarrow> None
             | d # ds \<Rightarrow> if d = CHR ''-'' then scan_exp_digits True ds
                         else if d = CHR ''+'' then scan_exp_digits False ds
                         else scan_exp_digits False cs)
          else Some (0, s))"

definition scan_number :: "string \<Rightarrow> (num_lit \<times> string) option" where
  "scan_number s =
     (let neg = (s \<noteq> [] \<and> hd s = CHR ''-''); s1 = (if neg then tl s else s) in
      case scan_int s1 of None \<Rightarrow> None | Some (i, s2) \<Rightarrow>
      (case scan_frac s2 of None \<Rightarrow> None | Some (f, s3) \<Rightarrow>
      (case scan_exp s3 of None \<Rightarrow> None | Some (e, s4) \<Rightarrow>
        Some (\<lparr>nl_neg = neg, nl_int = i, nl_frac = f, nl_exp = e\<rparr>, s4))))"

text \<open>The value of a literal: an integer when it is one of magnitude at most 2^53, otherwise the
  literal. A literal that rounds beyond the largest \<open>float64\<close> is a range error for every decoder
  that does not keep literals. The exponent is compared with the number of digits first (\<open>k\<close> is the
  number of digits before the decimal point), so that no huge power of ten is computed.\<close>

definition max_safe_int :: int where
  "max_safe_int = 9007199254740992"

definition float_limit :: int where
  "float_limit = 2 ^ 1024 - 2 ^ 970"

definition scaled :: "int \<Rightarrow> int \<Rightarrow> int" where
  "scaled m e = (if 0 \<le> e then m * 10 ^ nat e else m div 10 ^ nat (- e))"

definition significant :: "num_lit \<Rightarrow> string" where
  "significant l = dropWhile (\<lambda>c. c = CHR ''0'') (nl_int l @ nl_frac l)"

definition float_overflows :: "num_lit \<Rightarrow> bool" where
  "float_overflows l =
     (let ds = significant l; e = nl_exp l - int (length (nl_frac l)); k = int (length ds) + e in
      if ds = [] \<or> k < 309 then False
      else if 309 < k then True
      else float_limit \<le> scaled (digits_val 0 ds) e)"

datatype jnum = JInt int | JDec string

definition number_value :: "num_lit \<Rightarrow> string \<Rightarrow> jnum" where
  "number_value l lit =
     (let ds = significant l; m = digits_val 0 ds;
          e = nl_exp l - int (length (nl_frac l)); k = int (length ds) + e;
          signed = (\<lambda>n. if nl_neg l then - n else n) in
      if ds = [] then (if nl_neg l then JDec lit else JInt 0)
      else if k < 1 \<or> 16 < k then JDec lit
      else if (e < 0 \<and> m mod 10 ^ nat (- e) \<noteq> 0) \<or> max_safe_int < scaled m e then JDec lit
      else JInt (signed (scaled m e)))"

definition number_of :: "string \<Rightarrow> jnum" where
  "number_of lit = (case scan_number lit of Some (l, _) \<Rightarrow> number_value l lit | None \<Rightarrow> JDec lit)"

text \<open>\<open>json.Unmarshal\<close> of a marshalled \<open>float64\<close> into an \<open>int\<close>.\<close>

fun int_of_json :: "json \<Rightarrow> int option" where
  "int_of_json (JNum lit) = (case number_of lit of JInt n \<Rightarrow> Some n | JDec _ \<Rightarrow> None)"
| "int_of_json _ = None"

text \<open>\<open>fmt.Sprintf("%v", v)\<close>. Maps are printed with their keys sorted. The argument \<open>dec\<close> is the
  rendering of the numbers that are kept as literals.\<close>

fun fmt_v :: "(string \<Rightarrow> string) \<Rightarrow> json \<Rightarrow> string" where
  "fmt_v dec JNull = ''<nil>''"
| "fmt_v dec (JBool b) = (if b then ''true'' else ''false'')"
| "fmt_v dec (JNum lit) = (case number_of lit of JInt i \<Rightarrow> float_int_str i | JDec l \<Rightarrow> dec l)"
| "fmt_v dec (JStr s) = s"
| "fmt_v dec (JArr vs) = ''['' @ join '' '' (map (fmt_v dec) vs) @ '']''"
| "fmt_v dec (JObj m) =
     ''map['' @
     join '' '' (map (\<lambda>(k, t). k @ '':'' @ t)
       (sort_key fst (map (\<lambda>(k, v). (k, fmt_v dec v)) m))) @ '']''"

section \<open>Strings\<close>

text \<open>UTF-8 encoding of a rune; surrogates and values beyond U+10FFFF become U+FFFD.\<close>

definition encode_rune :: "nat \<Rightarrow> string" where
  "encode_rune r0 =
     (let r = (if (55296 \<le> r0 \<and> r0 \<le> 57343) \<or> 1114111 < r0 then rune_error else r0) in
      if r < 128 then [char_of r]
      else if r < 2048 then [char_of (192 + r div 64), char_of (128 + r mod 64)]
      else if r < 65536 then
        [char_of (224 + r div 4096), char_of (128 + r div 64 mod 64), char_of (128 + r mod 64)]
      else [char_of (240 + r div 262144), char_of (128 + r div 4096 mod 64),
            char_of (128 + r div 64 mod 64), char_of (128 + r mod 64)])"

definition hex_val :: "char \<Rightarrow> nat option" where
  "hex_val c =
     (let b = byte c in
      if 48 \<le> b \<and> b \<le> 57 then Some (b - 48)
      else if 97 \<le> b \<and> b \<le> 102 then Some (b - 87)
      else if 65 \<le> b \<and> b \<le> 70 then Some (b - 55)
      else None)"

fun hex4 :: "string \<Rightarrow> (nat \<times> string) option" where
  "hex4 (a # b # c # d # cs) =
     (case (hex_val a, hex_val b, hex_val c, hex_val d) of
        (Some w, Some x, Some y, Some z) \<Rightarrow> Some (((w * 16 + x) * 16 + y) * 16 + z, cs)
      | _ \<Rightarrow> None)"
| "hex4 _ = None"

text \<open>The second half of a surrogate pair, if the input continues with one.\<close>

definition low_surrogate :: "string \<Rightarrow> (nat \<times> string) option" where
  "low_surrogate s =
     (if prefix [CHR 0x5C, CHR ''u''] s then
        (case hex4 (drop 2 s) of
           Some (r, cs) \<Rightarrow> if 56320 \<le> r \<and> r \<le> 57343 then Some (r, cs) else None
         | None \<Rightarrow> None)
      else None)"

definition unicode_escape :: "string \<Rightarrow> (string \<times> string) option" where
  "unicode_escape s =
     (case hex4 s of
        None \<Rightarrow> None
      | Some (r, cs) \<Rightarrow>
          if 55296 \<le> r \<and> r \<le> 56319 then
            (case low_surrogate cs of
               Some (r2, cs2) \<Rightarrow>
                 Some (encode_rune (65536 + (r - 55296) * 1024 + (r2 - 56320)), cs2)
             | None \<Rightarrow> Some (encode_rune rune_error, cs))
          else Some (encode_rune r, cs))"

definition simple_escape :: "char \<Rightarrow> char option" where
  "simple_escape c =
     (let b = byte c in
      if b = 34 \<or> b = 92 \<or> b = 47 then Some c
      else if b = 98 then Some (char_of (8::nat))
      else if b = 102 then Some (char_of (12::nat))
      else if b = 110 then Some (char_of (10::nat))
      else if b = 114 then Some (char_of (13::nat))
      else if b = 116 then Some (char_of (9::nat))
      else None)"

text \<open>The body of a string literal, after its opening quote: every step consumes at least one
  byte, so a list as long as the input is enough fuel. Fuel is a list, spent one element at a time.\<close>

fun scan_string :: "string \<Rightarrow> string \<Rightarrow> (string \<times> string) option" where
  "scan_string [] s = None"
| "scan_string (_ # n) s =
     (case s of
        [] \<Rightarrow> None
      | c # cs \<Rightarrow>
          if byte c = 34 then Some ([], cs)
          else if byte c < 32 then None
          else if byte c = 92 then
            (case cs of
               [] \<Rightarrow> None
             | e # es \<Rightarrow>
                 (case (if e = CHR ''u'' then unicode_escape es
                        else map_option (\<lambda>d. ([d], es)) (simple_escape e)) of
                    None \<Rightarrow> None
                  | Some (out, rest) \<Rightarrow>
                      map_option (\<lambda>(t, r). (out @ t, r)) (scan_string n rest)))
          else map_option (\<lambda>(t, r). (encode_rune (fst (decode_rune s)) @ t, r))
                 (scan_string n (drop (snd (decode_rune s)) s)))"

section \<open>Values\<close>

definition is_json_space :: "char \<Rightarrow> bool" where
  "is_json_space c = (byte c \<in> {9, 10, 13, 32})"

definition skip_space :: "string \<Rightarrow> string" where
  "skip_space s = dropWhile is_json_space s"

definition scan_literal :: "string \<Rightarrow> (json \<times> string) option" where
  "scan_literal s =
     (if prefix ''null'' s then Some (JNull, drop 4 s)
      else if prefix ''true'' s then Some (JBool True, drop 4 s)
      else if prefix ''false'' s then Some (JBool False, drop 5 s)
      else (case scan_number s of
              None \<Rightarrow> None
            | Some (l, rest) \<Rightarrow> Some (JNum (take (length s - length rest) s), rest)))"

definition max_depth :: int where
  "max_depth = 10000"

text \<open>A value, the rest of an array after \<open>[\<close> or \<open>,\<close>, and the rest of an object. The first
  argument is fuel, spent once per token; the second is the nesting depth.\<close>

fun parse_value :: "string \<Rightarrow> int \<Rightarrow> string \<Rightarrow> (json \<times> string) option"
  and parse_elems :: "string \<Rightarrow> int \<Rightarrow> string \<Rightarrow> (json list \<times> string) option"
  and parse_members :: "string \<Rightarrow> int \<Rightarrow> string \<Rightarrow> ((string \<times> json) list \<times> string) option" where
  "parse_value [] d s = None"
| "parse_value (_ # n) d s =
     (case skip_space s of
        [] \<Rightarrow> None
      | c # cs \<Rightarrow>
          if c = CHR ''{'' then
            (if max_depth \<le> d then None
             else if skip_space cs \<noteq> [] \<and> hd (skip_space cs) = CHR ''}''
             then Some (JObj [], tl (skip_space cs))
             else map_option (\<lambda>(m, r). (JObj m, r)) (parse_members n (d + 1) cs))
          else if c = CHR ''['' then
            (if max_depth \<le> d then None
             else if skip_space cs \<noteq> [] \<and> hd (skip_space cs) = CHR '']''
             then Some (JArr [], tl (skip_space cs))
             else map_option (\<lambda>(vs, r). (JArr vs, r)) (parse_elems n (d + 1) cs))
          else if byte c = 34 then map_option (\<lambda>(t, r). (JStr t, r)) (scan_string cs cs)
          else scan_literal (c # cs))"
| "parse_elems [] d s = None"
| "parse_elems (_ # n) d s =
     (case parse_value n d s of
        None \<Rightarrow> None
      | Some (v, r) \<Rightarrow>
          (case skip_space r of
             [] \<Rightarrow> None
           | c # cs \<Rightarrow>
               if c = CHR '','' then map_option (\<lambda>(vs, r'). (v # vs, r')) (parse_elems n d cs)
               else if c = CHR '']'' then Some ([v], cs)
               else None))"
| "parse_members [] d s = None"
| "parse_members (_ # n) d s =
     (case skip_space s of
        [] \<Rightarrow> None
      | q # qs \<Rightarrow>
          if byte q \<noteq> 34 then None
          else
            (case scan_string qs qs of
               None \<Rightarrow> None
             | Some (k, r) \<Rightarrow>
                 (case skip_space r of
                    [] \<Rightarrow> None
                  | c # cs \<Rightarrow>
                      if c \<noteq> CHR '':'' then None
                      else
                        (case parse_value n d cs of
                           None \<Rightarrow> None
                         | Some (v, r2) \<Rightarrow>
                             (case skip_space r2 of
                                [] \<Rightarrow> None
                              | x # xs \<Rightarrow>
                                  if x = CHR '','' then
                                    map_option (\<lambda>(m, r3). ((k, v) # m, r3)) (parse_members n d xs)
                                  else if x = CHR ''}'' then Some ([(k, v)], xs)
                                  else None)))))"

text \<open>The syntax tree of a document, with repeated keys kept, and \<open>json.Unmarshal\<close> into \<open>any\<close>, in which
  a later occurrence of a key replaces the earlier ones.\<close>

definition json_parse :: "string \<Rightarrow> json option" where
  "json_parse s =
     (case parse_value (s @ s) 0 s of
        Some (v, rest) \<Rightarrow> if skip_space rest = [] then Some v else None
      | None \<Rightarrow> None)"

fun keep_last :: "'v gomap \<Rightarrow> 'v gomap" where
  "keep_last [] = []"
| "keep_last ((k, v) # m) = (if has_key m k then keep_last m else (k, v) # keep_last m)"

fun json_norm :: "json \<Rightarrow> json" where
  "json_norm (JArr vs) = JArr (map json_norm vs)"
| "json_norm (JObj m) = JObj (keep_last (map (\<lambda>(k, v). (k, json_norm v)) m))"
| "json_norm v = v"

definition literal_in_range :: "string \<Rightarrow> bool" where
  "literal_in_range lit = (case scan_number lit of Some (l, _) \<Rightarrow> \<not> float_overflows l | None \<Rightarrow> False)"

fun json_in_range :: "json \<Rightarrow> bool" where
  "json_in_range (JNum lit) = literal_in_range lit"
| "json_in_range (JArr vs) = list_all json_in_range vs"
| "json_in_range (JObj m) = list_all (\<lambda>(k, v). json_in_range v) m"
| "json_in_range _ = True"

definition json_unmarshal :: "string \<Rightarrow> json option" where
  "json_unmarshal s =
     (case json_parse s of
        Some v \<Rightarrow> if json_in_range v then Some (json_norm v) else None
      | None \<Rightarrow> None)"

text \<open>\<open>json.Unmarshal\<close> into a \<open>map[string]any\<close>: an object, or \<open>null\<close>, which leaves the map nil.\<close>

definition json_unmarshal_map :: "string \<Rightarrow> json gomap option option" where
  "json_unmarshal_map s =
     (case json_unmarshal s of
        Some (JObj m) \<Rightarrow> Some (Some m)
      | Some JNull \<Rightarrow> Some None
      | _ \<Rightarrow> None)"

section \<open>Base64\<close>

definition b64_val :: "char \<Rightarrow> nat option" where
  "b64_val c =
     (let b = byte c in
      if 65 \<le> b \<and> b \<le> 90 then Some (b - 65)
      else if 97 \<le> b \<and> b \<le> 122 then Some (b - 71)
      else if 48 \<le> b \<and> b \<le> 57 then Some (b + 4)
      else if b = 43 then Some 62
      else if b = 47 then Some 63
      else None)"

text \<open>The quanta of a padded encoding, after line breaks have been dropped. The bits that padding
  leaves over are not checked, as \<open>StdEncoding\<close> does not.\<close>

fun b64_quanta :: "string \<Rightarrow> string option" where
  "b64_quanta [] = Some []"
| "b64_quanta (a # b # c # d # cs) =
     (case (b64_val a, b64_val b) of
        (Some w, Some x) \<Rightarrow>
          if c = CHR ''='' then
            (if d = CHR ''='' \<and> cs = [] then Some [char_of (w * 4 + x div 16)] else None)
          else
            (case b64_val c of
               None \<Rightarrow> None
             | Some y \<Rightarrow>
                 if d = CHR ''='' then
                   (if cs = [] then Some [char_of (w * 4 + x div 16), char_of (x mod 16 * 16 + y div 4)]
                    else None)
                 else
                   (case b64_val d of
                      None \<Rightarrow> None
                    | Some z \<Rightarrow>
                        map_option (\<lambda>r. char_of (w * 4 + x div 16) # char_of (x mod 16 * 16 + y div 4)
                                          # char_of (y mod 4 * 64 + z) # r) (b64_quanta cs)))
      | _ \<Rightarrow> None)"
| "b64_quanta _ = None"

definition base64_decode :: "string \<Rightarrow> string option" where
  "base64_decode s = b64_quanta (filter (\<lambda>c. byte c \<noteq> 10 \<and> byte c \<noteq> 13) s)"

section \<open>Facts\<close>

text \<open>Every object inside a value has distinct keys, as every Go map does.\<close>

fun json_wf :: "json \<Rightarrow> bool" where
  "json_wf (JArr vs) = list_all json_wf vs"
| "json_wf (JObj m) = (gomap_wf m \<and> list_all (\<lambda>(k, v). json_wf v) m)"
| "json_wf _ = True"

lemma field_simps [simp]:
  "field [] k = JNull"
  "field ((k', v) # m) k = (if k = k' then v else field m k)"
  by (simp_all add: field_def)

lemma has_key_simps [simp]:
  "has_key [] k = False"
  "has_key ((k', v) # m) k = (k = k' \<or> has_key m k)"
  by (simp_all add: has_key_def)

lemma has_key_conv: "has_key m k \<longleftrightarrow> k \<in> fst ` set m"
  by (simp add: has_key_def map_of_eq_None_iff)

lemma as_string_Some [simp]: "as_string v = Some s \<longleftrightarrow> v = JStr s"
  by (cases v) auto

lemma as_bool_Some [simp]: "as_bool v = Some b \<longleftrightarrow> v = JBool b"
  by (cases v) auto

lemma as_array_Some [simp]: "as_array v = Some vs \<longleftrightarrow> v = JArr vs"
  by (cases v) auto

lemma as_object_Some [simp]: "as_object v = Some m \<longleftrightarrow> v = JObj m"
  by (cases v) auto

lemma strings_of_simps [simp]:
  "strings_of [] = []"
  "strings_of (v # vs) = (case as_string v of None \<Rightarrow> strings_of vs | Some s \<Rightarrow> s # strings_of vs)"
  by (simp add: strings_of_def List.map_filter_def)
    (cases v; simp add: strings_of_def List.map_filter_def)

lemma strings_of_JStr [simp]: "strings_of (map JStr ss) = ss"
  by (induction ss) simp_all

lemma json_wf_field: "json_wf (JObj m) \<Longrightarrow> json_wf (field m k)"
  by (induction m) (auto simp: gomap_wf_def)

lemma keep_last_keys: "set (map fst (keep_last m)) = set (map fst m)"
  by (induction m rule: keep_last.induct) (auto simp: has_key_conv)

lemma keep_last_wf: "gomap_wf (keep_last m)"
proof (induction m rule: keep_last.induct)
  case (2 k v m)
  then show ?case using keep_last_keys [of m] by (auto simp: gomap_wf_def has_key_conv)
qed (simp add: gomap_wf_def)

lemma keep_last_subset: "set (keep_last m) \<subseteq> set m"
  by (induction m rule: keep_last.induct) auto

lemma keep_last_lookup: "map_of (keep_last m) k = map_of (rev m) k"
proof (induction m rule: keep_last.induct)
  case (2 k' v m)
  have "map_of (rev m) k = None \<longleftrightarrow> map_of m k = None" by (simp add: map_of_eq_None_iff)
  then show ?case using 2 by (auto simp: has_key_def map_add_def split: option.splits)
qed simp

lemma json_norm_wf: "json_wf (json_norm v)"
proof (induction v rule: json_norm.induct)
  case (2 m)
  then show ?case
    using keep_last_wf keep_last_subset [of "map (\<lambda>(k, v). (k, json_norm v)) m"]
    by (fastforce simp: list_all_iff)
qed (auto simp: list_all_iff)

declare parse_value.simps [simp del] parse_elems.simps [simp del] parse_members.simps [simp del]

lemma json_unmarshal_wf: "json_unmarshal s = Some v \<Longrightarrow> json_wf v"
  by (auto simp: json_unmarshal_def json_norm_wf split: option.splits if_splits)

lemma json_unmarshal_map_wf: "json_unmarshal_map s = Some (Some m) \<Longrightarrow> json_wf (JObj m)"
  by (auto simp: json_unmarshal_map_def split: option.splits json.splits dest: json_unmarshal_wf)

lemma json_unmarshal_example:
  \<open>json_unmarshal ''{ "a":[1], "b":{"c":true}, "a": 2.50, "d": 30 }''
   = Some (JObj [(''b'', JObj [(''c'', JBool True)]), (''a'', JNum ''2.50''), (''d'', JNum ''30'')])\<close>
  by (simp add: json_unmarshal_def json_parse_def parse_value.simps parse_elems.simps parse_members.simps
      skip_space_def is_json_space_def byte_def max_depth_def scan_literal_def encode_rune_def
      scan_number_def scan_int_def scan_frac_def scan_exp_def number_value_def is_digit_def
      digit_val_def max_safe_int_def Let_def char_of_eq_iff significant_def scaled_def
      literal_in_range_def float_overflows_def)

end
