(* ===== verification/Errors.thy ===== *)
theory Errors
  imports Prelude
begin

text \<open>
  Go \<open>error\<close> values. Every \<open>fmt.Errorf\<close> and \<open>errors.New\<close> of the sources is one constructor of
  the enumeration of its component, with the message as a comment; \<open>Errorf\<close> carries the values
  formatted into the message, \<open>Wrapf\<close> the wrapped error (\<open>%w\<close>). The error types that code
  inspects with \<open>errors.As\<close> or \<open>errors.Is\<close> are constructors of their own; errors made by libraries
  are \<open>External\<close>. The infrastructure components use \<open>Text\<close> with the format string itself.
\<close>

section \<open>Messages\<close>

text \<open>internal/domain/services: envelope admission and transaction building\<close>

datatype service_msg =
    EnvelopeFieldCase          \<comment> \<open>schema_version and audit field names must be lowercase\<close>
  | AuditNeedsVersion          \<comment> \<open>audit requires schema_version 2\<close>
  | VersionedOnV1              \<comment> \<open>versioned audit envelopes are not supported on V1 subjects\<close>
  | VersionNotInteger          \<comment> \<open>schema_version must be an integer\<close>
  | UnsupportedVersion         \<comment> \<open>unsupported schema_version\<close>
  | VersionNeedsAudit          \<comment> \<open>schema_version 2 requires audit\<close>
  | VersionNotEnabled          \<comment> \<open>schema_version 2 processing is not enabled: ...\<close>
  | MissingAction              \<comment> \<open>missing or invalid action in message data\<close>
  | ConfigNotObject            \<comment> \<open>indexing_config must be an object\<close>
  | ParseConfig                \<comment> \<open>failed to parse indexing_config: %w\<close>
  | DataRequired               \<comment> \<open>data field is required\<close>
  | DataNotObject              \<comment> \<open>data must be an object for %s actions\<close>
  | DataNotString              \<comment> \<open>data must be a string (object ID) for %s actions\<close>
  | DataJson                   \<comment> \<open>the json.Unmarshal error of the decoded data\<close>
  | HeadersRequired            \<comment> \<open>headers field is required\<close>
  | AuthorizationRequired      \<comment> \<open>authorization header is required for V2 transactions\<close>
  | ObjectTypeRequired         \<comment> \<open>object_type is required\<close>
  | ObjectTypeChar             \<comment> \<open>object_type %q contains invalid character for a NATS subject token\<close>
  | ObjectTypeReserved         \<comment> \<open>object_type %q is reserved and cannot be used\<close>
  | InvalidV1Action            \<comment> \<open>invalid V1 transaction action: %s\<close>
  | InvalidV2Action            \<comment> \<open>invalid V2 transaction action: %s\<close>
  | ParsedDataNil              \<comment> \<open>parsed data is nil\<close>
  | MissingId                  \<comment> \<open>missing or invalid 'id' field in data\<close>

datatype body_msg =
    ErrInvalidAction           \<comment> \<open>invalid transaction action\<close>
  | InvalidTransactionData     \<comment> \<open>invalid transaction data: %w\<close>
  | InvalidTransactionHeaders  \<comment> \<open>invalid transaction headers: %w\<close>
  | ErrParseTransaction        \<comment> \<open>failed to parse transaction data\<close>
  | ConfigRequired             \<comment> \<open>indexing_config is required for object_type %q\<close>
  | ParsePrincipalsFailed      \<comment> \<open>failed to parse principals: %w\<close>
  | ErrInvalidObjectID         \<comment> \<open>object_id must be non-empty and contain only printable ...\<close>
  | UnsupportedAction          \<comment> \<open>unsupported action: %s\<close>
  | EnrichFailed               \<comment> \<open>failed to enrich transaction data: %w\<close>
  | ExpectedObject             \<comment> \<open>invalid data for action %s: expected object\<close>
  | ExpectedString             \<comment> \<open>invalid data for action %s: expected string\<close>
  | DataNotMap                 \<comment> \<open>data is not a map[string]any\<close>
  | PathNotObject              \<comment> \<open>template field path '%s' is invalid: '%s' is not an object\<close>
  | ExpandFailed               \<comment> \<open>failed to expand templates in indexing_config: %w\<close>
  | ConfigNotObjectExpanded    \<comment> \<open>indexing_config must be an object after template expansion\<close>
  | ConfigObjectID             \<comment> \<open>indexing_config: object_id is required ...\<close>
  | ConfigAccessObject         \<comment> \<open>indexing_config: access_check_object is required ...\<close>
  | ConfigAccessRelation       \<comment> \<open>indexing_config: access_check_relation is required ...\<close>
  | ConfigHistoryObject        \<comment> \<open>indexing_config: history_check_object is required ...\<close>
  | ConfigHistoryRelation      \<comment> \<open>indexing_config: history_check_relation is required ...\<close>

text \<open>pkg/types: the version 2 envelope and its profiles\<close>

datatype audit_msg =
    EnvelopeTooLarge           \<comment> \<open>audit envelope exceeds maximum size\<close>
  | InvalidEnvelopeJson        \<comment> \<open>invalid version 2 JSON envelope\<close>
  | OneJsonValue               \<comment> \<open>version 2 envelope must contain exactly one JSON value\<close>
  | SchemaAndAuditRequired     \<comment> \<open>schema_version 2 and audit are required\<close>
  | InvalidAuditObjectType     \<comment> \<open>invalid audit object type\<close>
  | HeadersAuthorization       \<comment> \<open>headers.authorization is required\<close>
  | ConfigObjectIDRequired     \<comment> \<open>indexing_config.object_id is required\<close>
  | ConcreteAuthorization      \<comment> \<open>concrete access and history authorization fields are required\<close>
  | InvalidPublisherOrEvent    \<comment> \<open>invalid audit publisher or event_id\<close>
  | OccurredAtRequired         \<comment> \<open>audit.occurred_at is required and must be an RFC3339 timestamp\<close>
  | RevisionRange              \<comment> \<open>audit.resource_revision must be between 1 and 9223372036854775807\<close>
  | ActorRefsRequired          \<comment> \<open>explicit audit actor and effective actor references are required\<close>
  | InvalidScopeRef            \<comment> \<open>invalid audit scope reference\<close>
  | CreatedScope               \<comment> \<open>created events require after scope and no before scope\<close>
  | UpdatedScope               \<comment> \<open>updated events require before and after scope\<close>
  | DeleteDataMismatch         \<comment> \<open>version 2 delete data must match indexing_config.object_id\<close>
  | DeletedScope               \<comment> \<open>deleted events require before scope and no after scope\<close>
  | InvalidVersion2Action      \<comment> \<open>invalid version 2 action\<close>
  | CreateDataObject           \<comment> \<open>version 2 create/update data must be an object\<close>
  | ContentRequired            \<comment> \<open>audit.content requires a schema and snapshots representation\<close>
  | SnapshotsAction            \<comment> \<open>audit.content snapshots do not match the action\<close>
  | SnapshotsObjects           \<comment> \<open>audit.content snapshots must be JSON objects, not null or arrays\<close>
  | ValidatorRequired          \<comment> \<open>audit.content requires a registered schema validator\<close>
  | ValidatorRejected          \<comment> \<open>audit.content rejected by registered schema validator\<close>
  | ProjectionContent          \<comment> \<open>projection-only origins must omit audit.content\<close>
  | InvalidOrigin              \<comment> \<open>invalid audit.origin\<close>

datatype profile_msg =
    ActorProfileMsg            \<comment> \<open>audit.attribution.actor_profile: %w\<close>
  | EffectiveProfileMsg        \<comment> \<open>audit.attribution.effective_actor_profile: %w\<close>
  | ProfilesMismatch           \<comment> \<open>matching actor references require matching profile snapshots\<close>
  | ServiceProfile             \<comment> \<open>service actors must not carry a user profile\<close>
  | UserProfileRequired        \<comment> \<open>user actors require a profile snapshot or explicit unavailable status\<close>
  | InvalidAttribute           \<comment> \<open>invalid %s attribute; use null if unavailable\<close>
  | CapturedEmpty              \<comment> \<open>captured profiles require at least one available attribute\<close>
  | UnavailablePresent         \<comment> \<open>unavailable profiles require all attributes to be null\<close>
  | InvalidAvailability        \<comment> \<open>invalid profile availability\<close>
  | EmailBare                  \<comment> \<open>email must be a bare mailbox address\<close>
  | AvatarHttps                \<comment> \<open>avatar_url must be an absolute HTTPS URL without ...\<close>

text \<open>internal/infrastructure/storage, internal/domain/contracts and internal/application: audited
  stores and workflow\<close>

datatype store_msg =
    ProjectionNotConfigured    \<comment> \<open>audited projection is not configured\<close>
  | ProjectionNeedsEnvelope    \<comment> \<open>audited projection requires a validated envelope\<close>
  | AuditedDataObject          \<comment> \<open>audited create/update data must be an object\<close>
  | AuditedDeleteUID           \<comment> \<open>audited delete UID must match indexing_config\<close>
  | InvalidAuditedAction       \<comment> \<open>invalid audited action\<close>
  | ProjectionTransport        \<comment> \<open>apply guarded projection: transport failure\<close>
  | ProjectionStatus           \<comment> \<open>apply guarded projection: OpenSearch status %d\<close>
  | ProjectionDecode           \<comment> \<open>decode guarded projection result\<close>
  | ProjectionNoIdentity       \<comment> \<open>guarded projection result is missing identity\<close>
  | ProjectionWrongIdentity    \<comment> \<open>guarded projection result has unexpected identity\<close>
  | ProjectionUnexpected       \<comment> \<open>unexpected guarded projection result\<close>
  | HistoryNotConfigured       \<comment> \<open>history repository or record is not configured\<close>
  | HistoryProjectionOrigin    \<comment> \<open>projection-only origins must not create history\<close>
  | HistoryIngestedAt          \<comment> \<open>history ingestion time is required\<close>
  | HistoryTransport           \<comment> \<open>create/verify/erase history document: transport failure\<close>
  | HistoryDrain               \<comment> \<open>read audit write response: failed\<close>
  | HistoryStatus              \<comment> \<open>create/verify/erase history document: OpenSearch status %d\<close>
  | HistoryDecode              \<comment> \<open>decode existing history document\<close>
  | HistoryReused              \<comment> \<open>history event identity reused with different content\<close>
  | HistoryErasureRequest      \<comment> \<open>invalid history erasure request\<close>
  | ReceiptNotConfigured       \<comment> \<open>projection receipt is not configured\<close>
  | ReceiptTransport           \<comment> \<open>create/verify projection receipt: transport failure\<close>
  | ReceiptStatus              \<comment> \<open>create/verify projection receipt: OpenSearch status %d\<close>
  | ReceiptDecode              \<comment> \<open>decode projection receipt\<close>
  | ReceiptReused              \<comment> \<open>projection event identity reused or erased\<close>

text \<open>internal/domain/services: publisher policies and admission\<close>

datatype policy_msg =
    AdmissionNotConfigured     \<comment> \<open>audit admission is not configured\<close>
  | UnregisteredPublisher      \<comment> \<open>unregistered audit publisher\<close>
  | CannotMutate               \<comment> \<open>audit publisher cannot mutate resource type\<close>
  | UnregisteredSchema         \<comment> \<open>unregistered audit snapshot schema\<close>
  | IncompletePolicy           \<comment> \<open>incomplete audit publisher policy\<close>
  | DuplicatePolicy            \<comment> \<open>duplicate audit publisher policy\<close>
  | IncompleteResource         \<comment> \<open>incomplete audit resource policy\<close>
  | OriginNotAuthorized        \<comment> \<open>audit origin or resource type not authorized\<close>
  | PublisherAuthentication    \<comment> \<open>audit publisher authentication failed\<close>
  | PolicySize                 \<comment> \<open>invalid audit policy size\<close>
  | PolicyManifest             \<comment> \<open>invalid audit policy manifest\<close>
  | ManifestPublishers         \<comment> \<open>audit policy manifest requires publishers and one JSON value\<close>
  | PolicyPublisher            \<comment> \<open>invalid audit policy publisher\<close>
  | PolicyResource             \<comment> \<open>invalid audit policy resource\<close>
  | PolicyOrigin               \<comment> \<open>invalid audit policy origin\<close>
  | MutationNeedsSchemas       \<comment> \<open>mutation policy requires approved schemas\<close>
  | InvalidSnapshotSchema      \<comment> \<open>invalid audit snapshot schema\<close>

datatype rule_msg =
    RulesDepth                 \<comment> \<open>invalid audit schema depth or empty object\<close>
  | ProhibitedField            \<comment> \<open>invalid or prohibited audit schema field\<close>
  | ScalarNested               \<comment> \<open>scalar audit schema field has nested rules\<close>
  | ObjectItems                \<comment> \<open>object audit schema field has array rule\<close>
  | ArrayItems                 \<comment> \<open>array audit schema field requires item rule\<close>
  | UnsupportedType            \<comment> \<open>unsupported audit schema field type\<close>
  | SnapshotDepth              \<comment> \<open>audit snapshot exceeds schema depth\<close>
  | SnapshotNotObject          \<comment> \<open>audit snapshot must be an object\<close>
  | UnapprovedField            \<comment> \<open>audit snapshot contains unapproved field\<close>
  | MissingRequired            \<comment> \<open>audit snapshot missing required field\<close>
  | NullField                  \<comment> \<open>audit snapshot field must not be null\<close>
  | NotArray                   \<comment> \<open>audit snapshot field must be an array\<close>
  | NotString                  \<comment> \<open>audit snapshot field must be a string\<close>
  | WrongType                  \<comment> \<open>audit snapshot field has wrong type\<close>

datatype workflow_msg =
    WorkflowDependencies       \<comment> \<open>audit workflow requires admission, history, ...\<close>
  | InvalidAuditedSubject      \<comment> \<open>invalid audited subject\<close>
  | ReserveIdentity            \<comment> \<open>reserve audited delivery identity: %w\<close>
  | AppendHistory              \<comment> \<open>append audit history: %w\<close>
  | ApplyProjection            \<comment> \<open>apply audited current projection: %w\<close>
  | NoBody                     \<comment> \<open>guarded current projection returned no body\<close>

section \<open>Errors\<close>

datatype err_text =
    Service service_msg
  | Body body_msg
  | Audit audit_msg
  | Profile profile_msg
  | Store store_msg
  | Workflow workflow_msg
  | Policy policy_msg
  | SchemaRule rule_msg
  | Text string

datatype go_error =
    Errorf err_text "string list"
  | Wrapf err_text go_error
  | TemplateFieldNotFound string    \<comment> \<open>errTemplateFieldNotFound\<close>
  | HistoryErasedError
  | VersionConflictError string go_error
  | External string

text \<open>\<open>isFieldNotFoundError\<close>: \<open>errors.As\<close> looks through the wrapped errors.\<close>

fun isFieldNotFoundError :: "go_error \<Rightarrow> bool" where
  "isFieldNotFoundError (TemplateFieldNotFound _) = True"
| "isFieldNotFoundError (Wrapf _ e) = isFieldNotFoundError e"
| "isFieldNotFoundError _ = False"

text \<open>\<open>errors.As(err, &versionErr)\<close>\<close>

fun is_version_conflict :: "go_error \<Rightarrow> bool" where
  "is_version_conflict (VersionConflictError _ _) = True"
| "is_version_conflict (Wrapf _ e) = is_version_conflict e"
| "is_version_conflict _ = False"

abbreviation fail :: "err_text \<Rightarrow> go_error + 'a" where
  "fail t \<equiv> Inl (Errorf t [])"

abbreviation failf :: "err_text \<Rightarrow> string list \<Rightarrow> go_error + 'a" where
  "failf t args \<equiv> Inl (Errorf t args)"

end
