(* ===== verification/Contracts.thy ===== *)
theory Contracts
  imports Go_Json Errors
begin

text \<open>
  pkg/constants and internal/domain/contracts: the string constants the components compare with,
  the transaction and document records, and the document a \<open>TransactionBody\<close> marshals to. A
  \<open>time.Time\<close> is its number of nanoseconds since the Unix epoch.
\<close>

section \<open>Constants\<close>

definition IndexPrefix :: string where [go_consts]: "IndexPrefix = ''lfx.index.''"
definition FromV1Prefix :: string where [go_consts]: "FromV1Prefix = ''lfx.v1.index.''"
definition EventSubjectPrefix :: string where [go_consts]: "EventSubjectPrefix = ''lfx.''"

type_synonym message_action = string

definition ActionCreate :: message_action where [go_consts]: "ActionCreate = ''create''"
definition ActionCreated :: message_action where [go_consts]: "ActionCreated = ''created''"
definition ActionUpdate :: message_action where [go_consts]: "ActionUpdate = ''update''"
definition ActionUpdated :: message_action where [go_consts]: "ActionUpdated = ''updated''"
definition ActionDelete :: message_action where [go_consts]: "ActionDelete = ''delete''"
definition ActionDeleted :: message_action where [go_consts]: "ActionDeleted = ''deleted''"

definition HeaderXUsername :: string where [go_consts]: "HeaderXUsername = ''x-username''"
definition HeaderXEmail :: string where [go_consts]: "HeaderXEmail = ''x-email''"
definition AuthorizationHeader :: string where [go_consts]: "AuthorizationHeader = ''authorization''"
definition OnBehalfOfHeader :: string where [go_consts]: "OnBehalfOfHeader = ''x-on-behalf-of''"
definition BearerPrefix :: string where [go_consts]: "BearerPrefix = ''bearer ''"
definition MachineUserSuffix :: string where [go_consts]: "MachineUserSuffix = ''@clients''"

definition AuditSchemaVersion :: int where
  "AuditSchemaVersion = 2"

definition BuildEventSubject :: "string \<Rightarrow> message_action \<Rightarrow> string" where
  "BuildEventSubject objectType action = EventSubjectPrefix @ objectType @ ''.'' @ action"

definition JoinFgaQuery :: "string \<Rightarrow> string \<Rightarrow> string" where
  "JoinFgaQuery obj relation = obj @ ''#'' @ relation"

section \<open>Records\<close>

type_synonym timestamp = int

record Principal =
  p_Principal :: string
  p_Email :: string

text \<open>\<open>Principal.String\<close>\<close>

definition principal_string :: "Principal \<Rightarrow> string" where
  "principal_string p =
     (if p_Email p \<noteq> '''' then p_Principal p @ '' <'' @ p_Email p @ ''>'' else p_Principal p)"

record ContactBody =
  cb_LfxPrincipal :: string
  cb_Name :: string
  cb_Emails :: "string list"
  cb_Bot :: "bool option"
  cb_Profile :: "json gomap"

record IndexingConfig =
  c_ObjectID :: string
  c_Public :: "bool option"
  c_AccessCheckObject :: string
  c_AccessCheckRelation :: string
  c_HistoryCheckObject :: string
  c_HistoryCheckRelation :: string
  c_SortName :: string
  c_NameAndAliases :: "string list"
  c_ParentRefs :: "string list"
  c_Tags :: "string list"
  c_Fulltext :: string
  c_Contacts :: "ContactBody list"

text \<open>\<open>LFXTransaction\<close>. A nil \<open>ParsedData\<close> is \<open>None\<close>; a nil \<open>Headers\<close> map too.\<close>

record LFXTransaction =
  t_Action :: message_action
  t_Headers :: "string gomap option"
  t_Data :: json
  t_ParsedData :: "json gomap option"
  t_ParsedObjectID :: string
  t_ObjectType :: string
  t_Tags :: "string list"
  t_V1Data :: "json gomap"
  t_Timestamp :: timestamp
  t_IsV1 :: bool
  t_ParsedPrincipals :: "Principal list"
  t_IndexingConfig :: "IndexingConfig option"

record TransactionBody =
  b_ObjectRef :: string
  b_ObjectType :: string
  b_ObjectID :: string
  b_ParentRefs :: "string list"
  b_SortName :: string
  b_NameAndAliases :: "string list"
  b_Tags :: "string list"
  b_Public :: bool
  b_AccessCheckObject :: string
  b_AccessCheckRelation :: string
  b_HistoryCheckObject :: string
  b_HistoryCheckRelation :: string
  b_AccessCheckQuery :: string
  b_HistoryCheckQuery :: string
  b_Latest :: "bool option"
  b_CreatedAt :: "timestamp option"
  b_CreatedBy :: "string list"
  b_CreatedByPrincipals :: "string list"
  b_CreatedByEmails :: "string list"
  b_UpdatedAt :: "timestamp option"
  b_UpdatedBy :: "string list"
  b_UpdatedByPrincipals :: "string list"
  b_UpdatedByEmails :: "string list"
  b_DeletedAt :: "timestamp option"
  b_DeletedBy :: "string list"
  b_DeletedByPrincipals :: "string list"
  b_DeletedByEmails :: "string list"
  b_Data :: "json gomap"
  b_Fulltext :: string
  b_Contacts :: "ContactBody list"
  b_V1Data :: "json gomap"

text \<open>The zero value \<open>contracts.TransactionBody{}\<close>.\<close>

definition zero_body :: TransactionBody where
  "zero_body = \<lparr>
     b_ObjectRef = '''', b_ObjectType = '''', b_ObjectID = '''', b_ParentRefs = [],
     b_SortName = '''', b_NameAndAliases = [], b_Tags = [], b_Public = False,
     b_AccessCheckObject = '''', b_AccessCheckRelation = '''', b_HistoryCheckObject = '''',
     b_HistoryCheckRelation = '''', b_AccessCheckQuery = '''', b_HistoryCheckQuery = '''',
     b_Latest = None, b_CreatedAt = None, b_CreatedBy = [], b_CreatedByPrincipals = [],
     b_CreatedByEmails = [], b_UpdatedAt = None, b_UpdatedBy = [], b_UpdatedByPrincipals = [],
     b_UpdatedByEmails = [], b_DeletedAt = None, b_DeletedBy = [], b_DeletedByPrincipals = [],
     b_DeletedByEmails = [], b_Data = [], b_Fulltext = '''', b_Contacts = [], b_V1Data = []\<rparr>"

record IndexingEvent =
  ie_EventID :: string
  ie_DocumentID :: string
  ie_ObjectID :: string
  ie_ObjectType :: string
  ie_Action :: message_action
  ie_Body :: TransactionBody
  ie_Timestamp :: timestamp

record ProcessingResult =
  pr_Success :: bool
  pr_Error :: "go_error option"
  pr_ProcessedAt :: timestamp
  pr_MessageID :: string
  pr_DocumentID :: string
  pr_IndexSuccess :: bool

section \<open>The stored document\<close>

text \<open>\<open>json.Marshal\<close> with \<open>omitempty\<close>: empty strings, false, nil pointers and empty slices and maps
  are left out. \<open>fmt_time\<close> is the RFC 3339 text of a \<open>time.Time\<close>, which depends on the time zone
  the process runs in.\<close>

definition omit_str :: "string \<Rightarrow> string \<Rightarrow> json gomap" where
  "omit_str k s = (if s = '''' then [] else [(k, JStr s)])"

definition omit_strs :: "string \<Rightarrow> string list \<Rightarrow> json gomap" where
  "omit_strs k ss = (if ss = [] then [] else [(k, JArr (map JStr ss))])"

definition omit_opt :: "('a \<Rightarrow> json) \<Rightarrow> string \<Rightarrow> 'a option \<Rightarrow> json gomap" where
  "omit_opt f k x = (case x of None \<Rightarrow> [] | Some v \<Rightarrow> [(k, f v)])"

definition omit_obj :: "string \<Rightarrow> json gomap \<Rightarrow> json gomap" where
  "omit_obj k m = (if m = [] then [] else [(k, JObj m)])"

definition omit_when :: "bool \<Rightarrow> string \<Rightarrow> json \<Rightarrow> json gomap" where
  "omit_when skip k v = (if skip then [] else [(k, v)])"

definition contact_to_json :: "ContactBody \<Rightarrow> json" where
  "contact_to_json c = JObj (
     omit_str ''lfx_principal'' (cb_LfxPrincipal c) @
     omit_str ''name'' (cb_Name c) @
     omit_strs ''emails'' (cb_Emails c) @
     omit_opt JBool ''bot'' (cb_Bot c) @
     omit_obj ''profile'' (cb_Profile c))"

definition body_to_json :: "(timestamp \<Rightarrow> string) \<Rightarrow> TransactionBody \<Rightarrow> json gomap" where
  "body_to_json fmt_time b =
     (let time = omit_opt (\<lambda>t. JStr (fmt_time t)) in
      omit_str ''object_ref'' (b_ObjectRef b) @
      omit_str ''object_type'' (b_ObjectType b) @
      omit_str ''object_id'' (b_ObjectID b) @
      omit_strs ''parent_refs'' (b_ParentRefs b) @
      omit_str ''sort_name'' (b_SortName b) @
      omit_strs ''name_and_aliases'' (b_NameAndAliases b) @
      omit_strs ''tags'' (b_Tags b) @
      omit_when (\<not> b_Public b) ''public'' (JBool True) @
      omit_str ''access_check_object'' (b_AccessCheckObject b) @
      omit_str ''access_check_relation'' (b_AccessCheckRelation b) @
      omit_str ''history_check_object'' (b_HistoryCheckObject b) @
      omit_str ''history_check_relation'' (b_HistoryCheckRelation b) @
      omit_str ''access_check_query'' (b_AccessCheckQuery b) @
      omit_str ''history_check_query'' (b_HistoryCheckQuery b) @
      omit_opt JBool ''latest'' (b_Latest b) @
      time ''created_at'' (b_CreatedAt b) @
      omit_strs ''created_by'' (b_CreatedBy b) @
      omit_strs ''created_by_principals'' (b_CreatedByPrincipals b) @
      omit_strs ''created_by_emails'' (b_CreatedByEmails b) @
      time ''updated_at'' (b_UpdatedAt b) @
      omit_strs ''updated_by'' (b_UpdatedBy b) @
      omit_strs ''updated_by_principals'' (b_UpdatedByPrincipals b) @
      omit_strs ''updated_by_emails'' (b_UpdatedByEmails b) @
      time ''deleted_at'' (b_DeletedAt b) @
      omit_strs ''deleted_by'' (b_DeletedBy b) @
      omit_strs ''deleted_by_principals'' (b_DeletedByPrincipals b) @
      omit_strs ''deleted_by_emails'' (b_DeletedByEmails b) @
      omit_obj ''data'' (b_Data b) @
      omit_str ''fulltext'' (b_Fulltext b) @
      omit_when (b_Contacts b = []) ''contacts'' (JArr (map contact_to_json (b_Contacts b))) @
      omit_obj ''v1_data'' (b_V1Data b))"

section \<open>Facts\<close>

lemma omit_has_key [simp]:
  "has_key (omit_str k s @ m) k' = ((k = k' \<and> s \<noteq> '''') \<or> has_key m k')"
  "has_key (omit_strs k ss @ m) k' = ((k = k' \<and> ss \<noteq> []) \<or> has_key m k')"
  "has_key (omit_opt f k x @ m) k' = ((k = k' \<and> x \<noteq> None) \<or> has_key m k')"
  "has_key (omit_obj k o' @ m) k' = ((k = k' \<and> o' \<noteq> []) \<or> has_key m k')"
  "has_key (omit_when P k v @ m) k' = ((k = k' \<and> \<not> P) \<or> has_key m k')"
  by (auto simp: omit_when_def omit_str_def omit_strs_def omit_opt_def omit_obj_def split: option.splits)

lemma has_key_omit_obj [simp]: "has_key (omit_obj k m) k' = (k = k' \<and> m \<noteq> [])"
  by (auto simp: omit_obj_def)

lemma omit_field [simp]:
  "field (omit_str k s @ m) k' = (if k = k' \<and> s \<noteq> '''' then JStr s else field m k')"
  "field (omit_strs k ss @ m) k' = (if k = k' \<and> ss \<noteq> [] then JArr (map JStr ss) else field m k')"
  "field (omit_opt f k x @ m) k' = (if k = k' \<and> x \<noteq> None then f (the x) else field m k')"
  "field (omit_obj k o' @ m) k' = (if k = k' \<and> o' \<noteq> [] then JObj o' else field m k')"
  "field (omit_when P k v @ m) k' = (if k = k' \<and> \<not> P then v else field m k')"
  by (auto simp: omit_when_def omit_str_def omit_strs_def omit_opt_def omit_obj_def split: option.splits)

text \<open>A document has the access fields exactly when its body has them.\<close>

lemma body_to_json_public: "has_key (body_to_json ft b) ''public'' \<longleftrightarrow> b_Public b"
  by (simp add: body_to_json_def Let_def)

lemma body_to_json_access:
  "has_key (body_to_json ft b) ''access_check_query'' \<longleftrightarrow> b_AccessCheckQuery b \<noteq> ''''"
  by (simp add: body_to_json_def Let_def)

lemma action_distinct [simp]:
  "ActionCreated \<noteq> ActionCreate" "ActionCreated \<noteq> ActionUpdate" "ActionCreated \<noteq> ActionUpdated"
  "ActionCreated \<noteq> ActionDelete" "ActionCreated \<noteq> ActionDeleted"
  "ActionUpdated \<noteq> ActionCreate" "ActionUpdated \<noteq> ActionUpdate" "ActionUpdated \<noteq> ActionCreated"
  "ActionUpdated \<noteq> ActionDelete" "ActionUpdated \<noteq> ActionDeleted"
  "ActionDeleted \<noteq> ActionCreate" "ActionDeleted \<noteq> ActionUpdate" "ActionDeleted \<noteq> ActionCreated"
  "ActionDeleted \<noteq> ActionDelete" "ActionDeleted \<noteq> ActionUpdated"
  "ActionCreate \<noteq> ActionCreated" "ActionCreate \<noteq> ActionUpdate" "ActionCreate \<noteq> ActionUpdated"
  "ActionCreate \<noteq> ActionDelete" "ActionCreate \<noteq> ActionDeleted"
  "ActionUpdate \<noteq> ActionCreate" "ActionUpdate \<noteq> ActionCreated" "ActionUpdate \<noteq> ActionUpdated"
  "ActionUpdate \<noteq> ActionDelete" "ActionUpdate \<noteq> ActionDeleted"
  "ActionDelete \<noteq> ActionCreate" "ActionDelete \<noteq> ActionCreated" "ActionDelete \<noteq> ActionUpdate"
  "ActionDelete \<noteq> ActionUpdated" "ActionDelete \<noteq> ActionDeleted"
  by (simp_all add: go_consts)

end
