(* ===== verification/Templates.thy ===== *)
theory Templates
  imports Contracts
begin

text \<open>
  The template language of \<open>indexing_config\<close> (internal/domain/services/indexer_service.go, lines
  1319 to 1598): field lookup by dotted path, expansion of \<open>{{ field }}\<close> in strings, arrays and
  objects, and the parsing of the expanded object into an \<open>IndexingConfig\<close>. The function \<open>dec\<close> is
  the \<open>%v\<close> rendering of the numbers kept as literals.
\<close>

section \<open>Field lookup\<close>

fun nested_walk :: "string \<Rightarrow> string list \<Rightarrow> json \<Rightarrow> string list \<Rightarrow> go_error + json" where
  "nested_walk fieldPath done current [] = Inr current"
| "nested_walk fieldPath done current (part # parts) =
     (case as_object current of
        None \<Rightarrow> failf (Body PathNotObject) [fieldPath, join ''.'' done]
      | Some currentMap \<Rightarrow>
          (case map_of currentMap part of
             None \<Rightarrow> Inl (TemplateFieldNotFound fieldPath)
           | Some v \<Rightarrow> nested_walk fieldPath (done @ [part]) v parts))"

definition getNestedField :: "json gomap \<Rightarrow> string \<Rightarrow> go_error + json" where
  "getNestedField data fieldPath =
     nested_walk fieldPath [] (JObj data) (split_on (CHR ''.'') fieldPath)"

section \<open>Expansion\<close>

text \<open>The pattern \<open>\{\{\s*([a-zA-Z0-9_.]+)\s*\}\}\<close>, anchored at the start of the string: the
  whole match and the captured field path. Its classes are disjoint, so the greedy match is the
  only one.\<close>

definition re_space :: "char \<Rightarrow> bool" where
  "re_space c = (byte c \<in> {9, 10, 12, 13, 32})"

definition re_field :: "char \<Rightarrow> bool" where
  "re_field c = (is_alnum c \<or> c = CHR ''_'' \<or> c = CHR ''.'')"

definition match_template :: "string \<Rightarrow> (string \<times> string) option" where
  "match_template s =
     (if prefix ''{{'' s then
        let s1 = dropWhile re_space (drop 2 s);
            f = takeWhile re_field s1;
            s2 = dropWhile re_space (dropWhile re_field s1)
        in if f \<noteq> [] \<and> prefix ''}}'' s2 then Some (take (length s - length s2 + 2) s, f) else None
      else None)"

text \<open>\<open>FindAllStringSubmatch(s, -1)\<close>: leftmost, non-overlapping matches.\<close>

lemma match_template_length: "match_template s = Some (full, f) \<Longrightarrow> 2 \<le> length full"
  by (auto simp: match_template_def Let_def split: if_splits dest: prefix_length_le)

function find_templates :: "string \<Rightarrow> (string \<times> string) list" where
  "find_templates s =
     (if s = [] then []
      else case match_template s of
             Some (full, f) \<Rightarrow> (full, f) # find_templates (drop (length full) s)
           | None \<Rightarrow> find_templates (tl s))"
  by pat_completeness auto
termination
proof (relation "measure length")
  fix s p full f
  assume "s \<noteq> []" "match_template s = Some p" "(full, f) = p"
  then show "(drop (length full) s, s) \<in> measure length"
    using match_template_length [of s full f] by (cases s) auto
qed auto

declare find_templates.simps [simp del]

fun expand_embedded ::
    "(string \<Rightarrow> string) \<Rightarrow> json gomap \<Rightarrow> string \<Rightarrow> (string \<times> string) list \<Rightarrow> go_error + string" where
  "expand_embedded dec data result [] = Inr result"
| "expand_embedded dec data result ((fullMatch, fieldPath) # ms) =
     (case getNestedField data fieldPath of
        Inl err \<Rightarrow>
          if isFieldNotFoundError err
          then expand_embedded dec data (replace_all result fullMatch '''') ms
          else Inl err
      | Inr v \<Rightarrow> expand_embedded dec data (replace_all result fullMatch (fmt_v dec v)) ms)"

definition escaped_open :: string where
  "escaped_open = [CHR 0x5C, CHR ''{'', CHR ''{'']"

definition is_whole_template :: "string \<Rightarrow> bool" where
  "is_whole_template t =
     (has_prefix t ''{{'' \<and> has_suffix t ''}}'' \<and> count_sub t ''{{'' = 1)"

definition expandTemplateString ::
    "(string \<Rightarrow> string) \<Rightarrow> json gomap \<Rightarrow> string \<Rightarrow> go_error + json" where
  "expandTemplateString dec data t =
     (if contains t escaped_open then Inr (JStr (replace_all t escaped_open ''{{''))
      else if is_whole_template t then
        (let fieldPath = trim_space (take (length t - 4) (drop 2 t)) in
         case getNestedField data fieldPath of
           Inl err \<Rightarrow> if isFieldNotFoundError err then Inr (JStr '''') else Inl err
         | Inr v \<Rightarrow> Inr v)
      else rbind (expand_embedded dec data t (find_templates t)) (\<lambda>r. Inr (JStr r)))"

fun expandTemplates :: "(string \<Rightarrow> string) \<Rightarrow> json gomap \<Rightarrow> json \<Rightarrow> go_error + json" where
  "expandTemplates dec data (JStr s) = expandTemplateString dec data s"
| "expandTemplates dec data (JArr vs) =
     rbind (rmap (\<lambda>v. expandTemplates dec data v) vs) (\<lambda>ws. Inr (JArr ws))"
| "expandTemplates dec data (JObj m) =
     rbind (rmap (\<lambda>(k, v). rbind (expandTemplates dec data v) (\<lambda>w. Inr (k, w))) m)
       (\<lambda>m'. Inr (JObj m'))"
| "expandTemplates dec data v = Inr v"

section \<open>Parsing the configuration\<close>

text \<open>\<open>s, ok := data[k].(string); if !ok || s == ""\<close>\<close>

definition required_string :: "json gomap \<Rightarrow> string \<Rightarrow> body_msg \<Rightarrow> go_error + string" where
  "required_string data k msg =
     (case as_string (field data k) of
        None \<Rightarrow> fail (Body msg)
      | Some s \<Rightarrow> if s = '''' then fail (Body msg) else Inr s)"

definition optional_string :: "json gomap \<Rightarrow> string \<Rightarrow> string" where
  "optional_string data k = (case as_string (field data k) of None \<Rightarrow> '''' | Some s \<Rightarrow> s)"

definition optional_strings :: "json gomap \<Rightarrow> string \<Rightarrow> string list" where
  "optional_strings data k = (case as_array (field data k) of None \<Rightarrow> [] | Some vs \<Rightarrow> strings_of vs)"

definition parse_contact :: "json \<Rightarrow> ContactBody option" where
  "parse_contact item =
     (case as_object item of
        None \<Rightarrow> None
      | Some m \<Rightarrow> Some \<lparr>
          cb_LfxPrincipal = optional_string m ''lfx_principal'',
          cb_Name = optional_string m ''name'',
          cb_Emails = optional_strings m ''emails'',
          cb_Bot = as_bool (field m ''bot''),
          cb_Profile = (case as_object (field m ''profile'') of None \<Rightarrow> [] | Some p \<Rightarrow> p)\<rparr>)"

definition parse_contacts :: "json gomap \<Rightarrow> ContactBody list" where
  "parse_contacts data =
     (case as_array (field data ''contacts'') of
        None \<Rightarrow> []
      | Some items \<Rightarrow> List.map_filter parse_contact items)"

definition parse_config_fields :: "json gomap \<Rightarrow> go_error + IndexingConfig" where
  "parse_config_fields data =
     rbind (required_string data ''object_id'' ConfigObjectID) (\<lambda>objectID.
     rbind (required_string data ''access_check_object'' ConfigAccessObject) (\<lambda>accessObject.
     rbind (required_string data ''access_check_relation'' ConfigAccessRelation) (\<lambda>accessRelation.
     rbind (required_string data ''history_check_object'' ConfigHistoryObject) (\<lambda>historyObject.
     rbind (required_string data ''history_check_relation'' ConfigHistoryRelation) (\<lambda>historyRelation.
       Inr \<lparr>
         c_ObjectID = objectID,
         c_Public = as_bool (field data ''public''),
         c_AccessCheckObject = accessObject,
         c_AccessCheckRelation = accessRelation,
         c_HistoryCheckObject = historyObject,
         c_HistoryCheckRelation = historyRelation,
         c_SortName = optional_string data ''sort_name'',
         c_NameAndAliases = optional_strings data ''name_and_aliases'',
         c_ParentRefs = optional_strings data ''parent_refs'',
         c_Tags = optional_strings data ''tags'',
         c_Fulltext = optional_string data ''fulltext'',
         c_Contacts = parse_contacts data\<rparr>)))))"

definition parseIndexingConfig ::
    "(string \<Rightarrow> string) \<Rightarrow> json gomap \<Rightarrow> json gomap \<Rightarrow> go_error + IndexingConfig" where
  "parseIndexingConfig dec indexingConfigData transactionData =
     rbind (map_err (Wrapf (Body ExpandFailed))
              (expandTemplates dec transactionData (JObj indexingConfigData))) (\<lambda>expandedData.
     case as_object expandedData of
       None \<Rightarrow> fail (Body ConfigNotObjectExpanded)
     | Some data \<Rightarrow> parse_config_fields data)"

section \<open>Field lookup, as nested application of maps\<close>

text \<open>The abstract reading of a dotted path: compose the partial lookups.\<close>

fun lookup_path :: "json \<Rightarrow> string list \<Rightarrow> json option" where
  "lookup_path v [] = Some v"
| "lookup_path v (p # ps) =
     (case as_object v of
        None \<Rightarrow> None
      | Some m \<Rightarrow> (case map_of m p of None \<Rightarrow> None | Some w \<Rightarrow> lookup_path w ps))"

lemma nested_walk_Inr: "nested_walk path done v ps = Inr w \<longleftrightarrow> lookup_path v ps = Some w"
  by (induction ps arbitrary: v "done") (auto split: option.splits)

lemma nested_walk_Inl:
  "nested_walk path done v ps = Inl e \<Longrightarrow>
     e = TemplateFieldNotFound path \<or> (\<exists>w. e = Errorf (Body PathNotObject) [path, w])"
  by (induction ps arbitrary: v "done") (auto split: option.splits)

lemma getNestedField_Inr:
  "getNestedField data path = Inr v \<longleftrightarrow> lookup_path (JObj data) (split_on (CHR ''.'') path) = Some v"
  by (simp add: getNestedField_def nested_walk_Inr)

lemma getNestedField_top:
  "CHR ''.'' \<notin> set k \<Longrightarrow>
   getNestedField data k = (case map_of data k of None \<Rightarrow> Inl (TemplateFieldNotFound k) | Some v \<Rightarrow> Inr v)"
  by (simp add: getNestedField_def split_on_no_sep split: option.splits)

text \<open>A missing key is the only recoverable error: a lookup fails with it exactly when every
  prefix of the path that exists is an object.\<close>

lemma lookup_path_append:
  "lookup_path v (ps @ qs) = Option.bind (lookup_path v ps) (\<lambda>w. lookup_path w qs)"
  by (induction ps arbitrary: v) (auto split: option.splits)

section \<open>Expansion, by shape of the template\<close>

lemma match_template_prefix: "match_template s = Some (full, f) \<Longrightarrow> prefix ''{{'' s"
  by (auto simp: match_template_def split: if_splits)

lemma find_templates_none: "\<not> sublist ''{{'' s \<Longrightarrow> find_templates s = []"
proof (induction s)
  case Nil
  then show ?case by (simp add: find_templates.simps)
next
  case (Cons c cs)
  then have "\<not> prefix ''{{'' (c # cs)" "\<not> sublist ''{{'' cs" by (auto simp: sublist_Cons_right)
  then have "match_template (c # cs) = None" by (auto simp: match_template_def)
  then show ?case using Cons.IH \<open>\<not> sublist ''{{'' cs\<close> by (simp add: find_templates.simps [of "c # cs"])
qed

text \<open>A string without \<open>{{\<close> is a fixed point of the expansion.\<close>

lemma expandTemplateString_plain:
  assumes "\<not> sublist ''{{'' s"
  shows "expandTemplateString dec data s = Inr (JStr s)"
proof -
  have "\<not> sublist escaped_open s"
    using assms by (auto simp: escaped_open_def sublist_def)
      (metis append.assoc append_Cons append_Nil)
  moreover have "\<not> prefix ''{{'' s" using assms by (auto dest: prefix_imp_sublist)
  ultimately show ?thesis using assms
    by (simp add: expandTemplateString_def contains_def is_whole_template_def has_prefix_def
        find_templates_none)
qed

fun template_free :: "json \<Rightarrow> bool" where
  "template_free (JStr s) = (\<not> sublist ''{{'' s)"
| "template_free (JArr vs) = list_all template_free vs"
| "template_free (JObj m) = list_all (\<lambda>(k, v). template_free v) m"
| "template_free _ = True"

lemma expandTemplates_template_free: "template_free v \<Longrightarrow> expandTemplates dec data v = Inr v"
proof (induction dec data v rule: expandTemplates.induct)
  case (2 dec data vs)
  then have "rmap (expandTemplates dec data) vs = Inr vs"
    by (intro rmap_id) (auto simp: list_all_iff)
  then show ?case by simp
next
  case (3 dec data m)
  then have "rmap (\<lambda>(k, v). rbind (expandTemplates dec data v) (\<lambda>w. Inr (k, w))) m = Inr m"
    by (intro rmap_id) (auto simp: list_all_iff)
  then show ?case by simp
qed (simp_all add: expandTemplateString_plain)

lemma re_field_ascii: "re_field c \<Longrightarrow> byte c < 128 \<and> \<not> is_space (byte c)"
proof -
  assume "re_field c"
  then have "45 < byte c \<and> byte c < 123"
    by (auto simp: re_field_def is_alnum_def is_lower_def is_upper_def is_digit_def byte_def)
  then show ?thesis by (auto simp: is_space_def)
qed

lemma trim_space_padded:
  assumes "f \<noteq> []" "list_all (\<lambda>c. byte c < 128 \<and> \<not> is_space (byte c)) f"
  shows "trim_space (replicate m (CHR '' '') @ f @ replicate n (CHR '' '')) = f"
proof -
  let ?p = "\<lambda>c. (byte c, [c])"
  have ascii: "list_all (\<lambda>c. byte c < 128) (replicate m (CHR '' '') @ f @ replicate n (CHR '' ''))"
    using assms(2) by (auto simp: list_all_iff byte_def)
  have drop_sp: "dropWhile (\<lambda>(r, _). is_space r) (map ?p (replicate k (CHR '' '')) @ xs)
      = dropWhile (\<lambda>(r, _). is_space r) xs" for k xs
    by (induction k) (simp_all add: byte_def is_space_def)
  have keep: "dropWhile (\<lambda>(r, _). is_space r) (map ?p g @ xs) = map ?p g @ xs"
    if "g \<noteq> []" "list_all (\<lambda>c. byte c < 128 \<and> \<not> is_space (byte c)) g" for g xs
    using that by (cases g) auto
  have rev_rep: "rev (map ?p (replicate k (CHR '' ''))) = map ?p (replicate k (CHR '' ''))" for k
    by (simp add: rev_map [symmetric])
  have "list_all (\<lambda>c. byte c < 128 \<and> \<not> is_space (byte c)) (rev f)"
    using assms(2) by (simp add: list_all_iff)
  then have keep_rev: "dropWhile (\<lambda>(r, _). is_space r) (rev (map ?p f)) = rev (map ?p f)"
    using keep [of "rev f" "[]"] assms(1) by (simp add: rev_map)
  have "concat (map snd (map ?p f)) = f" by (induction f) simp_all
  then show ?thesis
    unfolding trim_space_def runes_all_ascii [OF ascii] map_append drop_sp
    using keep [OF assms, of "map ?p (replicate n (CHR '' ''))"] drop_sp [of n "rev (map ?p f)"]
    by (simp only: rev_append rev_rep keep_rev rev_rev_ident)
qed

lemma count_sub_no_brace: "CHR ''{'' \<notin> set s \<Longrightarrow> count_sub s ''{{'' = 0"
  by (induction s) (simp_all add: count_sub.simps)

text \<open>A string that is exactly one template, with any padding inside the braces, expands to the
  value its path names with its JSON type kept; a missing field gives the empty string and a path
  through a non-object is an error.\<close>

theorem expandTemplateString_whole:
  assumes "f \<noteq> []" "list_all re_field f"
  shows "expandTemplateString dec data (''{{'' @ replicate m (CHR '' '') @ f @ replicate n (CHR '' '') @ ''}}'')
    = (case getNestedField data f of
         Inl e \<Rightarrow> if isFieldNotFoundError e then Inr (JStr '''') else Inl e
       | Inr v \<Rightarrow> Inr v)"
proof -
  let ?mid = "replicate m (CHR '' '') @ f @ replicate n (CHR '' '')"
  let ?t = "''{{'' @ ?mid @ ''}}''"
  have plain: "c \<noteq> CHR ''{'' \<and> c \<noteq> CHR 0x5C" if "c \<in> set f" for c
    using assms(2) that by (auto simp: list_all_iff re_field_def is_alnum_def is_lower_def is_upper_def
        is_digit_def byte_def)
  have "CHR 0x5C \<notin> set ?t" using plain by (auto split: if_splits)
  then have "\<not> sublist escaped_open ?t"
    unfolding escaped_open_def sublist_def by (metis in_set_conv_decomp append_Cons)
  moreover have "count_sub ?t ''{{'' = 1"
    using plain [of "CHR ''{''"]
    by (subst count_sub.simps) (auto intro!: count_sub_no_brace split: if_splits)
  moreover have "has_prefix ?t ''{{''" "has_suffix ?t ''}}''"
    by (simp_all add: has_prefix_def has_suffix_def suffix_def)
  moreover have "trim_space ?mid = f"
    using assms re_field_ascii by (intro trim_space_padded) (auto simp: list_all_iff)
  moreover have "take (length ?t - 4) (drop 2 ?t) = ?mid" by simp
  ultimately show ?thesis
    by (simp only: expandTemplateString_def contains_def is_whole_template_def Let_def) simp
qed

section \<open>Shape and errors of the expansion\<close>

lemma expand_embedded_error:
  "expand_embedded dec data r ms = Inl e \<Longrightarrow> \<exists>args. e = Errorf (Body PathNotObject) args"
proof (induction dec data r ms rule: expand_embedded.induct)
  case (2 dec data result fullMatch fieldPath ms)
  then show ?case
    by (auto split: sum.splits if_splits simp: getNestedField_def dest: nested_walk_Inl)
qed simp

lemma expandTemplateString_error:
  "expandTemplateString dec data s = Inl e \<Longrightarrow> \<exists>args. e = Errorf (Body PathNotObject) args"
  by (auto simp: expandTemplateString_def Let_def rbind_Inl_conv getNestedField_def
      split: if_splits sum.splits dest!: expand_embedded_error dest: nested_walk_Inl)

lemma rmap_Inl: "rmap f xs = Inl e \<Longrightarrow> \<exists>x\<in>set xs. f x = Inl e"
  by (induction xs) (auto simp: rbind_Inl_conv)

text \<open>Expansion fails only on a path that runs through a non-object; a missing field, an unknown
  template or a value of any type never makes it fail.\<close>

theorem expandTemplates_error:
  "expandTemplates dec data v = Inl e \<Longrightarrow> \<exists>args. e = Errorf (Body PathNotObject) args"
proof (induction dec data v rule: expandTemplates.induct)
  case (1 dec data s)
  then show ?case by (simp add: expandTemplateString_error)
next
  case (2 dec data vs)
  then show ?case by (auto simp: rbind_Inl_conv dest!: rmap_Inl)
next
  case (3 dec data m)
  then show ?case by (fastforce simp: rbind_Inl_conv dest!: rmap_Inl)
qed simp_all

lemma expandTemplates_keys:
  assumes "expandTemplates dec data (JObj m) = Inr v"
  shows "\<exists>m'. v = JObj m' \<and> map fst m' = map fst m"
proof -
  have "map fst m' = map fst m"
    if "rmap (\<lambda>(k, v). rbind (expandTemplates dec data v) (\<lambda>w. Inr (k, w))) m = Inr m'" for m'
    using that by (induction m arbitrary: m') (auto simp: rbind_Inr_conv)
  then show ?thesis using assms by (auto simp: rbind_Inr_conv)
qed

section \<open>The parsed configuration\<close>

lemma expand_entries_lookup:
  assumes "rmap (\<lambda>(k, v). rbind (g v) (\<lambda>w. Inr (k, w))) m = Inr m'"
  shows "map_of m' k = (case map_of m k of None \<Rightarrow> None | Some v \<Rightarrow> (case g v of Inl _ \<Rightarrow> None | Inr w \<Rightarrow> Some w))"
  using assms by (induction m arbitrary: m') (auto simp: rbind_Inr_conv)

lemma expandTemplates_lookup:
  assumes "expandTemplates dec data (JObj m) = Inr (JObj m')"
  shows "map_of m' k =
    (case map_of m k of None \<Rightarrow> None
     | Some v \<Rightarrow> (case expandTemplates dec data v of Inl _ \<Rightarrow> None | Inr w \<Rightarrow> Some w))"
  using assms by (auto simp: rbind_Inr_conv expand_entries_lookup)

lemma expandTemplates_object_ok:
  "is_ok (expandTemplates dec data (JObj m)) \<longleftrightarrow>
   (\<forall>(k, v) \<in> set m. is_ok (expandTemplates dec data v))"
proof -
  have "is_ok (rmap (\<lambda>(k, v). rbind (g v) (\<lambda>w. Inr (k, w))) m) \<longleftrightarrow> (\<forall>(k, v) \<in> set m. is_ok (g v))"
    for g :: "json \<Rightarrow> go_error + json"
    by (induction m) (auto simp: rbind_def split: sum.splits)
  then show ?thesis by (simp add: is_ok_conv rbind_Inr_conv)
qed

lemma required_string_Inr: "required_string data k msg = Inr s \<longleftrightarrow> field data k = JStr s \<and> s \<noteq> ''''"
  by (auto simp: required_string_def split: option.splits if_splits)

lemma required_string_cong: "map_of d1 = map_of d2 \<Longrightarrow> required_string d1 k msg = required_string d2 k msg"
  by (simp add: required_string_def field_def)

lemma parse_config_fields_cong:
  assumes "map_of d1 = map_of d2"
  shows "parse_config_fields d1 = parse_config_fields d2"
proof -
  have "field d1 = field d2" using assms by (simp add: fun_eq_iff field_def)
  then show ?thesis
    by (simp add: parse_config_fields_def required_string_def optional_string_def
        optional_strings_def parse_contacts_def)
qed

lemma parse_config_fields_Inr:
  assumes "parse_config_fields data = Inr c"
  shows "field data ''object_id'' = JStr (c_ObjectID c) \<and> c_ObjectID c \<noteq> ''''"
    "field data ''access_check_object'' = JStr (c_AccessCheckObject c) \<and> c_AccessCheckObject c \<noteq> ''''"
    "field data ''access_check_relation'' = JStr (c_AccessCheckRelation c) \<and> c_AccessCheckRelation c \<noteq> ''''"
    "field data ''history_check_object'' = JStr (c_HistoryCheckObject c) \<and> c_HistoryCheckObject c \<noteq> ''''"
    "field data ''history_check_relation'' = JStr (c_HistoryCheckRelation c) \<and> c_HistoryCheckRelation c \<noteq> ''''"
  using assms by (auto simp: parse_config_fields_def rbind_Inr_conv required_string_Inr)

lemma parseIndexingConfig_Inr:
  "parseIndexingConfig dec m data = Inr c \<longleftrightarrow>
   (\<exists>m'. expandTemplates dec data (JObj m) = Inr (JObj m') \<and> parse_config_fields m' = Inr c)"
  by (auto simp: parseIndexingConfig_def rbind_Inr_conv map_err_Inr_conv split: option.splits
      dest: expandTemplates_keys)

text \<open>The branch for an expansion that is no longer an object is never taken.\<close>

lemma parseIndexingConfig_not_object:
  "parseIndexingConfig dec m data \<noteq> fail (Body ConfigNotObjectExpanded)"
proof
  assume "parseIndexingConfig dec m data = fail (Body ConfigNotObjectExpanded)"
  then obtain v where "expandTemplates dec data (JObj m) = Inr v"
    "(case as_object v of None \<Rightarrow> fail (Body ConfigNotObjectExpanded) | Some d \<Rightarrow> parse_config_fields d)
     = fail (Body ConfigNotObjectExpanded)"
    by (auto simp: parseIndexingConfig_def rbind_Inl_conv map_err_Inl_conv map_err_Inr_conv)
  then show False
    by (auto dest!: expandTemplates_keys
        simp: parse_config_fields_def rbind_Inl_conv rbind_Inr_conv required_string_def
        split: option.splits if_splits)
qed


section \<open>Witnesses\<close>

theorem expandTemplateString_whole_witness:
  "expandTemplateString id [(''uid'', JNum ''7'')] (''{{'' @ replicate 1 (CHR '' '') @ ''uid'' @ replicate 1 (CHR '' '') @ ''}}'')
   = Inr (JNum ''7'')"
proof -
  have "list_all re_field ''uid''" by (simp add: re_field_def is_alnum_def is_lower_def byte_def)
  then show ?thesis
    using expandTemplateString_whole [of "''uid''" id "[(''uid'', JNum ''7'')]" 1 1]
    by (simp add: getNestedField_top)
qed

theorem expandTemplates_error_witness:
  "\<exists>args. Errorf (Body PathNotObject) [''a.b'', ''a''] = Errorf (Body PathNotObject) args \<and>
     expandTemplates id [(''a'', JNull)] (JStr (''{{'' @ replicate 0 (CHR '' '') @ ''a.b'' @ replicate 0 (CHR '' '') @ ''}}''))
       = Inl (Errorf (Body PathNotObject) args)"
proof -
  let ?t = "''{{'' @ replicate 0 (CHR '' '') @ ''a.b'' @ replicate 0 (CHR '' '') @ ''}}''"
  have f: "contains ?t escaped_open = False" "is_whole_template ?t"
    by (simp_all add: contains_def escaped_open_def is_whole_template_def has_prefix_def has_suffix_def
        sublist_code count_sub.simps suffix_def)
  have "trim_space ''a.b'' = ''a.b''"
    using trim_space_padded [of "''a.b''" 0 0] by (simp add: byte_def is_space_def)
  then have e: "expandTemplates id [(''a'', JNull)] (JStr ?t) = Inl (Errorf (Body PathNotObject) [''a.b'', ''a''])"
    using f by (simp add: expandTemplateString_def getNestedField_def join_def)
  show ?thesis using e expandTemplates_error [OF e] by blast
qed

definition sample_config_data :: "json gomap" where
  "sample_config_data = [(''object_id'', JStr ''1''), (''access_check_object'', JStr ''p:1''),
     (''access_check_relation'', JStr ''v''), (''history_check_object'', JStr ''p:1''),
     (''history_check_relation'', JStr ''h'')]"


end
