(* ===== verification/Indexer_Service.thy ===== *)
theory Indexer_Service
  imports Templates
begin

text \<open>
  internal/domain/services: envelope admission, construction and validation of a transaction,
  generation of the document and \<open>ProcessTransaction\<close> (indexer_service.go, envelope_admission.go).
  The repositories the service calls are the fields of \<open>service_deps\<close>: they read and change a world
  of type \<open>'w\<close>. \<open>time.Now()\<close> is the argument \<open>now\<close>. Logging is left out.
\<close>

section \<open>Action helpers\<close>

definition isCreateAction :: "LFXTransaction \<Rightarrow> bool" where
  "isCreateAction t = (t_Action t = ActionCreate \<or> t_Action t = ActionCreated)"

definition isUpdateAction :: "LFXTransaction \<Rightarrow> bool" where
  "isUpdateAction t = (t_Action t = ActionUpdate \<or> t_Action t = ActionUpdated)"

definition isDeleteAction :: "LFXTransaction \<Rightarrow> bool" where
  "isDeleteAction t = (t_Action t = ActionDelete \<or> t_Action t = ActionDeleted)"

definition GetCanonicalAction :: "LFXTransaction \<Rightarrow> message_action" where
  "GetCanonicalAction t =
     (if t_Action t = ActionCreate \<or> t_Action t = ActionCreated then ActionCreated
      else if t_Action t = ActionUpdate \<or> t_Action t = ActionUpdated then ActionUpdated
      else if t_Action t = ActionDelete \<or> t_Action t = ActionDeleted then ActionDeleted
      else t_Action t)"

section \<open>Envelope admission\<close>

definition misspelt_discriminator :: "string \<Rightarrow> bool" where
  "misspelt_discriminator key =
     ((equal_fold key ''schema_version'' \<and> key \<noteq> ''schema_version'') \<or>
      (equal_fold key ''audit'' \<and> key \<noteq> ''audit''))"

definition validateEnvelopeAdmission :: "json gomap \<Rightarrow> bool \<Rightarrow> go_error + unit" where
  "validateEnvelopeAdmission message isV1 =
     (if list_ex (\<lambda>(key, _). misspelt_discriminator key) message
      then fail (Service EnvelopeFieldCase)
      else case map_of message ''schema_version'' of
        None \<Rightarrow>
          if has_key message ''audit'' then fail (Service AuditNeedsVersion) else Inr ()
      | Some raw \<Rightarrow>
          if isV1 then fail (Service VersionedOnV1)
          else (case int_of_json raw of
            None \<Rightarrow> fail (Service VersionNotInteger)
          | Some version \<Rightarrow>
              if version \<noteq> AuditSchemaVersion then fail (Service UnsupportedVersion)
              else if \<not> has_key message ''audit'' \<or> field message ''audit'' = JNull
              then fail (Service VersionNeedsAudit)
              else fail (Service VersionNotEnabled)))"

section \<open>Transaction creation\<close>

definition zero_transaction :: LFXTransaction where
  "zero_transaction = \<lparr>
     t_Action = '''', t_Headers = None, t_Data = JNull, t_ParsedData = None,
     t_ParsedObjectID = '''', t_ObjectType = '''', t_Tags = [], t_V1Data = [], t_Timestamp = 0,
     t_IsV1 = False, t_ParsedPrincipals = [], t_IndexingConfig = None\<rparr>"

definition setV1Data :: "LFXTransaction \<Rightarrow> json gomap \<Rightarrow> LFXTransaction" where
  "setV1Data t messageData =
     (case as_object (field messageData ''v1_data'') of
        Some v1Data \<Rightarrow> t\<lparr>t_V1Data := v1Data\<rparr>
      | None \<Rightarrow> t)"

definition config_of_message :: "(string \<Rightarrow> string) \<Rightarrow> json gomap \<Rightarrow> go_error + IndexingConfig option" where
  "config_of_message dec messageData =
     (let raw = field messageData ''indexing_config'' in
      if raw = JNull then Inr None
      else case as_object raw of
        None \<Rightarrow> fail (Service ConfigNotObject)
      | Some cfg \<Rightarrow>
          (let transactionData =
             (case as_object (field messageData ''data'') of Some d \<Rightarrow> d | None \<Rightarrow> []) in
           rbind (map_err (Wrapf (Service ParseConfig)) (parseIndexingConfig dec cfg transactionData))
             (\<lambda>c. Inr (Some c))))"

definition headers_of_message :: "json gomap \<Rightarrow> string gomap" where
  "headers_of_message messageData =
     (case as_object (field messageData ''headers'') of
        None \<Rightarrow> []
      | Some hs \<Rightarrow> List.map_filter (\<lambda>(k, v). map_option (Pair k) (as_string v)) hs)"

definition tags_of_message :: "json gomap \<Rightarrow> string list" where
  "tags_of_message messageData =
     (case as_array (field messageData ''tags'') of None \<Rightarrow> [] | Some tags \<Rightarrow> strings_of tags)"

definition CreateTransactionFromMessage ::
    "(string \<Rightarrow> string) \<Rightarrow> timestamp \<Rightarrow> json gomap \<Rightarrow> string \<Rightarrow> bool \<Rightarrow> go_error + LFXTransaction" where
  "CreateTransactionFromMessage dec now messageData objectType isV1 =
     rbind (validateEnvelopeAdmission messageData isV1) (\<lambda>_.
     case as_string (field messageData ''action'') of
       None \<Rightarrow> fail (Service MissingAction)
     | Some actionStr \<Rightarrow>
         if actionStr = '''' then fail (Service MissingAction)
         else
           let t0 = zero_transaction\<lparr>
                 t_Action := actionStr, t_ObjectType := objectType,
                 t_Data := field messageData ''data'', t_Headers := Some [],
                 t_Timestamp := now, t_IsV1 := isV1\<rparr>;
               t1 = (if isV1 then setV1Data t0 messageData else t0)
           in rbind (config_of_message dec messageData) (\<lambda>cfg.
              Inr (t1\<lparr>t_IndexingConfig := cfg,
                      t_Headers := Some (headers_of_message messageData),
                      t_Tags := tags_of_message messageData\<rparr>)))"

section \<open>Validation\<close>

definition decodeTransactionData :: "LFXTransaction \<Rightarrow> go_error + LFXTransaction" where
  "decodeTransactionData t =
     (case as_string (t_Data t) of
        None \<Rightarrow> Inr t
      | Some data \<Rightarrow>
          (case base64_decode data of
             None \<Rightarrow> Inr t
           | Some decodedData \<Rightarrow>
               if isCreateAction t \<or> isUpdateAction t then
                 (case json_unmarshal_map decodedData of
                    None \<Rightarrow> fail (Service DataJson)
                  | Some None \<Rightarrow> Inr (t\<lparr>t_Data := JObj []\<rparr>)
                  | Some (Some m) \<Rightarrow> Inr (t\<lparr>t_Data := JObj m\<rparr>))
               else Inr t))"

definition ValidateTransactionData :: "LFXTransaction \<Rightarrow> go_error + LFXTransaction" where
  "ValidateTransactionData t0 =
     (if t_Data t0 = JNull then fail (Service DataRequired)
      else rbind (decodeTransactionData t0) (\<lambda>t.
        if isCreateAction t \<or> isUpdateAction t then
          (if as_object (t_Data t) = None then failf (Service DataNotObject) [t_Action t] else Inr t)
        else if isDeleteAction t then
          (if as_string (t_Data t) = None then failf (Service DataNotString) [t_Action t] else Inr t)
        else Inr t))"

definition validateV1Headers :: "LFXTransaction \<Rightarrow> go_error + unit" where
  "validateV1Headers t = Inr ()"

definition validateV2Headers :: "string gomap \<Rightarrow> go_error + unit" where
  "validateV2Headers headers =
     (case map_of headers AuthorizationHeader of
        None \<Rightarrow> fail (Service AuthorizationRequired)
      | Some auth \<Rightarrow> if auth = '''' then fail (Service AuthorizationRequired) else Inr ())"

definition ValidateTransactionHeaders :: "LFXTransaction \<Rightarrow> go_error + unit" where
  "ValidateTransactionHeaders t =
     (case t_Headers t of
        None \<Rightarrow> fail (Service HeadersRequired)
      | Some headers \<Rightarrow> if t_IsV1 t then validateV1Headers t else validateV2Headers headers)"

definition subject_token_rune :: "nat \<Rightarrow> bool" where
  "subject_token_rune r = (\<not> (r = 46 \<or> r = 42 \<or> r = 62 \<or> r \<le> 32))"

definition ValidateObjectType :: "LFXTransaction \<Rightarrow> go_error + unit" where
  "ValidateObjectType t =
     (if t_ObjectType t = '''' then fail (Service ObjectTypeRequired)
      else if \<not> list_all subject_token_rune (rune_list (t_ObjectType t))
      then failf (Service ObjectTypeChar) [t_ObjectType t]
      else if t_ObjectType t = ''index'' then failf (Service ObjectTypeReserved) [t_ObjectType t]
      else Inr ())"

definition validateV1Action :: "LFXTransaction \<Rightarrow> go_error + unit" where
  "validateV1Action t =
     (if t_Action t \<in> {ActionCreate, ActionUpdate, ActionDelete} then Inr ()
      else failf (Service InvalidV1Action) [t_Action t])"

definition validateV2Action :: "LFXTransaction \<Rightarrow> go_error + unit" where
  "validateV2Action t =
     (if t_Action t \<in> {ActionCreated, ActionUpdated, ActionDeleted} then Inr ()
      else failf (Service InvalidV2Action) [t_Action t])"

definition ValidateTransactionAction :: "LFXTransaction \<Rightarrow> go_error + unit" where
  "ValidateTransactionAction t = (if t_IsV1 t then validateV1Action t else validateV2Action t)"

definition ExtractObjectID :: "LFXTransaction \<Rightarrow> go_error + string" where
  "ExtractObjectID t =
     (if isDeleteAction t then Inr (t_ParsedObjectID t)
      else case t_ParsedData t of
        None \<Rightarrow> fail (Service ParsedDataNil)
      | Some m \<Rightarrow>
          (case as_string (field m ''id'') of
             None \<Rightarrow> fail (Service MissingId)
           | Some objectID \<Rightarrow> if objectID = '''' then fail (Service MissingId) else Inr objectID))"

section \<open>Principals and parsed data\<close>

text \<open>The repositories behind the service: \<open>docIndexer.Index\<close>, \<open>messagingRepo.Publish\<close> and
  \<open>messagingRepo.ParsePrincipals\<close>. The published bytes are the marshalled event.\<close>

record 'w service_deps =
  sd_Index :: "string \<Rightarrow> string \<Rightarrow> json gomap \<Rightarrow> 'w \<Rightarrow> go_error option \<times> 'w"
  sd_Publish :: "string \<Rightarrow> IndexingEvent \<Rightarrow> 'w \<Rightarrow> go_error option \<times> 'w"
  sd_ParsePrincipals :: "string gomap \<Rightarrow> go_error + Principal list"

fun v1_principal :: "string gomap \<Rightarrow> Principal \<Rightarrow> Principal" where
  "v1_principal [] p = p"
| "v1_principal ((header, value) # hs) p =
     v1_principal hs
       (if lower_eq header HeaderXUsername then p\<lparr>p_Principal := value\<rparr>
        else if lower_eq header HeaderXEmail then p\<lparr>p_Email := value\<rparr>
        else p)"

definition parseV1Principals :: "string gomap \<Rightarrow> Principal list" where
  "parseV1Principals headers =
     (let p = v1_principal headers \<lparr>p_Principal = '''', p_Email = ''''\<rparr> in
      if p_Principal p = '''' then [] else [p])"

text \<open>A nil header map is read like an empty one.\<close>

definition header_map :: "LFXTransaction \<Rightarrow> string gomap" where
  "header_map t = (case t_Headers t of None \<Rightarrow> [] | Some hs \<Rightarrow> hs)"

definition parseV2Principals :: "'w service_deps \<Rightarrow> LFXTransaction \<Rightarrow> go_error + Principal list" where
  "parseV2Principals deps t = sd_ParsePrincipals deps (header_map t)"

definition parsePrincipals :: "'w service_deps \<Rightarrow> LFXTransaction \<Rightarrow> go_error + Principal list" where
  "parsePrincipals deps t =
     (if t_IsV1 t then Inr (parseV1Principals (header_map t)) else parseV2Principals deps t)"

definition parseTransactionData :: "LFXTransaction \<Rightarrow> go_error + LFXTransaction" where
  "parseTransactionData t =
     (if isCreateAction t \<or> isUpdateAction t then
        (case as_object (t_Data t) of
           None \<Rightarrow> failf (Body ExpectedObject) [t_Action t]
         | Some parsedData \<Rightarrow> Inr (t\<lparr>t_ParsedData := Some parsedData\<rparr>))
      else if isDeleteAction t then
        (case as_string (t_Data t) of
           None \<Rightarrow> failf (Body ExpectedString) [t_Action t]
         | Some objectID \<Rightarrow> Inr (t\<lparr>t_ParsedObjectID := objectID\<rparr>))
      else failf (Body UnsupportedAction) [t_Action t])"

definition EnrichTransaction :: "'w service_deps \<Rightarrow> LFXTransaction \<Rightarrow> go_error + LFXTransaction" where
  "EnrichTransaction deps t0 =
     rbind (map_err (Wrapf (Body ErrInvalidAction)) (ValidateTransactionAction t0)) (\<lambda>_.
     rbind (ValidateObjectType t0) (\<lambda>_.
     rbind (map_err (Wrapf (Body InvalidTransactionData)) (ValidateTransactionData t0)) (\<lambda>t1.
     rbind (map_err (Wrapf (Body InvalidTransactionHeaders)) (ValidateTransactionHeaders t1)) (\<lambda>_.
     rbind (map_err (Wrapf (Body ErrParseTransaction)) (parseTransactionData t1)) (\<lambda>t2.
     if (GetCanonicalAction t2 = ActionCreated \<or> GetCanonicalAction t2 = ActionUpdated) \<and>
        t_IndexingConfig t2 = None
     then failf (Body ConfigRequired) [t_ObjectType t2]
     else rbind (map_err (Wrapf (Body ParsePrincipalsFailed)) (parsePrincipals deps t2)) (\<lambda>principals.
       Inr (t2\<lparr>t_ParsedPrincipals := principals\<rparr>)))))))"

section \<open>The transaction body\<close>

definition isValidObjectID :: "string \<Rightarrow> bool" where
  "isValidObjectID objectID =
     (objectID \<noteq> '''' \<and> list_all (\<lambda>r. \<not> (r < 33 \<or> r > 126)) (rune_list objectID))"

fun set_principal_field :: "message_action \<Rightarrow> Principal \<Rightarrow> TransactionBody \<Rightarrow> TransactionBody" where
  "set_principal_field action p b =
     (let ref = p_Principal p @ '' <'' @ p_Email p @ ''>'';
          emails = (\<lambda>es. if p_Email p \<noteq> '''' then es @ [p_Email p] else es) in
      if action = ActionCreated then
        b\<lparr>b_CreatedBy := b_CreatedBy b @ [ref],
          b_CreatedByPrincipals := b_CreatedByPrincipals b @ [p_Principal p],
          b_CreatedByEmails := emails (b_CreatedByEmails b)\<rparr>
      else if action = ActionUpdated then
        b\<lparr>b_UpdatedBy := b_UpdatedBy b @ [ref],
          b_UpdatedByPrincipals := b_UpdatedByPrincipals b @ [p_Principal p],
          b_UpdatedByEmails := emails (b_UpdatedByEmails b)\<rparr>
      else if action = ActionDeleted then
        b\<lparr>b_DeletedBy := b_DeletedBy b @ [ref],
          b_DeletedByPrincipals := b_DeletedByPrincipals b @ [p_Principal p],
          b_DeletedByEmails := emails (b_DeletedByEmails b)\<rparr>
      else b)"

declare set_principal_field.simps [simp del]

definition setPrincipalFields :: "TransactionBody \<Rightarrow> Principal list \<Rightarrow> message_action \<Rightarrow> TransactionBody" where
  "setPrincipalFields b principals action = fold (set_principal_field action) principals b"

fun dedupe_loop :: "string set \<Rightarrow> string list \<Rightarrow> string list \<Rightarrow> string list" where
  "dedupe_loop seen out [] = out"
| "dedupe_loop seen out (s # ss) =
     (if s \<in> seen then dedupe_loop seen out ss
      else dedupe_loop (insert s seen) (out @ [s]) ss)"

definition dedupeStrings :: "string list \<Rightarrow> string list" where
  "dedupeStrings xs = (if xs = [] then xs else dedupe_loop {} [] xs)"

definition buildTransactionBodyFromIndexingConfig ::
    "json gomap \<Rightarrow> IndexingConfig \<Rightarrow> LFXTransaction \<Rightarrow> TransactionBody" where
  "buildTransactionBodyFromIndexingConfig data config t =
     (let body = zero_body\<lparr>
            b_ObjectType := t_ObjectType t,
            b_Data := data,
            b_ObjectID := c_ObjectID config,
            b_ObjectRef := t_ObjectType t @ '':'' @ c_ObjectID config,
            b_V1Data := t_V1Data t,
            b_Latest := Some True,
            b_Public := (case c_Public config of Some p \<Rightarrow> p | None \<Rightarrow> False),
            b_AccessCheckObject := c_AccessCheckObject config,
            b_AccessCheckRelation := c_AccessCheckRelation config,
            b_HistoryCheckObject := c_HistoryCheckObject config,
            b_HistoryCheckRelation := c_HistoryCheckRelation config,
            b_AccessCheckQuery := JoinFgaQuery (c_AccessCheckObject config) (c_AccessCheckRelation config),
            b_HistoryCheckQuery := JoinFgaQuery (c_HistoryCheckObject config) (c_HistoryCheckRelation config),
            b_SortName := c_SortName config,
            b_NameAndAliases := c_NameAndAliases config,
            b_ParentRefs := c_ParentRefs config,
            b_Tags := dedupeStrings (t_Tags t @ c_Tags config),
            b_Fulltext := c_Fulltext config,
            b_Contacts := c_Contacts config\<rparr>;
          canonicalAction = GetCanonicalAction t
      in if canonicalAction = ActionCreated then
           setPrincipalFields
             (body\<lparr>b_CreatedAt := Some (t_Timestamp t), b_UpdatedAt := Some (t_Timestamp t)\<rparr>)
             (t_ParsedPrincipals t) ActionCreated
         else if canonicalAction = ActionUpdated then
           setPrincipalFields (body\<lparr>b_UpdatedAt := Some (t_Timestamp t)\<rparr>)
             (t_ParsedPrincipals t) ActionUpdated
         else if canonicalAction = ActionDeleted then
           setPrincipalFields (body\<lparr>b_DeletedAt := Some (t_Timestamp t)\<rparr>)
             (t_ParsedPrincipals t) ActionDeleted
         else body)"

text \<open>\<open>enrichTransactionData\<close> replaces the body it is given, so that only the new one is returned.\<close>

definition enrichTransactionData :: "LFXTransaction \<Rightarrow> go_error + TransactionBody" where
  "enrichTransactionData t =
     (case t_IndexingConfig t of
        None \<Rightarrow> failf (Body ConfigRequired) [t_ObjectType t]
      | Some config \<Rightarrow>
          (case as_object (t_Data t) of
             None \<Rightarrow> fail (Body DataNotMap)
           | Some data \<Rightarrow> Inr (buildTransactionBodyFromIndexingConfig data config t)))"

text \<open>The tombstone branch of \<open>GenerateTransactionBody\<close>: configuration for another object is
  ignored, otherwise only history context is retained.\<close>

definition retain_history_context :: "IndexingConfig option \<Rightarrow> TransactionBody \<Rightarrow> TransactionBody" where
  "retain_history_context config body =
     (case config of
        None \<Rightarrow> body
      | Some c \<Rightarrow>
          if c_ObjectID c \<noteq> b_ObjectID body then body
          else body\<lparr>b_ParentRefs := c_ParentRefs c,
                    b_HistoryCheckObject := c_HistoryCheckObject c,
                    b_HistoryCheckRelation := c_HistoryCheckRelation c,
                    b_HistoryCheckQuery := JoinFgaQuery (c_HistoryCheckObject c) (c_HistoryCheckRelation c)\<rparr>)"

definition delete_body :: "LFXTransaction \<Rightarrow> TransactionBody \<Rightarrow> go_error + TransactionBody" where
  "delete_body t body0 =
     (let body = setPrincipalFields (body0\<lparr>b_DeletedAt := Some (t_Timestamp t)\<rparr>)
                   (t_ParsedPrincipals t) ActionDeleted in
      if \<not> isValidObjectID (t_ParsedObjectID t)
      then failf (Body ErrInvalidObjectID) [t_ParsedObjectID t]
      else Inr (retain_history_context (t_IndexingConfig t)
                  (body\<lparr>b_ObjectID := t_ParsedObjectID t,
                        b_ObjectRef := t_ObjectType t @ '':'' @ t_ParsedObjectID t\<rparr>)))"

definition GenerateTransactionBody :: "LFXTransaction \<Rightarrow> go_error + TransactionBody" where
  "GenerateTransactionBody t =
     (let body = zero_body\<lparr>b_ObjectType := t_ObjectType t, b_V1Data := t_V1Data t,
                           b_Tags := t_Tags t, b_Latest := Some True\<rparr>;
          canonicalAction = GetCanonicalAction t
      in if canonicalAction = ActionDeleted then delete_body t body
         else if canonicalAction = ActionCreated \<or> canonicalAction = ActionUpdated then
           rbind (map_err (Wrapf (Body EnrichFailed)) (enrichTransactionData t)) (\<lambda>body'.
             if \<not> isValidObjectID (b_ObjectID body')
             then failf (Body ErrInvalidObjectID) [b_ObjectID body']
             else Inr (body'\<lparr>b_ObjectRef := t_ObjectType t @ '':'' @ b_ObjectID body'\<rparr>))
         else failf (Body UnsupportedAction) [canonicalAction])"

section \<open>Processing\<close>

definition generateMessageID :: "LFXTransaction \<Rightarrow> string" where
  "generateMessageID t = t_ObjectType t @ ''-'' @ t_Action t @ ''-'' @ int_str (t_Timestamp t)"

definition generateTransactionID :: "LFXTransaction \<Rightarrow> string" where
  "generateTransactionID t =
     ''txn_'' @ t_ObjectType t @ ''_'' @ t_Action t @ ''_'' @ int_str (t_Timestamp t)"

definition indexing_event :: "timestamp \<Rightarrow> TransactionBody \<Rightarrow> message_action \<Rightarrow> IndexingEvent" where
  "indexing_event now body canonicalAction = \<lparr>
     ie_EventID = '''', ie_DocumentID = b_ObjectRef body, ie_ObjectID = b_ObjectID body,
     ie_ObjectType = b_ObjectType body, ie_Action = canonicalAction, ie_Body = body,
     ie_Timestamp = now\<rparr>"

definition publishIndexingEvent ::
    "'w service_deps \<Rightarrow> timestamp \<Rightarrow> TransactionBody \<Rightarrow> message_action \<Rightarrow> 'w \<Rightarrow> 'w" where
  "publishIndexingEvent deps now body canonicalAction w =
     snd (sd_Publish deps (BuildEventSubject (b_ObjectType body) canonicalAction)
            (indexing_event now body canonicalAction) w)"

definition failed_result :: "timestamp \<Rightarrow> LFXTransaction \<Rightarrow> go_error \<Rightarrow> ProcessingResult" where
  "failed_result now t e = \<lparr>pr_Success = False, pr_Error = Some e, pr_ProcessedAt = now,
     pr_MessageID = generateMessageID t, pr_DocumentID = '''', pr_IndexSuccess = False\<rparr>"

definition ProcessTransaction ::
    "'w service_deps \<Rightarrow> (timestamp \<Rightarrow> string) \<Rightarrow> timestamp \<Rightarrow> LFXTransaction \<Rightarrow> string \<Rightarrow> 'w
     \<Rightarrow> ProcessingResult \<times> go_error option \<times> 'w" where
  "ProcessTransaction deps fmt_time now t0 index w =
     (case EnrichTransaction deps t0 of
        Inl e \<Rightarrow> (failed_result now t0 e, Some e, w)
      | Inr t \<Rightarrow>
          (case GenerateTransactionBody t of
             Inl e \<Rightarrow> (failed_result now t0 e, Some e, w)
           | Inr body \<Rightarrow>
               (case sd_Index deps index (b_ObjectRef body) (body_to_json fmt_time body) w of
                  (Some e, w1) \<Rightarrow> (failed_result now t0 e, Some e, w1)
                | (None, w1) \<Rightarrow>
                    (\<lparr>pr_Success = True, pr_Error = None, pr_ProcessedAt = now,
                      pr_MessageID = generateMessageID t0, pr_DocumentID = b_ObjectRef body,
                      pr_IndexSuccess = True\<rparr>,
                     None,
                     publishIndexingEvent deps now body (GetCanonicalAction t) w1))))"

section \<open>Facts on actions and validation\<close>

lemma validated_action_cases:
  assumes "ValidateTransactionAction t = Inr u"
  obtains "isCreateAction t" | "isUpdateAction t" | "isDeleteAction t"
  using assms by (auto simp: ValidateTransactionAction_def validateV1Action_def validateV2Action_def
      isCreateAction_def isUpdateAction_def isDeleteAction_def split: if_splits)

lemma canonical_action_simps:
  "isCreateAction t \<Longrightarrow> GetCanonicalAction t = ActionCreated"
  "isUpdateAction t \<Longrightarrow> GetCanonicalAction t = ActionUpdated"
  "isDeleteAction t \<Longrightarrow> GetCanonicalAction t = ActionDeleted"
  by (auto simp: isCreateAction_def isUpdateAction_def isDeleteAction_def GetCanonicalAction_def)

lemma canonical_deleted: "GetCanonicalAction t = ActionDeleted \<longleftrightarrow> isDeleteAction t"
  by (auto simp: isDeleteAction_def GetCanonicalAction_def)

lemma decodeTransactionData_keeps: "decodeTransactionData t = Inr t' \<Longrightarrow> t' = t\<lparr>t_Data := t_Data t'\<rparr>"
  by (auto simp: decodeTransactionData_def split: option.splits if_splits)

lemma ValidateTransactionData_Inr: "ValidateTransactionData t = Inr t' \<Longrightarrow> t' = t\<lparr>t_Data := t_Data t'\<rparr>"
  by (auto simp: ValidateTransactionData_def rbind_Inr_conv split: if_splits
      dest: decodeTransactionData_keeps)

lemma parseTransactionData_Inr:
  "parseTransactionData t = Inr t' \<Longrightarrow>
   t' = t\<lparr>t_ParsedData := t_ParsedData t', t_ParsedObjectID := t_ParsedObjectID t'\<rparr>"
  by (auto simp: parseTransactionData_def split: if_splits option.splits)

lemma action_with_data [simp]:
  "isCreateAction (t\<lparr>t_Data := d\<rparr>) = isCreateAction t"
  "isUpdateAction (t\<lparr>t_Data := d\<rparr>) = isUpdateAction t"
  "isDeleteAction (t\<lparr>t_Data := d\<rparr>) = isDeleteAction t"
  "GetCanonicalAction (t\<lparr>t_Data := d\<rparr>) = GetCanonicalAction t"
  by (simp_all add: isCreateAction_def isUpdateAction_def isDeleteAction_def GetCanonicalAction_def)

text \<open>What enrichment changes of a transaction: the decoded data, the parsed view of it and the
  principals; everything else is kept.\<close>

lemma EnrichTransaction_Inr:
  assumes "EnrichTransaction deps t0 = Inr t"
  shows "t = t0\<lparr>t_Data := t_Data t, t_ParsedData := t_ParsedData t,
                t_ParsedObjectID := t_ParsedObjectID t, t_ParsedPrincipals := t_ParsedPrincipals t\<rparr>"
    and "ValidateTransactionAction t0 = Inr ()" and "ValidateObjectType t0 = Inr ()"
proof -
  show "ValidateTransactionAction t0 = Inr ()" "ValidateObjectType t0 = Inr ()"
    using assms by (auto simp: EnrichTransaction_def rbind_Inr_conv map_err_Inr_conv)
  from assms obtain t1 t2 ps where t1: "ValidateTransactionData t0 = Inr t1"
    and t2: "parseTransactionData t1 = Inr t2" and t: "t = t2\<lparr>t_ParsedPrincipals := ps\<rparr>"
    by (auto simp: EnrichTransaction_def rbind_Inr_conv map_err_Inr_conv split: if_splits)
  have "t1 = t0\<lparr>t_Data := t_Data t1\<rparr>" using ValidateTransactionData_Inr [OF t1] .
  then obtain d where d: "t1 = t0\<lparr>t_Data := d\<rparr>" by blast
  obtain p i where "t2 = t1\<lparr>t_ParsedData := p, t_ParsedObjectID := i\<rparr>"
    using parseTransactionData_Inr [OF t2] by blast
  then show "t = t0\<lparr>t_Data := t_Data t, t_ParsedData := t_ParsedData t,
                t_ParsedObjectID := t_ParsedObjectID t, t_ParsedPrincipals := t_ParsedPrincipals t\<rparr>"
    using d t by simp
qed

lemma EnrichTransaction_simps:
  assumes "EnrichTransaction deps t0 = Inr t"
  shows "t_Action t = t_Action t0" "t_ObjectType t = t_ObjectType t0" "t_Tags t = t_Tags t0"
    "t_V1Data t = t_V1Data t0" "t_Timestamp t = t_Timestamp t0" "t_IsV1 t = t_IsV1 t0"
    "t_IndexingConfig t = t_IndexingConfig t0"
  by (subst EnrichTransaction_Inr(1) [OF assms], simp)+

section \<open>Facts on the body\<close>

lemma set_principal_field_other:
  "b_ObjectRef (set_principal_field a p b) = b_ObjectRef b"
  "b_ObjectType (set_principal_field a p b) = b_ObjectType b"
  "b_ObjectID (set_principal_field a p b) = b_ObjectID b"
  "b_ParentRefs (set_principal_field a p b) = b_ParentRefs b"
  "b_SortName (set_principal_field a p b) = b_SortName b"
  "b_NameAndAliases (set_principal_field a p b) = b_NameAndAliases b"
  "b_Tags (set_principal_field a p b) = b_Tags b"
  "b_Public (set_principal_field a p b) = b_Public b"
  "b_AccessCheckObject (set_principal_field a p b) = b_AccessCheckObject b"
  "b_AccessCheckRelation (set_principal_field a p b) = b_AccessCheckRelation b"
  "b_HistoryCheckObject (set_principal_field a p b) = b_HistoryCheckObject b"
  "b_HistoryCheckRelation (set_principal_field a p b) = b_HistoryCheckRelation b"
  "b_AccessCheckQuery (set_principal_field a p b) = b_AccessCheckQuery b"
  "b_HistoryCheckQuery (set_principal_field a p b) = b_HistoryCheckQuery b"
  "b_Latest (set_principal_field a p b) = b_Latest b"
  "b_CreatedAt (set_principal_field a p b) = b_CreatedAt b"
  "b_UpdatedAt (set_principal_field a p b) = b_UpdatedAt b"
  "b_DeletedAt (set_principal_field a p b) = b_DeletedAt b"
  "b_Data (set_principal_field a p b) = b_Data b"
  "b_Fulltext (set_principal_field a p b) = b_Fulltext b"
  "b_Contacts (set_principal_field a p b) = b_Contacts b"
  "b_V1Data (set_principal_field a p b) = b_V1Data b"
  by (simp_all add: set_principal_field.simps Let_def)

lemma fold_keeps: "(\<And>x b. f (g x b) = f b) \<Longrightarrow> f (fold g xs b) = f b"
  by (induction xs arbitrary: b) simp_all

lemma setPrincipalFields_other [simp]:
  "b_ObjectRef (setPrincipalFields b ps a) = b_ObjectRef b"
  "b_ObjectType (setPrincipalFields b ps a) = b_ObjectType b"
  "b_ObjectID (setPrincipalFields b ps a) = b_ObjectID b"
  "b_ParentRefs (setPrincipalFields b ps a) = b_ParentRefs b"
  "b_SortName (setPrincipalFields b ps a) = b_SortName b"
  "b_NameAndAliases (setPrincipalFields b ps a) = b_NameAndAliases b"
  "b_Tags (setPrincipalFields b ps a) = b_Tags b"
  "b_Public (setPrincipalFields b ps a) = b_Public b"
  "b_AccessCheckObject (setPrincipalFields b ps a) = b_AccessCheckObject b"
  "b_AccessCheckRelation (setPrincipalFields b ps a) = b_AccessCheckRelation b"
  "b_HistoryCheckObject (setPrincipalFields b ps a) = b_HistoryCheckObject b"
  "b_HistoryCheckRelation (setPrincipalFields b ps a) = b_HistoryCheckRelation b"
  "b_AccessCheckQuery (setPrincipalFields b ps a) = b_AccessCheckQuery b"
  "b_HistoryCheckQuery (setPrincipalFields b ps a) = b_HistoryCheckQuery b"
  "b_Latest (setPrincipalFields b ps a) = b_Latest b"
  "b_CreatedAt (setPrincipalFields b ps a) = b_CreatedAt b"
  "b_UpdatedAt (setPrincipalFields b ps a) = b_UpdatedAt b"
  "b_DeletedAt (setPrincipalFields b ps a) = b_DeletedAt b"
  "b_Data (setPrincipalFields b ps a) = b_Data b"
  "b_Fulltext (setPrincipalFields b ps a) = b_Fulltext b"
  "b_Contacts (setPrincipalFields b ps a) = b_Contacts b"
  "b_V1Data (setPrincipalFields b ps a) = b_V1Data b"
  by (simp_all add: setPrincipalFields_def fold_keeps set_principal_field_other)

lemma delete_body_Inr:
  assumes "delete_body t b0 = Inr b"
  shows "isValidObjectID (t_ParsedObjectID t)" "b_ObjectID b = t_ParsedObjectID t"
    "b_ObjectRef b = t_ObjectType t @ '':'' @ t_ParsedObjectID t"
    "b_ObjectType b = b_ObjectType b0" "b_Public b = b_Public b0"
    "b_AccessCheckObject b = b_AccessCheckObject b0" "b_AccessCheckRelation b = b_AccessCheckRelation b0"
    "b_AccessCheckQuery b = b_AccessCheckQuery b0" "b_Data b = b_Data b0" "b_Fulltext b = b_Fulltext b0"
    "b_SortName b = b_SortName b0" "b_NameAndAliases b = b_NameAndAliases b0"
    "b_Contacts b = b_Contacts b0" "b_Latest b = b_Latest b0" "b_DeletedAt b = Some (t_Timestamp t)"
  using assms by (auto simp: delete_body_def Let_def retain_history_context_def
      split: if_splits option.splits)

lemma buildTransactionBody_fields:
  fixes d c t
  defines "b \<equiv> buildTransactionBodyFromIndexingConfig d c t"
  shows "b_ObjectID b = c_ObjectID c" "b_ObjectType b = t_ObjectType t" "b_Latest b = Some True"
    "b_Tags b = dedupeStrings (t_Tags t @ c_Tags c)" "b_Data b = d"
    "b_AccessCheckQuery b = JoinFgaQuery (c_AccessCheckObject c) (c_AccessCheckRelation c)"
    "b_HistoryCheckQuery b = JoinFgaQuery (c_HistoryCheckObject c) (c_HistoryCheckRelation c)"
    "b_Public b = (c_Public c = Some True)"
  by (auto simp: b_def buildTransactionBodyFromIndexingConfig_def Let_def split: option.splits)

lemma GenerateTransactionBody_Inr:
  assumes "GenerateTransactionBody t = Inr b"
  obtains (delete) "isDeleteAction t"
      "delete_body t (zero_body\<lparr>b_ObjectType := t_ObjectType t, b_V1Data := t_V1Data t,
                               b_Tags := t_Tags t, b_Latest := Some True\<rparr>) = Inr b"
  | (upsert) c d where "isCreateAction t \<or> isUpdateAction t" "t_IndexingConfig t = Some c"
      "t_Data t = JObj d" "isValidObjectID (c_ObjectID c)"
      "b = (buildTransactionBodyFromIndexingConfig d c t)\<lparr>b_ObjectRef := t_ObjectType t @ '':'' @ c_ObjectID c\<rparr>"
proof (cases "GetCanonicalAction t = ActionDeleted")
  case True
  then show ?thesis using assms delete by (simp add: GenerateTransactionBody_def canonical_deleted)
next
  case False
  then have act: "isCreateAction t \<or> isUpdateAction t"
    using assms by (auto simp: GenerateTransactionBody_def Let_def isCreateAction_def isUpdateAction_def
        GetCanonicalAction_def split: if_splits)
  from assms False obtain b' where b': "enrichTransactionData t = Inr b'" "isValidObjectID (b_ObjectID b')"
    "b = b'\<lparr>b_ObjectRef := t_ObjectType t @ '':'' @ b_ObjectID b'\<rparr>"
    by (auto simp: GenerateTransactionBody_def Let_def rbind_Inr_conv map_err_Inr_conv split: if_splits)
  from b'(1) obtain c d where "t_IndexingConfig t = Some c" "t_Data t = JObj d"
    "b' = buildTransactionBodyFromIndexingConfig d c t"
    by (auto simp: enrichTransactionData_def split: option.splits)
  then show ?thesis using upsert act b' by (simp add: buildTransactionBody_fields)
qed

lemma dedupe_loop_spec:
  "dedupe_loop seen out ss = out @ filter (\<lambda>s. s \<notin> seen) (first_occurrences ss)"
proof (induction ss arbitrary: seen out)
  case (Cons s ss)
  then show ?case using filter_insert_first_occurrences [of s seen] by simp
qed simp

lemma generated_ref:
  assumes "GenerateTransactionBody t = Inr b"
  shows "b_ObjectRef b = t_ObjectType t @ CHR '':'' # b_ObjectID b" "b_ObjectType b = t_ObjectType t"
    "isValidObjectID (b_ObjectID b)" "b_Latest b = Some True"
proof -
  from assms have "b_ObjectRef b = t_ObjectType t @ CHR '':'' # b_ObjectID b \<and> b_ObjectType b = t_ObjectType t \<and>
    isValidObjectID (b_ObjectID b) \<and> b_Latest b = Some True"
  proof (cases rule: GenerateTransactionBody_Inr)
    case delete
    then show ?thesis using delete_body_Inr [OF delete(2)] by simp
  next
    case (upsert c d)
    then show ?thesis by (simp add: buildTransactionBody_fields)
  qed
  then show "b_ObjectRef b = t_ObjectType t @ CHR '':'' # b_ObjectID b" "b_ObjectType b = t_ObjectType t"
    "isValidObjectID (b_ObjectID b)" "b_Latest b = Some True" by simp_all
qed

section \<open>Properties\<close>

text \<open>The rune loop of \<open>isValidObjectID\<close> accepts exactly the non-empty strings whose bytes are
  all printable non-space ASCII, so invalid UTF-8 is refused too.\<close>

theorem isValidObjectID_iff:
  "isValidObjectID s \<longleftrightarrow> s \<noteq> [] \<and> list_all (\<lambda>c. 33 \<le> byte c \<and> byte c \<le> 126) s"
  using printable_runes_iff [of "{}" s] by (simp add: isValidObjectID_def)

lemma spelt_keys:
  assumes "\<not> list_ex (\<lambda>(key, _). (P key \<and> key \<noteq> a) \<or> (Q key \<and> key \<noteq> b)) m" "P a" "Q b"
  shows "list_all (\<lambda>(key, _). \<not> P key \<and> \<not> Q key) m \<longleftrightarrow> \<not> has_key m a \<and> \<not> has_key m b"
  using assms by (induction m) auto

text \<open>C36: the admission check lets a message through to the legacy path exactly when no key of it
  is, up to Unicode case folding, \<open>schema_version\<close> or \<open>audit\<close>: a versioned or audited envelope is
  never treated as a legacy transaction, on either subject family.\<close>

theorem admission_iff:
  "validateEnvelopeAdmission message isV1 = Inr () \<longleftrightarrow>
   list_all (\<lambda>(key, _). \<not> equal_fold key ''schema_version'' \<and> \<not> equal_fold key ''audit'') message"
proof (cases "list_ex (\<lambda>(key, _). misspelt_discriminator key) message")
  case True
  then show ?thesis
    by (fastforce simp: validateEnvelopeAdmission_def misspelt_discriminator_def list_ex_iff list_all_iff)
next
  case False
  then have "list_all (\<lambda>(key, _). \<not> equal_fold key ''schema_version'' \<and> \<not> equal_fold key ''audit'') message
        \<longleftrightarrow> \<not> has_key message ''schema_version'' \<and> \<not> has_key message ''audit''"
    unfolding misspelt_discriminator_def by (rule spelt_keys) (simp_all add: equal_fold_def)
  moreover have "validateEnvelopeAdmission message isV1 = Inr () \<longleftrightarrow>
        \<not> has_key message ''schema_version'' \<and> \<not> has_key message ''audit''"
    using False by (auto simp: validateEnvelopeAdmission_def has_key_def split: option.splits if_splits)
  ultimately show ?thesis by simp
qed

text \<open>NATS subject matching: tokens separated by dots, \<open>*\<close> matches one token and a final \<open>>\<close> one or
  more.\<close>

fun nats_match :: "string list \<Rightarrow> string list \<Rightarrow> bool" where
  "nats_match [] [] = True"
| "nats_match (p # ps) (s # ss) =
     ((p = ''>'' \<and> ps = []) \<or> ((p = ''*'' \<or> p = s) \<and> nats_match ps ss))"
| "nats_match _ _ = False"

definition subscribed :: "string \<Rightarrow> string \<Rightarrow> bool" where
  "subscribed pattern subject = nats_match (split_on (CHR ''.'') pattern) (split_on (CHR ''.'') subject)"

lemma ValidateObjectType_no_dot: "ValidateObjectType t = Inr () \<Longrightarrow> CHR ''.'' \<notin> set (t_ObjectType t)"
  using ascii_byte_is_rune [of "CHR ''.''" "t_ObjectType t"]
  by (auto simp: ValidateObjectType_def subject_token_rune_def list_all_iff byte_def split: if_splits)

lemma event_subject_tokens:
  assumes "CHR ''.'' \<notin> set ty" "CHR ''.'' \<notin> set a"
  shows "split_on (CHR ''.'') (BuildEventSubject ty a) = [''lfx'', ty, a]"
proof -
  have "BuildEventSubject ty a = ''lfx'' @ CHR ''.'' # (ty @ CHR ''.'' # a)"
    by (simp add: BuildEventSubject_def EventSubjectPrefix_def)
  then show ?thesis using assms by (simp only: split_on_Cons split_on_no_sep) (simp add: split_on_Cons split_on_no_sep)
qed

lemma validated_canonical_action:
  assumes "ValidateTransactionAction t = Inr ()"
  shows "GetCanonicalAction t \<in> {ActionCreated, ActionUpdated, ActionDeleted}"
  using assms by (cases rule: validated_action_cases) (simp_all add: canonical_action_simps)

text \<open>C37: a transaction that passed enrichment publishes its event on a subject with the three
  tokens lfx, object type and canonical action, and neither of the service's own subscriptions
  \<open>lfx.index.>\<close> and \<open>lfx.v1.index.>\<close> receives it: processing never triggers itself.\<close>

theorem event_subject_not_inbound:
  assumes "EnrichTransaction deps t0 = Inr t"
  defines "subject \<equiv> BuildEventSubject (t_ObjectType t) (GetCanonicalAction t)"
  shows "split_on (CHR ''.'') subject = [''lfx'', t_ObjectType t, GetCanonicalAction t] \<and>
    \<not> subscribed (IndexPrefix @ ''>'') subject \<and> \<not> subscribed (FromV1Prefix @ ''>'') subject"
proof -
  note simps = EnrichTransaction_simps [OF assms(1)]
  have ty: "ValidateObjectType t0 = Inr ()" and act: "ValidateTransactionAction t0 = Inr ()"
    using EnrichTransaction_Inr [OF assms(1)] by simp_all
  have can: "GetCanonicalAction t \<in> {ActionCreated, ActionUpdated, ActionDeleted}"
    using validated_canonical_action [OF act] by (simp only: GetCanonicalAction_def simps)
  have dot: "CHR ''.'' \<notin> set (t_ObjectType t)" "CHR ''.'' \<notin> set (GetCanonicalAction t)"
    using ValidateObjectType_no_dot [OF ty] can by (auto simp: simps go_consts)
  have not_index: "t_ObjectType t \<noteq> ''index''"
    using ty by (auto simp: simps ValidateObjectType_def split: if_splits)
  have not_v1_index: "GetCanonicalAction t \<noteq> ''index''" using can by (auto simp: go_consts)
  have toks: "split_on (CHR ''.'') subject = [''lfx'', t_ObjectType t, GetCanonicalAction t]"
    unfolding subject_def by (rule event_subject_tokens [OF dot])
  then show ?thesis using not_index not_v1_index by (simp add: subscribed_def go_consts)
qed

text \<open>Every generated document is addressed by its own reference: \<open>object_ref\<close> is object type,
  colon, object id; the id is valid, the type is the transaction's and the document is the latest.\<close>

theorem body_identity:
  assumes "GenerateTransactionBody t = Inr b"
  shows "b_ObjectRef b = b_ObjectType b @ '':'' @ b_ObjectID b \<and> b_ObjectType b = t_ObjectType t \<and>
    isValidObjectID (b_ObjectID b) \<and> b_Latest b = Some True"
  using generated_ref [OF assms] by simp


text \<open>\<open>dedupeStrings\<close> keeps exactly the first occurrence of every string, in order.\<close>

theorem dedupeStrings_first_occurrences: "dedupeStrings xs = first_occurrences xs"
  by (cases xs) (simp_all add: dedupeStrings_def dedupe_loop_spec)

text \<open>Repositories that answer as the functions say and record every call.\<close>

datatype effect =
    Indexed string string "json gomap" "go_error option"
  | Published string IndexingEvent "go_error option"

definition recording ::
    "(string \<Rightarrow> string \<Rightarrow> json gomap \<Rightarrow> go_error option) \<Rightarrow> (string \<Rightarrow> IndexingEvent \<Rightarrow> go_error option)
     \<Rightarrow> (string gomap \<Rightarrow> go_error + Principal list) \<Rightarrow> effect list service_deps" where
  "recording answer_index answer_publish principals = \<lparr>
     sd_Index = (\<lambda>i d doc w. (answer_index i d doc, w @ [Indexed i d doc (answer_index i d doc)])),
     sd_Publish = (\<lambda>s e w. (answer_publish s e, w @ [Published s e (answer_publish s e)])),
     sd_ParsePrincipals = principals\<rparr>"

lemma recording_simps [simp]:
  "sd_Index (recording ai ap pp) i d doc w = (ai i d doc, w @ [Indexed i d doc (ai i d doc)])"
  "sd_Publish (recording ai ap pp) s e w = (ap s e, w @ [Published s e (ap s e)])"
  "sd_ParsePrincipals (recording ai ap pp) = pp"
  by (simp_all add: recording_def)

text \<open>C35: whatever the repositories answer, processing a transaction has one of three outcomes: it is
  rejected before any call; the one index call fails and nothing is published; or the document is
  indexed under its own reference first and its event is published second, and then the result is a
  success whatever the publish call answers.\<close>

theorem ProcessTransaction_effects:
  "case ProcessTransaction (recording answer_index answer_publish principals) ft now t index [] of
     (r, err, effects) \<Rightarrow>
       (\<exists>e. err = Some e \<and> effects = [] \<and> pr_Success r = False \<and> pr_DocumentID r = '''') \<or>
       (\<exists>e ref doc. err = Some e \<and> effects = [Indexed index ref doc (Some e)] \<and> pr_Success r = False) \<or>
       (\<exists>body a. err = None \<and> pr_Success r \<and> pr_IndexSuccess r \<and> pr_DocumentID r = b_ObjectRef body \<and>
          effects =
            [Indexed index (b_ObjectRef body) (body_to_json ft body) None,
             Published (BuildEventSubject (b_ObjectType body) (GetCanonicalAction t))
               (indexing_event now body (GetCanonicalAction t)) a])"
proof -
  let ?deps = "recording answer_index answer_publish principals"
  consider (reject) e where "EnrichTransaction ?deps t = Inl e"
    | (nobody) t' e where "EnrichTransaction ?deps t = Inr t'" "GenerateTransactionBody t' = Inl e"
    | (body) t' body where "EnrichTransaction ?deps t = Inr t'" "GenerateTransactionBody t' = Inr body"
    by (cases "EnrichTransaction ?deps t") (auto, metis old.sum.exhaust)
  then show ?thesis
  proof cases
    case (body t' body)
    have act: "GetCanonicalAction t' = GetCanonicalAction t"
      using EnrichTransaction_simps(1) [OF body(1)] by (simp add: GetCanonicalAction_def)
    show ?thesis
      by (cases "answer_index index (b_ObjectRef body) (body_to_json ft body)")
        (auto simp: ProcessTransaction_def body act failed_result_def publishIndexingEvent_def)
  qed (simp_all add: ProcessTransaction_def failed_result_def)
qed

text \<open>Two documents have the same reference only if they have the same type and id, provided the
  object types contain no colon.\<close>

theorem object_ref_injective:
  assumes "GenerateTransactionBody t1 = Inr b1" "GenerateTransactionBody t2 = Inr b2"
    and "CHR '':'' \<notin> set (t_ObjectType t1)" "CHR '':'' \<notin> set (t_ObjectType t2)"
  shows "b_ObjectRef b1 = b_ObjectRef b2 \<longleftrightarrow> b_ObjectType b1 = b_ObjectType b2 \<and> b_ObjectID b1 = b_ObjectID b2"
  using assms(3,4) by (simp add: generated_ref(1,2) [OF assms(1)] generated_ref(1,2) [OF assms(2)] sep_inject)

definition deletion_of :: "string \<Rightarrow> string \<Rightarrow> LFXTransaction" where
  "deletion_of ty objectID = zero_transaction\<lparr>t_Action := ActionDeleted, t_ObjectType := ty,
     t_Data := JStr objectID, t_Headers := Some [(AuthorizationHeader, ''x'')]\<rparr>"

definition enriched_body :: "LFXTransaction \<Rightarrow> go_error + TransactionBody" where
  "enriched_body t =
     rbind (EnrichTransaction (recording (\<lambda>_ _ _. None) (\<lambda>_ _. None) (\<lambda>_. Inr [])) t) GenerateTransactionBody"

lemmas service_defs = EnrichTransaction_def ValidateTransactionAction_def validateV1Action_def
  validateV2Action_def ValidateObjectType_def ValidateTransactionData_def decodeTransactionData_def
  ValidateTransactionHeaders_def validateV1Headers_def validateV2Headers_def parseTransactionData_def
  parsePrincipals_def parseV2Principals_def parseV1Principals_def header_map_def GetCanonicalAction_def
  isCreateAction_def isUpdateAction_def isDeleteAction_def subject_token_rune_def

lemmas body_defs = GenerateTransactionBody_def delete_body_def enrichTransactionData_def
  retain_history_context_def isValidObjectID_def buildTransactionBodyFromIndexingConfig_def Let_def

lemma deletion_example:
  "enriched_body (deletion_of ''a'' ''b:c'') =
     Inr (zero_body\<lparr>b_ObjectType := ''a'', b_ObjectID := ''b:c'', b_ObjectRef := ''a:b:c'',
                    b_Latest := Some True, b_DeletedAt := Some 0\<rparr>)"
  "enriched_body (deletion_of ''a:b'' ''c'') =
     Inr (zero_body\<lparr>b_ObjectType := ''a:b'', b_ObjectID := ''c'', b_ObjectRef := ''a:b:c'',
                    b_Latest := Some True, b_DeletedAt := Some 0\<rparr>)"
  by (simp_all add: enriched_body_def deletion_of_def service_defs body_defs zero_transaction_def
      zero_body_def setPrincipalFields_def base64_decode_def rune_list_all_ascii byte_def go_consts)

text \<open>Without that proviso references do collide: object type validation accepts a colon, so
  deleting object \<open>b:c\<close> of type \<open>a\<close> and deleting object \<open>c\<close> of type \<open>a:b\<close> write the same
  document.\<close>

theorem object_ref_collision:
  "\<exists>b1 b2. enriched_body (deletion_of ''a'' ''b:c'') = Inr b1 \<and>
     enriched_body (deletion_of ''a:b'' ''c'') = Inr b2 \<and>
     b_ObjectRef b1 = b_ObjectRef b2 \<and> b_ObjectType b1 \<noteq> b_ObjectType b2"
  by (simp add: deletion_example)

section \<open>Witnesses\<close>

definition sample_config :: IndexingConfig where
  "sample_config = \<lparr>
     c_ObjectID = ''42'', c_Public = Some True, c_AccessCheckObject = ''project:42'',
     c_AccessCheckRelation = ''viewer'', c_HistoryCheckObject = ''project:42'',
     c_HistoryCheckRelation = ''historian'', c_SortName = ''p'', c_NameAndAliases = [''p''],
     c_ParentRefs = [''project:1''], c_Tags = [''x''], c_Fulltext = ''p'', c_Contacts = []\<rparr>"

definition sample_delete :: LFXTransaction where
  "sample_delete = (deletion_of ''project'' ''42'')\<lparr>t_IndexingConfig := Some sample_config\<rparr>"

definition sample_body :: TransactionBody where
  "sample_body = zero_body\<lparr>b_ObjectType := ''project'', b_ObjectID := ''42'', b_ObjectRef := ''project:42'',
     b_Latest := Some True, b_DeletedAt := Some 0, b_ParentRefs := [''project:1''],
     b_HistoryCheckObject := ''project:42'', b_HistoryCheckRelation := ''historian'',
     b_HistoryCheckQuery := ''project:42#historian''\<rparr>"

definition quiet_deps :: "effect list service_deps" where
  "quiet_deps = recording (\<lambda>_ _ _. None) (\<lambda>_ _. None) (\<lambda>_. Inr [])"

lemma sample_enriched:
  "EnrichTransaction quiet_deps sample_delete = Inr (sample_delete\<lparr>t_ParsedObjectID := ''42''\<rparr>)"
  by (simp add: quiet_deps_def sample_delete_def deletion_of_def service_defs zero_transaction_def
      base64_decode_def rune_list_all_ascii byte_def go_consts)

lemma sample_generated:
  "GenerateTransactionBody (sample_delete\<lparr>t_ParsedObjectID := ''42''\<rparr>) = Inr sample_body"
  by (simp add: sample_delete_def deletion_of_def sample_config_def sample_body_def service_defs body_defs
      zero_transaction_def zero_body_def setPrincipalFields_def rune_list_all_ascii byte_def go_consts
      JoinFgaQuery_def)

theorem event_subject_not_inbound_witness:
  "\<not> subscribed (IndexPrefix @ ''>'') (BuildEventSubject ''project'' ActionDeleted)"
  using event_subject_not_inbound [OF sample_enriched]
  by (simp add: sample_delete_def deletion_of_def GetCanonicalAction_def)

theorem body_identity_witness: "b_ObjectRef sample_body = ''project'' @ '':'' @ ''42''"
  using body_identity [OF sample_generated] by (simp add: sample_body_def)


theorem object_ref_injective_witness:
  "b_ObjectRef sample_body = b_ObjectRef sample_body \<longleftrightarrow>
   b_ObjectType sample_body = b_ObjectType sample_body \<and> b_ObjectID sample_body = b_ObjectID sample_body"
  by (rule object_ref_injective [OF sample_generated sample_generated])
    (simp_all add: sample_delete_def deletion_of_def)

end
