(* ===== verification/Audit_Types.thy ===== *)
theory Audit_Types
  imports Contracts
begin

text \<open>
  pkg/types: the version 2 audit envelope (audit.go, audit_profile.go, audit_json.go,
  audit_builder.go) and its structural validation. Mailbox and URL parsing (\<open>net/mail\<close>,
  \<open>net/url\<close>) are the fields of \<open>text_parsers\<close>; the registered content validator is an argument.
  A \<open>time.Time\<close> is an instant with the offset of its zone.
\<close>

section \<open>Records\<close>

record go_time =
  tm_instant :: int    \<comment> \<open>nanoseconds since the Unix epoch\<close>
  tm_offset :: int     \<comment> \<open>seconds east of UTC\<close>

definition AuditOriginMutation :: string where [go_consts]: "AuditOriginMutation = ''mutation''"
definition AuditOriginReindex :: string where [go_consts]: "AuditOriginReindex = ''reindex''"
definition AuditOriginBackfill :: string where [go_consts]: "AuditOriginBackfill = ''backfill''"
definition AuditOriginSyncEcho :: string where [go_consts]: "AuditOriginSyncEcho = ''sync_echo''"
definition AuditProfileCaptured :: string where [go_consts]: "AuditProfileCaptured = ''captured''"
definition AuditProfileUnavailable :: string where [go_consts]: "AuditProfileUnavailable = ''unavailable''"
definition AuditRepresentationSnapshots :: string where [go_consts]: "AuditRepresentationSnapshots = ''snapshots''"

definition MaxAuditEnvelopeBytes :: nat where
  "MaxAuditEnvelopeBytes = 2 ^ 20"

record AuditActorProfile =
  ap_Availability :: string
  ap_Name :: "string option"
  ap_AvatarURL :: "string option"
  ap_Email :: "string option"
  ap_Username :: "string option"

record AuditAttribution =
  aa_ActorRef :: string
  aa_EffectiveActorRef :: string
  aa_ActorProfile :: "AuditActorProfile option"
  aa_EffectiveActorProfile :: "AuditActorProfile option"

record AuditScope =
  as_Before :: "string list"
  as_After :: "string list"

text \<open>The snapshots are raw JSON text; an absent one is empty.\<close>

record AuditContent =
  ac_Schema :: string
  ac_Representation :: string
  ac_Before :: string
  ac_After :: string

record AuditEvent =
  ae_EventID :: string
  ae_Publisher :: string
  ae_OccurredAt :: go_time
  ae_ResourceRevision :: nat
  ae_Origin :: string
  ae_Attribution :: AuditAttribution
  ae_Scope :: AuditScope
  ae_Content :: "AuditContent option"

record IndexerMessageEnvelope =
  e_SchemaVersion :: int
  e_Audit :: "AuditEvent option"
  e_Action :: message_action
  e_Headers :: "string gomap"
  e_Data :: json
  e_Tags :: "string list"
  e_IndexingConfig :: "IndexingConfig option"

type_synonym content_validator = "string \<Rightarrow> string \<Rightarrow> AuditContent \<Rightarrow> go_error + unit"

section \<open>Grammar\<close>

text \<open>\<open>^[a-z][a-z0-9_-]{0,63}$\<close>, \<open>^[A-Za-z0-9][A-Za-z0-9._-]{0,127}$\<close> and
  \<open>^[a-z][a-z0-9_]{0,63}$\<close>.\<close>

definition auditPublisherPattern :: "string \<Rightarrow> bool" where
  "auditPublisherPattern =
     token_match is_lower (\<lambda>c. is_lower c \<or> is_digit c \<or> c = CHR ''_'' \<or> c = CHR ''-'') 63"

definition auditEventIDPattern :: "string \<Rightarrow> bool" where
  "auditEventIDPattern =
     token_match is_alnum (\<lambda>c. is_alnum c \<or> c = CHR ''.'' \<or> c = CHR ''_'' \<or> c = CHR ''-'') 127"

definition auditObjectPattern :: "string \<Rightarrow> bool" where
  "auditObjectPattern = token_match is_lower (\<lambda>c. is_lower c \<or> is_digit c \<or> c = CHR ''_'') 63"

definition auditRelationPattern :: "string \<Rightarrow> bool" where
  "auditRelationPattern = token_match is_lower (\<lambda>c. is_lower c \<or> is_digit c \<or> c = CHR ''_'') 63"

definition ValidAuditSchemaName :: "string \<Rightarrow> bool" where
  "ValidAuditSchemaName name = auditEventIDPattern name"

definition ValidAuditPublisherName :: "string \<Rightarrow> bool" where
  "ValidAuditPublisherName name = auditPublisherPattern name"

definition ValidAuditObjectType :: "string \<Rightarrow> bool" where
  "ValidAuditObjectType name = (auditObjectPattern name \<and> name \<noteq> ''index'')"

definition RequiresLegacyFence :: "string \<Rightarrow> bool" where
  "RequiresLegacyFence origin =
     (origin = AuditOriginMutation \<or> origin = AuditOriginReindex \<or> origin = AuditOriginSyncEcho)"

definition auditID :: "string \<Rightarrow> bool" where
  "auditID s =
     (\<not> (length s = 0 \<or> length s > 256) \<and>
      list_all (\<lambda>r. \<not> (r < 33 \<or> r > 126 \<or> r \<in> {58, 35, 64, 123, 125})) (rune_list s))"

definition auditRef :: "string \<Rightarrow> bool" where
  "auditRef s =
     (case cut (CHR '':'') s of (kind, objectID, ok) \<Rightarrow> ok \<and> auditObjectPattern kind \<and> auditID objectID)"

definition auditActorRef :: "string \<Rightarrow> bool" where
  "auditActorRef s =
     (case cut (CHR '':'') s of (kind, _, _) \<Rightarrow> (kind = ''user'' \<or> kind = ''service'') \<and> auditRef s)"

section \<open>Profiles\<close>

text \<open>What the code reads of \<open>mail.ParseAddress\<close> (the display name, if the address parses) and of
  \<open>url.Parse\<close>.\<close>

record parsed_url =
  u_Scheme :: string
  u_Hostname :: string
  u_HasUser :: bool
  u_RawQuery :: string
  u_ForceQuery :: bool

record text_parsers =
  parse_mailbox :: "string \<Rightarrow> string option"
  parse_url :: "string \<Rightarrow> parsed_url option"

definition auditProfileText :: "string \<Rightarrow> nat \<Rightarrow> bool" where
  "auditProfileText s limit =
     (\<not> (length s > limit \<or> trim_space s = '''' \<or> \<not> valid_utf8 s) \<and>
      list_all (\<lambda>r. \<not> is_control r) (rune_list s))"

definition profile_attributes :: "AuditActorProfile \<Rightarrow> (string \<times> string option \<times> nat) list" where
  "profile_attributes p =
     [(''name'', ap_Name p, 1024), (''avatar_url'', ap_AvatarURL p, 2048),
      (''email'', ap_Email p, 320), (''username'', ap_Username p, 256)]"

definition check_attribute :: "string \<times> string option \<times> nat \<Rightarrow> go_error + unit" where
  "check_attribute a =
     (case a of (name, v, limit) \<Rightarrow>
        (case v of
           None \<Rightarrow> Inr ()
         | Some s \<Rightarrow> require (auditProfileText s limit) (Errorf (Profile InvalidAttribute) [name])))"

definition attributes_present :: "AuditActorProfile \<Rightarrow> nat" where
  "attributes_present p = length (filter (\<lambda>(_, v, _). v \<noteq> None) (profile_attributes p))"

definition check_email :: "text_parsers \<Rightarrow> string option \<Rightarrow> go_error + unit" where
  "check_email ps email =
     (case email of
        None \<Rightarrow> Inr ()
      | Some e \<Rightarrow>
          (case parse_mailbox ps e of
             None \<Rightarrow> fail (Profile EmailBare)
           | Some name \<Rightarrow>
               if name \<noteq> '''' \<or> trim_space e \<noteq> e then fail (Profile EmailBare)
               else if parse_mailbox ps (''audit <'' @ e @ ''>'') = None then fail (Profile EmailBare)
               else Inr ()))"

definition check_avatar :: "text_parsers \<Rightarrow> string option \<Rightarrow> go_error + unit" where
  "check_avatar ps avatar =
     (case avatar of
        None \<Rightarrow> Inr ()
      | Some a \<Rightarrow>
          (case parse_url ps a of
             None \<Rightarrow> fail (Profile AvatarHttps)
           | Some u \<Rightarrow>
               require (equal_fold (u_Scheme u) ''https'' \<and> u_Hostname u \<noteq> '''' \<and> \<not> u_HasUser u \<and>
                        u_RawQuery u = '''' \<and> \<not> u_ForceQuery u \<and> \<not> contains a ''#'')
                 (Errorf (Profile AvatarHttps) [])))"

definition validateAuditActorProfile ::
    "text_parsers \<Rightarrow> string \<Rightarrow> AuditActorProfile option \<Rightarrow> go_error + unit" where
  "validateAuditActorProfile ps ref profile =
     (if has_prefix ref ''service:'' then
        require (profile = None) (Errorf (Profile ServiceProfile) [])
      else case profile of
        None \<Rightarrow> fail (Profile UserProfileRequired)
      | Some p \<Rightarrow>
          rbind (rforeach check_attribute (profile_attributes p)) (\<lambda>_.
          rbind (if ap_Availability p = AuditProfileCaptured
                 then require (attributes_present p \<noteq> 0) (Errorf (Profile CapturedEmpty) [])
                 else if ap_Availability p = AuditProfileUnavailable
                 then require (attributes_present p = 0) (Errorf (Profile UnavailablePresent) [])
                 else fail (Profile InvalidAvailability)) (\<lambda>_.
          rbind (check_email ps (ap_Email p)) (\<lambda>_. check_avatar ps (ap_AvatarURL p)))))"

text \<open>\<open>sameAuditProfile\<close> compares the five fields, which is equality of the records.\<close>

definition sameAuditProfile :: "AuditActorProfile option \<Rightarrow> AuditActorProfile option \<Rightarrow> bool" where
  "sameAuditProfile a b =
     (case (a, b) of
        (Some p, Some q) \<Rightarrow>
          ap_Availability p = ap_Availability q \<and> ap_Name p = ap_Name q \<and> ap_AvatarURL p = ap_AvatarURL q \<and>
          ap_Email p = ap_Email q \<and> ap_Username p = ap_Username q
      | (None, None) \<Rightarrow> True
      | _ \<Rightarrow> False)"

definition validateProfiles :: "text_parsers \<Rightarrow> AuditAttribution \<Rightarrow> go_error + unit" where
  "validateProfiles ps a =
     rbind (map_err (Wrapf (Profile ActorProfileMsg))
              (validateAuditActorProfile ps (aa_ActorRef a) (aa_ActorProfile a))) (\<lambda>_.
     rbind (map_err (Wrapf (Profile EffectiveProfileMsg))
              (validateAuditActorProfile ps (aa_EffectiveActorRef a) (aa_EffectiveActorProfile a))) (\<lambda>_.
       if aa_ActorRef a = aa_EffectiveActorRef a \<and>
          \<not> sameAuditProfile (aa_ActorProfile a) (aa_EffectiveActorProfile a)
       then fail (Profile ProfilesMismatch) else Inr ()))"

section \<open>JSON shape\<close>

text \<open>\<open>auditJSONFields\<close>: the closed vocabulary of a path, if it has one.\<close>

definition profile_fields :: "string list" where
  "profile_fields = [''availability'', ''name'', ''avatar_url'', ''email'', ''username'']"

definition auditJSONFields :: "string list gomap" where
  "auditJSONFields =
     [('''', [''schema_version'', ''audit'', ''action'', ''headers'', ''data'', ''tags'', ''indexing_config'']),
      (''audit'', [''event_id'', ''publisher'', ''occurred_at'', ''resource_revision'', ''origin'',
                   ''attribution'', ''scope'', ''content'']),
      (''audit.attribution'', [''actor_ref'', ''effective_actor_ref'', ''actor_profile'', ''effective_actor_profile'']),
      (''audit.attribution.actor_profile'', profile_fields),
      (''audit.attribution.effective_actor_profile'', profile_fields),
      (''audit.scope'', [''before'', ''after'']),
      (''audit.content'', [''schema'', ''representation'', ''before'', ''after'']),
      (''indexing_config'', [''object_id'', ''public'', ''access_check_object'', ''access_check_relation'',
         ''history_check_object'', ''history_check_relation'', ''sort_name'', ''name_and_aliases'',
         ''parent_refs'', ''tags'', ''fulltext'', ''contacts'']),
      (''indexing_config.contacts[]'', [''lfx_principal'', ''name'', ''emails'', ''bot'', ''profile''])]"

definition auditOpaqueJSONPath :: string where
  "auditOpaqueJSONPath = [CHR 0x00]"

definition auditJSONChildPath :: "string \<Rightarrow> string \<Rightarrow> string" where
  "auditJSONChildPath path key =
     (if \<not> has_key auditJSONFields path then auditOpaqueJSONPath
      else let next = (if path \<noteq> '''' then path @ ''.'' @ key else key) in
           if has_key auditJSONFields next \<or> next = ''indexing_config.contacts'' then next
           else auditOpaqueJSONPath)"

definition auditJSONElementPath :: "string \<Rightarrow> string" where
  "auditJSONElementPath path =
     (if path = ''indexing_config.contacts'' then ''indexing_config.contacts[]'' else auditOpaqueJSONPath)"

definition is_profile_path :: "string \<Rightarrow> bool" where
  "is_profile_path path =
     (path = ''audit.attribution.actor_profile'' \<or> path = ''audit.attribution.effective_actor_profile'')"

definition auditJSONKeys :: "string \<Rightarrow> string list \<Rightarrow> bool" where
  "auditJSONKeys path ks =
     (distinct ks \<and>
      (case map_of auditJSONFields path of
         None \<Rightarrow> True
       | Some allowed \<Rightarrow> list_all (\<lambda>k. k \<in> set allowed) ks) \<and>
      (is_profile_path path \<longrightarrow> list_all (\<lambda>k. k \<in> set ks) profile_fields))"

text \<open>\<open>auditJSONValue\<close> on the syntax tree, repeated keys included.\<close>

fun auditJSONValue :: "string \<Rightarrow> nat \<Rightarrow> json \<Rightarrow> bool" where
  "auditJSONValue path depth (JObj m) =
     (depth \<le> 64 \<and> auditJSONKeys path (map fst m) \<and>
      list_all (\<lambda>(k, v). auditJSONValue (auditJSONChildPath path k) (Suc depth) v) m)"
| "auditJSONValue path depth (JArr vs) =
     (depth \<le> 64 \<and> list_all (\<lambda>v. auditJSONValue (auditJSONElementPath path) (Suc depth) v) vs)"
| "auditJSONValue path depth v = (depth \<le> 64)"

definition auditJSONShape :: "string \<Rightarrow> bool" where
  "auditJSONShape payload =
     (valid_utf8 payload \<and>
      (case parse_value (payload @ payload) 0 payload of
         Some (v, _) \<Rightarrow> auditJSONValue '''' 0 v
       | None \<Rightarrow> False))"

definition auditJSONObject :: "string \<Rightarrow> bool" where
  "auditJSONObject raw =
     (let t = trim_space raw in
      t \<noteq> [] \<and> hd t = CHR ''{'' \<and> valid_utf8 t \<and>
      (case json_parse t of Some v \<Rightarrow> auditJSONValue auditOpaqueJSONPath 0 v | None \<Rightarrow> False))"

text \<open>\<open>json.Marshal(e.Data)\<close> followed by \<open>auditJSONObject\<close>: a decoded value marshals to valid UTF-8
  text without repeated keys, so that only the object test and the depth bound remain.\<close>

definition data_is_object :: "json \<Rightarrow> bool" where
  "data_is_object v = (as_object v \<noteq> None \<and> auditJSONValue auditOpaqueJSONPath 0 (json_norm v))"

section \<open>Validation of an envelope\<close>

text \<open>The zero \<open>time.Time\<close> is the first instant of year 1, UTC; the year is read in the time's own
  zone and is between 1 and 9999 exactly between the two bounds.\<close>

definition year_one :: int where
  "year_one = - 62135596800 * 10 ^ 9"

definition year_ten_thousand :: int where
  "year_ten_thousand = 253402300800 * 10 ^ 9"

definition valid_occurred_at :: "go_time \<Rightarrow> bool" where
  "valid_occurred_at t =
     (tm_instant t \<noteq> year_one \<and>
      year_one \<le> tm_instant t + tm_offset t * 10 ^ 9 \<and> tm_instant t + tm_offset t * 10 ^ 9 < year_ten_thousand)"

definition MaxInt64 :: nat where
  "MaxInt64 = 9223372036854775807"

definition validateVersion2Action :: "IndexerMessageEnvelope \<Rightarrow> AuditEvent \<Rightarrow> IndexingConfig \<Rightarrow> go_error + unit" where
  "validateVersion2Action e audit config =
     (let before = as_Before (ae_Scope audit); after = as_After (ae_Scope audit);
          data_check = require (data_is_object (e_Data e)) (Errorf (Audit CreateDataObject) []) in
      if e_Action e = ActionCreated then
        rbind (require (before = [] \<and> after \<noteq> []) (Errorf (Audit CreatedScope) [])) (\<lambda>_. data_check)
      else if e_Action e = ActionUpdated then
        rbind (require (before \<noteq> [] \<and> after \<noteq> []) (Errorf (Audit UpdatedScope) [])) (\<lambda>_. data_check)
      else if e_Action e = ActionDeleted then
        rbind (require (as_string (e_Data e) = Some (c_ObjectID config)) (Errorf (Audit DeleteDataMismatch) [])) (\<lambda>_.
          require (before \<noteq> [] \<and> after = []) (Errorf (Audit DeletedScope) []))
      else fail (Audit InvalidVersion2Action))"

definition validateAuditContent ::
    "content_validator option \<Rightarrow> IndexerMessageEnvelope \<Rightarrow> AuditEvent \<Rightarrow> string \<Rightarrow> go_error + unit" where
  "validateAuditContent validate e audit objectType =
     (case ae_Content audit of
        None \<Rightarrow> fail (Audit ContentRequired)
      | Some content \<Rightarrow>
          (let before = (ac_Before content \<noteq> []); after = (ac_After content \<noteq> []) in
           rbind (require (ValidAuditSchemaName (ac_Schema content) \<and>
                           ac_Representation content = AuditRepresentationSnapshots)
                    (Errorf (Audit ContentRequired) [])) (\<lambda>_.
           rbind (require (\<not> ((e_Action e = ActionCreated \<and> (before \<or> \<not> after)) \<or>
                              (e_Action e = ActionUpdated \<and> (\<not> before \<or> \<not> after)) \<or>
                              (e_Action e = ActionDeleted \<and> (\<not> before \<or> after))))
                    (Errorf (Audit SnapshotsAction) [])) (\<lambda>_.
           rbind (require (\<not> ((before \<and> \<not> auditJSONObject (ac_Before content)) \<or>
                              (after \<and> \<not> auditJSONObject (ac_After content))))
                    (Errorf (Audit SnapshotsObjects) [])) (\<lambda>_.
           case validate of
             None \<Rightarrow> fail (Audit ValidatorRequired)
           | Some f \<Rightarrow>
               (case f (ae_Publisher audit) objectType content of
                  Inl _ \<Rightarrow> fail (Audit ValidatorRejected)
                | Inr _ \<Rightarrow> Inr ()))))))"

definition check_config :: "IndexingConfig option \<Rightarrow> go_error + IndexingConfig" where
  "check_config config =
     (case config of
        None \<Rightarrow> fail (Audit ConfigObjectIDRequired)
      | Some c \<Rightarrow>
          rbind (require (auditID (c_ObjectID c)) (Errorf (Audit ConfigObjectIDRequired) [])) (\<lambda>_.
          rbind (require (auditRef (c_AccessCheckObject c) \<and> auditRelationPattern (c_AccessCheckRelation c) \<and>
                          auditRef (c_HistoryCheckObject c) \<and> auditRelationPattern (c_HistoryCheckRelation c))
                   (Errorf (Audit ConcreteAuthorization) [])) (\<lambda>_. Inr c)))"

definition check_audit_identity :: "AuditEvent \<Rightarrow> go_error + unit" where
  "check_audit_identity audit =
     rbind (require (ValidAuditPublisherName (ae_Publisher audit) \<and> auditEventIDPattern (ae_EventID audit))
              (Errorf (Audit InvalidPublisherOrEvent) [])) (\<lambda>_.
     rbind (require (valid_occurred_at (ae_OccurredAt audit)) (Errorf (Audit OccurredAtRequired) [])) (\<lambda>_.
     rbind (require (\<not> (ae_ResourceRevision audit = 0 \<or> ae_ResourceRevision audit > MaxInt64))
              (Errorf (Audit RevisionRange) [])) (\<lambda>_.
     require (auditActorRef (aa_ActorRef (ae_Attribution audit)) \<and>
              auditActorRef (aa_EffectiveActorRef (ae_Attribution audit)))
       (Errorf (Audit ActorRefsRequired) []))))"

definition check_origin ::
    "content_validator option \<Rightarrow> IndexerMessageEnvelope \<Rightarrow> AuditEvent \<Rightarrow> string \<Rightarrow> go_error + unit" where
  "check_origin validate e audit objectType =
     (if ae_Origin audit = AuditOriginMutation then validateAuditContent validate e audit objectType
      else if ae_Origin audit \<in> {AuditOriginReindex, AuditOriginBackfill, AuditOriginSyncEcho}
      then require (ae_Content audit = None) (Errorf (Audit ProjectionContent) [])
      else fail (Audit InvalidOrigin))"

definition validateV2 ::
    "text_parsers \<Rightarrow> content_validator option \<Rightarrow> bool \<Rightarrow> string \<Rightarrow> IndexerMessageEnvelope \<Rightarrow> go_error + unit" where
  "validateV2 ps validate requireAuthentication objectType e =
     (case e_Audit e of
        None \<Rightarrow> fail (Audit SchemaAndAuditRequired)
      | Some audit \<Rightarrow>
          rbind (require (e_SchemaVersion e = AuditSchemaVersion) (Errorf (Audit SchemaAndAuditRequired) [])) (\<lambda>_.
          rbind (require (ValidAuditObjectType objectType) (Errorf (Audit InvalidAuditObjectType) [])) (\<lambda>_.
          rbind (require (\<not> (requireAuthentication \<and>
                             trim_space (case map_of (e_Headers e) AuthorizationHeader of Some h \<Rightarrow> h | None \<Rightarrow> '''') = ''''))
                   (Errorf (Audit HeadersAuthorization) [])) (\<lambda>_.
          rbind (check_config (e_IndexingConfig e)) (\<lambda>config.
          rbind (check_audit_identity audit) (\<lambda>_.
          rbind (validateProfiles ps (ae_Attribution audit)) (\<lambda>_.
          rbind (rforeach (\<lambda>ref. require (auditRef ref) (Errorf (Audit InvalidScopeRef) []))
                   (as_Before (ae_Scope audit) @ as_After (ae_Scope audit))) (\<lambda>_.
          rbind (validateVersion2Action e audit config) (\<lambda>_.
          check_origin validate e audit objectType)))))))))"

definition ValidateV2 ::
    "text_parsers \<Rightarrow> content_validator option \<Rightarrow> string \<Rightarrow> IndexerMessageEnvelope \<Rightarrow> go_error + unit" where
  "ValidateV2 ps validate objectType e = validateV2 ps validate True objectType e"

section \<open>Builders\<close>

definition NewAuditActorProfile ::
    "text_parsers \<Rightarrow> string option \<Rightarrow> string option \<Rightarrow> string option \<Rightarrow> string option \<Rightarrow> go_error + AuditActorProfile" where
  "NewAuditActorProfile ps name avatarURL email username =
     (let profile = \<lparr>
            ap_Availability =
              (if name \<noteq> None \<or> avatarURL \<noteq> None \<or> email \<noteq> None \<or> username \<noteq> None
               then AuditProfileCaptured else AuditProfileUnavailable),
            ap_Name = name, ap_AvatarURL = avatarURL, ap_Email = email, ap_Username = username\<rparr>
      in rbind (validateAuditActorProfile ps ''user:captured'' (Some profile)) (\<lambda>_. Inr profile))"

type_synonym audit_actor = "string \<times> AuditActorProfile option"

definition NewAuditAttribution ::
    "text_parsers \<Rightarrow> audit_actor \<Rightarrow> audit_actor option \<Rightarrow> go_error + AuditAttribution" where
  "NewAuditAttribution ps actor effective0 =
     (let effective = (case effective0 of None \<Rightarrow> actor | Some e \<Rightarrow> e) in
      if \<not> auditActorRef (fst actor) \<or> \<not> auditActorRef (fst effective)
      then fail (Audit ActorRefsRequired)
      else
        let attribution = \<lparr>
              aa_ActorRef = fst actor, aa_EffectiveActorRef = fst effective,
              aa_ActorProfile = snd actor, aa_EffectiveActorProfile = snd effective\<rparr>
        in rbind (validateProfiles ps attribution) (\<lambda>_. Inr attribution))"

definition NewAuditSnapshots :: "string \<Rightarrow> string \<Rightarrow> string \<Rightarrow> go_error + AuditContent" where
  "NewAuditSnapshots schema before after =
     (if \<not> auditEventIDPattern schema then fail (Audit ContentRequired)
      else if (before \<noteq> [] \<and> \<not> auditJSONObject before) \<or> (after \<noteq> [] \<and> \<not> auditJSONObject after)
      then fail (Audit SnapshotsObjects)
      else Inr \<lparr>ac_Schema = schema, ac_Representation = AuditRepresentationSnapshots,
                ac_Before = before, ac_After = after\<rparr>)"

section \<open>Facts on the grammar\<close>

lemma lower_digit_not_colon: "is_lower c \<or> is_digit c \<or> c = CHR ''_'' \<or> c = CHR ''-'' \<Longrightarrow> c \<noteq> CHR '':''"
  by (auto simp: is_lower_def is_digit_def byte_def)

lemma publisher_no_colon: "ValidAuditPublisherName p \<Longrightarrow> CHR '':'' \<notin> set p"
  unfolding ValidAuditPublisherName_def auditPublisherPattern_def
  by (auto dest!: token_match_chars simp: is_lower_def is_digit_def byte_def)

lemma object_pattern_no_colon: "auditObjectPattern k \<Longrightarrow> CHR '':'' \<notin> set k"
  unfolding auditObjectPattern_def
  by (auto dest!: token_match_chars simp: is_lower_def is_digit_def byte_def)

lemma auditID_chars: "auditID s \<Longrightarrow> list_all (\<lambda>c. 33 \<le> byte c \<and> byte c \<le> 126 \<and> byte c \<notin> {58, 35, 64, 123, 125}) s"
  by (simp only: auditID_def printable_runes_iff)

lemma auditID_no_colon: "auditID s \<Longrightarrow> CHR '':'' \<notin> set s"
  using auditID_chars [of s] by (auto simp: list_all_iff byte_def)

lemma auditRef_shape:
  "auditRef s \<longleftrightarrow> (\<exists>kind i. s = kind @ CHR '':'' # i \<and> auditObjectPattern kind \<and> auditID i)"
proof
  assume "auditRef s"
  then show "\<exists>kind i. s = kind @ CHR '':'' # i \<and> auditObjectPattern kind \<and> auditID i"
    by (auto simp: auditRef_def split: prod.splits dest: cut_found)
next
  assume "\<exists>kind i. s = kind @ CHR '':'' # i \<and> auditObjectPattern kind \<and> auditID i"
  then show "auditRef s" by (auto simp: auditRef_def cut_first object_pattern_no_colon)
qed

section \<open>Facts on validation\<close>

lemma validateV2_Inr:
  assumes "validateV2 ps validate auth objectType e = Inr ()"
  obtains audit config where "e_Audit e = Some audit" "e_IndexingConfig e = Some config"
    "ValidAuditObjectType objectType" "auditID (c_ObjectID config)" "check_audit_identity audit = Inr ()"
    "validateVersion2Action e audit config = Inr ()" "check_origin validate e audit objectType = Inr ()"
    "validateProfiles ps (ae_Attribution audit) = Inr ()"
  using assms that
  by (auto simp: validateV2_def check_config_def rbind_Inr_conv require_Inr_conv split: option.splits)

lemma keep_last_distinct: "distinct (map fst m) \<Longrightarrow> keep_last m = m"
  by (induction m rule: keep_last.induct) (auto simp: has_key_conv)

lemma auditJSONValue_norm: "auditJSONValue path depth v \<Longrightarrow> json_norm v = v"
proof (induction path depth v rule: auditJSONValue.induct)
  case (1 path depth m)
  then have "map (\<lambda>(k, v). (k, json_norm v)) m = m"
    by (intro map_idI) (fastforce simp: list_all_iff)
  then show ?case using 1 by (simp add: auditJSONKeys_def keep_last_distinct)
next
  case (2 path depth vs)
  then have "map json_norm vs = vs" by (intro map_idI) (auto simp: list_all_iff)
  then show ?case by simp
qed simp_all

text \<open>Nesting of a value: a scalar has depth zero.\<close>

fun json_depth :: "json \<Rightarrow> nat" where
  "json_depth (JObj m) = fold max (map (\<lambda>(k, v). Suc (json_depth v)) m) 0"
| "json_depth (JArr vs) = fold max (map (\<lambda>v. Suc (json_depth v)) vs) 0"
| "json_depth _ = 0"

lemma fold_max_le: "(\<And>x. x \<in> set xs \<Longrightarrow> x \<le> n) \<Longrightarrow> a \<le> n \<Longrightarrow> fold max xs a \<le> (n::nat)"
  by (induction xs arbitrary: a) simp_all

lemma auditJSONValue_depth: "auditJSONValue path depth v \<Longrightarrow> depth + json_depth v \<le> 64"
proof (induction path depth v rule: auditJSONValue.induct)
  case (1 path depth m)
  have "fold max (map (\<lambda>(k, v). Suc (json_depth v)) m) 0 \<le> 64 - depth"
    using 1 by (intro fold_max_le) (fastforce simp: list_all_iff)+
  moreover have "depth \<le> 64" using "1.prems" by simp
  ultimately show ?case by simp
next
  case (2 path depth vs)
  have "fold max (map (\<lambda>v. Suc (json_depth v)) vs) 0 \<le> 64 - depth"
    using 2 by (intro fold_max_le) (fastforce simp: list_all_iff)+
  moreover have "depth \<le> 64" using "2.prems" by simp
  ultimately show ?case by simp
qed simp_all

section \<open>Properties\<close>

text \<open>The storage identity \<open>publisher:event_id\<close> is collision free over valid names: two of them
  are equal exactly when publisher and event are.\<close>

theorem audit_identity_injective:
  assumes "ValidAuditPublisherName p1" "ValidAuditPublisherName p2"
  shows "p1 @ '':'' @ e1 = p2 @ '':'' @ e2 \<longleftrightarrow> p1 = p2 \<and> e1 = e2"
  using sep_inject [of "CHR '':''" p1 p2 e1 e2] publisher_no_colon assms by simp

text \<open>A payload that passes the shape check has no repeated key at any depth, so every decoder
  reads the same object from it, and is nested at most 64 deep.\<close>

lemma auditJSONShape_sound:
  assumes "auditJSONShape payload"
  shows "\<exists>v rest. parse_value (payload @ payload) 0 payload = Some (v, rest) \<and> json_norm v = v \<and> json_depth v \<le> 64"
proof -
  obtain v rest where "parse_value (payload @ payload) 0 payload = Some (v, rest)" "auditJSONValue '''' 0 v"
    using assms by (auto simp: auditJSONShape_def split: option.splits)
  then show ?thesis using auditJSONValue_norm auditJSONValue_depth [of "''''" 0 v] by auto
qed

text \<open>C31: a validated envelope names a resource without ambiguity and is coherent: its revision fits
  a signed 64-bit integer and is positive, a delete carries the configured id as its data and only a
  before scope, a create only an after scope, an update both; a projection-only origin has no
  content and a mutation has content that the registered validator accepted.\<close>

theorem validateV2_coherent:
  assumes "validateV2 ps (Some validate) auth objectType e = Inr ()"
  shows "\<exists>audit config. e_Audit e = Some audit \<and> e_IndexingConfig e = Some config \<and>
    1 \<le> ae_ResourceRevision audit \<and> ae_ResourceRevision audit < 2 ^ 63 \<and>
    CHR '':'' \<notin> set objectType \<and> CHR '':'' \<notin> set (c_ObjectID config) \<and>
    e_Action e \<in> {ActionCreated, ActionUpdated, ActionDeleted} \<and>
    (as_Before (ae_Scope audit) = [] \<longleftrightarrow> e_Action e = ActionCreated) \<and>
    (as_After (ae_Scope audit) = [] \<longleftrightarrow> e_Action e = ActionDeleted) \<and>
    (e_Action e = ActionDeleted \<longleftrightarrow> e_Data e = JStr (c_ObjectID config)) \<and>
    (ae_Origin audit \<noteq> AuditOriginMutation \<longleftrightarrow> ae_Content audit = None) \<and>
    (\<forall>content. ae_Content audit = Some content \<longrightarrow> validate (ae_Publisher audit) objectType content = Inr ())"
proof -
  from assms obtain audit config where v: "e_Audit e = Some audit" "e_IndexingConfig e = Some config"
    "ValidAuditObjectType objectType" "auditID (c_ObjectID config)" "check_audit_identity audit = Inr ()"
    "validateVersion2Action e audit config = Inr ()" "check_origin (Some validate) e audit objectType = Inr ()"
    by (rule validateV2_Inr)
  have rev: "1 \<le> ae_ResourceRevision audit" "ae_ResourceRevision audit < 2 ^ 63"
    using v(5) by (auto simp: check_audit_identity_def rbind_Inr_conv require_Inr_conv MaxInt64_def)
  have colon: "CHR '':'' \<notin> set objectType" "CHR '':'' \<notin> set (c_ObjectID config)"
    using v(3,4) object_pattern_no_colon auditID_no_colon by (auto simp: ValidAuditObjectType_def)
  have act: "e_Action e \<in> {ActionCreated, ActionUpdated, ActionDeleted}"
    "as_Before (ae_Scope audit) = [] \<longleftrightarrow> e_Action e = ActionCreated"
    "as_After (ae_Scope audit) = [] \<longleftrightarrow> e_Action e = ActionDeleted"
    "e_Action e = ActionDeleted \<longleftrightarrow> e_Data e = JStr (c_ObjectID config)"
    using v(6) by (auto simp: validateVersion2Action_def rbind_Inr_conv require_Inr_conv Let_def
        data_is_object_def split: if_splits)
  have content: "ae_Origin audit \<noteq> AuditOriginMutation \<longleftrightarrow> ae_Content audit = None"
    "ae_Content audit = Some c \<Longrightarrow> validate (ae_Publisher audit) objectType c = Inr ()" for c
    using v(7) by (auto simp: check_origin_def validateAuditContent_def rbind_Inr_conv require_Inr_conv
        Let_def split: if_splits option.splits sum.splits)
  show ?thesis
    by (intro exI [of _ audit] exI [of _ config] conjI allI impI) (use v(1,2) rev colon act content in simp_all)
qed

text \<open>What the profile builder returns is accepted by the validator for every user actor, and is
  marked captured exactly when it has an attribute.\<close>

theorem NewAuditActorProfile_valid:
  assumes "NewAuditActorProfile ps name avatar email username = Inr p" "\<not> has_prefix ref ''service:''"
  shows "validateAuditActorProfile ps ref (Some p) = Inr () \<and>
    (ap_Availability p = AuditProfileCaptured \<longleftrightarrow> attributes_present p \<noteq> 0)"
proof -
  have "\<not> has_prefix ''user:captured'' ''service:''" by (simp add: has_prefix_def)
  then have val: "validateAuditActorProfile ps ref (Some p) = Inr ()"
    using assms by (auto simp: NewAuditActorProfile_def rbind_Inr_conv Let_def validateAuditActorProfile_def)
  moreover have "ap_Availability p = AuditProfileCaptured \<longleftrightarrow> attributes_present p \<noteq> 0"
    using assms(1)
    by (auto simp: NewAuditActorProfile_def rbind_Inr_conv Let_def attributes_present_def profile_attributes_def
        AuditProfileCaptured_def AuditProfileUnavailable_def)
  ultimately show ?thesis by blast
qed

section \<open>Witnesses\<close>

lemmas grammar_defs = ValidAuditObjectType_def ValidAuditPublisherName_def ValidAuditSchemaName_def
  auditPublisherPattern_def auditEventIDPattern_def auditObjectPattern_def auditRelationPattern_def
  auditID_def auditRef_def auditActorRef_def is_lower_def is_upper_def is_digit_def is_alnum_def

theorem audit_identity_injective_witness:
  "''a'' @ '':'' @ ''b:c'' = ''a'' @ '':'' @ ''b:c'' \<longleftrightarrow> ''a'' = ''a'' \<and> ''b:c'' = ''b:c''"
  by (rule audit_identity_injective) (simp_all add: grammar_defs byte_def)

lemma parse_empty_object: "parse_value (''{}'' @ ''{}'') 0 ''{}'' = Some (JObj [], [])"
  by (simp add: parse_value.simps skip_space_def is_json_space_def byte_def max_depth_def)

lemma valid_utf8_ascii: "list_all (\<lambda>c. byte c < 128) s \<Longrightarrow> valid_utf8 s"
  by (auto simp: valid_utf8_def runes_all_ascii list_all_iff rune_error_def)

lemma empty_object_shape: "auditJSONShape ''{}''"
  using parse_empty_object valid_utf8_ascii [of "''{}''"]
  by (simp add: auditJSONShape_def auditJSONKeys_def is_profile_path_def byte_def split: option.splits)

definition sample_parsers :: text_parsers where
  "sample_parsers = \<lparr>parse_mailbox = (\<lambda>s. Some ''''), parse_url = (\<lambda>s. None)\<rparr>"

definition sample_audit :: AuditEvent where
  "sample_audit = \<lparr>
     ae_EventID = ''e1'', ae_Publisher = ''proj'', ae_OccurredAt = \<lparr>tm_instant = 0, tm_offset = 0\<rparr>,
     ae_ResourceRevision = 3, ae_Origin = AuditOriginReindex,
     ae_Attribution = \<lparr>aa_ActorRef = ''service:s'', aa_EffectiveActorRef = ''service:s'',
                       aa_ActorProfile = None, aa_EffectiveActorProfile = None\<rparr>,
     ae_Scope = \<lparr>as_Before = [''project:1''], as_After = []\<rparr>, ae_Content = None\<rparr>"

definition sample_v2_config :: IndexingConfig where
  "sample_v2_config = \<lparr>
     c_ObjectID = ''42'', c_Public = None, c_AccessCheckObject = ''project:42'',
     c_AccessCheckRelation = ''viewer'', c_HistoryCheckObject = ''project:42'',
     c_HistoryCheckRelation = ''historian'', c_SortName = '''', c_NameAndAliases = [],
     c_ParentRefs = [], c_Tags = [], c_Fulltext = '''', c_Contacts = []\<rparr>"

definition sample_envelope :: IndexerMessageEnvelope where
  "sample_envelope = \<lparr>
     e_SchemaVersion = 2, e_Audit = Some sample_audit, e_Action = ActionDeleted,
     e_Headers = [(AuthorizationHeader, ''Bearer t'')], e_Data = JStr ''42'', e_Tags = [],
     e_IndexingConfig = Some sample_v2_config\<rparr>"

lemma trim_space_bearer: "trim_space ''Bearer t'' \<noteq> []"
proof -
  have "runes ''Bearer t'' = map (\<lambda>c. (byte c, [c])) ''Bearer t''"
    by (rule runes_all_ascii) (simp add: byte_def)
  then show ?thesis by (simp add: trim_space_def byte_def is_space_def)
qed

lemma sample_envelope_checks:
  "validateV2 sample_parsers validate True ''project'' sample_envelope = Inr ()"
  using trim_space_bearer
  by (simp add: validateV2_def sample_envelope_def sample_audit_def sample_v2_config_def AuditSchemaVersion_def
      grammar_defs rune_list_all_ascii byte_def check_config_def check_audit_identity_def valid_occurred_at_def
      year_one_def year_ten_thousand_def MaxInt64_def validateProfiles_def validateAuditActorProfile_def
      has_prefix_def sameAuditProfile_def validateVersion2Action_def check_origin_def go_consts)

lemma sample_envelope_valid:
  "validateV2 sample_parsers (Some (\<lambda>_ _ _. Inr ())) True ''project'' sample_envelope = Inr ()"
  by (rule sample_envelope_checks)

theorem validateV2_coherent_witness:
  "\<exists>audit config. e_Audit sample_envelope = Some audit \<and> e_IndexingConfig sample_envelope = Some config \<and>
     1 \<le> ae_ResourceRevision audit \<and> as_After (ae_Scope audit) = []"
  using validateV2_coherent [OF sample_envelope_valid] by (auto simp: sample_envelope_def)

theorem NewAuditActorProfile_valid_witness:
  "\<exists>p. NewAuditActorProfile sample_parsers None None None None = Inr p \<and>
     validateAuditActorProfile sample_parsers ''user:1'' (Some p) = Inr ()"
proof -
  obtain p where p: "NewAuditActorProfile sample_parsers None None None None = Inr p"
    by (simp add: NewAuditActorProfile_def validateAuditActorProfile_def has_prefix_def profile_attributes_def
        check_attribute_def attributes_present_def check_email_def check_avatar_def
        AuditProfileCaptured_def AuditProfileUnavailable_def)
  moreover have "\<not> has_prefix ''user:1'' ''service:''" by (simp add: has_prefix_def)
  ultimately show ?thesis using NewAuditActorProfile_valid by blast
qed

end
