(* ===== verification/Audit_Projection.thy ===== *)
theory Audit_Projection
  imports Contracts
begin

text \<open>
  The guarded current-resource write of internal/infrastructure/storage/audit_projection.go: the
  painless script that compares source revisions on the primary shard, and what any sequence of
  deliveries leaves in the index. The document itself is a parameter \<open>'d\<close>. The script's fields of
  \<open>ctx._source\<close> are the fields of \<open>source\<close>; a field that is absent is \<open>None\<close>, and an absent
  document (\<open>ctx.op == 'create'\<close>) is an absent \<open>source\<close>. Comparison of strings is the order of
  their characters; every string compared is ASCII.
\<close>

section \<open>The script\<close>

record 'd script_params =
  sp_revision :: int
  sp_identity :: string
  sp_fingerprint :: string
  sp_projection_only :: bool
  sp_order_time :: string
  sp_bootstrap :: bool
  sp_document :: 'd

record 'd source =
  s_document :: 'd
  s_revision :: "int option"
  s_event_key :: "string option"
  s_event_fingerprint :: "string option"
  s_mutation_key :: "string option"
  s_mutation_fingerprint :: "string option"
  s_order_time :: "string option"
  s_order_key :: "string option"

datatype script_error = LegacyDocument | ProjectionIdentityReused | EqualRevisionDiffers

datatype 'd outcome = Noop | Throw script_error | Write "'d source"

text \<open>Lines 61 to 79: the replacement of the whole document.\<close>

definition replace_source :: "'d script_params \<Rightarrow> 'd source option \<Rightarrow> 'd source" where
  "replace_source p src =
     (let previousMutationKey = Option.bind src s_mutation_key;
          previousMutationFingerprint = Option.bind src s_mutation_fingerprint;
          sameRevision = (Option.bind src s_revision = Some (sp_revision p))
      in \<lparr>s_document = sp_document p,
          s_revision = Some (sp_revision p),
          s_event_key = Some (sp_identity p),
          s_event_fingerprint = Some (sp_fingerprint p),
          s_mutation_key =
            (if \<not> sp_projection_only p then Some (sp_identity p)
             else if sameRevision then previousMutationKey else None),
          s_mutation_fingerprint =
            (if \<not> sp_projection_only p then Some (sp_fingerprint p)
             else if sameRevision \<and> previousMutationKey \<noteq> None then previousMutationFingerprint
             else None),
          s_order_time = (if sp_projection_only p then Some (sp_order_time p) else None),
          s_order_key = (if sp_projection_only p then Some (sp_identity p) else None)\<rparr>)"

text \<open>Lines 34 to 59: a delivery whose revision is the stored one.\<close>

definition equal_revision :: "'d script_params \<Rightarrow> 'd source \<Rightarrow> 'd outcome" where
  "equal_revision p s =
     (if sp_projection_only p \<and> s_event_key s = Some (sp_identity p) \<and>
         s_event_fingerprint s \<noteq> Some (sp_fingerprint p)
      then Throw ProjectionIdentityReused
      else if s_event_key s = Some (sp_identity p) \<and> s_event_fingerprint s = Some (sp_fingerprint p)
      then Noop
      else if \<not> sp_projection_only p then
        (if s_mutation_key s \<noteq> None then
           (if s_mutation_key s = Some (sp_identity p) \<and>
               s_mutation_fingerprint s = Some (sp_fingerprint p)
            then Noop else Throw EqualRevisionDiffers)
         else if s_order_time s \<noteq> None then
           Write (s\<lparr>s_mutation_key := Some (sp_identity p),
                    s_mutation_fingerprint := Some (sp_fingerprint p)\<rparr>)
         else Write (replace_source p (Some s)))
      else
        (case s_order_time s of
           Some t \<Rightarrow>
             (if sp_order_time p < t \<or>
                 (sp_order_time p = t \<and> (case s_order_key s of Some k \<Rightarrow> sp_identity p \<le> k | None \<Rightarrow> False))
              then Noop else Write (replace_source p (Some s)))
         | None \<Rightarrow> Write (replace_source p (Some s))))"

definition auditProjectionScript :: "'d script_params \<Rightarrow> 'd source option \<Rightarrow> 'd outcome" where
  "auditProjectionScript p src =
     (case src of
        None \<Rightarrow> Write (replace_source p None)
      | Some s \<Rightarrow>
          (case s_revision s of
             None \<Rightarrow>
               if \<not> sp_bootstrap p then Throw LegacyDocument else Write (replace_source p (Some s))
           | Some previous \<Rightarrow>
               if sp_revision p < previous then Noop
               else if sp_revision p = previous then equal_revision p s
               else Write (replace_source p (Some s))))"

text \<open>What the primary shard stores after running the script: an error or no-op keeps the document.\<close>

definition deliver :: "'d script_params \<Rightarrow> 'd source option \<Rightarrow> 'd source option" where
  "deliver p src =
     (case auditProjectionScript p src of Write s \<Rightarrow> Some s | _ \<Rightarrow> src)"

section \<open>An interface for replayed deliveries\<close>

text \<open>
  A register that a set of deliveries determines: \<open>represents D s\<close> says that \<open>s\<close> is what the
  deliveries \<open>D\<close> leave, for the sets that \<open>admissible\<close> allows. If every delivery keeps this relation
  and the relation determines the state, then the order and the number of deliveries do not matter.
\<close>

locale delivered_register =
  fixes step :: "'p \<Rightarrow> 's \<Rightarrow> 's"
    and init :: 's
    and admissible :: "'p set \<Rightarrow> bool"
    and represents :: "'p set \<Rightarrow> 's \<Rightarrow> bool"
  assumes represents_init: "represents {} init"
    and represents_step: "admissible (insert p D) \<Longrightarrow> represents D s \<Longrightarrow> represents (insert p D) (step p s)"
    and represents_determines: "admissible D \<Longrightarrow> represents D s \<Longrightarrow> represents D s' \<Longrightarrow> s = s'"
    and admissible_subset: "admissible D \<Longrightarrow> C \<subseteq> D \<Longrightarrow> admissible C"
begin

lemma run_represents: "admissible (set ps) \<Longrightarrow> represents (set ps) (fold step ps init)"
proof (induction ps rule: rev_induct)
  case Nil
  then show ?case by (simp add: represents_init)
next
  case (snoc p ps)
  have "admissible (set ps)" using snoc.prems by (rule admissible_subset) auto
  then show ?case using represents_step [of p "set ps"] snoc by simp
qed

lemma convergence:
  assumes "admissible (set ps)" "set ps = set qs"
  shows "fold step ps init = fold step qs init"
  using assms run_represents [of ps] run_represents [of qs] represents_determines by metis

lemma replay_absorbed:
  assumes "admissible (set ps)" "set qs \<subseteq> set ps"
  shows "fold step qs (fold step ps init) = fold step ps init"
  using convergence [of "ps @ qs" ps] assms by (simp add: sup_absorb1)

end

section \<open>What a set of deliveries leaves\<close>

text \<open>Deliveries are consistent when an identity names one delivery (the receipts guarantee it) and a
  revision has one mutation.\<close>

definition consistent :: "'d script_params set \<Rightarrow> bool" where
  "consistent D =
     ((\<forall>p\<in>D. \<forall>q\<in>D. sp_identity p = sp_identity q \<longrightarrow> p = q) \<and>
      (\<forall>p\<in>D. \<forall>q\<in>D. \<not> sp_projection_only p \<and> \<not> sp_projection_only q \<and> sp_revision p = sp_revision q \<longrightarrow> p = q))"

text \<open>The last projection of a revision, in the order of source time and then identity.\<close>

definition last_projection :: "'d script_params set \<Rightarrow> int \<Rightarrow> 'd script_params \<Rightarrow> bool" where
  "last_projection D r w =
     (w \<in> D \<and> sp_revision w = r \<and> sp_projection_only w \<and>
      (\<forall>p\<in>D. sp_revision p = r \<and> sp_projection_only p \<longrightarrow>
         sp_order_time p < sp_order_time w \<or>
         (sp_order_time p = sp_order_time w \<and> sp_identity p \<le> sp_identity w)))"

definition mutation_of :: "'d script_params set \<Rightarrow> int \<Rightarrow> 'd script_params \<Rightarrow> bool" where
  "mutation_of D r m = (m \<in> D \<and> sp_revision m = r \<and> \<not> sp_projection_only m)"

text \<open>The stored document: the highest revision; the body of its last projection, or of its mutation
  when it has no projection; the mutation's identity when it has one.\<close>

definition body_left :: "'d script_params set \<Rightarrow> int \<Rightarrow> 'd source \<Rightarrow> bool" where
  "body_left D r s =
     (\<exists>w. (if s_order_time s = None
           then mutation_of D r w \<and> (\<forall>p\<in>D. sp_revision p = r \<longrightarrow> \<not> sp_projection_only p) \<and> s_order_key s = None
           else last_projection D r w \<and> s_order_time s = Some (sp_order_time w) \<and>
                s_order_key s = Some (sp_identity w)) \<and>
          s_document s = sp_document w \<and> s_event_key s = Some (sp_identity w) \<and>
          s_event_fingerprint s = Some (sp_fingerprint w))"

definition mutation_left :: "'d script_params set \<Rightarrow> int \<Rightarrow> 'd source \<Rightarrow> bool" where
  "mutation_left D r s =
     (if s_mutation_key s = None
      then (\<forall>m. \<not> mutation_of D r m) \<and> s_mutation_fingerprint s = None
      else (\<exists>m. mutation_of D r m \<and> s_mutation_key s = Some (sp_identity m) \<and>
                s_mutation_fingerprint s = Some (sp_fingerprint m)))"

definition leaves :: "'d script_params set \<Rightarrow> 'd source option \<Rightarrow> bool" where
  "leaves D src =
     (case src of
        None \<Rightarrow> D = {}
      | Some s \<Rightarrow> (\<exists>r. s_revision s = Some r \<and> (\<forall>p\<in>D. sp_revision p \<le> r) \<and> body_left D r s \<and> mutation_left D r s))"

section \<open>Every delivery keeps the relation\<close>

lemma consistent_subset: "consistent D \<Longrightarrow> C \<subseteq> D \<Longrightarrow> consistent C"
  unfolding consistent_def by blast

lemma consistent_identity: "consistent D \<Longrightarrow> p \<in> D \<Longrightarrow> q \<in> D \<Longrightarrow> sp_identity p = sp_identity q \<Longrightarrow> p = q"
  unfolding consistent_def by blast

lemma consistent_mutation: "consistent D \<Longrightarrow> mutation_of D r m \<Longrightarrow> mutation_of D r m' \<Longrightarrow> m = m'"
  unfolding consistent_def mutation_of_def by blast

lemma leaves_Some:
  "leaves D (Some s) \<longleftrightarrow>
   (\<exists>r. s_revision s = Some r \<and> (\<forall>p\<in>D. sp_revision p \<le> r) \<and> body_left D r s \<and> mutation_left D r s)"
  by (simp add: leaves_def)

lemma body_left_mutation:
  "mutation_of D r w \<Longrightarrow> \<forall>p\<in>D. sp_revision p = r \<longrightarrow> \<not> sp_projection_only p \<Longrightarrow> s_order_time s = None \<Longrightarrow>
   s_order_key s = None \<Longrightarrow> s_document s = sp_document w \<Longrightarrow> s_event_key s = Some (sp_identity w) \<Longrightarrow>
   s_event_fingerprint s = Some (sp_fingerprint w) \<Longrightarrow> body_left D r s"
  unfolding body_left_def by (intro exI [of _ w]) simp

lemma body_left_projection:
  "last_projection D r w \<Longrightarrow> s_order_time s = Some (sp_order_time w) \<Longrightarrow> s_order_key s = Some (sp_identity w) \<Longrightarrow>
   s_document s = sp_document w \<Longrightarrow> s_event_key s = Some (sp_identity w) \<Longrightarrow>
   s_event_fingerprint s = Some (sp_fingerprint w) \<Longrightarrow> body_left D r s"
  unfolding body_left_def by (intro exI [of _ w]) simp

lemma body_left_cases:
  assumes "body_left D r s"
  obtains (mutation) w where "mutation_of D r w" "\<forall>p\<in>D. sp_revision p = r \<longrightarrow> \<not> sp_projection_only p"
      "s_order_time s = None" "s_order_key s = None" "s_document s = sp_document w"
      "s_event_key s = Some (sp_identity w)" "s_event_fingerprint s = Some (sp_fingerprint w)"
  | (projection) w where "last_projection D r w" "s_order_time s = Some (sp_order_time w)"
      "s_order_key s = Some (sp_identity w)" "s_document s = sp_document w"
      "s_event_key s = Some (sp_identity w)" "s_event_fingerprint s = Some (sp_fingerprint w)"
  using assms unfolding body_left_def by (cases "s_order_time s = None") auto

lemma mutation_of_in: "mutation_of D r w \<Longrightarrow> w \<in> D"
  by (simp add: mutation_of_def)

lemma last_projection_in: "last_projection D r w \<Longrightarrow> w \<in> D"
  by (simp add: last_projection_def)

lemma mutation_of_insert:
  "mutation_of (insert p D) r m \<longleftrightarrow> (m = p \<and> sp_revision p = r \<and> \<not> sp_projection_only p) \<or> mutation_of D r m"
  by (auto simp: mutation_of_def)

text \<open>A lower revision changes nothing.\<close>

lemma leaves_lower:
  assumes "leaves D (Some s)" "s_revision s = Some r" "sp_revision p < r"
  shows "leaves (insert p D) (Some s)"
proof -
  have "last_projection (insert p D) r = last_projection D r" "mutation_of (insert p D) r = mutation_of D r"
    using assms(3) by (auto simp: fun_eq_iff last_projection_def mutation_of_def)
  moreover have "(\<forall>q\<in>insert p D. sp_revision q = r \<longrightarrow> \<not> sp_projection_only q) \<longleftrightarrow>
      (\<forall>q\<in>D. sp_revision q = r \<longrightarrow> \<not> sp_projection_only q)" using assms(3) by auto
  ultimately have "body_left (insert p D) r s = body_left D r s" "mutation_left (insert p D) r s = mutation_left D r s"
    by (simp_all only: body_left_def mutation_left_def)
  then show ?thesis using assms by (auto simp: leaves_Some)
qed

text \<open>A replacement by a delivery above everything delivered before.\<close>

lemma leaves_higher:
  assumes "\<forall>q\<in>D. sp_revision q < sp_revision p" "Option.bind src s_revision \<noteq> Some (sp_revision p)"
  shows "leaves (insert p D) (Some (replace_source p src))"
proof -
  let ?r = "sp_revision p"
  have mut: "mutation_of (insert p D) ?r m \<longleftrightarrow> m = p \<and> \<not> sp_projection_only p" for m
    using assms(1) by (auto simp: mutation_of_def)
  have "body_left (insert p D) ?r (replace_source p src)"
  proof (cases "sp_projection_only p")
    case True
    then have "last_projection (insert p D) ?r p" using assms(1) by (auto simp: last_projection_def)
    then show ?thesis by (rule body_left_projection) (simp_all add: replace_source_def Let_def True)
  next
    case False
    then have "mutation_of (insert p D) ?r p" "\<forall>q\<in>insert p D. sp_revision q = ?r \<longrightarrow> \<not> sp_projection_only q"
      using assms(1) by (auto simp: mut)
    then show ?thesis by (rule body_left_mutation) (simp_all add: replace_source_def Let_def False)
  qed
  moreover have "mutation_left (insert p D) ?r (replace_source p src)"
    using assms(2) by (auto simp: mutation_left_def mut replace_source_def Let_def)
  moreover have "\<forall>q\<in>insert p D. sp_revision q \<le> ?r" using assms(1) by auto
  ultimately show ?thesis by (auto simp: leaves_Some replace_source_def Let_def)
qed

lemma event_key_owner:
  assumes "body_left D r s" "consistent (insert p D)" "s_event_key s = Some (sp_identity p)"
  shows "p \<in> D" "s_event_fingerprint s = Some (sp_fingerprint p)"
proof -
  obtain w where "w \<in> D" "s_event_key s = Some (sp_identity w)" "s_event_fingerprint s = Some (sp_fingerprint w)"
    using assms(1) by (cases rule: body_left_cases) (blast dest: mutation_of_in last_projection_in)+
  moreover have "w = p"
    using consistent_identity [OF assms(2), of w p] assms(3) calculation(1,2) by auto
  ultimately show "p \<in> D" "s_event_fingerprint s = Some (sp_fingerprint p)" by auto
qed

lemma equal_revision_mutation:
  assumes lv: "body_left D r s" "mutation_left D r s" "s_revision s = Some r" "\<forall>q\<in>D. sp_revision q \<le> r"
    and con: "consistent (insert p D)" and p: "sp_revision p = r" "\<not> sp_projection_only p" "p \<notin> D"
  shows "s_mutation_key s = None"
    "leaves (insert p D) (Some (s\<lparr>s_mutation_key := Some (sp_identity p), s_mutation_fingerprint := Some (sp_fingerprint p)\<rparr>))"
    "s_order_time s \<noteq> None"
proof -
  have none: "\<not> mutation_of D r m" for m
    using consistent_mutation [OF con, of r m p] p by (auto simp: mutation_of_def)
  then show "s_mutation_key s = None" using lv(2) by (auto simp: mutation_left_def split: if_splits)
  show ot: "s_order_time s \<noteq> None" using lv(1) none by (cases rule: body_left_cases) auto
  have lp: "last_projection (insert p D) r w \<longleftrightarrow> last_projection D r w" for w
    using p by (auto simp: last_projection_def)
  have "body_left (insert p D) r (s\<lparr>s_mutation_key := Some (sp_identity p), s_mutation_fingerprint := Some (sp_fingerprint p)\<rparr>)"
    using lv(1)
  proof (cases rule: body_left_cases)
    case (projection w)
    then show ?thesis using lp by (intro body_left_projection [of _ _ w]) simp_all
  qed (use none in simp)
  then show "leaves (insert p D) (Some (s\<lparr>s_mutation_key := Some (sp_identity p), s_mutation_fingerprint := Some (sp_fingerprint p)\<rparr>))"
    using lv(3,4) p by (auto simp: leaves_Some mutation_left_def mutation_of_insert)
qed

text \<open>A projection of the stored revision: refused when it is not later, otherwise the new body.\<close>

lemma equal_revision_projection_keep:
  assumes lv: "body_left D r s" "mutation_left D r s" "s_revision s = Some r" "\<forall>q\<in>D. sp_revision q \<le> r"
    and p: "sp_revision p = r" "sp_projection_only p"
    and le: "s_order_time s = Some t" "s_order_key s = Some k" "sp_order_time p < t \<or> (sp_order_time p = t \<and> sp_identity p \<le> k)"
  shows "leaves (insert p D) (Some s)"
proof -
  have "last_projection (insert p D) r w" if "last_projection D r w" "t = sp_order_time w" "k = sp_identity w" for w
    using that le(3) by (auto simp: last_projection_def)
  moreover obtain w where "last_projection D r w" "t = sp_order_time w" "k = sp_identity w"
    "s_document s = sp_document w" "s_event_key s = Some (sp_identity w)" "s_event_fingerprint s = Some (sp_fingerprint w)"
    using lv(1) le(1,2) by (cases rule: body_left_cases) auto
  ultimately have "body_left (insert p D) r s" using le(1,2) by (intro body_left_projection [of _ _ w]) simp_all
  moreover have "mutation_left (insert p D) r s" using lv(2) p by (simp add: mutation_left_def mutation_of_insert)
  ultimately show ?thesis using lv(3,4) p by (auto simp: leaves_Some)
qed

lemma equal_revision_projection_write:
  assumes lv: "body_left D r s" "mutation_left D r s" "s_revision s = Some r" "\<forall>q\<in>D. sp_revision q \<le> r"
    and p: "sp_revision p = r" "sp_projection_only p"
    and gt: "\<And>t k. s_order_time s = Some t \<Longrightarrow> s_order_key s = Some k \<Longrightarrow>
               \<not> (sp_order_time p < t \<or> (sp_order_time p = t \<and> sp_identity p \<le> k))"
  shows "leaves (insert p D) (Some (replace_source p (Some s)))"
proof -
  have "last_projection (insert p D) r p"
  proof (cases "s_order_time s")
    case None
    have "\<forall>q\<in>D. sp_revision q = r \<longrightarrow> \<not> sp_projection_only q"
      using lv(1) None by (cases rule: body_left_cases) auto
    then show ?thesis using p by (auto simp: last_projection_def)
  next
    case (Some t)
    obtain w where w: "last_projection D r w" "t = sp_order_time w" "s_order_key s = Some (sp_identity w)"
      using lv(1) Some by (cases rule: body_left_cases) auto
    have later: "sp_order_time w < sp_order_time p \<or> (sp_order_time w = sp_order_time p \<and> sp_identity w \<le> sp_identity p)"
      using gt [OF Some w(3)] w(2) by auto
    have "sp_order_time q < sp_order_time p \<or> (sp_order_time q = sp_order_time p \<and> sp_identity q \<le> sp_identity p)"
      if "q \<in> D" "sp_revision q = r" "sp_projection_only q" for q
    proof -
      have "sp_order_time q < sp_order_time w \<or> (sp_order_time q = sp_order_time w \<and> sp_identity q \<le> sp_identity w)"
        using w(1) that by (auto simp: last_projection_def)
      then show ?thesis using later by auto
    qed
    then show ?thesis using p by (auto simp: last_projection_def)
  qed
  then have "body_left (insert p D) r (replace_source p (Some s))"
    by (rule body_left_projection) (simp_all add: replace_source_def Let_def p)
  moreover have "mutation_left (insert p D) r (replace_source p (Some s))"
    using lv(2,3) p by (auto simp: mutation_left_def mutation_of_insert replace_source_def Let_def split: if_splits)
  ultimately show ?thesis using lv(4) p by (auto simp: leaves_Some replace_source_def Let_def)
qed

lemma equal_revision_known:
  assumes lv: "body_left D r s" "mutation_left D r s" and con: "consistent (insert p D)"
    and p: "p \<in> D" "sp_revision p = r"
  shows "equal_revision p s = Noop"
proof (cases "s_event_key s = Some (sp_identity p)")
  case True
  then show ?thesis using event_key_owner(2) [OF lv(1) con True] by (simp add: equal_revision_def)
next
  case other: False
  show ?thesis
  proof (cases "sp_projection_only p")
    case False
    then have "mutation_of D r p" using p by (simp add: mutation_of_def)
    then have "s_mutation_key s = Some (sp_identity p) \<and> s_mutation_fingerprint s = Some (sp_fingerprint p)"
      using lv(2) consistent_mutation [OF consistent_subset [OF con], of D r _ p]
      by (auto simp: mutation_left_def split: if_splits)
    then show ?thesis using other False by (simp add: equal_revision_def)
  next
    case True
    obtain w where "last_projection D r w" "s_order_time s = Some (sp_order_time w)" "s_order_key s = Some (sp_identity w)"
      using lv(1) True p by (cases rule: body_left_cases) auto
    then show ?thesis using other True p by (auto simp: equal_revision_def last_projection_def)
  qed
qed

lemma body_left_revision: "body_left D r s \<Longrightarrow> \<exists>w\<in>D. sp_revision w = r"
  by (erule body_left_cases) (auto simp: mutation_of_def last_projection_def)

lemma last_projection_unique:
  assumes "consistent D" "last_projection D r w" "last_projection D r w'"
  shows "w = w'"
proof -
  have "sp_order_time w = sp_order_time w' \<and> sp_identity w = sp_identity w'"
    using assms(2,3) unfolding last_projection_def by (metis order_antisym order_less_asym)
  then show ?thesis using assms consistent_identity last_projection_in by metis
qed

lemma body_left_unique:
  assumes con: "consistent D" and "body_left D r s" "body_left D r s'"
  shows "s_document s = s_document s' \<and> s_event_key s = s_event_key s' \<and>
    s_event_fingerprint s = s_event_fingerprint s' \<and> s_order_time s = s_order_time s' \<and> s_order_key s = s_order_key s'"
  using assms(2)
proof (cases rule: body_left_cases)
  case (mutation w)
  have no: "\<not> last_projection D r v" for v using mutation(2) by (auto simp: last_projection_def)
  from assms(3) show ?thesis
    by (cases rule: body_left_cases) (use mutation no consistent_mutation [OF con] in metis)+
next
  case (projection w)
  have no: "\<not> (\<forall>p\<in>D. sp_revision p = r \<longrightarrow> \<not> sp_projection_only p)"
    using projection(1) by (auto simp: last_projection_def)
  from assms(3) show ?thesis
    by (cases rule: body_left_cases) (use projection no last_projection_unique [OF con] in metis)+
qed

lemma mutation_left_unique:
  assumes con: "consistent D" and "mutation_left D r s" "mutation_left D r s'"
  shows "s_mutation_key s = s_mutation_key s' \<and> s_mutation_fingerprint s = s_mutation_fingerprint s'"
  using assms(2,3) consistent_mutation [OF con] unfolding mutation_left_def by (metis option.distinct(1))

lemma leaves_deliver:
  assumes con: "consistent (insert p D)" and lv: "leaves D src"
  shows "leaves (insert p D) (deliver p src)"
proof (cases src)
  case None
  then have "D = {}" using lv by (simp add: leaves_def)
  then show ?thesis using None leaves_higher [of D p None]
    by (simp add: deliver_def auditProjectionScript_def)
next
  case (Some s)
  then obtain r where r: "s_revision s = Some r" "\<forall>q\<in>D. sp_revision q \<le> r" "body_left D r s" "mutation_left D r s"
    using lv by (auto simp: leaves_Some)
  consider (lower) "sp_revision p < r" | (higher) "r < sp_revision p"
    | (known) "sp_revision p = r" "p \<in> D"
    | (mutation) "sp_revision p = r" "p \<notin> D" "\<not> sp_projection_only p"
    | (projection) "sp_revision p = r" "p \<notin> D" "sp_projection_only p"
    by linarith
  then show ?thesis
  proof cases
    case lower
    then show ?thesis using leaves_lower [of D s r p] lv r(1) Some
      by (simp add: deliver_def auditProjectionScript_def)
  next
    case higher
    then show ?thesis using leaves_higher [of D p "Some s"] r(1,2) Some
      by (fastforce simp: deliver_def auditProjectionScript_def)
  next
    case known
    then have "auditProjectionScript p (Some s) = Noop"
      using equal_revision_known [OF r(3,4) con known(2,1)] r(1) by (simp add: auditProjectionScript_def)
    then show ?thesis using Some lv known by (simp add: deliver_def insert_absorb)
  next
    case mutation
    have "s_event_key s \<noteq> Some (sp_identity p)" using event_key_owner(1) [OF r(3) con] mutation(2) by blast
    then show ?thesis
      using equal_revision_mutation [OF r(3,4,1,2) con mutation(1,3,2)] mutation Some r(1)
      by (simp add: deliver_def auditProjectionScript_def equal_revision_def)
  next
    case projection
    have ne: "s_event_key s \<noteq> Some (sp_identity p)" using event_key_owner(1) [OF r(3) con] projection(2) by blast
    show ?thesis
    proof (cases "\<exists>t k. s_order_time s = Some t \<and> s_order_key s = Some k \<and>
        (sp_order_time p < t \<or> (sp_order_time p = t \<and> sp_identity p \<le> k))")
      case True
      then show ?thesis using equal_revision_projection_keep [OF r(3,4,1,2) projection(1,3)] projection Some r(1) ne
        by (auto simp: deliver_def auditProjectionScript_def equal_revision_def)
    next
      case False
      have keys: "s_order_time s = None \<longleftrightarrow> s_order_key s = None"
        using r(3) by (cases rule: body_left_cases) auto
      show ?thesis using equal_revision_projection_write [OF r(3,4,1,2) projection(1,3)] False projection Some r(1) ne keys
        by (auto simp: deliver_def auditProjectionScript_def equal_revision_def split: option.splits)
    qed
  qed
qed

lemma leaves_determines:
  assumes con: "consistent D" and "leaves D src" "leaves D src'"
  shows "src = src'"
proof (cases src)
  case None
  then have "D = {}" using assms(2) by (simp add: leaves_def)
  moreover have "\<not> leaves {} (Some s)" for s :: "'a source"
    by (auto simp: leaves_Some elim!: body_left_cases dest!: mutation_of_in last_projection_in)
  ultimately show ?thesis using None assms(3) by (cases src') auto
next
  case (Some s)
  then obtain s' where s': "src' = Some s'"
    using assms(2,3) by (cases src') (auto simp: leaves_def leaves_Some elim!: body_left_cases
        dest!: mutation_of_in last_projection_in)
  obtain r where r: "s_revision s = Some r" "\<forall>q\<in>D. sp_revision q \<le> r" "body_left D r s" "mutation_left D r s"
    using assms(2) Some by (auto simp: leaves_Some)
  obtain r' where r': "s_revision s' = Some r'" "\<forall>q\<in>D. sp_revision q \<le> r'" "body_left D r' s'" "mutation_left D r' s'"
    using assms(3) s' by (auto simp: leaves_Some)
  have "r = r'" using body_left_revision [OF r(3)] body_left_revision [OF r'(3)] r(2) r'(2) by force
  then have "s = s'"
    using body_left_unique [OF con r(3), of s'] mutation_left_unique [OF con r(4), of s'] r(1) r'
    by (simp add: source.equality)
  then show ?thesis using Some s' by simp
qed

lemma equal_revision_Write_cases:
  assumes "equal_revision p s0 = Write s"
  obtains (replace) "s = replace_source p (Some s0)"
  | (recorded) "\<not> sp_projection_only p" "s_mutation_key s0 = None"
      "s = s0\<lparr>s_mutation_key := Some (sp_identity p), s_mutation_fingerprint := Some (sp_fingerprint p)\<rparr>"
  using assms that by (simp add: equal_revision_def split: if_splits option.splits)

lemma script_Write_cases:
  assumes "auditProjectionScript p src = Write s"
  obtains (replace) "s = replace_source p src"
  | (recorded) s0 where "src = Some s0" "s_revision s0 = Some (sp_revision p)" "\<not> sp_projection_only p"
      "s = s0\<lparr>s_mutation_key := Some (sp_identity p), s_mutation_fingerprint := Some (sp_fingerprint p)\<rparr>"
proof (cases src)
  case None
  then show ?thesis using assms that by (simp add: auditProjectionScript_def)
next
  case (Some s0)
  then show ?thesis using assms that
    by (cases "s_revision s0")
      (auto simp: auditProjectionScript_def elim!: equal_revision_Write_cases split: if_splits)
qed

text \<open>A delivery that wrote the document, and is delivered again at once, is a no-op of the
  script, so the retry of a lost acknowledgement neither fails nor writes.\<close>

lemma script_idempotent:
  assumes "auditProjectionScript p src = Write s"
  shows "auditProjectionScript p (Some s) = Noop"
  using assms
proof (cases rule: script_Write_cases)
  case replace
  then show ?thesis by (simp add: auditProjectionScript_def equal_revision_def replace_source_def Let_def)
next
  case (recorded s0)
  then show ?thesis by (simp add: auditProjectionScript_def equal_revision_def)
qed

section \<open>Properties\<close>

interpretation projection: delivered_register deliver None consistent leaves
proof unfold_locales
  show "leaves {} None" by (simp add: leaves_def)
qed (simp_all add: leaves_deliver leaves_determines consistent_subset)

text \<open>C2: the stored current document depends only on the set of audited deliveries, not on their
  order and not on how often each was delivered, as long as an identity names one delivery and a
  revision has one mutation.\<close>

theorem projection_convergence:
  assumes "consistent (set ps)" "set ps = set qs"
  shows "fold deliver ps None = fold deliver qs None"
  using assms by (rule projection.convergence)

text \<open>Replaying any already applied deliveries, in any order, leaves the stored document as it
  is: redelivery by the broker is harmless.\<close>

theorem projection_replay:
  assumes "consistent (set ps)" "set qs \<subseteq> set ps"
  shows "fold deliver qs (fold deliver ps None) = fold deliver ps None"
  using assms by (rule projection.replay_absorbed)

text \<open>C4: after any sequence of consistent deliveries the document is that of the highest revision
  delivered: the body of the last projection of that revision, by source time and then identity, or
  of its mutation when nothing refreshed it, with the identity of its mutation recorded when it was
  delivered.\<close>

theorem projection_final_document:
  assumes "consistent (set ps)"
  shows "leaves (set ps) (fold deliver ps None)"
  using assms by (rule projection.run_represents)

text \<open>Whatever is stored and whatever is delivered, the stored revision never goes down.\<close>

theorem deliver_revision_monotone:
  assumes "deliver p (Some s) = Some s'" "s_revision s = Some r"
  shows "\<exists>r'. s_revision s' = Some r' \<and> r \<le> r' \<and> (r < r' \<longrightarrow> r' = sp_revision p)"
  using assms
  by (auto simp: deliver_def auditProjectionScript_def equal_revision_def replace_source_def Let_def
      split: if_splits option.splits outcome.splits)

text \<open>A document written by a legacy publisher is never overwritten by an audited delivery other
  than a bootstrapping backfill.\<close>

theorem legacy_document_kept:
  assumes "s_revision s = None" "\<not> sp_bootstrap p"
  shows "auditProjectionScript p (Some s) = Throw LegacyDocument \<and> deliver p (Some s) = Some s"
  using assms by (simp add: deliver_def auditProjectionScript_def)

text \<open>Once a mutation's identity is recorded at a revision, a different mutation of that revision
  is refused with an error and does not change the document.\<close>

theorem second_mutation_refused:
  assumes "s_revision s = Some (sp_revision p)" "s_mutation_key s = Some k" "k \<noteq> sp_identity p"
    and "s_event_key s \<noteq> Some (sp_identity p)" "\<not> sp_projection_only p"
  shows "auditProjectionScript p (Some s) = Throw EqualRevisionDiffers \<and> deliver p (Some s) = Some s"
  using assms by (simp add: deliver_def auditProjectionScript_def equal_revision_def)

section \<open>Witnesses\<close>

definition sample_mutation :: "nat script_params" where
  "sample_mutation = \<lparr>sp_revision = 2, sp_identity = ''p:m'', sp_fingerprint = ''f'', sp_projection_only = False,
     sp_order_time = ''t1'', sp_bootstrap = False, sp_document = 1\<rparr>"

definition sample_refresh :: "nat script_params" where
  "sample_refresh = \<lparr>sp_revision = 2, sp_identity = ''p:r'', sp_fingerprint = ''g'', sp_projection_only = True,
     sp_order_time = ''t2'', sp_bootstrap = False, sp_document = 2\<rparr>"

definition sample_source :: "nat source" where
  "sample_source = \<lparr>s_document = 2, s_revision = Some 2, s_event_key = Some ''p:r'', s_event_fingerprint = Some ''g'',
     s_mutation_key = Some ''p:m'', s_mutation_fingerprint = Some ''f'', s_order_time = Some ''t2'',
     s_order_key = Some ''p:r''\<rparr>"

lemmas script_defs = deliver_def auditProjectionScript_def equal_revision_def replace_source_def Let_def

lemma sample_consistent: "consistent (set [sample_mutation, sample_refresh])"
  by (auto simp: consistent_def sample_mutation_def sample_refresh_def)

lemma sample_run: "fold deliver [sample_refresh, sample_mutation] None = Some sample_source"
  by (simp add: script_defs sample_mutation_def sample_refresh_def sample_source_def)

theorem projection_convergence_witness:
  "fold deliver [sample_mutation, sample_refresh, sample_mutation] None = Some sample_source"
  using projection_convergence [of "[sample_mutation, sample_refresh, sample_mutation]" "[sample_refresh, sample_mutation]"]
    sample_consistent sample_run by (simp add: insert_commute)

theorem projection_replay_witness:
  "fold deliver [sample_refresh] (fold deliver [sample_mutation, sample_refresh] None)
   = fold deliver [sample_mutation, sample_refresh] None"
  by (rule projection_replay [OF sample_consistent]) simp

theorem projection_final_document_witness:
  "leaves {sample_mutation, sample_refresh} (fold deliver [sample_mutation, sample_refresh] None)"
  using projection_final_document [OF sample_consistent] by simp

theorem deliver_revision_monotone_witness:
  "\<exists>r'. s_revision sample_source = Some r' \<and> 2 \<le> r' \<and> (2 < r' \<longrightarrow> r' = sp_revision sample_mutation)"
  by (rule deliver_revision_monotone [of sample_mutation sample_source])
    (simp_all add: script_defs sample_mutation_def sample_source_def)

theorem legacy_document_kept_witness:
  "deliver sample_mutation (Some (sample_source\<lparr>s_revision := None\<rparr>)) = Some (sample_source\<lparr>s_revision := None\<rparr>)"
  using legacy_document_kept [of "sample_source\<lparr>s_revision := None\<rparr>" sample_mutation] by (simp add: sample_mutation_def)

theorem second_mutation_refused_witness:
  "auditProjectionScript (sample_mutation\<lparr>sp_identity := ''p:n''\<rparr>) (Some sample_source) = Throw EqualRevisionDiffers"
  using second_mutation_refused [of sample_source "sample_mutation\<lparr>sp_identity := ''p:n''\<rparr>" "''p:m''"]
  by (simp add: sample_source_def sample_mutation_def)

end
