(* ===== verification/Audit_Store.thy ===== *)
theory Audit_Store
  imports Audit_Types Audit_Projection
begin

text \<open>
  The audited stores: delivery receipts (audit_delivery_receipt_repository.go), the append-only
  history index with its erasure fence (history_repository.go, contracts/history.go), and the
  guarded current write \<open>ApplyIfNewer\<close> (audit_projection.go, contracts/audit_projection.go).
  The OpenSearch client is a parameter: functions from a request and the state of the cluster to a
  reply and the next state. What the code relies on is stated by \<open>create_only\<close>.
\<close>

section \<open>Requests and replies\<close>

text \<open>A write reply: no response at all, or a status and whether its body could be drained. A read
  reply: no response, or a status and the decoded source.\<close>

datatype write_reply = WTransport | WReply nat bool

datatype 'd read_reply = RTransport | RReply nat "'d option"

text \<open>\<open>Response.IsError\<close>\<close>

definition is_error_status :: "nat \<Rightarrow> bool" where
  "is_error_status status = (status > 299)"

definition status_conflict :: nat where
  "status_conflict = 409"

type_synonym ('d, 'w) writer = "string \<Rightarrow> 'd \<Rightarrow> 'w \<Rightarrow> write_reply \<times> 'w"
type_synonym ('d, 'w) reader = "string \<Rightarrow> 'w \<Rightarrow> 'd read_reply"

text \<open>The documented behaviour of an index request with \<open>op_type=create\<close>: it stores the document only
  if the id is free, a success status means that it did, a conflict status that the id was taken; a
  read that succeeds returns the stored document. A failed or lost request may or may not have been
  applied.\<close>

definition create_only :: "('d, 'w) writer \<Rightarrow> ('d, 'w) reader \<Rightarrow> ('w \<Rightarrow> string \<Rightarrow> 'd option) \<Rightarrow> bool" where
  "create_only create get stored =
     ((\<forall>i d w. stored (snd (create i d w)) = stored w \<or>
               (stored w i = None \<and> stored (snd (create i d w)) = (stored w)(i \<mapsto> d))) \<and>
      (\<forall>i d w status ok. fst (create i d w) = WReply status ok \<longrightarrow> status < 300 \<longrightarrow>
               stored (snd (create i d w)) i = Some d) \<and>
      (\<forall>i w status d. get i w = RReply status (Some d) \<longrightarrow> status < 300 \<longrightarrow> stored w i = Some d))"

section \<open>Delivery receipts\<close>

record AuditDeliveryReceipt =
  r_Publisher :: string
  r_EventID :: string
  r_Origin :: string
  r_Fingerprint :: string

text \<open>A stored receipt; the code reads an \<open>erased\<close> mark that it never writes itself.\<close>

record receipt_doc =
  rd_receipt :: AuditDeliveryReceipt
  rd_erased :: bool

definition receipt_id :: "AuditDeliveryReceipt \<Rightarrow> string" where
  "receipt_id receipt = r_Publisher receipt @ '':'' @ r_EventID receipt"

definition receipt_configured :: "AuditDeliveryReceipt \<Rightarrow> bool" where
  "receipt_configured receipt =
     (ValidAuditPublisherName (r_Publisher receipt) \<and> auditEventIDPattern (r_EventID receipt) \<and>
      length (r_Fingerprint receipt) = 64 \<and>
      r_Origin receipt \<in> {AuditOriginMutation, AuditOriginReindex, AuditOriginBackfill, AuditOriginSyncEcho})"

definition receipt_verify ::
    "(receipt_doc, 'w) reader \<Rightarrow> string \<Rightarrow> AuditDeliveryReceipt \<Rightarrow> 'w \<Rightarrow> go_error option" where
  "receipt_verify get i receipt w =
     (case get i w of
        RTransport \<Rightarrow> Some (Errorf (Store ReceiptTransport) [])
      | RReply status found \<Rightarrow>
          if is_error_status status then Some (Errorf (Store ReceiptStatus) [nat_str status])
          else (case found of
             None \<Rightarrow> Some (Errorf (Store ReceiptDecode) [])
           | Some doc \<Rightarrow>
               if rd_erased doc \<or> r_Publisher (rd_receipt doc) \<noteq> r_Publisher receipt \<or>
                  r_EventID (rd_receipt doc) \<noteq> r_EventID receipt \<or>
                  r_Origin (rd_receipt doc) \<noteq> r_Origin receipt \<or>
                  r_Fingerprint (rd_receipt doc) \<noteq> r_Fingerprint receipt
               then Some (Errorf (Store ReceiptReused) [])
               else None))"

definition ReceiptCreateOrVerify ::
    "(receipt_doc, 'w) writer \<Rightarrow> (receipt_doc, 'w) reader \<Rightarrow> AuditDeliveryReceipt \<Rightarrow> 'w
     \<Rightarrow> go_error option \<times> 'w" where
  "ReceiptCreateOrVerify create get receipt w =
     (if \<not> receipt_configured receipt then (Some (Errorf (Store ReceiptNotConfigured) []), w)
      else case create (receipt_id receipt) \<lparr>rd_receipt = receipt, rd_erased = False\<rparr> w of
        (WTransport, w') \<Rightarrow> (Some (Errorf (Store ReceiptTransport) []), w')
      | (WReply status drained, w') \<Rightarrow>
          if \<not> drained then (Some (Errorf (Store HistoryDrain) []), w')
          else if status = status_conflict then (receipt_verify get (receipt_id receipt) receipt w', w')
          else if is_error_status status then (Some (Errorf (Store ReceiptStatus) [nat_str status]), w')
          else (None, w'))"

section \<open>History\<close>

record HistoryRecord =
  h_Publisher :: string
  h_EventID :: string
  h_ObjectType :: string
  h_ObjectID :: string
  h_Action :: message_action
  h_ResourceRevision :: nat
  h_OccurredAt :: int
  h_IngestedAt :: int
  h_HistoryCheckObject :: string
  h_HistoryCheckRelation :: string
  h_Scope :: AuditScope
  h_Audit :: AuditEvent
  h_Fingerprint :: string

text \<open>\<open>AuditFingerprint\<close>: the digest of the immutable content, with the occurrence time normalised to
  UTC. \<open>digest\<close> is the hex SHA-256 of the canonical JSON of its argument.\<close>

record immutable_content =
  ic_Action :: message_action
  ic_ObjectType :: string
  ic_Data :: json
  ic_Tags :: "string list"
  ic_IndexingConfig :: "IndexingConfig option"
  ic_Audit :: AuditEvent

definition utc :: "go_time \<Rightarrow> go_time" where
  "utc t = t\<lparr>tm_offset := 0\<rparr>"

definition AuditFingerprint ::
    "(immutable_content \<Rightarrow> string) \<Rightarrow> IndexerMessageEnvelope \<Rightarrow> AuditEvent \<Rightarrow> string \<Rightarrow> string" where
  "AuditFingerprint digest e audit objectType =
     digest \<lparr>ic_Action = e_Action e, ic_ObjectType = objectType, ic_Data = e_Data e, ic_Tags = e_Tags e,
             ic_IndexingConfig = e_IndexingConfig e,
             ic_Audit = audit\<lparr>ae_OccurredAt := utc (ae_OccurredAt audit)\<rparr>\<rparr>"

definition NewHistoryRecord ::
    "text_parsers \<Rightarrow> (immutable_content \<Rightarrow> string) \<Rightarrow> content_validator option
     \<Rightarrow> IndexerMessageEnvelope \<Rightarrow> string \<Rightarrow> int \<Rightarrow> go_error + HistoryRecord" where
  "NewHistoryRecord ps digest validate e objectType ingestedAt =
     rbind (ValidateV2 ps validate objectType e) (\<lambda>_.
     case (e_Audit e, e_IndexingConfig e) of
       (Some audit, Some config) \<Rightarrow>
         if ae_Origin audit \<noteq> AuditOriginMutation then fail (Store HistoryProjectionOrigin)
         else if ingestedAt = year_one then fail (Store HistoryIngestedAt)
         else Inr \<lparr>
           h_Publisher = ae_Publisher audit, h_EventID = ae_EventID audit,
           h_ObjectType = objectType, h_ObjectID = c_ObjectID config,
           h_Action = e_Action e, h_ResourceRevision = ae_ResourceRevision audit,
           h_OccurredAt = tm_instant (ae_OccurredAt audit), h_IngestedAt = ingestedAt,
           h_HistoryCheckObject = c_HistoryCheckObject config,
           h_HistoryCheckRelation = c_HistoryCheckRelation config,
           h_Scope = ae_Scope audit, h_Audit = audit,
           h_Fingerprint = AuditFingerprint digest e audit objectType\<rparr>
     | _ \<Rightarrow> fail (Audit SchemaAndAuditRequired))"

text \<open>A slot of the history index: a record, or the permanent fence of an erased one.\<close>

datatype history_doc = HistoryDoc HistoryRecord | ErasureFence string string

definition history_id :: "HistoryRecord \<Rightarrow> string" where
  "history_id record = h_Publisher record @ '':'' @ h_EventID record"

definition history_configured :: "HistoryRecord \<Rightarrow> bool" where
  "history_configured record =
     (ValidAuditPublisherName (h_Publisher record) \<and> auditEventIDPattern (h_EventID record) \<and>
      h_Fingerprint record \<noteq> '''')"

definition same_history :: "HistoryRecord \<Rightarrow> HistoryRecord \<Rightarrow> bool" where
  "same_history found record =
     (h_Publisher found = h_Publisher record \<and> h_EventID found = h_EventID record \<and>
      h_Fingerprint found = h_Fingerprint record \<and> h_ObjectID found = h_ObjectID record \<and>
      h_ObjectType found = h_ObjectType record \<and> h_ResourceRevision found = h_ResourceRevision record \<and>
      h_Action found = h_Action record)"

definition history_verify ::
    "(history_doc, 'w) reader \<Rightarrow> string \<Rightarrow> HistoryRecord \<Rightarrow> 'w \<Rightarrow> go_error option" where
  "history_verify get i record w =
     (case get i w of
        RTransport \<Rightarrow> Some (Errorf (Store HistoryTransport) [])
      | RReply status found \<Rightarrow>
          if is_error_status status then Some (Errorf (Store HistoryStatus) [nat_str status])
          else (case found of
             None \<Rightarrow> Some (Errorf (Store HistoryDecode) [])
           | Some (ErasureFence _ _) \<Rightarrow> Some HistoryErasedError
           | Some (HistoryDoc doc) \<Rightarrow>
               if same_history doc record then None else Some (Errorf (Store HistoryReused) [])))"

text \<open>\<open>CreateOrVerify\<close> also returns whether the record was created; its only caller ignores that.\<close>

definition HistoryCreateOrVerify ::
    "(history_doc, 'w) writer \<Rightarrow> (history_doc, 'w) reader \<Rightarrow> HistoryRecord \<Rightarrow> 'w \<Rightarrow> go_error option \<times> 'w" where
  "HistoryCreateOrVerify create get record w =
     (if \<not> history_configured record then (Some (Errorf (Store HistoryNotConfigured) []), w)
      else if ae_Origin (h_Audit record) \<noteq> AuditOriginMutation
      then (Some (Errorf (Store HistoryProjectionOrigin) []), w)
      else case create (history_id record) (HistoryDoc record) w of
        (WTransport, w') \<Rightarrow> (Some (Errorf (Store HistoryTransport) []), w')
      | (WReply status drained, w') \<Rightarrow>
          if \<not> drained then (Some (Errorf (Store HistoryDrain) []), w')
          else if status = status_conflict then (history_verify get (history_id record) record w', w')
          else if is_error_status status then (Some (Errorf (Store HistoryStatus) [nat_str status]), w')
          else (None, w'))"

definition Erase ::
    "(history_doc, 'w) writer \<Rightarrow> string \<Rightarrow> string \<Rightarrow> int \<Rightarrow> 'w \<Rightarrow> go_error option \<times> 'w" where
  "Erase overwrite publisher eventID erasedAt w =
     (if \<not> (ValidAuditPublisherName publisher \<and> auditEventIDPattern eventID \<and> erasedAt \<noteq> year_one)
      then (Some (Errorf (Store HistoryErasureRequest) []), w)
      else case overwrite (publisher @ '':'' @ eventID) (ErasureFence publisher eventID) w of
        (WTransport, w') \<Rightarrow> (Some (Errorf (Store HistoryTransport) []), w')
      | (WReply status drained, w') \<Rightarrow>
          if \<not> drained then (Some (Errorf (Store HistoryDrain) []), w')
          else if is_error_status status then (Some (Errorf (Store HistoryStatus) [nat_str status]), w')
          else (None, w'))"

section \<open>The guarded current write\<close>

fun unique_tags_loop :: "string set \<Rightarrow> string list \<Rightarrow> string list \<Rightarrow> string list" where
  "unique_tags_loop seen result [] = result"
| "unique_tags_loop seen result (tag # tags) =
     (if tag \<notin> seen then unique_tags_loop (insert tag seen) (result @ [tag]) tags
      else unique_tags_loop seen result tags)"

definition uniqueAuditTags :: "string list \<Rightarrow> string list \<Rightarrow> string list" where
  "uniqueAuditTags first second = unique_tags_loop {} [] (first @ second)"

definition audit_actors :: "AuditAttribution \<Rightarrow> string list" where
  "audit_actors a =
     (if aa_EffectiveActorRef a \<noteq> '''' \<and> aa_EffectiveActorRef a \<noteq> aa_ActorRef a
      then [aa_ActorRef a, aa_EffectiveActorRef a] else [aa_ActorRef a])"

definition AuditProjectionBody ::
    "IndexerMessageEnvelope \<Rightarrow> string \<Rightarrow> go_error + TransactionBody" where
  "AuditProjectionBody e objectType =
     (case (e_Audit e, e_IndexingConfig e) of
        (Some audit, Some config) \<Rightarrow>
          if objectType = '''' then fail (Store ProjectionNeedsEnvelope)
          else
            let occurredAt = tm_instant (ae_OccurredAt audit);
                actors = audit_actors (ae_Attribution audit);
                body = zero_body\<lparr>
                  b_ObjectRef := objectType @ '':'' @ c_ObjectID config, b_ObjectType := objectType,
                  b_ObjectID := c_ObjectID config, b_Latest := Some True,
                  b_Tags := uniqueAuditTags (e_Tags e) (c_Tags config),
                  b_HistoryCheckObject := c_HistoryCheckObject config,
                  b_HistoryCheckRelation := c_HistoryCheckRelation config,
                  b_HistoryCheckQuery := JoinFgaQuery (c_HistoryCheckObject config) (c_HistoryCheckRelation config)\<rparr>
            in if e_Action e = ActionCreated \<or> e_Action e = ActionUpdated then
                 (case as_object (e_Data e) of
                    None \<Rightarrow> fail (Store AuditedDataObject)
                  | Some data \<Rightarrow>
                      let live = body\<lparr>
                            b_Data := data, b_ParentRefs := c_ParentRefs config, b_SortName := c_SortName config,
                            b_NameAndAliases := c_NameAndAliases config, b_Fulltext := c_Fulltext config,
                            b_Contacts := c_Contacts config,
                            b_Public := (case c_Public config of Some p \<Rightarrow> p | None \<Rightarrow> False),
                            b_AccessCheckObject := c_AccessCheckObject config,
                            b_AccessCheckRelation := c_AccessCheckRelation config,
                            b_AccessCheckQuery := JoinFgaQuery (c_AccessCheckObject config) (c_AccessCheckRelation config)\<rparr>
                      in Inr (if e_Action e = ActionCreated
                              then live\<lparr>b_CreatedAt := Some occurredAt, b_UpdatedAt := Some occurredAt,
                                        b_CreatedBy := actors, b_CreatedByPrincipals := actors\<rparr>
                              else live\<lparr>b_UpdatedAt := Some occurredAt,
                                        b_UpdatedBy := actors, b_UpdatedByPrincipals := actors\<rparr>))
               else if e_Action e = ActionDeleted then
                 (if as_string (e_Data e) \<noteq> Some (c_ObjectID config) then fail (Store AuditedDeleteUID)
                  else Inr (body\<lparr>b_ParentRefs := c_ParentRefs config, b_Tags := e_Tags e,
                                 b_DeletedAt := Some occurredAt, b_DeletedBy := actors,
                                 b_DeletedByPrincipals := actors\<rparr>))
               else fail (Store InvalidAuditedAction)
      | _ \<Rightarrow> fail (Store ProjectionNeedsEnvelope))"

definition audit_identity :: "AuditEvent \<Rightarrow> string" where
  "audit_identity audit = ae_Publisher audit @ '':'' @ ae_EventID audit"

text \<open>The script parameters of one delivery. \<open>fmt_nanos\<close> is the fixed-width UTC format of a time.\<close>

definition projection_params ::
    "(int \<Rightarrow> string) \<Rightarrow> AuditEvent \<Rightarrow> string \<Rightarrow> 'd \<Rightarrow> 'd script_params" where
  "projection_params fmt_nanos audit fingerprint document = \<lparr>
     sp_revision = int (ae_ResourceRevision audit), sp_identity = audit_identity audit,
     sp_fingerprint = fingerprint, sp_projection_only = (ae_Origin audit \<noteq> AuditOriginMutation),
     sp_order_time = fmt_nanos (tm_instant (ae_OccurredAt audit)),
     sp_bootstrap = (ae_Origin audit = AuditOriginBackfill), sp_document = document\<rparr>"

text \<open>The decoded part of the update reply.\<close>

record update_result =
  ur_Result :: string
  ur_Identity :: string
  ur_Fingerprint :: string
  ur_MutationIdentity :: string
  ur_MutationFingerprint :: string

datatype update_reply = UTransport | UReply nat "update_result option"

definition interpret_update ::
    "string \<Rightarrow> string \<Rightarrow> bool \<Rightarrow> TransactionBody \<Rightarrow> update_result \<Rightarrow> go_error + TransactionBody option" where
  "interpret_update identity fingerprint projectionOnly body result =
     (if ur_Result result = ''created'' \<or> ur_Result result = ''updated'' then
        (if ur_Identity result = '''' \<or> ur_Fingerprint result = '''' then fail (Store ProjectionNoIdentity)
         else if ur_Identity result \<noteq> identity \<or> ur_Fingerprint result \<noteq> fingerprint then
           (if \<not> projectionOnly \<and> ur_Result result = ''updated'' \<and> ur_Identity result \<noteq> identity \<and>
               ur_MutationIdentity result = identity \<and> ur_MutationFingerprint result = fingerprint
            then Inr None else fail (Store ProjectionWrongIdentity))
         else Inr (Some body))
      else if ur_Result result = ''noop'' then Inr None
      else fail (Store ProjectionUnexpected))"

text \<open>\<open>ApplyIfNewer\<close>: the body when it was replaced, \<open>None\<close> for a guarded no-op or a metadata-only
  update. The update request is a parameter; its document id is the escaped reference.\<close>

definition ApplyIfNewer ::
    "(string \<Rightarrow> TransactionBody script_params \<Rightarrow> 'w \<Rightarrow> update_reply \<times> 'w) \<Rightarrow> (int \<Rightarrow> string)
     \<Rightarrow> IndexerMessageEnvelope \<Rightarrow> string \<Rightarrow> string \<Rightarrow> 'w \<Rightarrow> (go_error + TransactionBody option) \<times> 'w" where
  "ApplyIfNewer update fmt_nanos e objectType fingerprint w =
     (case e_Audit e of
        None \<Rightarrow> (fail (Store ProjectionNotConfigured), w)
      | Some audit \<Rightarrow>
          if fingerprint = '''' then (fail (Store ProjectionNotConfigured), w)
          else (case AuditProjectionBody e objectType of
             Inl err \<Rightarrow> (Inl err, w)
           | Inr body \<Rightarrow>
               (case update (b_ObjectRef body) (projection_params fmt_nanos audit fingerprint body) w of
                  (UTransport, w') \<Rightarrow> (fail (Store ProjectionTransport), w')
                | (UReply status result, w') \<Rightarrow>
                    if status \<noteq> 200 \<and> status \<noteq> 201 then (failf (Store ProjectionStatus) [nat_str status], w')
                    else (case result of
                       None \<Rightarrow> (fail (Store ProjectionDecode), w')
                     | Some r \<Rightarrow>
                         (interpret_update (audit_identity audit) fingerprint
                            (ae_Origin audit \<noteq> AuditOriginMutation) body r, w')))))"

section \<open>The contract of an identity store\<close>

datatype 'c slot = Absent | Held 'c | Fenced

text \<open>A sequence of calls, whatever they answer.\<close>

definition put_all :: "('r \<Rightarrow> 'w \<Rightarrow> 'e \<times> 'w) \<Rightarrow> 'r list \<Rightarrow> 'w \<Rightarrow> 'w" where
  "put_all put rs w = fold (\<lambda>r w. snd (put r w)) rs w"

locale identity_store =
  fixes put :: "'r \<Rightarrow> 'w \<Rightarrow> go_error option \<times> 'w"
    and key :: "'r \<Rightarrow> string"
    and content :: "'r \<Rightarrow> 'c"
    and slot :: "'w \<Rightarrow> string \<Rightarrow> 'c slot"
  assumes put_ok: "put r w = (None, w') \<Longrightarrow> slot w' (key r) = Held (content r)"
    and put_keeps: "slot w k \<noteq> Absent \<Longrightarrow> slot (snd (put r w)) k = slot w k"
begin

lemma put_all_keep: "slot w k \<noteq> Absent \<Longrightarrow> slot (put_all put rs w) k = slot w k"
  unfolding put_all_def by (induction rs arbitrary: w) (simp_all add: put_keeps)

lemma no_reuse:
  assumes "put r w = (None, w1)" "put r' (put_all put rs w1) = (None, w2)" "key r' = key r"
  shows "content r' = content r"
proof -
  have h: "slot (put_all put rs w1) (key r) = Held (content r)"
    using put_all_keep [of w1 "key r" rs] put_ok [OF assms(1)] by simp
  then have "slot w2 (key r) = Held (content r)"
    using put_keeps [of "put_all put rs w1" "key r" r'] assms(2) by simp
  then show ?thesis using put_ok [OF assms(2)] assms(3) by simp
qed

lemma fence_permanent:
  assumes "slot w (key r) = Fenced"
  shows "fst (put r (put_all put rs w)) \<noteq> None"
proof
  assume "fst (put r (put_all put rs w)) = None"
  then obtain w' where p: "put r (put_all put rs w) = (None, w')" by (cases "put r (put_all put rs w)") simp
  have "slot (put_all put rs w) (key r) = Fenced" using put_all_keep [of w "key r" rs] assms by simp
  then have "slot w' (key r) = Fenced" using put_keeps [of "put_all put rs w" "key r" r] p by simp
  then show False using put_ok [OF p] by simp
qed

end

section \<open>A cluster that can fail\<close>

text \<open>An index whose requests may each be dropped, applied with the reply lost, refused with a server
  status, or answered with an unreadable body, as the schedule \<open>cl_faults\<close> says. It satisfies
  \<open>create_only\<close> for every schedule.\<close>

datatype fault = NoFault | DropRequest | DropReply | ServerError | BadBody

record 'd cluster =
  cl_docs :: "'d gomap"
  cl_faults :: "fault list"

definition next_fault :: "'d cluster \<Rightarrow> fault" where
  "next_fault cl = (case cl_faults cl of [] \<Rightarrow> NoFault | f # _ \<Rightarrow> f)"

definition stored_in :: "'d cluster \<Rightarrow> string \<Rightarrow> 'd option" where
  "stored_in cl = map_of (cl_docs cl)"

definition cluster_create :: "('d, 'd cluster) writer" where
  "cluster_create i d cl0 =
     (let cl = cl0\<lparr>cl_faults := tl (cl_faults cl0)\<rparr>;
          taken = (stored_in cl0 i \<noteq> None);
          applied = (if taken then cl else cl\<lparr>cl_docs := (i, d) # cl_docs cl0\<rparr>);
          status = (if taken then status_conflict else 201)
      in case next_fault cl0 of
           NoFault \<Rightarrow> (WReply status True, applied)
         | DropRequest \<Rightarrow> (WTransport, cl)
         | DropReply \<Rightarrow> (WTransport, applied)
         | ServerError \<Rightarrow> (WReply 503 True, cl)
         | BadBody \<Rightarrow> (WReply status False, applied))"

definition cluster_get :: "('d, 'd cluster) reader" where
  "cluster_get i cl =
     (case stored_in cl i of
        None \<Rightarrow> RReply 404 None
      | Some d \<Rightarrow> RReply 200 (Some d))"

lemma cluster_create_only: "create_only cluster_create cluster_get stored_in"
  by (auto simp: create_only_def cluster_create_def cluster_get_def stored_in_def Let_def status_conflict_def
      fun_eq_iff split: fault.splits option.splits if_splits)

section \<open>Receipts and history meet the contract\<close>

definition receipt_slot :: "('w \<Rightarrow> string \<Rightarrow> receipt_doc option) \<Rightarrow> 'w \<Rightarrow> string \<Rightarrow> AuditDeliveryReceipt slot" where
  "receipt_slot stored w k =
     (case stored w k of
        None \<Rightarrow> Absent
      | Some d \<Rightarrow> if rd_erased d then Fenced else Held (rd_receipt d))"

definition history_content :: "HistoryRecord \<Rightarrow> string \<times> string \<times> string \<times> string \<times> string \<times> nat \<times> message_action" where
  "history_content h =
     (h_Publisher h, h_EventID h, h_Fingerprint h, h_ObjectID h, h_ObjectType h, h_ResourceRevision h, h_Action h)"

definition history_slot ::
    "('w \<Rightarrow> string \<Rightarrow> history_doc option) \<Rightarrow> 'w \<Rightarrow> string
     \<Rightarrow> (string \<times> string \<times> string \<times> string \<times> string \<times> nat \<times> message_action) slot" where
  "history_slot stored w k =
     (case stored w k of
        None \<Rightarrow> Absent
      | Some (ErasureFence _ _) \<Rightarrow> Fenced
      | Some (HistoryDoc h) \<Rightarrow> Held (history_content h))"

lemma create_only_keeps:
  "create_only create get stored \<Longrightarrow> stored w k \<noteq> None \<Longrightarrow> stored (snd (create i d w)) k = stored w k"
  unfolding create_only_def by (metis fun_upd_apply)

lemma create_only_created:
  "create_only create get stored \<Longrightarrow> create i d w = (WReply status ok, w') \<Longrightarrow> status < 300 \<Longrightarrow> stored w' i = Some d"
  unfolding create_only_def by (metis fst_conv snd_conv)

lemma create_only_read:
  "create_only create get stored \<Longrightarrow> get i w = RReply status (Some d) \<Longrightarrow> status < 300 \<Longrightarrow> stored w i = Some d"
  unfolding create_only_def by blast

lemma receipt_verify_ok:
  assumes co: "create_only create get stored" and ok: "receipt_verify get i receipt w = None"
  shows "stored w i = Some \<lparr>rd_receipt = receipt, rd_erased = False\<rparr>"
proof -
  obtain status doc where d: "get i w = RReply status (Some doc)" "status < 300" "\<not> rd_erased doc"
    "r_Publisher (rd_receipt doc) = r_Publisher receipt" "r_EventID (rd_receipt doc) = r_EventID receipt"
    "r_Origin (rd_receipt doc) = r_Origin receipt" "r_Fingerprint (rd_receipt doc) = r_Fingerprint receipt"
    using ok by (auto simp: receipt_verify_def is_error_status_def split: read_reply.splits if_splits option.splits)
  then have "doc = \<lparr>rd_receipt = receipt, rd_erased = False\<rparr>"
    by (cases doc, cases "rd_receipt doc", cases receipt) simp
  then show ?thesis using create_only_read [OF co d(1,2)] by simp
qed

lemma receipt_identity_store:
  assumes co: "create_only create get stored"
  shows "identity_store (ReceiptCreateOrVerify create get) receipt_id (\<lambda>r. r) (receipt_slot stored)"
proof
  fix r :: AuditDeliveryReceipt and w w'
  let ?d = "\<lparr>rd_receipt = r, rd_erased = False\<rparr>"
  assume ok: "ReceiptCreateOrVerify create get r w = (None, w')"
  have "stored w' (receipt_id r) = Some ?d"
  proof (cases "create (receipt_id r) ?d w")
    case (Pair reply v)
    then show ?thesis using ok
      by (cases reply) (auto simp: ReceiptCreateOrVerify_def is_error_status_def split: if_splits
          dest: receipt_verify_ok [OF co] create_only_created [OF co])
  qed
  then show "receipt_slot stored w' (receipt_id r) = Held r" by (simp add: receipt_slot_def)
next
  fix w k and r :: AuditDeliveryReceipt
  assume "receipt_slot stored w k \<noteq> Absent"
  then have ne: "stored w k \<noteq> None" by (cases "stored w k") (auto simp: receipt_slot_def)
  have "stored (snd (ReceiptCreateOrVerify create get r w)) k = stored w k"
    using create_only_keeps [OF co ne, of "receipt_id r" "\<lparr>rd_receipt = r, rd_erased = False\<rparr>"]
    by (auto simp: ReceiptCreateOrVerify_def split: prod.splits write_reply.splits)
  then show "receipt_slot stored (snd (ReceiptCreateOrVerify create get r w)) k = receipt_slot stored w k"
    by (simp add: receipt_slot_def)
qed

lemma history_verify_ok:
  assumes co: "create_only create get stored" and ok: "history_verify get i h w = None"
  shows "history_slot stored w i = Held (history_content h)"
proof -
  obtain status doc where "get i w = RReply status (Some (HistoryDoc doc))" "status < 300" "same_history doc h"
    using ok by (auto simp: history_verify_def is_error_status_def
        split: read_reply.splits if_splits option.splits history_doc.splits)
  then show ?thesis using create_only_read [OF co]
    by (fastforce simp: history_slot_def history_content_def same_history_def)
qed

lemma history_identity_store:
  assumes co: "create_only create get stored"
  shows "identity_store (HistoryCreateOrVerify create get) history_id history_content (history_slot stored)"
proof
  fix h :: HistoryRecord and w w'
  assume ok: "HistoryCreateOrVerify create get h w = (None, w')"
  show "history_slot stored w' (history_id h) = Held (history_content h)"
  proof (cases "create (history_id h) (HistoryDoc h) w")
    case (Pair reply v)
    then show ?thesis using ok
      by (cases reply) (auto simp: HistoryCreateOrVerify_def is_error_status_def history_slot_def split: if_splits
          dest: create_only_created [OF co] history_verify_ok [OF co, unfolded history_slot_def])
  qed
next
  fix w k and h :: HistoryRecord
  assume "history_slot stored w k \<noteq> Absent"
  then have ne: "stored w k \<noteq> None" by (cases "stored w k") (auto simp: history_slot_def)
  have "stored (snd (HistoryCreateOrVerify create get h w)) k = stored w k"
    using create_only_keeps [OF co ne, of "history_id h" "HistoryDoc h"]
    by (auto simp: HistoryCreateOrVerify_def split: prod.splits write_reply.splits)
  then show "history_slot stored (snd (HistoryCreateOrVerify create get h w)) k = history_slot stored w k"
    by (simp add: history_slot_def)
qed

interpretation receipts: identity_store "ReceiptCreateOrVerify cluster_create cluster_get" receipt_id "\<lambda>r. r" "receipt_slot stored_in"
  by (rule receipt_identity_store [OF cluster_create_only])

interpretation history: identity_store "HistoryCreateOrVerify cluster_create cluster_get" history_id history_content "history_slot stored_in"
  by (rule history_identity_store [OF cluster_create_only])

section \<open>Properties\<close>

text \<open>A publisher/event identity is bound to the first content accepted for it: once a receipt was
  accepted, then after any further calls, with any answers and losses on the way, a receipt with the
  same identity is accepted only if it is the same receipt.\<close>

theorem receipt_no_reuse:
  assumes "create_only create get stored"
    and "ReceiptCreateOrVerify create get r w = (None, w1)"
    and "ReceiptCreateOrVerify create get r' (put_all (ReceiptCreateOrVerify create get) rs w1) = (None, w2)"
    and "receipt_id r' = receipt_id r"
  shows "r' = r"
  using identity_store.no_reuse [OF receipt_identity_store [OF assms(1)] assms(2-4)] .

text \<open>C5: history is append-only under ingestion: once a mutation record was accepted, a later record
  with the same identity is accepted only with the same publisher, event, fingerprint, object,
  revision and action.\<close>

theorem history_no_reuse:
  assumes "create_only create get stored"
    and "HistoryCreateOrVerify create get h w = (None, w1)"
    and "HistoryCreateOrVerify create get h' (put_all (HistoryCreateOrVerify create get) hs w1) = (None, w2)"
    and "history_id h' = history_id h"
  shows "history_content h' = history_content h"
  using identity_store.no_reuse [OF history_identity_store [OF assms(1)] assms(2-4)] .

text \<open>C6: an erasure fence is permanent: no sequence of replayed appends removes it, and every append
  of the erased identity fails.\<close>

theorem erasure_permanent:
  assumes "create_only create get stored" "stored w (history_id h) = Some (ErasureFence p i)"
  shows "history_slot stored (put_all (HistoryCreateOrVerify create get) hs w) (history_id h) = Fenced \<and>
    fst (HistoryCreateOrVerify create get h (put_all (HistoryCreateOrVerify create get) hs w)) \<noteq> None"
proof -
  have f: "history_slot stored w (history_id h) = Fenced" using assms(2) by (simp add: history_slot_def)
  show ?thesis
    using identity_store.put_all_keep [OF history_identity_store [OF assms(1)], of w "history_id h" hs]
      identity_store.fence_permanent [OF history_identity_store [OF assms(1)] f, of hs] f by simp
qed

text \<open>When requests are not disturbed, appending a record again succeeds: a retry after a lost
  acknowledgement gets through.\<close>

theorem history_retry_succeeds:
  assumes "HistoryCreateOrVerify cluster_create cluster_get h cl = (None, cl1)" "cl_faults cl1 = []"
  shows "HistoryCreateOrVerify cluster_create cluster_get h cl1 = (None, cl1)"
proof -
  have held: "history_slot stored_in cl1 (history_id h) = Held (history_content h)"
    using history.put_ok [OF assms(1)] .
  then obtain h' where h': "stored_in cl1 (history_id h) = Some (HistoryDoc h')" "history_content h' = history_content h"
    by (auto simp: history_slot_def split: option.splits history_doc.splits)
  have "history_configured h" "ae_Origin (h_Audit h) = AuditOriginMutation"
    using assms(1) by (auto simp: HistoryCreateOrVerify_def split: if_splits)
  moreover have "cluster_create (history_id h) (HistoryDoc h) cl1 = (WReply status_conflict True, cl1)"
    using h'(1) assms(2) by (simp add: cluster_create_def next_fault_def Let_def)
  moreover have "history_verify cluster_get (history_id h) h cl1 = None"
    using h' by (simp add: history_verify_def cluster_get_def is_error_status_def same_history_def history_content_def)
  ultimately show ?thesis by (simp add: HistoryCreateOrVerify_def)
qed

lemma unique_tags_loop_spec:
  "unique_tags_loop seen out ss = out @ filter (\<lambda>s. s \<notin> seen) (first_occurrences ss)"
proof (induction ss arbitrary: seen out)
  case (Cons s ss)
  then show ?case using filter_insert_first_occurrences [of s seen] by simp
qed simp

text \<open>The audited document keeps, of the envelope's and then the configuration's tags, the first
  occurrence of each in order, and a validated envelope always has a document: its reference is
  type:id, it is the latest, and a delete is not public and has no access check or data.\<close>

theorem AuditProjectionBody_valid:
  assumes "validateV2 ps validate auth objectType e = Inr ()" "e_IndexingConfig e = Some config"
  shows "\<exists>body. AuditProjectionBody e objectType = Inr body \<and>
    b_ObjectRef body = objectType @ '':'' @ c_ObjectID config \<and> b_Latest body = Some True \<and>
    b_Tags body = (if e_Action e = ActionDeleted then e_Tags e else first_occurrences (e_Tags e @ c_Tags config)) \<and>
    (e_Action e = ActionDeleted \<longrightarrow> \<not> b_Public body \<and> b_AccessCheckQuery body = '''' \<and> b_Data body = [])"
proof -
  from assms(1) obtain audit config' where v: "e_Audit e = Some audit" "e_IndexingConfig e = Some config'"
    "ValidAuditObjectType objectType" "validateVersion2Action e audit config' = Inr ()"
    by (rule validateV2_Inr)
  have ne: "objectType \<noteq> []" using v(3) by (auto simp: ValidAuditObjectType_def auditObjectPattern_def)
  have tags: "uniqueAuditTags a b = first_occurrences (a @ b)" for a b
    by (simp add: uniqueAuditTags_def unique_tags_loop_spec)
  have "(\<exists>d. e_Data e = JObj d) \<and> (e_Action e = ActionCreated \<or> e_Action e = ActionUpdated) \<or>
        e_Action e = ActionDeleted \<and> e_Data e = JStr (c_ObjectID config')"
    using v(4) by (auto simp: validateVersion2Action_def rbind_Inr_conv require_Inr_conv Let_def
        data_is_object_def split: if_splits)
  then show ?thesis using v(1,2) assms(2) ne
    by (auto simp: AuditProjectionBody_def Let_def tags zero_body_def)
qed

text \<open>The documented reply of an update request with a script: an error status for a script error,
  otherwise the result and the source after the update.\<close>

definition script_reply :: "'d script_params \<Rightarrow> 'd source option \<Rightarrow> update_reply" where
  "script_reply p src =
     (let text_of = (\<lambda>x. case x of Some s \<Rightarrow> s | None \<Rightarrow> '''') in
      case auditProjectionScript p src of
        Throw _ \<Rightarrow> UReply 400 None
      | Noop \<Rightarrow> UReply 200 (Some \<lparr>ur_Result = ''noop'', ur_Identity = '''', ur_Fingerprint = '''',
                                  ur_MutationIdentity = '''', ur_MutationFingerprint = ''''\<rparr>)
      | Write s \<Rightarrow>
          UReply (if src = None then 201 else 200)
            (Some \<lparr>ur_Result = (if src = None then ''created'' else ''updated''),
                   ur_Identity = text_of (s_event_key s), ur_Fingerprint = text_of (s_event_fingerprint s),
                   ur_MutationIdentity = text_of (s_mutation_key s),
                   ur_MutationFingerprint = text_of (s_mutation_fingerprint s)\<rparr>))"

text \<open>\<open>ApplyIfNewer\<close> reports exactly what the script did: the body when the document was replaced,
  nothing when the script was a no-op or only recorded the mutation's identity, and an error when the
  script refused; so a domain event is published for a replaced document and only then.\<close>

theorem ApplyIfNewer_reports:
  assumes "e_Audit e = Some audit" "AuditProjectionBody e objectType = Inr body" "fingerprint \<noteq> ''''"
    and p: "p = projection_params fmt_nanos audit fingerprint body"
    and upd: "update (b_ObjectRef body) p w = (script_reply p src, w')"
    and known: "\<And>s r. src = Some s \<Longrightarrow> s_revision s = Some r \<Longrightarrow> s_event_key s \<noteq> Some (audit_identity audit) \<and> s_event_key s \<noteq> Some '''' \<and>
        s_event_key s \<noteq> None \<and> s_event_fingerprint s \<noteq> Some '''' \<and> s_event_fingerprint s \<noteq> None"
  shows "snd (ApplyIfNewer update fmt_nanos e objectType fingerprint w) = w' \<and>
    (case auditProjectionScript p src of
       Throw _ \<Rightarrow> fst (ApplyIfNewer update fmt_nanos e objectType fingerprint w) = failf (Store ProjectionStatus) [nat_str 400]
     | Noop \<Rightarrow> fst (ApplyIfNewer update fmt_nanos e objectType fingerprint w) = Inr None
     | Write s \<Rightarrow> fst (ApplyIfNewer update fmt_nanos e objectType fingerprint w) =
                    Inr (if s = replace_source p src then Some body else None))"
proof -
  have run: "ApplyIfNewer update fmt_nanos e objectType fingerprint w =
      (case script_reply p src of
         UTransport \<Rightarrow> (fail (Store ProjectionTransport), w')
       | UReply status result \<Rightarrow>
           if status \<noteq> 200 \<and> status \<noteq> 201 then (failf (Store ProjectionStatus) [nat_str status], w')
           else (case result of None \<Rightarrow> (fail (Store ProjectionDecode), w')
             | Some r \<Rightarrow> (interpret_update (audit_identity audit) fingerprint
                            (ae_Origin audit \<noteq> AuditOriginMutation) body r, w')))"
    using assms(1-3) upd by (simp add: ApplyIfNewer_def p split: update_reply.splits)
  have pid: "sp_identity p = audit_identity audit" "sp_fingerprint p = fingerprint" "audit_identity audit \<noteq> ''''"
    "sp_projection_only p = (ae_Origin audit \<noteq> AuditOriginMutation)"
    by (simp_all add: p projection_params_def audit_identity_def)
  show ?thesis
  proof (cases "auditProjectionScript p src")
    case (Write s)
    from Write show ?thesis
    proof (cases rule: script_Write_cases)
      case replace
      then have "s_event_key s = Some (audit_identity audit)" "s_event_fingerprint s = Some fingerprint"
        by (simp_all add: replace_source_def Let_def pid)
      then show ?thesis using Write replace assms(3) pid(3)
        by (simp add: run script_reply_def interpret_update_def Let_def)
    next
      case (recorded s0)
      have "s_event_key s \<noteq> Some (audit_identity audit)" using recorded known [OF recorded(1,2)] by simp
      then have "s \<noteq> replace_source p src" by (auto simp: replace_source_def Let_def pid)
      then show ?thesis using Write recorded known [OF recorded(1,2)] pid
        by (auto simp: run script_reply_def interpret_update_def Let_def)
    qed
  qed (simp_all add: run script_reply_def interpret_update_def Let_def)
qed

section \<open>Witnesses\<close>

definition sample_receipt :: AuditDeliveryReceipt where
  "sample_receipt = \<lparr>r_Publisher = ''proj'', r_EventID = ''e1'', r_Origin = AuditOriginMutation,
     r_Fingerprint = replicate 64 (CHR ''a'')\<rparr>"

definition sample_history :: HistoryRecord where
  "sample_history = \<lparr>
     h_Publisher = ''proj'', h_EventID = ''e1'', h_ObjectType = ''project'', h_ObjectID = ''42'',
     h_Action = ActionDeleted, h_ResourceRevision = 3, h_OccurredAt = 0, h_IngestedAt = 1,
     h_HistoryCheckObject = ''project:42'', h_HistoryCheckRelation = ''historian'',
     h_Scope = ae_Scope sample_audit, h_Audit = sample_audit\<lparr>ae_Origin := AuditOriginMutation\<rparr>,
     h_Fingerprint = ''f''\<rparr>"

definition empty_cluster :: "'d cluster" where
  "empty_cluster = \<lparr>cl_docs = [], cl_faults = []\<rparr>"

lemmas store_defs = ReceiptCreateOrVerify_def HistoryCreateOrVerify_def receipt_configured_def
  history_configured_def receipt_verify_def history_verify_def same_history_def is_error_status_def
  status_conflict_def cluster_create_def cluster_get_def stored_in_def next_fault_def receipt_id_def
  history_id_def Let_def

lemma sample_receipt_stored:
  "ReceiptCreateOrVerify cluster_create cluster_get sample_receipt empty_cluster =
     (None, \<lparr>cl_docs = [(''proj:e1'', \<lparr>rd_receipt = sample_receipt, rd_erased = False\<rparr>)], cl_faults = []\<rparr>)"
  by (simp add: store_defs sample_receipt_def empty_cluster_def grammar_defs byte_def go_consts)

lemma sample_history_stored:
  "HistoryCreateOrVerify cluster_create cluster_get sample_history empty_cluster =
     (None, \<lparr>cl_docs = [(''proj:e1'', HistoryDoc sample_history)], cl_faults = []\<rparr>)"
  by (simp add: store_defs sample_history_def empty_cluster_def grammar_defs byte_def)

theorem receipt_no_reuse_witness: "
  fst (ReceiptCreateOrVerify cluster_create cluster_get (sample_receipt\<lparr>r_Origin := AuditOriginReindex\<rparr>)
         (snd (ReceiptCreateOrVerify cluster_create cluster_get sample_receipt empty_cluster))) \<noteq> None"
proof -
  let ?put = "ReceiptCreateOrVerify cluster_create cluster_get"
  let ?r = "sample_receipt\<lparr>r_Origin := AuditOriginReindex\<rparr>"
  have "?r \<noteq> sample_receipt" by (simp add: sample_receipt_def go_consts)
  moreover have "receipt_id ?r = receipt_id sample_receipt" by (simp add: receipt_id_def)
  moreover obtain cl1 where one: "?put sample_receipt empty_cluster = (None, cl1)" using sample_receipt_stored by blast
  moreover have "put_all ?put [] cl1 = cl1" by (simp add: put_all_def)
  ultimately show ?thesis
    using receipt_no_reuse [OF cluster_create_only one, of ?r "[]"] by (cases "?put ?r cl1") auto
qed

theorem history_no_reuse_witness:
  "fst (HistoryCreateOrVerify cluster_create cluster_get (sample_history\<lparr>h_ObjectID := ''43''\<rparr>)
          (snd (HistoryCreateOrVerify cluster_create cluster_get sample_history empty_cluster))) \<noteq> None"
proof -
  let ?put = "HistoryCreateOrVerify cluster_create cluster_get"
  let ?h = "sample_history\<lparr>h_ObjectID := ''43''\<rparr>"
  have "history_content ?h \<noteq> history_content sample_history" by (simp add: sample_history_def history_content_def)
  moreover have "history_id ?h = history_id sample_history" by (simp add: history_id_def)
  moreover obtain cl1 where one: "?put sample_history empty_cluster = (None, cl1)" using sample_history_stored by blast
  moreover have "put_all ?put [] cl1 = cl1" by (simp add: put_all_def)
  ultimately show ?thesis
    using history_no_reuse [OF cluster_create_only one, of ?h "[]"] by (cases "?put ?h cl1") auto
qed

theorem erasure_permanent_witness:
  "fst (HistoryCreateOrVerify cluster_create cluster_get sample_history
          (put_all (HistoryCreateOrVerify cluster_create cluster_get) [sample_history]
             \<lparr>cl_docs = [(''proj:e1'', ErasureFence ''proj'' ''e1'')], cl_faults = [DropReply]\<rparr>)) \<noteq> None"
proof -
  let ?cl = "\<lparr>cl_docs = [(''proj:e1'', ErasureFence ''proj'' ''e1'')], cl_faults = [DropReply]\<rparr>"
  have "stored_in ?cl (history_id sample_history) = Some (ErasureFence ''proj'' ''e1'')"
    by (simp add: stored_in_def history_id_def sample_history_def)
  then show ?thesis using erasure_permanent [OF cluster_create_only] by blast
qed

theorem history_retry_succeeds_witness:
  "HistoryCreateOrVerify cluster_create cluster_get sample_history
     \<lparr>cl_docs = [(''proj:e1'', HistoryDoc sample_history)], cl_faults = []\<rparr> =
   (None, \<lparr>cl_docs = [(''proj:e1'', HistoryDoc sample_history)], cl_faults = []\<rparr>)"
  by (rule history_retry_succeeds [OF sample_history_stored]) simp

theorem AuditProjectionBody_valid_witness:
  "\<exists>body. AuditProjectionBody sample_envelope ''project'' = Inr body \<and> b_ObjectRef body = ''project:42'' \<and> \<not> b_Public body"
  using AuditProjectionBody_valid [OF sample_envelope_valid, of sample_v2_config]
  by (auto simp: sample_envelope_def sample_v2_config_def)

definition sample_document :: TransactionBody where
  "sample_document = (case AuditProjectionBody sample_envelope ''project'' of Inr b \<Rightarrow> b | Inl _ \<Rightarrow> zero_body)"

definition sample_params :: "TransactionBody script_params" where
  "sample_params = projection_params (\<lambda>_. ''t'') sample_audit ''f'' sample_document"

theorem ApplyIfNewer_reports_witness:
  "fst (ApplyIfNewer (\<lambda>_ p w. (script_reply p w, deliver p w)) (\<lambda>_. ''t'') sample_envelope ''project'' ''f'' None)
   = Inr (Some sample_document)"
proof -
  have body: "AuditProjectionBody sample_envelope ''project'' = Inr sample_document"
    by (simp add: sample_document_def AuditProjectionBody_def sample_envelope_def sample_v2_config_def Let_def)
  have out: "auditProjectionScript sample_params None = Write (replace_source sample_params None)"
    by (simp add: auditProjectionScript_def)
  show ?thesis
    using ApplyIfNewer_reports [of sample_envelope sample_audit "''project''" sample_document "''f''" sample_params
        "\<lambda>_. ''t''" "\<lambda>_ p w. (script_reply p w, deliver p w)" None None "deliver sample_params None"] body out
    by (simp add: sample_params_def sample_envelope_def)
qed

end
