(* ===== verification/Json_Fuel.thy ===== *)
theory Json_Fuel
  imports Go_Json
begin

text \<open>
  The fuel of the JSON parser of Go_Json never decides a result: every scanner leaves a rest that is
  shorter than its input, and with fuel of twice the length of the input any further fuel gives the same
  result. So a text that \<open>json_parse\<close> refuses is refused by its syntax or by the limit of its depth.
\<close>

section \<open>What the scanners consume\<close>

lemma hex4_shorter: "hex4 s = Some (r, t) \<Longrightarrow> length t < length s"
  by (cases s rule: hex4.cases) (auto split: option.splits)

lemma low_surrogate_shorter: "low_surrogate s = Some (r, t) \<Longrightarrow> length t < length s"
  by (auto simp: low_surrogate_def dest!: hex4_shorter split: if_splits option.splits)

lemma unicode_escape_shorter: "unicode_escape s = Some (out, t) \<Longrightarrow> length t < length s"
  by (fastforce simp: unicode_escape_def dest: hex4_shorter low_surrogate_shorter split: if_splits option.splits)

lemma escape_shorter:
  assumes "(if e = CHR ''u'' then unicode_escape es else map_option (\<lambda>d. ([d], es)) (simple_escape e)) = Some (out, rest)"
  shows "length rest \<le> length es"
  using assms unicode_escape_shorter [of es out rest] by (auto split: if_splits)

lemma decoded_shorter: "s \<noteq> [] \<Longrightarrow> length (drop (snd (decode_rune s)) s) < length s"
  using decode_rune_width [of s] by simp

lemma scan_string_shorter: "scan_string n s = Some (t, r) \<Longrightarrow> length r < length s"
proof (induction n arbitrary: s t r)
  case (Cons u n)
  show ?case
  proof (cases s)
    case (Cons c cs)
    have plain: "length r < Suc (length cs)" if "scan_string n (drop (snd (decode_rune (c # cs))) (c # cs)) = Some (t', r)" for t'
      using Cons.IH [OF that] by simp
    have escaped: "length r < length rest" if "scan_string n rest = Some (t', r)" for rest t'
      using Cons.IH [OF that] .
    show ?thesis
      using Cons.prems Cons
      by (auto simp del: decode_rune.simps split: if_splits list.splits option.splits
          dest: plain dest!: escaped unicode_escape_shorter)
  qed (use Cons.prems in simp)
qed simp

lemma scan_string_fuel:
  "length s \<le> length n \<Longrightarrow> length s \<le> length m \<Longrightarrow> scan_string n s = scan_string m s"
proof (induction n arbitrary: s m)
  case Nil
  then show ?case by (cases m) simp_all
next
  case (Cons u n)
  show ?case
  proof (cases s)
    case Nil
    then show ?thesis by (cases m) simp_all
  next
    case s: (Cons c cs)
    then obtain v k where m: "m = v # k" using Cons.prems(2) by (cases m) auto
    have len: "length cs \<le> length n" "length cs \<le> length k" using Cons.prems s m by simp_all
    have same: "scan_string n rest = scan_string k rest" if "length rest \<le> length cs" for rest
      using Cons.IH [of rest k] that len by simp
    have plain: "scan_string n (drop (snd (decode_rune s)) s) = scan_string k (drop (snd (decode_rune s)) s)"
      using same [of "drop (snd (decode_rune s)) s"] decoded_shorter [of s] s by simp
    have escaped: "scan_string n rest = scan_string k rest"
      if "cs = e # es" "(if e = CHR ''u'' then unicode_escape es else map_option (\<lambda>d. ([d], es)) (simple_escape e)) = Some (out, rest)" for e es out rest
      using same [of rest] escape_shorter [OF that(2)] that(1) by simp
    show ?thesis
      using plain escaped s m by (auto simp del: decode_rune.simps split: list.splits option.splits)
  qed
qed

lemma scan_int_shorter: "scan_int s = Some (i, t) \<Longrightarrow> length t < length s"
  by (auto simp: scan_int_def less_Suc_eq_le length_dropWhile_le split: list.splits if_splits)

lemma scan_frac_shorter: "scan_frac s = Some (f, t) \<Longrightarrow> length t \<le> length s"
  using length_dropWhile_le [of is_digit "tl s"] by (auto simp: scan_frac_def split: if_splits)

lemma scan_exp_digits_shorter: "scan_exp_digits neg s = Some (e, t) \<Longrightarrow> length t \<le> length s"
  by (auto simp: scan_exp_digits_def Let_def length_dropWhile_le split: if_splits)

lemma scan_exp_shorter: "scan_exp s = Some (e, t) \<Longrightarrow> length t \<le> length s"
  by (auto simp: scan_exp_def dest!: scan_exp_digits_shorter split: list.splits if_splits)

lemma scan_number_shorter: "scan_number s = Some (l, t) \<Longrightarrow> length t < length s"
  by (cases s) (auto simp: scan_number_def Let_def dest!: scan_int_shorter scan_frac_shorter scan_exp_shorter split: option.splits if_splits prod.splits)

lemma scan_literal_shorter: "scan_literal s = Some (v, t) \<Longrightarrow> length t < length s"
  by (cases "s = []") (auto simp: scan_literal_def dest: scan_number_shorter split: if_splits option.splits)

lemma skip_space_shorter: "length (skip_space s) \<le> length s"
  by (simp add: skip_space_def length_dropWhile_le)

lemma skip_space_cons: "skip_space s = c # cs \<Longrightarrow> length cs < length s"
  using skip_space_shorter [of s] by simp

lemmas parse_simps = parse_value.simps parse_elems.simps parse_members.simps

lemma parse_shorter:
  "\<And>d s v r. parse_value n d s = Some (v, r) \<Longrightarrow> length r < length s"
  "\<And>d s vs r. parse_elems n d s = Some (vs, r) \<Longrightarrow> length r < length s"
  "\<And>d s m r. parse_members n d s = Some (m, r) \<Longrightarrow> length r < length s"
proof (induction n)
  case (Cons u n)
  note [simp] = parse_simps
  {
    case (1 d s v r)
    then obtain c cs where s: "skip_space s = c # cs" by (auto split: list.splits)
    note bounds = skip_space_cons [OF s] skip_space_shorter [of cs]
    show ?case
      using 1 s bounds
      by (auto split: if_splits dest!: Cons.IH scan_string_shorter scan_literal_shorter)
  next
    case (2 d s vs r)
    then show ?case
      by (auto split: option.splits list.splits if_splits dest!: Cons.IH skip_space_cons)
  next
    case (3 d s m r)
    then show ?case
      by (auto split: option.splits list.splits if_splits dest!: Cons.IH skip_space_cons scan_string_shorter)
  }
qed (simp_all add: parse_simps)

section \<open>Enough fuel\<close>

lemma parse_fuel:
  "\<And>d s m. 2 * length s \<le> length n \<Longrightarrow> 2 * length s \<le> length m \<Longrightarrow> parse_value n d s = parse_value m d s"
  "\<And>d s m. 2 * length s < length n \<Longrightarrow> 2 * length s < length m \<Longrightarrow> parse_elems n d s = parse_elems m d s"
  "\<And>d s m. 2 * length s < length n \<Longrightarrow> 2 * length s < length m \<Longrightarrow> parse_members n d s = parse_members m d s"
proof (induction n)
  case Nil
  {
    case (1 d s m)
    then show ?case by (cases m) (simp_all add: parse_simps skip_space_def)
  }
next
  case (Cons u n)
  note [simp] = parse_simps
  {
    case (1 d s m)
    show ?case
    proof (cases "skip_space s")
      case Nil
      then show ?thesis by (cases m) simp_all
    next
      case s: (Cons c cs)
      have short: "2 * length cs < length n" using skip_space_cons [OF s] 1 by simp
      obtain v k where m: "m = v # k" using skip_space_cons [OF s] 1 by (cases m) auto
      then have "2 * length cs < length k" using skip_space_cons [OF s] 1 by simp
      then show ?thesis using Cons.IH(2,3) [OF short, of k "d + 1"] s m by simp
    qed
  next
    case (2 d s m)
    then obtain v k where m: "m = v # k" by (cases m) auto
    have whole: "parse_value n d s = parse_value k d s" using 2 m by (intro Cons.IH(1)) simp_all
    have rest: "parse_elems n d cs = parse_elems k d cs" if "parse_value k d s = Some (x, r)" "skip_space r = c # cs" for x r c cs
      using parse_shorter(1) [OF that(1)] skip_space_cons [OF that(2)] 2 m by (intro Cons.IH(2)) simp_all
    show ?case using whole rest m by (auto split: option.splits list.splits)
  next
    case (3 d s m)
    then obtain v k where m: "m = v # k" by (cases m) auto
    have key: "parse_value n d cs = parse_value k d cs" "length cs < length s"
      if "skip_space s = q # qs" "scan_string qs qs = Some (key, r)" "skip_space r = c # cs" for q qs key r c cs
    proof -
      show len: "length cs < length s"
        using skip_space_cons [OF that(1)] scan_string_shorter [OF that(2)] skip_space_cons [OF that(3)] by simp
      show "parse_value n d cs = parse_value k d cs" using len 3 m by (intro Cons.IH(1)) simp_all
    qed
    have rest: "parse_members n d xs = parse_members k d xs"
      if "skip_space s = q # qs" "scan_string qs qs = Some (key, t)" "skip_space t = c # cs" "parse_value k d cs = Some (y, r)" "skip_space r = x # xs"
      for q qs key t c cs y r x xs
      using key(2) [OF that(1-3)] parse_shorter(1) [OF that(4)] skip_space_cons [OF that(5)] 3 m by (intro Cons.IH(3)) simp_all
    show ?case using key(1) rest m by (auto split: option.splits list.splits)
  }
qed (simp_all add: parse_simps)

text \<open>Any fuel beyond the one \<open>json_parse\<close> takes gives the same value, rest and refusal.\<close>

lemma json_parse_fuel: "parse_value (s @ s @ more_fuel) 0 s = parse_value (s @ s) 0 s"
  by (rule parse_fuel(1)) simp_all

end
