(* ===== verification/Json_Print.thy ===== *)
theory Json_Print
  imports Json_Fuel
begin

text \<open>
  The text \<open>json.Marshal\<close> writes for a value whose strings need no escape and whose numbers are natural, and
  that the parser reads it back. The keys of an object are written in the order of the list; Go sorts them.
\<close>

section \<open>Printing\<close>

definition quoted :: "string \<Rightarrow> string" where
  "quoted s = CHR 0x22 # s @ [CHR 0x22]"

fun comma_sep :: "string list \<Rightarrow> string" where
  "comma_sep [] = []"
| "comma_sep [x] = x"
| "comma_sep (x # xs) = x @ CHR '','' # comma_sep xs"

fun json_print :: "json \<Rightarrow> string" where
  "json_print JNull = ''null''"
| "json_print (JBool b) = (if b then ''true'' else ''false'')"
| "json_print (JNum lit) = lit"
| "json_print (JStr s) = quoted s"
| "json_print (JArr vs) = CHR ''['' # comma_sep (map json_print vs) @ [CHR '']'']"
| "json_print (JObj m) = CHR ''{'' # comma_sep (map (\<lambda>(k, v). quoted k @ CHR '':'' # json_print v) m) @ [CHR ''}'']"

text \<open>Printable ASCII without quotation mark, backslash and the characters \<open>json.Marshal\<close> escapes for HTML.\<close>

definition plain :: "string \<Rightarrow> bool" where
  "plain s = list_all (\<lambda>c. 32 \<le> byte c \<and> byte c < 127 \<and> byte c \<notin> {34, 38, 60, 62, 92}) s"

definition plain_number :: "string \<Rightarrow> bool" where
  "plain_number lit = (lit = ''0'' \<or> (lit \<noteq> [] \<and> hd lit \<noteq> CHR ''0'' \<and> list_all is_digit lit))"

fun printable :: "int \<Rightarrow> json \<Rightarrow> bool" where
  "printable d (JNum lit) = plain_number lit"
| "printable d (JStr s) = plain s"
| "printable d (JArr vs) = (d < max_depth \<and> list_all (printable (d + 1)) vs)"
| "printable d (JObj m) = (d < max_depth \<and> list_all (\<lambda>(k, v). plain k \<and> printable (d + 1) v) m)"
| "printable d _ = True"

definition boundary :: "string \<Rightarrow> bool" where
  "boundary rest = (rest = [] \<or> hd rest \<in> {CHR '','', CHR '']'', CHR ''}''})"

section \<open>Reading back\<close>

lemma encode_byte: "byte c < 128 \<Longrightarrow> encode_rune (byte c) = [c]"
  by (simp add: encode_rune_def byte_def)

lemma scan_plain:
  "plain s \<Longrightarrow> length s < length n \<Longrightarrow> scan_string n (s @ CHR 0x22 # rest) = Some (s, rest)"
proof (induction s arbitrary: n)
  case Nil
  then show ?case by (cases n) (simp_all add: byte_def)
next
  case (Cons c s)
  then obtain u k where n: "n = u # k" "length s < length k" by (cases n) auto
  have c: "byte c \<noteq> 34" "\<not> byte c < 32" "byte c \<noteq> 92" "byte c < 128" "plain s" using Cons.prems by (simp_all add: plain_def)
  show ?case using c n Cons.IH [OF c(5) n(2)] by (simp add: encode_byte)
qed

lemma scan_quoted: "plain s \<Longrightarrow> scan_string (s @ CHR 0x22 # rest) (s @ CHR 0x22 # rest) = Some (s, rest)"
  by (rule scan_plain) simp_all

lemma boundary_cases:
  assumes "boundary rest"
  obtains "rest = []" | c cs where "rest = c # cs" "c \<in> {CHR '','', CHR '']'', CHR ''}''}"
  using assms by (cases rest) (auto simp: boundary_def)

lemma boundary_ends_number:
  assumes "boundary rest"
  shows "takeWhile is_digit rest = []" "dropWhile is_digit rest = rest" "scan_frac rest = Some ([], rest)" "scan_exp rest = Some (0, rest)"
  using assms by (auto elim!: boundary_cases simp: is_digit_def byte_def scan_frac_def scan_exp_def)

lemma digit_not: "is_digit c \<Longrightarrow> c \<notin> {CHR ''-'', CHR ''n'', CHR ''t'', CHR ''f'', CHR ''{'', CHR ''['', CHR '']'', CHR ''}'', CHR 0x22}"
  by (auto simp: is_digit_def byte_def)

lemma scan_plain_number:
  assumes "plain_number lit" "boundary rest"
  shows "\<exists>l. scan_number (lit @ rest) = Some (l, rest)"
proof -
  have "\<exists>i. scan_int (lit @ rest) = Some (i, rest)"
    using assms boundary_ends_number [OF assms(2)]
    by (cases lit) (auto simp: plain_number_def scan_int_def list_all_iff dropWhile_append takeWhile_append)
  moreover have "lit @ rest \<noteq> [] \<and> hd (lit @ rest) = CHR ''-'' \<Longrightarrow> False"
    using assms digit_not [of "hd lit"] by (cases lit) (auto simp: plain_number_def)
  ultimately show ?thesis
    using boundary_ends_number [OF assms(2)] unfolding scan_number_def Let_def by auto
qed

lemma print_starts:
  assumes "printable d v"
  obtains c cs where "json_print v = c # cs" "\<not> is_json_space c" "c \<noteq> CHR '']''" "c \<noteq> CHR ''}''"
proof (cases v)
  case (JNum lit)
  then obtain c cs where "lit = c # cs" "is_digit c"
    using assms by (cases lit) (auto simp: plain_number_def is_digit_def byte_def)
  then show ?thesis using that [of c cs] JNum digit_not [of c] by (auto simp: is_digit_def is_json_space_def byte_def)
next
  case (JBool b)
  then show ?thesis by (cases b) (use that in \<open>auto simp: is_json_space_def byte_def\<close>)
qed (use that in \<open>auto simp: quoted_def is_json_space_def byte_def\<close>)

lemma skip_space_not: "\<not> is_json_space c \<Longrightarrow> skip_space (c # cs) = c # cs"
  by (simp add: skip_space_def)

lemma skip_space_print: "printable d v \<Longrightarrow> skip_space (json_print v @ rest) = json_print v @ rest"
  by (elim print_starts) (simp add: skip_space_not)

lemma skip_space_simps [simp]:
  "skip_space [] = []" "skip_space (CHR '','' # s) = CHR '','' # s" "skip_space (CHR '':'' # s) = CHR '':'' # s"
  "skip_space (CHR '']'' # s) = CHR '']'' # s" "skip_space (CHR ''}'' # s) = CHR ''}'' # s"
  "skip_space (CHR 0x22 # s) = CHR 0x22 # s" "skip_space (CHR ''{'' # s) = CHR ''{'' # s" "skip_space (CHR ''['' # s) = CHR ''['' # s"
  by (simp_all add: skip_space_def is_json_space_def byte_def)

lemma parse_print_scalar:
  "parse_value (u # n) d (''null'' @ rest) = Some (JNull, rest)"
  "parse_value (u # n) d (json_print (JBool b) @ rest) = Some (JBool b, rest)"
  "plain s \<Longrightarrow> parse_value (u # n) d (quoted s @ rest) = Some (JStr s, rest)"
  "plain_number lit \<Longrightarrow> boundary rest \<Longrightarrow> parse_value (u # n) d (lit @ rest) = Some (JNum lit, rest)"
proof -
  show "parse_value (u # n) d (''null'' @ rest) = Some (JNull, rest)"
    by (simp add: parse_value.simps skip_space_def is_json_space_def byte_def scan_literal_def)
  show "parse_value (u # n) d (json_print (JBool b) @ rest) = Some (JBool b, rest)"
    by (simp add: parse_value.simps skip_space_def is_json_space_def byte_def scan_literal_def)
  show "parse_value (u # n) d (quoted s @ rest) = Some (JStr s, rest)" if "plain s"
    using scan_quoted [OF that, of rest] by (simp add: parse_value.simps quoted_def byte_def)
  assume lit: "plain_number lit" "boundary rest"
  then obtain c cs where c: "lit = c # cs" "is_digit c"
    by (cases lit) (auto simp: plain_number_def is_digit_def byte_def)
  obtain l where l: "scan_number (lit @ rest) = Some (l, rest)" using scan_plain_number [OF lit] by blast
  have "skip_space (lit @ rest) = lit @ rest"
    using c by (auto simp: is_digit_def is_json_space_def byte_def intro!: skip_space_not)
  then show "parse_value (u # n) d (lit @ rest) = Some (JNum lit, rest)"
    using l c digit_not [OF c(2)] by (auto simp: parse_value.simps scan_literal_def byte_def is_digit_def)
qed

lemma comma_sep_Cons: "comma_sep (x # xs) = x @ (if xs = [] then [] else CHR '','' # comma_sep xs)"
  by (cases xs) simp_all

definition reads :: "json \<Rightarrow> bool" where
  "reads v \<longleftrightarrow> (\<forall>d n rest. printable d v \<longrightarrow> boundary rest \<longrightarrow> 2 * length (json_print v @ rest) \<le> length n \<longrightarrow>
     parse_value n d (json_print v @ rest) = Some (v, rest))"

lemma readsD:
  "reads v \<Longrightarrow> printable d v \<Longrightarrow> boundary rest \<Longrightarrow> 2 * length (json_print v @ rest) \<le> length n \<Longrightarrow>
     parse_value n d (json_print v @ rest) = Some (v, rest)"
  by (simp add: reads_def)

lemma boundary_simps [simp]: "boundary []" "boundary (CHR '','' # s)" "boundary (CHR '']'' # s)" "boundary (CHR ''}'' # s)"
  by (simp_all add: boundary_def)

lemma parse_print_elems:
  assumes "vs \<noteq> []" "\<And>v. v \<in> set vs \<Longrightarrow> reads v" "list_all (printable d) vs"
    and "2 * length (comma_sep (map json_print vs) @ CHR '']'' # rest) < length n"
  shows "parse_elems n d (comma_sep (map json_print vs) @ CHR '']'' # rest) = Some (vs, rest)"
  using assms
proof (induction vs arbitrary: n)
  case (Cons v vs)
  then obtain u k where n: "n = u # k" by (cases n) auto
  show ?case
  proof (cases "vs = []")
    case True
    have "parse_value k d (json_print v @ CHR '']'' # rest) = Some (v, CHR '']'' # rest)"
      using Cons.prems n True by (intro readsD) simp_all
    then show ?thesis using n True by (simp add: parse_elems.simps)
  next
    case False
    let ?more = "comma_sep (map json_print vs) @ CHR '']'' # rest"
    have "parse_value k d (json_print v @ CHR '','' # ?more) = Some (v, CHR '','' # ?more)"
      using Cons.prems n False by (intro readsD) (simp_all add: comma_sep_Cons)
    moreover have "parse_elems k d ?more = Some (vs, rest)"
      using Cons.prems n False by (intro Cons.IH) (simp_all add: comma_sep_Cons)
    ultimately show ?thesis using n False by (simp add: parse_elems.simps comma_sep_Cons)
  qed
qed simp

definition print_member :: "string \<times> json \<Rightarrow> string" where
  "print_member kv = quoted (fst kv) @ CHR '':'' # json_print (snd kv)"

lemma json_print_object: "json_print (JObj m) = CHR ''{'' # comma_sep (map print_member m) @ [CHR ''}'']"
proof -
  have "(\<lambda>(k, v). quoted k @ CHR '':'' # json_print v) = print_member" by (rule ext) (simp add: print_member_def split_def)
  then show ?thesis by simp
qed

lemma print_member_pair: "print_member (k, v) = quoted k @ CHR '':'' # json_print v"
  by (simp add: print_member_def)

lemma parse_print_members:
  assumes "m \<noteq> []" "\<And>k v. (k, v) \<in> set m \<Longrightarrow> reads v" "list_all (\<lambda>(k, v). plain k \<and> printable d v) m"
    and "2 * length (comma_sep (map print_member m) @ CHR ''}'' # rest) < length n"
  shows "parse_members n d (comma_sep (map print_member m) @ CHR ''}'' # rest) = Some (m, rest)"
  using assms
proof (induction m arbitrary: n)
  case (Cons kv m)
  obtain key v where kv: "kv = (key, v)" by (cases kv)
  obtain u k where n: "n = u # k" using Cons.prems by (cases n) auto
  have key: "plain key" "printable d v" "reads v" using Cons.prems kv by auto
  have len: "length (quoted key) = length key + 2" by (simp add: quoted_def)
  show ?case
  proof (cases "m = []")
    case True
    have "parse_value k d (json_print v @ CHR ''}'' # rest) = Some (v, CHR ''}'' # rest)"
      using Cons.prems n True kv key by (intro readsD) (simp_all add: print_member_pair)
    then show ?thesis
      using n True kv scan_quoted [OF key(1), of "CHR '':'' # json_print v @ CHR ''}'' # rest"]
      by (simp add: parse_members.simps print_member_pair quoted_def byte_def)
  next
    case False
    let ?more = "comma_sep (map print_member m) @ CHR ''}'' # rest"
    have "parse_value k d (json_print v @ CHR '','' # ?more) = Some (v, CHR '','' # ?more)"
      using Cons.prems n False kv key by (intro readsD) (simp_all add: print_member_pair comma_sep_Cons)
    moreover have "parse_members k d ?more = Some (m, rest)"
      using Cons.prems n False kv len by (intro Cons.IH) (auto simp: print_member_pair comma_sep_Cons)
    ultimately show ?thesis
      using n False kv scan_quoted [OF key(1), of "CHR '':'' # json_print v @ CHR '','' # ?more"]
      by (simp add: parse_members.simps print_member_pair quoted_def byte_def comma_sep_Cons)
  qed
qed simp

lemma readsI:
  assumes "\<And>d u k rest. printable d v \<Longrightarrow> boundary rest \<Longrightarrow> 2 * length (json_print v @ rest) \<le> Suc (length k) \<Longrightarrow>
    parse_value (u # k) d (json_print v @ rest) = Some (v, rest)"
  shows "reads v"
  unfolding reads_def
proof (intro allI impI)
  fix d rest and n :: string
  assume a: "printable d v" "boundary rest" "2 * length (json_print v @ rest) \<le> length n"
  then obtain u k where "n = u # k" by (cases n) (auto elim: print_starts)
  then show "parse_value n d (json_print v @ rest) = Some (v, rest)" using a assms by simp
qed

lemma printed_reads: "reads v"
proof (induction v)
  case JNull
  show ?case by (rule readsI) (use parse_print_scalar(1) in simp)
next
  case (JBool b)
  show ?case by (rule readsI) (rule parse_print_scalar(2))
next
  case (JNum lit)
  show ?case by (rule readsI) (use parse_print_scalar(4) in simp)
next
  case (JStr s)
  show ?case by (rule readsI) (use parse_print_scalar(3) in simp)
next
  case (JArr vs)
  show ?case
  proof (rule readsI)
    fix d u rest and k :: string
    assume a: "printable d (JArr vs)" "boundary rest" "2 * length (json_print (JArr vs) @ rest) \<le> Suc (length k)"
    show "parse_value (u # k) d (json_print (JArr vs) @ rest) = Some (JArr vs, rest)"
    proof (cases vs)
      case (Cons v ws)
      then obtain c cs where c: "json_print v = c # cs" "\<not> is_json_space c" "c \<noteq> CHR '']''"
        using a(1) by (auto elim: print_starts [of "d + 1" v])
      have "parse_elems k (d + 1) (comma_sep (map json_print vs) @ CHR '']'' # rest) = Some (vs, rest)"
        using a Cons JArr.IH by (intro parse_print_elems) simp_all
      moreover have "\<exists>ds. comma_sep (map json_print vs) @ CHR '']'' # rest = c # ds" using c(1) Cons by (simp add: comma_sep_Cons)
      ultimately show ?thesis using a(1) c by (auto simp: parse_value.simps skip_space_not)
    qed (use a in \<open>simp add: parse_value.simps\<close>)
  qed
next
  case (JObj m)
  show ?case
  proof (rule readsI, unfold json_print_object)
    fix d u rest and k :: string
    assume a: "printable d (JObj m)" "boundary rest"
      "2 * length ((CHR ''{'' # comma_sep (map print_member m) @ ''}'') @ rest) \<le> Suc (length k)"
    show "parse_value (u # k) d ((CHR ''{'' # comma_sep (map print_member m) @ ''}'') @ rest) = Some (JObj m, rest)"
    proof (cases m)
      case (Cons kv ms)
      have IH: "reads v" if "(key, v) \<in> set m" for key v using JObj.IH that by (metis snds.simps snd_conv)
      have "parse_members k (d + 1) (comma_sep (map print_member m) @ CHR ''}'' # rest) = Some (m, rest)"
        using a Cons by (intro parse_print_members IH) simp_all
      moreover have "\<exists>ds. comma_sep (map print_member m) @ CHR ''}'' # rest = CHR 0x22 # ds"
        using Cons by (cases kv) (simp add: comma_sep_Cons print_member_pair quoted_def)
      ultimately show ?thesis using a(1) by (auto simp: parse_value.simps)
    qed (use a in \<open>simp add: parse_value.simps\<close>)
  qed
qed

lemmas parse_print = readsD [OF printed_reads]

lemma json_parse_print: "printable 0 v \<Longrightarrow> json_parse (json_print v) = Some v"
  using parse_print [of 0 v "[]" "json_print v @ json_print v"] by (simp add: json_parse_def)

end
