(* ===== verification/Envelope_Json.thy ===== *)
theory Envelope_Json
  imports Audit_Types Json_Print
begin

text \<open>
  The strict decoding of a version 2 envelope: what \<open>decoder.Decode(&envelope)\<close> in pkg/types/audit.go does
  with the structs of pkg/types and their \<open>json\<close> tags. The code calls it only for a payload that passed
  \<open>auditJSONShape\<close>, whose keys are exact and not repeated, so that the matching of keys up to case and
  the merging of repeated keys do not arise. A member that is absent or null leaves the zero value. Fields of type
  \<open>json.RawMessage\<close> and \<open>time.Time\<close> read the text of their value, all others its tree.
\<close>

section \<open>Texts of values\<close>

text \<open>The text of the first value, and the keys of an object with the text after each of their colons.\<close>

definition value_text :: "string \<Rightarrow> string option" where
  "value_text s =
     (let t = skip_space s in
      map_option (\<lambda>(_, r). take (length t - length r) t) (parse_value (t @ t) 0 t))"

fun members_text :: "string \<Rightarrow> string \<Rightarrow> (string \<times> string) list" where
  "members_text [] s = []"
| "members_text (_ # n) s =
     (case skip_space s of
        [] \<Rightarrow> []
      | q # qs \<Rightarrow>
          if byte q \<noteq> 34 then []
          else case scan_string qs qs of
            None \<Rightarrow> []
          | Some (k, r) \<Rightarrow>
              (k, tl (skip_space r)) #
              (case parse_value (r @ r) 0 (tl (skip_space r)) of
                 None \<Rightarrow> []
               | Some (_, r2) \<Rightarrow>
                   (case skip_space r2 of
                      [] \<Rightarrow> []
                    | x # xs \<Rightarrow> if x = CHR '','' then members_text n xs else [])))"

fun text_at :: "string list \<Rightarrow> string \<Rightarrow> string option" where
  "text_at [] s = value_text s"
| "text_at (k # ks) s =
     (case skip_space s of
        [] \<Rightarrow> None
      | c # cs \<Rightarrow>
          if c \<noteq> CHR ''{'' then None
          else case map_of (members_text cs cs) k of None \<Rightarrow> None | Some t \<Rightarrow> text_at ks t)"

section \<open>Times\<close>

text \<open>\<open>Time.UnmarshalJSON\<close>: \<open>YYYY-MM-DDThh:mm:ss\<close>, an optional fraction, cut after nine digits, and \<open>Z\<close> or an
  offset. The lenient parser that \<open>parseStrictRFC3339\<close> falls back on accepts nothing else that passes its
  checks.\<close>

definition uint_in :: "nat \<Rightarrow> nat \<Rightarrow> string \<Rightarrow> nat option" where
  "uint_in lo hi s =
     (let x = nat (digits_val 0 s) in if list_all is_digit s \<and> lo \<le> x \<and> x \<le> hi then Some x else None)"

definition is_leap :: "nat \<Rightarrow> bool" where
  "is_leap y = (4 dvd y \<and> (\<not> 100 dvd y \<or> 400 dvd y))"

definition month_days :: "nat \<Rightarrow> nat list" where
  "month_days y = [31, if is_leap y then 29 else 28, 31, 30, 31, 30, 31, 31, 30, 31, 30, 31]"

text \<open>Days from 1 January 1970 to a date.\<close>

definition civil_days :: "nat \<Rightarrow> nat \<Rightarrow> nat \<Rightarrow> int" where
  "civil_days year month day =
     (let y = int year - 1 in
      365 * y + y div 4 - y div 100 + y div 400 + int (sum_list (take (month - 1) (month_days year))) + int day - 719163)"

definition nanoseconds :: "string \<Rightarrow> int" where
  "nanoseconds digits = (let ds = take 9 digits in digits_val 0 ds * 10 ^ (9 - length ds))"

text \<open>The zone: \<open>Z\<close>, or a sign, two digits of hours, a colon and two digits of minutes; in seconds.\<close>

definition zone_offset :: "string \<Rightarrow> int option" where
  "zone_offset z =
     (if z = ''Z'' then Some 0
      else case z of
        [s, h1, h2, c, m1, m2] \<Rightarrow>
          (case (uint_in 0 23 [h1, h2], uint_in 0 59 [m1, m2]) of
             (Some h, Some m) \<Rightarrow>
               if c = CHR '':'' \<and> (s = CHR ''+'' \<or> s = CHR ''-'')
               then Some ((if s = CHR ''-'' then -1 else 1) * int (h * 60 + m) * 60)
               else None
           | _ \<Rightarrow> None)
      | _ \<Rightarrow> None)"

definition fraction_zone :: "string \<Rightarrow> string \<times> string" where
  "fraction_zone s =
     (if 2 \<le> length s \<and> hd s = CHR ''.'' \<and> is_digit (s ! 1) then (takeWhile is_digit (tl s), dropWhile is_digit (tl s))
      else ([], s))"

definition slice :: "nat \<Rightarrow> nat \<Rightarrow> string \<Rightarrow> string" where
  "slice i n s = take n (drop i s)"

definition parse_rfc3339 :: "string \<Rightarrow> go_time option" where
  "parse_rfc3339 s =
     (if length s < 19 then None
      else case (uint_in 0 9999 (slice 0 4 s), uint_in 1 12 (slice 5 2 s)) of
        (Some year, Some month) \<Rightarrow>
          (case (uint_in 1 (month_days year ! (month - 1)) (slice 8 2 s), uint_in 0 23 (slice 11 2 s),
                 uint_in 0 59 (slice 14 2 s), uint_in 0 59 (slice 17 2 s)) of
             (Some day, Some hour, Some minute, Some second) \<Rightarrow>
               if s ! 4 = CHR ''-'' \<and> s ! 7 = CHR ''-'' \<and> s ! 10 = CHR ''T'' \<and> s ! 13 = CHR '':'' \<and> s ! 16 = CHR '':'' then
                 (case fraction_zone (drop 19 s) of
                    (digits, zone) \<Rightarrow>
                      map_option (\<lambda>offset.
                        \<lparr>tm_instant = (civil_days year month day * 86400 + int (hour * 3600 + minute * 60 + second) - offset) * 10 ^ 9
                           + nanoseconds digits, tm_offset = offset\<rparr>) (zone_offset zone))
               else None
           | _ \<Rightarrow> None)
      | _ \<Rightarrow> None)"

text \<open>The literal of a time: null, which leaves the zero time, or a string whose characters are read without
  unescaping.\<close>

definition decode_time :: "string option \<Rightarrow> go_time option" where
  "decode_time t =
     (case t of
        None \<Rightarrow> Some \<lparr>tm_instant = year_one, tm_offset = 0\<rparr>
      | Some raw \<Rightarrow>
          if raw = ''null'' then Some \<lparr>tm_instant = year_one, tm_offset = 0\<rparr>
          else if 2 \<le> length raw \<and> byte (hd raw) = 34 \<and> byte (last raw) = 34
          then parse_rfc3339 (butlast (tl raw)) else None)"

section \<open>Fields\<close>

text \<open>A field of a struct from the member of that key: a member that is absent or null leaves the zero value.\<close>

definition or_zero :: "'a \<Rightarrow> (json \<Rightarrow> 'a option) \<Rightarrow> json option \<Rightarrow> 'a option" where
  "or_zero zero decode v = (case v of None \<Rightarrow> Some zero | Some JNull \<Rightarrow> Some zero | Some w \<Rightarrow> decode w)"

definition decode_ptr :: "(json \<Rightarrow> 'a option) \<Rightarrow> json option \<Rightarrow> 'a option option" where
  "decode_ptr decode = or_zero None (\<lambda>w. map_option Some (decode w))"

definition decode_string :: "json option \<Rightarrow> string option" where
  "decode_string = or_zero [] as_string"

fun decode_all :: "(json \<Rightarrow> 'a option) \<Rightarrow> json list \<Rightarrow> 'a list option" where
  "decode_all decode [] = Some []"
| "decode_all decode (v # vs) =
     (case (decode v, decode_all decode vs) of (Some x, Some xs) \<Rightarrow> Some (x # xs) | _ \<Rightarrow> None)"

definition decode_list :: "(json option \<Rightarrow> 'a option) \<Rightarrow> json option \<Rightarrow> 'a list option" where
  "decode_list decode =
     or_zero [] (\<lambda>w. case w of JArr vs \<Rightarrow> decode_all (\<lambda>v. decode (Some v)) vs | _ \<Rightarrow> None)"

text \<open>\<open>strconv.ParseInt\<close> and \<open>strconv.ParseUint\<close> on the literal of a number.\<close>

definition decode_int :: "json option \<Rightarrow> int option" where
  "decode_int = or_zero 0 (\<lambda>w. case w of
     JNum lit \<Rightarrow>
       (let neg = (hd lit = CHR ''-''); ds = (if neg then tl lit else lit);
            x = (if neg then - digits_val 0 ds else digits_val 0 ds) in
        if list_all is_digit ds \<and> - (2 ^ 63) \<le> x \<and> x < 2 ^ 63 then Some x else None)
   | _ \<Rightarrow> None)"

definition decode_uint64 :: "json option \<Rightarrow> nat option" where
  "decode_uint64 = or_zero 0 (\<lambda>w. case w of
     JNum lit \<Rightarrow> if list_all is_digit lit \<and> digits_val 0 lit < 2 ^ 64 then Some (nat (digits_val 0 lit)) else None
   | _ \<Rightarrow> None)"

text \<open>A map with string values; a null value is the empty string.\<close>

definition decode_headers :: "json option \<Rightarrow> string gomap option" where
  "decode_headers = or_zero [] (\<lambda>w. case w of
     JObj m \<Rightarrow> map_option (zip (map fst m)) (decode_all (\<lambda>v. decode_string (Some v)) (map snd m))
   | _ \<Rightarrow> None)"

text \<open>The members of the object behind a struct, none of a key the struct does not have; a struct that
  is a field itself is the zero struct when it is absent or null, as an empty object is.\<close>

definition struct_members :: "string \<Rightarrow> json \<Rightarrow> json gomap option" where
  "struct_members path v =
     (case (v, map_of auditJSONFields path) of
        (JObj m, Some ks) \<Rightarrow> if list_all (\<lambda>(k, _). k \<in> set ks) m then Some m else None
      | _ \<Rightarrow> None)"

definition struct_field :: "string \<Rightarrow> json option \<Rightarrow> json gomap option" where
  "struct_field path = or_zero [] (struct_members path)"

section \<open>Structs\<close>

definition decode_profile :: "string \<Rightarrow> json \<Rightarrow> AuditActorProfile option" where
  "decode_profile path v =
     Option.bind (struct_members path v) (\<lambda>m.
     Option.bind (decode_string (map_of m ''availability'')) (\<lambda>availability.
     Option.bind (decode_ptr as_string (map_of m ''name'')) (\<lambda>name.
     Option.bind (decode_ptr as_string (map_of m ''avatar_url'')) (\<lambda>avatar.
     Option.bind (decode_ptr as_string (map_of m ''email'')) (\<lambda>email.
     Option.bind (decode_ptr as_string (map_of m ''username'')) (\<lambda>username.
       Some \<lparr>ap_Availability = availability, ap_Name = name, ap_AvatarURL = avatar,
             ap_Email = email, ap_Username = username\<rparr>))))))"

definition decode_attribution :: "json option \<Rightarrow> AuditAttribution option" where
  "decode_attribution v =
     Option.bind (struct_field ''audit.attribution'' v) (\<lambda>m.
     Option.bind (decode_string (map_of m ''actor_ref'')) (\<lambda>actor.
     Option.bind (decode_string (map_of m ''effective_actor_ref'')) (\<lambda>effective.
     Option.bind (decode_ptr (decode_profile ''audit.attribution.actor_profile'') (map_of m ''actor_profile'')) (\<lambda>profile.
     Option.bind (decode_ptr (decode_profile ''audit.attribution.effective_actor_profile'')
                    (map_of m ''effective_actor_profile'')) (\<lambda>effective_profile.
       Some \<lparr>aa_ActorRef = actor, aa_EffectiveActorRef = effective,
             aa_ActorProfile = profile, aa_EffectiveActorProfile = effective_profile\<rparr>)))))"

definition decode_scope :: "json option \<Rightarrow> AuditScope option" where
  "decode_scope v =
     Option.bind (struct_field ''audit.scope'' v) (\<lambda>m.
     Option.bind (decode_list decode_string (map_of m ''before'')) (\<lambda>before.
     Option.bind (decode_list decode_string (map_of m ''after'')) (\<lambda>after.
       Some \<lparr>as_Before = before, as_After = after\<rparr>)))"

text \<open>The snapshots are the texts of their members, null included, and empty when absent.\<close>

definition raw_text :: "string option \<Rightarrow> string" where
  "raw_text t = (case t of Some raw \<Rightarrow> raw | None \<Rightarrow> [])"

definition decode_content :: "string \<Rightarrow> json \<Rightarrow> AuditContent option" where
  "decode_content payload v =
     Option.bind (struct_members ''audit.content'' v) (\<lambda>m.
     Option.bind (decode_string (map_of m ''schema'')) (\<lambda>schema.
     Option.bind (decode_string (map_of m ''representation'')) (\<lambda>representation.
       Some \<lparr>ac_Schema = schema, ac_Representation = representation,
             ac_Before = raw_text (text_at [''audit'', ''content'', ''before''] payload),
             ac_After = raw_text (text_at [''audit'', ''content'', ''after''] payload)\<rparr>)))"

definition decode_audit :: "string \<Rightarrow> json \<Rightarrow> AuditEvent option" where
  "decode_audit payload v =
     Option.bind (struct_members ''audit'' v) (\<lambda>m.
     Option.bind (decode_string (map_of m ''event_id'')) (\<lambda>event_id.
     Option.bind (decode_string (map_of m ''publisher'')) (\<lambda>publisher.
     Option.bind (decode_time (text_at [''audit'', ''occurred_at''] payload)) (\<lambda>occurred_at.
     Option.bind (decode_uint64 (map_of m ''resource_revision'')) (\<lambda>revision.
     Option.bind (decode_string (map_of m ''origin'')) (\<lambda>origin.
     Option.bind (decode_attribution (map_of m ''attribution'')) (\<lambda>attribution.
     Option.bind (decode_scope (map_of m ''scope'')) (\<lambda>scope.
     Option.bind (decode_ptr (decode_content payload) (map_of m ''content'')) (\<lambda>content.
       Some \<lparr>ae_EventID = event_id, ae_Publisher = publisher, ae_OccurredAt = occurred_at,
             ae_ResourceRevision = revision, ae_Origin = origin, ae_Attribution = attribution,
             ae_Scope = scope, ae_Content = content\<rparr>)))))))))"

definition decode_contact :: "json option \<Rightarrow> ContactBody option" where
  "decode_contact v =
     Option.bind (struct_field ''indexing_config.contacts[]'' v) (\<lambda>m.
     Option.bind (decode_string (map_of m ''lfx_principal'')) (\<lambda>principal.
     Option.bind (decode_string (map_of m ''name'')) (\<lambda>name.
     Option.bind (decode_list decode_string (map_of m ''emails'')) (\<lambda>emails.
     Option.bind (decode_ptr as_bool (map_of m ''bot'')) (\<lambda>bot.
     Option.bind (or_zero [] as_object (map_of m ''profile'')) (\<lambda>profile.
       Some \<lparr>cb_LfxPrincipal = principal, cb_Name = name, cb_Emails = emails, cb_Bot = bot, cb_Profile = profile\<rparr>))))))"

definition decode_config :: "json \<Rightarrow> IndexingConfig option" where
  "decode_config v =
     Option.bind (struct_members ''indexing_config'' v) (\<lambda>m.
     Option.bind (decode_string (map_of m ''object_id'')) (\<lambda>object_id.
     Option.bind (decode_ptr as_bool (map_of m ''public'')) (\<lambda>public.
     Option.bind (decode_string (map_of m ''access_check_object'')) (\<lambda>access_object.
     Option.bind (decode_string (map_of m ''access_check_relation'')) (\<lambda>access_relation.
     Option.bind (decode_string (map_of m ''history_check_object'')) (\<lambda>history_object.
     Option.bind (decode_string (map_of m ''history_check_relation'')) (\<lambda>history_relation.
     Option.bind (decode_string (map_of m ''sort_name'')) (\<lambda>sort_name.
     Option.bind (decode_list decode_string (map_of m ''name_and_aliases'')) (\<lambda>aliases.
     Option.bind (decode_list decode_string (map_of m ''parent_refs'')) (\<lambda>parent_refs.
     Option.bind (decode_list decode_string (map_of m ''tags'')) (\<lambda>tags.
     Option.bind (decode_string (map_of m ''fulltext'')) (\<lambda>fulltext.
     Option.bind (decode_list decode_contact (map_of m ''contacts'')) (\<lambda>contacts.
       Some \<lparr>c_ObjectID = object_id, c_Public = public, c_AccessCheckObject = access_object,
             c_AccessCheckRelation = access_relation, c_HistoryCheckObject = history_object,
             c_HistoryCheckRelation = history_relation, c_SortName = sort_name, c_NameAndAliases = aliases,
             c_ParentRefs = parent_refs, c_Tags = tags, c_Fulltext = fulltext, c_Contacts = contacts\<rparr>)))))))))))))"

definition decode_envelope_tree :: "string \<Rightarrow> json \<Rightarrow> IndexerMessageEnvelope option" where
  "decode_envelope_tree payload v =
     Option.bind (struct_field [] (Some v)) (\<lambda>m.
     Option.bind (decode_int (map_of m ''schema_version'')) (\<lambda>version.
     Option.bind (decode_ptr (decode_audit payload) (map_of m ''audit'')) (\<lambda>audit.
     Option.bind (decode_string (map_of m ''action'')) (\<lambda>action.
     Option.bind (decode_headers (map_of m ''headers'')) (\<lambda>headers.
     Option.bind (decode_list decode_string (map_of m ''tags'')) (\<lambda>tags.
     Option.bind (decode_ptr decode_config (map_of m ''indexing_config'')) (\<lambda>config.
       Some \<lparr>e_SchemaVersion = version, e_Audit = audit, e_Action = action, e_Headers = headers,
             e_Data = (case map_of m ''data'' of Some d \<Rightarrow> d | None \<Rightarrow> JNull), e_Tags = tags,
             e_IndexingConfig = config\<rparr>)))))))"

definition decode_envelope :: "string \<Rightarrow> IndexerMessageEnvelope option" where
  "decode_envelope payload =
     Option.bind (parse_value (payload @ payload) 0 payload) (\<lambda>(v, _). decode_envelope_tree payload v)"

section \<open>Decoding what was printed\<close>

lemma members_text_step:
  assumes "list_all (\<lambda>(k, v). plain k \<and> printable 0 v) ((k, w) # m)"
    and "length (comma_sep (map print_member ((k, w) # m)) @ CHR ''}'' # rest) \<le> length n"
  shows "\<exists>f tail. members_text n (comma_sep (map print_member ((k, w) # m)) @ CHR ''}'' # rest) =
      (k, json_print w @ tail) # (if m = [] then [] else members_text f (comma_sep (map print_member m) @ CHR ''}'' # rest)) \<and>
    boundary tail \<and> length (comma_sep (map print_member m) @ CHR ''}'' # rest) \<le> length f"
proof -
  obtain u f where n: "n = u # f" using assms(2) by (cases n) auto
  define tail where "tail = (if m = [] then CHR ''}'' # rest else CHR '','' # comma_sep (map print_member m) @ CHR ''}'' # rest)"
  have whole: "comma_sep (map print_member ((k, w) # m)) @ CHR ''}'' # rest = CHR 0x22 # k @ CHR 0x22 # CHR '':'' # json_print w @ tail"
    by (simp add: comma_sep_Cons print_member_pair quoted_def tail_def)
  have w: "plain k" "printable 0 w" "boundary tail" using assms(1) by (simp_all add: tail_def)
  have "members_text n (CHR 0x22 # k @ CHR 0x22 # CHR '':'' # json_print w @ tail) =
      (k, json_print w @ tail) # (if m = [] then [] else members_text f (comma_sep (map print_member m) @ CHR ''}'' # rest))"
    using n scan_quoted [OF w(1), of "CHR '':'' # json_print w @ tail"]
      parse_print [OF w(2,3), of "(CHR '':'' # json_print w @ tail) @ CHR '':'' # json_print w @ tail"]
    by (simp add: byte_def) (simp add: tail_def)
  moreover have "length (comma_sep (map print_member m) @ CHR ''}'' # rest) \<le> length f"
    using assms(2) n by (auto simp: comma_sep_Cons print_member_pair quoted_def split: if_splits)
  ultimately show ?thesis unfolding whole using w(3) by blast
qed

lemma members_text_print:
  assumes "list_all (\<lambda>(k, v). plain k \<and> printable 0 v) m" "m \<noteq> []"
    and "length (comma_sep (map print_member m) @ CHR ''}'' # rest) \<le> length n"
  shows "case map_of m key of
      Some v \<Rightarrow> \<exists>tail. map_of (members_text n (comma_sep (map print_member m) @ CHR ''}'' # rest)) key = Some (json_print v @ tail) \<and> boundary tail
    | None \<Rightarrow> map_of (members_text n (comma_sep (map print_member m) @ CHR ''}'' # rest)) key = None"
  using assms
proof (induction m arbitrary: n)
  case (Cons kv m)
  obtain k w where kv: "kv = (k, w)" by (cases kv)
  obtain f tail where step: "members_text n (comma_sep (map print_member (kv # m)) @ CHR ''}'' # rest) =
      (k, json_print w @ tail) # (if m = [] then [] else members_text f (comma_sep (map print_member m) @ CHR ''}'' # rest))"
    "boundary tail" "length (comma_sep (map print_member m) @ CHR ''}'' # rest) \<le> length f"
    using members_text_step [of k w m rest n] Cons.prems(1,3) kv by blast
  have m: "list_all (\<lambda>(k, v). plain k \<and> printable 0 v) m" using Cons.prems(1) by simp
  show ?case
  proof (cases "k = key")
    case True
    then show ?thesis using step(1,2) kv by auto
  next
    case False
    then show ?thesis using Cons.IH [OF m _ step(3)] step(1) kv by (cases "m = []"; cases "map_of m key") simp_all
  qed
qed simp

lemma value_text_print:
  assumes "printable 0 v" "boundary tail"
  shows "value_text (json_print v @ tail) = Some (json_print v)"
  using assms parse_print [OF assms, of "(json_print v @ tail) @ json_print v @ tail"]
  by (simp add: value_text_def Let_def skip_space_print)

fun member_at :: "string list \<Rightarrow> json \<Rightarrow> json option" where
  "member_at [] v = Some v"
| "member_at (k # ks) v = Option.bind (as_object v) (\<lambda>m. Option.bind (map_of m k) (member_at ks))"

lemma printable_mono: "printable d v \<Longrightarrow> c \<le> d \<Longrightarrow> printable c v"
proof (induction d v arbitrary: c rule: printable.induct)
  case (3 d vs)
  then show ?case by (auto simp: list_all_iff)
next
  case (4 d m)
  then show ?case by (fastforce simp: list_all_iff)
qed simp_all

lemma text_at_print:
  assumes "printable 0 v" "boundary tail"
  shows "text_at path (json_print v @ tail) = map_option json_print (member_at path v)"
  using assms
proof (induction path arbitrary: v tail)
  case Nil
  then show ?case by (simp add: value_text_print)
next
  case (Cons k ks)
  show ?case
  proof (cases "as_object v")
    case None
    obtain c cs where "json_print v = c # cs" "\<not> is_json_space c" using Cons.prems(1) by (rule print_starts)
    moreover have "hd (json_print v) \<noteq> CHR ''{''"
      using None Cons.prems(1) by (cases v) (auto simp: quoted_def plain_number_def is_digit_def byte_def neq_Nil_conv)
    ultimately show ?thesis using None by (simp add: skip_space_not)
  next
    case (Some m)
    then have v: "v = JObj m" by simp
    have m: "list_all (\<lambda>(k, v). plain k \<and> printable 0 v) m"
      using Cons.prems(1) v printable_mono [of 1 _ 0] by (auto simp: list_all_iff)
    let ?cs = "comma_sep (map print_member m) @ CHR ''}'' # tail"
    have cs: "text_at (k # ks) (json_print v @ tail) = Option.bind (map_of (members_text ?cs ?cs) k) (text_at ks)"
      by (simp add: v json_print_object del: json_print.simps split: option.splits)
    show ?thesis
    proof (cases "m = []")
      case True
      then show ?thesis using cs v by (simp add: byte_def)
    next
      case False
      show ?thesis
      proof (cases "map_of m k")
        case None
        then show ?thesis using members_text_print [OF m False, of tail ?cs k] cs v by simp
      next
        case x: (Some x)
        then obtain tail' where t: "map_of (members_text ?cs ?cs) k = Some (json_print x @ tail')" "boundary tail'"
          using members_text_print [OF m False, of tail ?cs k] by auto
        have "printable 0 x" using m map_of_SomeD [OF x] by (auto simp: list_all_iff)
        then show ?thesis using Cons.IH [of x tail'] t cs v x by simp
      qed
    qed
  qed
qed

lemma decode_printed: "printable 0 v \<Longrightarrow> decode_envelope (json_print v) = decode_envelope_tree (json_print v) v"
  using parse_print [of 0 v "[]" "json_print v @ json_print v"] by (simp add: decode_envelope_def)

section \<open>Decoding an envelope\<close>

definition decodeV2Envelope ::
    "text_parsers \<Rightarrow> content_validator option \<Rightarrow> bool \<Rightarrow> string \<Rightarrow> string \<Rightarrow> go_error + IndexerMessageEnvelope" where
  "decodeV2Envelope ps validate requireAuthentication payload objectType =
     (if length payload > MaxAuditEnvelopeBytes then fail (Audit EnvelopeTooLarge)
      else if \<not> auditJSONShape payload then fail (Audit InvalidEnvelopeJson)
      else case parse_value (payload @ payload) 0 payload of
        None \<Rightarrow> fail (Audit InvalidEnvelopeJson)
      | Some (_, rest) \<Rightarrow>
          (case decode_envelope payload of
             None \<Rightarrow> fail (Audit InvalidEnvelopeJson)
           | Some envelope \<Rightarrow>
               if skip_space rest \<noteq> [] then fail (Audit OneJsonValue)
               else rbind (validateV2 ps validate requireAuthentication objectType envelope)
                      (\<lambda>_. Inr envelope)))"

definition DecodeV2Envelope ::
    "text_parsers \<Rightarrow> content_validator option \<Rightarrow> string \<Rightarrow> string \<Rightarrow> go_error + IndexerMessageEnvelope" where
  "DecodeV2Envelope ps validate payload objectType = decodeV2Envelope ps validate True payload objectType"

section \<open>What a decoded envelope can hold\<close>

lemma auditJSONValue_member:
  assumes "auditJSONValue path depth (JObj m)" "map_of m k = Some v"
  shows "auditJSONValue (auditJSONChildPath path k) (Suc depth) v"
  using assms map_of_SomeD [OF assms(2)] by (auto simp: list_all_iff)

lemma decode_envelope_data:
  assumes "decode_envelope_tree payload v = Some e" "auditJSONValue path depth v" "depth < 64"
  shows "\<exists>key. auditJSONValue key (Suc depth) (e_Data e)"
proof -
  obtain m where m: "struct_field [] (Some v) = Some m"
    "e_Data e = (case map_of m ''data'' of Some d \<Rightarrow> d | None \<Rightarrow> JNull)"
    using assms(1) by (auto simp: decode_envelope_tree_def bind_eq_Some_conv)
  show ?thesis
  proof (cases "map_of m ''data''")
    case (Some d)
    then have "v = JObj m" using m(1) by (auto simp: struct_field_def or_zero_def struct_members_def split: json.splits option.splits if_splits)
    then have "auditJSONValue (auditJSONChildPath path ''data'') (Suc depth) d"
      using assms(2) Some by (auto intro: auditJSONValue_member)
    then show ?thesis using m(2) Some by auto
  qed (use m assms(3) in auto)
qed

text \<open>C32: the data of an envelope that passed the strict decoder has no repeated key at any depth, so that every later
  reader sees the same object, and is nested at most 63 deep; the envelope came from one JSON value of at most
  1 MiB with nothing but white space after it.\<close>

theorem decoded_envelope_bounds:
  assumes "decodeV2Envelope ps validate auth payload objectType = Inr e"
  shows "json_norm (e_Data e) = e_Data e \<and> json_depth (e_Data e) \<le> 63 \<and> length payload \<le> MaxAuditEnvelopeBytes \<and>
    (\<exists>v rest. parse_value (payload @ payload) 0 payload = Some (v, rest) \<and> list_all is_json_space rest \<and> json_depth v \<le> 64)"
proof -
  obtain v rest where v: "parse_value (payload @ payload) 0 payload = Some (v, rest)" "auditJSONShape payload"
    "decode_envelope payload = Some e" "skip_space rest = []" "length payload \<le> MaxAuditEnvelopeBytes"
    using assms by (auto simp: decodeV2Envelope_def rbind_Inr_conv split: if_splits option.splits)
  then have shape: "auditJSONValue [] 0 v" "decode_envelope_tree payload v = Some e"
    by (simp_all add: auditJSONShape_def decode_envelope_def)
  then obtain key where key: "auditJSONValue key (Suc 0) (e_Data e)" using decode_envelope_data [of payload v e "[]" 0] by auto
  have "list_all is_json_space rest" using v(4) by (simp add: skip_space_def list_all_iff)
  then show ?thesis
    using v auditJSONValue_norm [OF key] auditJSONValue_depth [OF key] auditJSONValue_depth [OF shape(1)] by auto
qed

end
