(* ===== verification/Envelope_Print.thy ===== *)
theory Envelope_Print
  imports Envelope_Json
begin

text \<open>
  \<open>json.Marshal\<close> of a version 2 envelope, by the \<open>json\<close> tags of the structs of pkg/types (audit.go and
  indexing_config.go), and the round trip with the strict decoder. It is carried out for envelopes whose text
  needs no escape and whose snapshots are already compact; the format of a time is a parameter.
\<close>

section \<open>Members\<close>

text \<open>A field with \<open>omitempty\<close>: an empty string or list and a nil pointer are left out.\<close>

definition str_member :: "string \<Rightarrow> string \<Rightarrow> json gomap" where
  "str_member k s = (if s = [] then [] else [(k, JStr s)])"

definition ptr_member :: "string \<Rightarrow> ('a \<Rightarrow> json) \<Rightarrow> 'a option \<Rightarrow> json gomap" where
  "ptr_member k f x = (case x of None \<Rightarrow> [] | Some y \<Rightarrow> [(k, f y)])"

definition list_member :: "string \<Rightarrow> ('a \<Rightarrow> json) \<Rightarrow> 'a list \<Rightarrow> json gomap" where
  "list_member k f xs = (if xs = [] then [] else [(k, JArr (map f xs))])"

definition nullable :: "string option \<Rightarrow> json" where
  "nullable x = (case x of None \<Rightarrow> JNull | Some s \<Rightarrow> JStr s)"

definition raw_member :: "string \<Rightarrow> string \<Rightarrow> json gomap" where
  "raw_member k raw = (if raw = [] then [] else case json_parse raw of Some v \<Rightarrow> [(k, v)] | None \<Rightarrow> [])"

section \<open>Structs\<close>

definition profile_json :: "AuditActorProfile \<Rightarrow> json" where
  "profile_json p = JObj [(''availability'', JStr (ap_Availability p)), (''name'', nullable (ap_Name p)),
     (''avatar_url'', nullable (ap_AvatarURL p)), (''email'', nullable (ap_Email p)), (''username'', nullable (ap_Username p))]"

definition attribution_json :: "AuditAttribution \<Rightarrow> json" where
  "attribution_json a = JObj ([(''actor_ref'', JStr (aa_ActorRef a)), (''effective_actor_ref'', JStr (aa_EffectiveActorRef a))] @
     ptr_member ''actor_profile'' profile_json (aa_ActorProfile a) @
     ptr_member ''effective_actor_profile'' profile_json (aa_EffectiveActorProfile a))"

definition scope_json :: "AuditScope \<Rightarrow> json" where
  "scope_json s = JObj (list_member ''before'' JStr (as_Before s) @ list_member ''after'' JStr (as_After s))"

definition content_json :: "AuditContent \<Rightarrow> json" where
  "content_json c = JObj ([(''schema'', JStr (ac_Schema c)), (''representation'', JStr (ac_Representation c))] @
     raw_member ''before'' (ac_Before c) @ raw_member ''after'' (ac_After c))"

definition audit_json :: "(go_time \<Rightarrow> string) \<Rightarrow> AuditEvent \<Rightarrow> json" where
  "audit_json fmt a = JObj ([(''event_id'', JStr (ae_EventID a)), (''publisher'', JStr (ae_Publisher a)),
     (''occurred_at'', JStr (fmt (ae_OccurredAt a))), (''resource_revision'', JNum (nat_str (ae_ResourceRevision a))),
     (''origin'', JStr (ae_Origin a)), (''attribution'', attribution_json (ae_Attribution a)),
     (''scope'', scope_json (ae_Scope a))] @ ptr_member ''content'' content_json (ae_Content a))"

definition contact_json :: "ContactBody \<Rightarrow> json" where
  "contact_json c = JObj (str_member ''lfx_principal'' (cb_LfxPrincipal c) @ str_member ''name'' (cb_Name c) @
     list_member ''emails'' JStr (cb_Emails c) @ ptr_member ''bot'' JBool (cb_Bot c) @
     (if cb_Profile c = [] then [] else [(''profile'', JObj (cb_Profile c))]))"

definition config_json :: "IndexingConfig \<Rightarrow> json" where
  "config_json c = JObj ([(''object_id'', JStr (c_ObjectID c))] @ ptr_member ''public'' JBool (c_Public c) @
     [(''access_check_object'', JStr (c_AccessCheckObject c)), (''access_check_relation'', JStr (c_AccessCheckRelation c)),
      (''history_check_object'', JStr (c_HistoryCheckObject c)), (''history_check_relation'', JStr (c_HistoryCheckRelation c))] @
     str_member ''sort_name'' (c_SortName c) @ list_member ''name_and_aliases'' JStr (c_NameAndAliases c) @
     list_member ''parent_refs'' JStr (c_ParentRefs c) @ list_member ''tags'' JStr (c_Tags c) @
     str_member ''fulltext'' (c_Fulltext c) @ list_member ''contacts'' contact_json (c_Contacts c))"

text \<open>A nil map of headers, which an empty one stands for, is written as null.\<close>

definition headers_json :: "string gomap \<Rightarrow> json" where
  "headers_json h = (if h = [] then JNull else JObj (map (\<lambda>(k, s). (k, JStr s)) h))"

definition envelope_json :: "(go_time \<Rightarrow> string) \<Rightarrow> IndexerMessageEnvelope \<Rightarrow> json" where
  "envelope_json fmt e = JObj (
     (if e_SchemaVersion e = 0 then [] else [(''schema_version'', JNum (int_str (e_SchemaVersion e)))]) @
     ptr_member ''audit'' (audit_json fmt) (e_Audit e) @
     [(''action'', JStr (e_Action e)), (''headers'', headers_json (e_Headers e)), (''data'', e_Data e)] @
     list_member ''tags'' JStr (e_Tags e) @ ptr_member ''indexing_config'' config_json (e_IndexingConfig e))"

definition marshal_envelope :: "(go_time \<Rightarrow> string) \<Rightarrow> IndexerMessageEnvelope \<Rightarrow> string" where
  "marshal_envelope fmt e = json_print (envelope_json fmt e)"

text \<open>The envelopes the model of marshalling covers: printable trees, snapshots in compact form, times that
  the format keeps, and integers that fit.\<close>

definition compact_raw :: "string \<Rightarrow> bool" where
  "compact_raw raw = (raw = [] \<or> (case json_parse raw of Some v \<Rightarrow> json_print v = raw | None \<Rightarrow> False))"

definition keeps_time :: "(go_time \<Rightarrow> string) \<Rightarrow> go_time \<Rightarrow> bool" where
  "keeps_time fmt t = (parse_rfc3339 (fmt t) = Some t)"

definition audit_printable :: "(go_time \<Rightarrow> string) \<Rightarrow> AuditEvent \<Rightarrow> bool" where
  "audit_printable fmt a =
     (keeps_time fmt (ae_OccurredAt a) \<and> ae_ResourceRevision a < 2 ^ 64 \<and>
      (case ae_Content a of None \<Rightarrow> True | Some c \<Rightarrow> compact_raw (ac_Before c) \<and> compact_raw (ac_After c)))"

definition envelope_printable :: "(go_time \<Rightarrow> string) \<Rightarrow> IndexerMessageEnvelope \<Rightarrow> bool" where
  "envelope_printable fmt e =
     (printable 0 (envelope_json fmt e) \<and> 0 \<le> e_SchemaVersion e \<and> e_SchemaVersion e < 2 ^ 63 \<and>
      (case e_Audit e of None \<Rightarrow> True | Some a \<Rightarrow> audit_printable fmt a))"

section \<open>Reading the members back\<close>

text \<open>The member behind a field that may be left out.\<close>

definition str_value :: "string \<Rightarrow> json option" where
  "str_value s = (if s = [] then None else Some (JStr s))"

definition list_value :: "('a \<Rightarrow> json) \<Rightarrow> 'a list \<Rightarrow> json option" where
  "list_value f xs = (if xs = [] then None else Some (JArr (map f xs)))"

definition raw_value :: "string \<Rightarrow> json option" where
  "raw_value raw = (if raw = [] then None else json_parse raw)"

lemma map_of_str_member: "map_of (str_member k s) j = (if k = j then str_value s else None)"
  by (simp add: str_member_def str_value_def)

lemma map_of_ptr_member: "map_of (ptr_member k f x) j = (if k = j then map_option f x else None)"
  by (simp add: ptr_member_def split: option.splits)

lemma map_of_list_member: "map_of (list_member k f xs) j = (if k = j then list_value f xs else None)"
  by (simp add: list_member_def list_value_def)

lemma map_of_raw_member: "map_of (raw_member k raw) j = (if k = j then raw_value raw else None)"
  by (simp add: raw_member_def raw_value_def split: option.splits)

lemma case_eta: "(case x of None \<Rightarrow> None | Some v \<Rightarrow> Some v) = x"
  by (cases x) simp_all

lemmas member_lookup = map_add_def map_of_str_member map_of_ptr_member map_of_list_member map_of_raw_member case_eta

lemma member_keys:
  "list_all P (str_member k s) \<longleftrightarrow> s = [] \<or> P (k, JStr s)"
  "list_all P (ptr_member k f x) \<longleftrightarrow> (\<forall>y. x = Some y \<longrightarrow> P (k, f y))"
  "list_all P (list_member k f xs) \<longleftrightarrow> xs = [] \<or> P (k, JArr (map f xs))"
  "list_all P (raw_member k raw) \<longleftrightarrow> (\<forall>v. raw_value raw = Some v \<longrightarrow> P (k, v))"
  by (auto simp: str_member_def ptr_member_def list_member_def raw_member_def raw_value_def split: option.splits)

lemma decode_string_simps [simp]: "decode_string (Some (JStr s)) = Some s" "decode_string None = Some []"
  by (simp_all add: decode_string_def or_zero_def)

lemma decode_str_member [simp]: "decode_string (str_value s) = Some s"
  by (simp add: str_value_def)

lemma decode_nullable [simp]: "decode_ptr as_string (Some (nullable x)) = Some x"
  by (simp add: decode_ptr_def or_zero_def nullable_def split: option.splits)

lemma decode_ptr_member:
  assumes "\<And>y. x = Some y \<Longrightarrow> f y \<noteq> JNull \<and> decode (f y) = Some y"
  shows "decode_ptr decode (map_option f x) = Some x"
proof (cases x)
  case (Some y)
  then have "f y \<noteq> JNull" "decode (f y) = Some y" using assms by simp_all
  then show ?thesis using Some by (cases "f y") (simp_all add: decode_ptr_def or_zero_def)
qed (simp add: decode_ptr_def or_zero_def)

lemma decode_all_map: "(\<And>x. x \<in> set xs \<Longrightarrow> decode (f x) = Some x) \<Longrightarrow> decode_all decode (map f xs) = Some xs"
  by (induction xs) simp_all

lemma decode_list_member:
  assumes "\<And>x. x \<in> set xs \<Longrightarrow> decode (Some (f x)) = Some x"
  shows "decode_list decode (list_value f xs) = Some xs"
  using decode_all_map [of xs "\<lambda>v. decode (Some v)" f] assms by (simp add: decode_list_def or_zero_def list_value_def)

lemma decode_strings [simp]: "decode_list decode_string (list_value JStr xs) = Some xs"
  by (rule decode_list_member) simp

lemma decode_bool_member [simp]: "decode_ptr as_bool (map_option JBool x) = Some x"
  by (rule decode_ptr_member) simp

lemma digits_val_append: "digits_val acc (xs @ ys) = digits_val (digits_val acc xs) ys"
  by (induction xs arbitrary: acc) simp_all

lemma nat_str_digits: "list_all is_digit (nat_str n) \<and> digits_val 0 (nat_str n) = int n \<and> nat_str n \<noteq> []"
proof (induction n rule: nat_str.induct)
  case (1 n)
  have digit: "is_digit (char_of (48 + k))" "digit_val (char_of (48 + k)) = k" if "k < 10" for k :: nat
    using that by (simp_all add: is_digit_def digit_val_def byte_def)
  show ?case
  proof (cases "n < 10")
    case True
    then show ?thesis using digit [of n] by (simp add: nat_str.simps [of n])
  next
    case False
    have "10 * int (n div 10) + int (n mod 10) = int n" by (metis mult_div_mod_eq of_nat_add of_nat_mult of_nat_numeral)
    then show ?thesis
      using 1 [OF False] False digit [of "n mod 10"] by (simp add: nat_str.simps [of n] digits_val_append)
  qed
qed

lemma digit_hd: "list_all is_digit s \<Longrightarrow> s \<noteq> [] \<Longrightarrow> hd s \<noteq> CHR ''-''"
  by (cases s) (auto simp: is_digit_def byte_def)

lemma decode_nat_str: "n < 2 ^ 64 \<Longrightarrow> decode_uint64 (Some (JNum (nat_str n))) = Some n"
  using nat_str_digits [of n] by (simp add: decode_uint64_def or_zero_def)

lemma decode_int_str: "0 \<le> i \<Longrightarrow> i < 2 ^ 63 \<Longrightarrow> decode_int (Some (JNum (int_str i))) = Some i"
  using nat_str_digits [of "nat i"] digit_hd [of "nat_str (nat i)"]
  by (simp add: decode_int_def or_zero_def int_str_def Let_def)

section \<open>Structs read back\<close>

lemma vocabulary:
  "map_of auditJSONFields [] = Some [''schema_version'', ''audit'', ''action'', ''headers'', ''data'', ''tags'', ''indexing_config'']"
  "map_of auditJSONFields ''audit'' = Some [''event_id'', ''publisher'', ''occurred_at'', ''resource_revision'', ''origin'',
                   ''attribution'', ''scope'', ''content'']"
  "map_of auditJSONFields ''audit.attribution'' = Some [''actor_ref'', ''effective_actor_ref'', ''actor_profile'', ''effective_actor_profile'']"
  "map_of auditJSONFields ''audit.attribution.actor_profile'' = Some profile_fields"
  "map_of auditJSONFields ''audit.attribution.effective_actor_profile'' = Some profile_fields"
  "map_of auditJSONFields ''audit.scope'' = Some [''before'', ''after'']"
  "map_of auditJSONFields ''audit.content'' = Some [''schema'', ''representation'', ''before'', ''after'']"
  "map_of auditJSONFields ''indexing_config'' = Some [''object_id'', ''public'', ''access_check_object'', ''access_check_relation'',
         ''history_check_object'', ''history_check_relation'', ''sort_name'', ''name_and_aliases'',
         ''parent_refs'', ''tags'', ''fulltext'', ''contacts'']"
  "map_of auditJSONFields ''indexing_config.contacts[]'' = Some [''lfx_principal'', ''name'', ''emails'', ''bot'', ''profile'']"
  by (simp_all add: auditJSONFields_def)

lemmas struct_simps = struct_members_def vocabulary member_lookup member_keys

lemma decode_profile_json:
  assumes "map_of auditJSONFields path = Some profile_fields"
  shows "decode_profile path (profile_json p) = Some p"
  using assms by (simp add: decode_profile_def profile_json_def struct_members_def profile_fields_def)

lemma profile_json_object [simp]: "profile_json p \<noteq> JNull" by (simp add: profile_json_def)

lemma decode_attribution_json: "decode_attribution (Some (attribution_json a)) = Some a"
proof -
  have "decode_ptr (decode_profile path) (map_option profile_json x) = Some x"
    if "map_of auditJSONFields path = Some profile_fields" for path x
    by (rule decode_ptr_member) (simp add: decode_profile_json that)
  then show ?thesis
    by (simp add: decode_attribution_def attribution_json_def struct_field_def or_zero_def struct_simps del: case_map_option cong: option.case_cong)
qed

lemma decode_scope_json: "decode_scope (Some (scope_json s)) = Some s"
  by (simp add: decode_scope_def scope_json_def struct_field_def or_zero_def struct_simps del: case_map_option cong: option.case_cong)

lemma decode_contact_json: "decode_contact (Some (contact_json c)) = Some c"
  by (simp add: decode_contact_def contact_json_def struct_field_def or_zero_def struct_simps del: case_map_option cong: option.case_cong)

lemma decode_config_json: "decode_config (config_json c) = Some c"
proof -
  have "decode_list decode_contact (list_value contact_json xs) = Some xs" for xs
    by (rule decode_list_member) (rule decode_contact_json)
  then show ?thesis by (simp add: decode_config_def config_json_def struct_simps del: case_map_option cong: option.case_cong)
qed

lemma raw_text_compact: "compact_raw raw \<Longrightarrow> raw_text (map_option json_print (raw_value raw)) = raw"
  by (auto simp: compact_raw_def raw_value_def raw_text_def split: option.splits)

lemma decode_content_json:
  assumes "text_at [''audit'', ''content'', ''before''] payload = map_option json_print (raw_value (ac_Before c))"
    and "text_at [''audit'', ''content'', ''after''] payload = map_option json_print (raw_value (ac_After c))"
    and "compact_raw (ac_Before c)" "compact_raw (ac_After c)"
  shows "decode_content payload (content_json c) = Some c"
  using assms raw_text_compact
  by (simp add: decode_content_def content_json_def struct_simps del: case_map_option cong: option.case_cong)

lemma decode_time_quoted: "keeps_time fmt t \<Longrightarrow> decode_time (Some (quoted (fmt t))) = Some t"
  by (simp add: decode_time_def quoted_def keeps_time_def byte_def)

lemma object_not_null [simp]:
  "audit_json fmt a \<noteq> JNull" "content_json c \<noteq> JNull" "config_json g \<noteq> JNull"
  by (simp_all add: audit_json_def content_json_def config_json_def)

lemma decode_audit_json:
  assumes "audit_printable fmt a" "text_at [''audit'', ''occurred_at''] payload = Some (quoted (fmt (ae_OccurredAt a)))"
    and "\<And>c. ae_Content a = Some c \<Longrightarrow>
      text_at [''audit'', ''content'', ''before''] payload = map_option json_print (raw_value (ac_Before c)) \<and>
      text_at [''audit'', ''content'', ''after''] payload = map_option json_print (raw_value (ac_After c))"
  shows "decode_audit payload (audit_json fmt a) = Some a"
proof -
  have "decode_ptr (decode_content payload) (map_option content_json (ae_Content a)) = Some (ae_Content a)"
    using assms(1,3) by (intro decode_ptr_member) (auto simp: audit_printable_def intro: decode_content_json)
  moreover have "decode_time (text_at [''audit'', ''occurred_at''] payload) = Some (ae_OccurredAt a)"
    using assms(1,2) decode_time_quoted by (simp add: audit_printable_def)
  moreover have "decode_uint64 (Some (JNum (nat_str (ae_ResourceRevision a)))) = Some (ae_ResourceRevision a)"
    using assms(1) by (intro decode_nat_str) (simp add: audit_printable_def)
  ultimately show ?thesis
    using decode_attribution_json decode_scope_json
    by (simp add: decode_audit_def audit_json_def struct_simps del: case_map_option text_at.simps cong: option.case_cong)
qed

lemma decode_headers_json: "decode_headers (Some (headers_json h)) = Some h"
proof -
  have "decode_all (\<lambda>v. decode_string (Some v)) (map JStr (map snd h)) = Some (map snd h)"
    by (rule decode_all_map) simp
  moreover have "map snd (map (\<lambda>(k, s). (k, JStr s)) h) = map JStr (map snd h)" "map fst (map (\<lambda>(k, s). (k, JStr s)) h) = map fst h"
    by auto
  ultimately have "decode_headers (Some (JObj (map (\<lambda>(k, s). (k, JStr s)) h))) = Some h"
    by (simp add: decode_headers_def or_zero_def zip_map_fst_snd del: map_map)
  then show ?thesis by (simp add: headers_json_def decode_headers_def or_zero_def)
qed

lemma decode_version: "0 \<le> i \<Longrightarrow> i < 2 ^ 63 \<Longrightarrow> decode_int (if i = 0 then None else Some (JNum (int_str i))) = Some i"
  using decode_int_str [of i] by (simp add: decode_int_def or_zero_def)

text \<open>Where the decoder looks for texts.\<close>

lemma member_at_audit:
  assumes "e_Audit e = Some a"
  shows "member_at (''audit'' # path) (envelope_json fmt e) = member_at path (audit_json fmt a)"
  using assms by (simp add: envelope_json_def member_lookup)

lemma member_at_occurred: "member_at [''occurred_at''] (audit_json fmt a) = Some (JStr (fmt (ae_OccurredAt a)))"
  by (simp add: audit_json_def)

lemma bind_member_end: "Option.bind x (member_at []) = x"
  by (cases x) simp_all

lemma member_at_content:
  assumes "ae_Content a = Some c"
  shows "member_at [''content'', ''before''] (audit_json fmt a) = raw_value (ac_Before c)"
    "member_at [''content'', ''after''] (audit_json fmt a) = raw_value (ac_After c)"
  using assms bind_member_end
  by (simp_all add: audit_json_def content_json_def member_lookup del: case_map_option cong: option.case_cong)

section \<open>Round trip\<close>

lemma decode_envelope_json:
  assumes "envelope_printable fmt e" "\<And>path. text_at path payload = map_option json_print (member_at path (envelope_json fmt e))"
  shows "decode_envelope_tree payload (envelope_json fmt e) = Some e"
proof -
  have "decode_audit payload (audit_json fmt a) = Some a" if "e_Audit e = Some a" for a
  proof (rule decode_audit_json)
    show "audit_printable fmt a" using assms(1) that by (simp add: envelope_printable_def)
    show "text_at [''audit'', ''occurred_at''] payload = Some (quoted (fmt (ae_OccurredAt a)))"
      using assms(2) member_at_audit [OF that] member_at_occurred by simp
    show "text_at [''audit'', ''content'', ''before''] payload = map_option json_print (raw_value (ac_Before c)) \<and>
        text_at [''audit'', ''content'', ''after''] payload = map_option json_print (raw_value (ac_After c))"
      if "ae_Content a = Some c" for c
      using assms(2) member_at_audit [OF \<open>e_Audit e = Some a\<close>] member_at_content [OF that] by simp
  qed
  then have "decode_ptr (decode_audit payload) (map_option (audit_json fmt) (e_Audit e)) = Some (e_Audit e)"
    by (intro decode_ptr_member) simp
  moreover have "decode_ptr decode_config (map_option config_json (e_IndexingConfig e)) = Some (e_IndexingConfig e)"
    by (rule decode_ptr_member) (simp add: decode_config_json)
  moreover have "decode_int (if e_SchemaVersion e = 0 then None else Some (JNum (int_str (e_SchemaVersion e)))) = Some (e_SchemaVersion e)"
    using assms(1) by (intro decode_version) (simp_all add: envelope_printable_def)
  ultimately show ?thesis
    using decode_headers_json
    by (cases "e_SchemaVersion e = 0")
      (simp_all add: decode_envelope_tree_def envelope_json_def struct_field_def or_zero_def struct_simps
        del: case_map_option cong: option.case_cong)
qed

lemma envelope_roundtrip_step:
  assumes "envelope_printable fmt e"
  shows "decode_envelope (marshal_envelope fmt e) = Some e"
proof -
  have printable: "printable 0 (envelope_json fmt e)" using assms by (simp add: envelope_printable_def)
  have "text_at path (json_print (envelope_json fmt e)) = map_option json_print (member_at path (envelope_json fmt e))" for path
    using text_at_print [OF printable, of "[]" path] by simp
  then show ?thesis
    using decode_envelope_json [OF assms] decode_printed [OF printable] by (simp add: marshal_envelope_def)
qed

section \<open>Marshalled envelopes pass the strict decoder\<close>

lemma ascii_parts:
  "plain s \<Longrightarrow> list_all (\<lambda>c. byte c < 128) (quoted s)"
  "list_all (list_all (\<lambda>c. byte c < 128)) xs \<Longrightarrow> list_all (\<lambda>c. byte c < 128) (comma_sep xs)"
proof -
  show "plain s \<Longrightarrow> list_all (\<lambda>c. byte c < 128) (quoted s)" by (auto simp: plain_def quoted_def list_all_iff byte_def)
  show "list_all (list_all (\<lambda>c. byte c < 128)) xs \<Longrightarrow> list_all (\<lambda>c. byte c < 128) (comma_sep xs)"
    by (induction xs rule: comma_sep.induct) (simp_all add: byte_def)
qed

lemma print_ascii: "printable d v \<Longrightarrow> list_all (\<lambda>c. byte c < 128) (json_print v)"
proof (induction d v rule: printable.induct)
  case (1 d lit)
  then show ?case by (auto simp: plain_number_def list_all_iff is_digit_def byte_def)
next
  case (3 d vs)
  then have "list_all (list_all (\<lambda>c. byte c < 128)) (map json_print vs)" by (simp add: list_all_iff)
  from ascii_parts(2) [OF this] show ?case by (simp add: byte_def)
next
  case (4 d m)
  have "list_all (\<lambda>c. byte c < 128) (print_member (k, v))" if "(k, v) \<in> set m" for k v
  proof -
    have "plain k" "printable (d + 1) v" using 4(2) that by (auto simp: list_all_iff)
    moreover from this have "list_all (\<lambda>c. byte c < 128) (json_print v)" using 4(1) that by blast
    ultimately show ?thesis using ascii_parts(1) by (simp add: print_member_pair byte_def)
  qed
  then have "list_all (list_all (\<lambda>c. byte c < 128)) (map print_member m)" by (auto simp: list_all_iff)
  from ascii_parts(2) [OF this] show ?case by (simp add: json_print_object byte_def del: json_print.simps)
qed (simp_all add: ascii_parts(1) [unfolded byte_def] byte_def)

lemma printed_parse: "printable 0 v \<Longrightarrow> parse_value (json_print v @ json_print v) 0 (json_print v) = Some (v, [])"
  using parse_print [of 0 v "[]" "json_print v @ json_print v"] by simp

lemma printed_shape: "printable 0 v \<Longrightarrow> auditJSONShape (json_print v) = auditJSONValue [] 0 v"
  by (simp add: auditJSONShape_def printed_parse valid_utf8_ascii print_ascii)

lemma decodeV2Envelope_marshalled:
  assumes "envelope_printable fmt e" "auditJSONValue [] 0 (envelope_json fmt e)"
    and "length (marshal_envelope fmt e) \<le> MaxAuditEnvelopeBytes" "validateV2 ps validate auth objectType e = Inr ()"
  shows "decodeV2Envelope ps validate auth (marshal_envelope fmt e) objectType = Inr e"
  using assms envelope_roundtrip_step
  by (simp add: decodeV2Envelope_def envelope_printable_def printed_parse printed_shape marshal_envelope_def)


section \<open>A sample\<close>

definition epoch_text :: "go_time \<Rightarrow> string" where
  "epoch_text t = ''1970-01-01T00:00:00Z''"

lemma epoch_kept: "keeps_time epoch_text \<lparr>tm_instant = 0, tm_offset = 0\<rparr>"
  by (simp add: keeps_time_def epoch_text_def parse_rfc3339_def uint_in_def slice_def is_digit_def byte_def digit_val_def
      Let_def month_days_def fraction_zone_def zone_offset_def civil_days_def is_leap_def nanoseconds_def)

lemmas envelope_json_defs = envelope_json_def audit_json_def attribution_json_def scope_json_def content_json_def
  config_json_def headers_json_def str_member_def ptr_member_def list_member_def raw_member_def

lemma sample_tree: "envelope_json epoch_text sample_envelope = JObj
  [(''schema_version'', JNum ''2''),
   (''audit'', JObj [(''event_id'', JStr ''e1''), (''publisher'', JStr ''proj''), (''occurred_at'', JStr ''1970-01-01T00:00:00Z''),
      (''resource_revision'', JNum ''3''), (''origin'', JStr ''reindex''),
      (''attribution'', JObj [(''actor_ref'', JStr ''service:s''), (''effective_actor_ref'', JStr ''service:s'')]),
      (''scope'', JObj [(''before'', JArr [JStr ''project:1''])])]),
   (''action'', JStr ''deleted''), (''headers'', JObj [(''authorization'', JStr ''Bearer t'')]), (''data'', JStr ''42''),
   (''indexing_config'', JObj [(''object_id'', JStr ''42''), (''access_check_object'', JStr ''project:42''),
      (''access_check_relation'', JStr ''viewer''), (''history_check_object'', JStr ''project:42''),
      (''history_check_relation'', JStr ''historian'')])]"
  by (simp add: envelope_json_defs sample_envelope_def sample_audit_def sample_v2_config_def epoch_text_def int_str_def
      nat_str.simps char_of_eq_iff AuditOriginReindex_def ActionDeleted_def AuthorizationHeader_def)

lemma sample_tree_printable: "printable 0 (envelope_json epoch_text sample_envelope)"
  unfolding sample_tree by (simp add: plain_def plain_number_def byte_def max_depth_def is_digit_def)

lemma sample_envelope_printable: "envelope_printable epoch_text sample_envelope"
  using sample_tree_printable epoch_kept
  by (simp add: envelope_printable_def audit_printable_def sample_envelope_def sample_audit_def)

lemma fixed_child: "map_of auditJSONFields path \<noteq> None \<Longrightarrow> auditJSONChildPath path key =
    (let next = (if path \<noteq> [] then path @ ''.'' @ key else key) in
     if map_of auditJSONFields next \<noteq> None \<or> next = ''indexing_config.contacts'' then next else auditOpaqueJSONPath)"
  by (simp add: auditJSONChildPath_def has_key_conv map_of_eq_None_iff image_iff Let_def)

lemma envelope_paths:
  "auditJSONChildPath [] ''audit'' = ''audit''" "auditJSONChildPath [] ''indexing_config'' = ''indexing_config''"
  "auditJSONChildPath ''audit'' ''attribution'' = ''audit.attribution''" "auditJSONChildPath ''audit'' ''scope'' = ''audit.scope''"
  "auditJSONChildPath ''audit'' ''content'' = ''audit.content''"
  by (subst fixed_child; simp add: vocabulary)+

lemma opaque_path:
  "auditJSONChildPath [] ''headers'' = auditOpaqueJSONPath" "map_of auditJSONFields auditOpaqueJSONPath = None"
  "\<not> is_profile_path auditOpaqueJSONPath"
  by (subst fixed_child; simp add: vocabulary) (simp_all add: auditJSONFields_def auditOpaqueJSONPath_def is_profile_path_def)

lemma sample_tree_shape: "auditJSONValue [] 0 (envelope_json epoch_text sample_envelope)"
  unfolding sample_tree
  by (simp add: auditJSONKeys_def vocabulary envelope_paths opaque_path) (simp add: is_profile_path_def)


theorem decoded_envelope_bounds_witness: "json_depth (e_Data sample_envelope) \<le> 63"
proof -
  have "length (marshal_envelope epoch_text sample_envelope) \<le> MaxAuditEnvelopeBytes"
    by (simp add: marshal_envelope_def sample_tree quoted_def MaxAuditEnvelopeBytes_def)
  from decoded_envelope_bounds [OF decodeV2Envelope_marshalled [OF sample_envelope_printable sample_tree_shape this sample_envelope_checks [of None]]]
  show ?thesis by blast
qed

end
