(* ===== verification/Audit_Policy.thy ===== *)
theory Audit_Policy
  imports Audit_Store Envelope_Print
begin

text \<open>
  Publisher policies (internal/domain/services/audit_policy_schema.go) and admission
  (audit_admission.go): the closed snapshot schemas an operator registers, their validation, the
  validation of snapshots against them, and the check of a delivery against the policy of its
  publisher. The typed decoding of JSON into structs and the token validator are parameters.
\<close>

section \<open>Snapshot schemas\<close>

datatype rule = Rule
  (ru_Type: string)
  (ru_Required: bool)
  (ru_Nullable: bool)
  (ru_Fields: "(string \<times> rule) list")
  (ru_Items: "rule option")

definition maxAuditSnapshotDepth :: nat where
  "maxAuditSnapshotDepth = 16"

text \<open>\<open>^[a-z][a-z0-9_]{0,127}$\<close>\<close>

definition auditSchemaField :: "string \<Rightarrow> bool" where
  "auditSchemaField = token_match is_lower (\<lambda>c. is_lower c \<or> is_digit c \<or> c = CHR ''_'') 127"

definition prohibited_parts :: "string list" where
  "prohibited_parts = [''password'', ''secret'', ''token'', ''authorization'', ''credential'', ''cookie'',
     ''private_key'', ''request_body'']"

text \<open>Lower-casing is on runes; the parts are ASCII.\<close>

definition prohibitedAuditField :: "string \<Rightarrow> bool" where
  "prohibitedAuditField key = list_ex (\<lambda>part. sublist (map byte part) (to_lower key)) prohibited_parts"

definition is_scalar_type :: "string \<Rightarrow> bool" where
  "is_scalar_type ty = (ty \<in> {''string'', ''boolean'', ''integer'', ''number''})"

function validateAuditRules :: "nat \<Rightarrow> (string \<times> rule) list \<Rightarrow> go_error + unit"
  and validateAuditRule :: "nat \<Rightarrow> rule \<Rightarrow> go_error + unit" where
  "validateAuditRules depth flds =
     (if depth \<ge> maxAuditSnapshotDepth \<or> flds = [] then fail (SchemaRule RulesDepth)
      else rforeach (\<lambda>(key, r).
        rbind (require (auditSchemaField key \<and> \<not> prohibitedAuditField key)
                 (Errorf (SchemaRule ProhibitedField) []))
          (\<lambda>_. validateAuditRule depth r)) flds)"
| "validateAuditRule depth r =
     (if is_scalar_type (ru_Type r) then
        require (ru_Fields r = [] \<and> ru_Items r = None) (Errorf (SchemaRule ScalarNested) [])
      else if ru_Type r = ''object'' then
        (if ru_Items r \<noteq> None then fail (SchemaRule ObjectItems)
         else validateAuditRules (Suc depth) (ru_Fields r))
      else if ru_Type r = ''array'' then
        (if ru_Fields r \<noteq> [] then fail (SchemaRule ArrayItems)
         else case ru_Items r of
           None \<Rightarrow> fail (SchemaRule ArrayItems)
         | Some item \<Rightarrow> validateAuditRules (Suc depth) [(''item'', item)])
      else fail (SchemaRule UnsupportedType))"
  by pat_completeness auto
termination
  by (relation "measure (\<lambda>x. case x of
        Inl (depth, _) \<Rightarrow> if depth < 16 then 2 * (16 - depth) + 1 else 1
      | Inr (depth, _) \<Rightarrow> if depth < 16 then 2 * (16 - depth) else 2)")
    (auto simp: maxAuditSnapshotDepth_def)

declare validateAuditRules.simps [simp del] validateAuditRule.simps [simp del]

lemma size_keep_last:
  assumes "(k, v) \<in> set (keep_last m)"
  shows "size v < size (JObj m)"
proof -
  have "(k, v) \<in> set m" using assms keep_last_subset by blast
  then show ?thesis by (induction m) auto
qed

lemma size_element: "v \<in> set vs \<Longrightarrow> size v < size (JArr vs)"
  by (induction vs) auto

text \<open>Validation of a snapshot, on its syntax tree. \<open>json.Unmarshal\<close> into a map keeps the last of
  repeated keys. An array rule without item rule would make the code dereference a nil pointer on a
  non-empty array; it is an error here, and \<open>validateAuditRules\<close> admits no such rule.\<close>

function validateAuditObject :: "nat \<Rightarrow> (string \<times> rule) list \<Rightarrow> json \<Rightarrow> go_error + unit"
  and validateAuditValue :: "nat \<Rightarrow> rule \<Rightarrow> json \<Rightarrow> go_error + unit" where
  "validateAuditObject depth flds v =
     (if depth > maxAuditSnapshotDepth then fail (SchemaRule SnapshotDepth)
      else case v of
        JObj m \<Rightarrow>
          rbind (rforeach (\<lambda>(key, w).
              case map_of flds key of
                None \<Rightarrow> fail (SchemaRule UnapprovedField)
              | Some r \<Rightarrow> validateAuditValue (Suc depth) r w) (keep_last m)) (\<lambda>_.
          rforeach (\<lambda>(key, r). require (\<not> (ru_Required r \<and> \<not> has_key m key))
              (Errorf (SchemaRule MissingRequired) [])) flds)
      | _ \<Rightarrow> fail (SchemaRule SnapshotNotObject))"
| "validateAuditValue depth r v =
     (if depth > maxAuditSnapshotDepth then fail (SchemaRule SnapshotDepth)
      else if v = JNull then require (ru_Nullable r) (Errorf (SchemaRule NullField) [])
      else if ru_Type r = ''object'' then validateAuditObject depth (ru_Fields r) v
      else if ru_Type r = ''array'' then
        (case (v, ru_Items r) of
           (JArr vs, Some item) \<Rightarrow> rforeach (\<lambda>w. validateAuditValue (Suc depth) item w) vs
         | (JArr vs, None) \<Rightarrow> (if vs = [] then Inr () else fail (SchemaRule WrongType))
         | _ \<Rightarrow> fail (SchemaRule NotArray))
      else if ru_Type r = ''string'' then
        (case v of JStr _ \<Rightarrow> Inr () | _ \<Rightarrow> fail (SchemaRule NotString))
      else if ru_Type r = ''boolean'' then
        (case v of JBool _ \<Rightarrow> Inr () | _ \<Rightarrow> fail (SchemaRule WrongType))
      else if ru_Type r = ''integer'' then
        (case v of
           JNum lit \<Rightarrow> require (list_all (\<lambda>c. c \<notin> {CHR ''.'', CHR ''e'', CHR ''E''}) lit) (Errorf (SchemaRule WrongType) [])
         | _ \<Rightarrow> fail (SchemaRule WrongType))
      else if ru_Type r = ''number'' then
        (case v of JNum _ \<Rightarrow> Inr () | _ \<Rightarrow> fail (SchemaRule WrongType))
      else fail (SchemaRule WrongType))"
  by pat_completeness auto
termination
  by (relation "measure (\<lambda>x. case x of Inl (_, _, v) \<Rightarrow> 2 * size v | Inr (_, _, v) \<Rightarrow> 2 * size v + 1)")
    (auto dest: size_keep_last size_element)

declare validateAuditObject.simps [simp del] validateAuditValue.simps [simp del]

section \<open>Policies\<close>

text \<open>The validator of one registered schema: every snapshot that is present is an object of the
  schema.\<close>

definition snapshot_validator :: "(string \<times> rule) list \<Rightarrow> string \<Rightarrow> string \<Rightarrow> go_error + unit" where
  "snapshot_validator flds before after =
     rforeach (\<lambda>snapshot.
       if snapshot = [] then Inr ()
       else case json_parse snapshot of
         None \<Rightarrow> fail (SchemaRule SnapshotNotObject)
       | Some v \<Rightarrow> validateAuditObject 0 flds v) [before, after]"

record AuditResourceManifest =
  rm_Origins :: "string list"
  rm_Schemas :: "(string \<times> rule) list gomap"

record AuditPublisherManifest =
  pm_Publisher :: string
  pm_Principal :: string
  pm_CanAttestActors :: bool
  pm_Resources :: "AuditResourceManifest gomap"

record AuditResourcePolicy =
  rp_Origins :: "string list"
  rp_Schemas :: "(string \<Rightarrow> string \<Rightarrow> go_error + unit) gomap"

record AuditPublisherPolicy =
  pp_Publisher :: string
  pp_Principal :: string
  pp_CanAttestActors :: bool
  pp_Resources :: "AuditResourcePolicy gomap"

definition decode_schema :: "string \<times> (string \<times> rule) list \<Rightarrow> go_error + (string \<times> (string \<Rightarrow> string \<Rightarrow> go_error + unit))" where
  "decode_schema s =
     (case s of (schema, flds) \<Rightarrow>
        if \<not> ValidAuditSchemaName schema \<or> flds = [] then fail (Policy InvalidSnapshotSchema)
        else rbind (validateAuditRules 0 flds) (\<lambda>_. Inr (schema, snapshot_validator flds)))"

definition decode_resource :: "string \<times> AuditResourceManifest \<Rightarrow> go_error + (string \<times> AuditResourcePolicy)" where
  "decode_resource e =
     (case e of (objectType, resource) \<Rightarrow>
        if \<not> ValidAuditObjectType objectType \<or> rm_Origins resource = [] then fail (Policy PolicyResource)
        else rbind (rforeach (\<lambda>origin.
                require (origin \<in> {AuditOriginMutation, AuditOriginReindex, AuditOriginBackfill, AuditOriginSyncEcho})
                  (Errorf (Policy PolicyOrigin) [])) (rm_Origins resource)) (\<lambda>_.
        if AuditOriginMutation \<in> set (rm_Origins resource) \<and> rm_Schemas resource = []
        then fail (Policy MutationNeedsSchemas)
        else rbind (rmap decode_schema (rm_Schemas resource)) (\<lambda>schemas.
          Inr (objectType, \<lparr>rp_Origins = rm_Origins resource, rp_Schemas = schemas\<rparr>))))"

definition decode_publisher :: "AuditPublisherManifest \<Rightarrow> go_error + AuditPublisherPolicy" where
  "decode_publisher entry =
     (if \<not> ValidAuditPublisherName (pm_Publisher entry) then fail (Policy PolicyPublisher)
      else rbind (rmap decode_resource (pm_Resources entry)) (\<lambda>resources.
        Inr \<lparr>pp_Publisher = pm_Publisher entry, pp_Principal = pm_Principal entry,
             pp_CanAttestActors = pm_CanAttestActors entry, pp_Resources = resources\<rparr>))"

text \<open>The argument \<open>decode\<close> is the typed decoding of the JSON tree into the manifest structs, with
  unknown fields refused.\<close>

definition DecodeAuditPolicies ::
    "(json \<Rightarrow> AuditPublisherManifest list option) \<Rightarrow> string \<Rightarrow> go_error + AuditPublisherPolicy list" where
  "DecodeAuditPolicies decode data =
     (if data = [] \<or> length data > MaxAuditEnvelopeBytes then fail (Policy PolicySize)
      else case parse_value (data @ data) 0 data of
        None \<Rightarrow> fail (Policy PolicyManifest)
      | Some (v, rest) \<Rightarrow>
          (case decode v of
             None \<Rightarrow> fail (Policy PolicyManifest)
           | Some publishers \<Rightarrow>
               if skip_space rest \<noteq> [] \<or> publishers = [] then fail (Policy ManifestPublishers)
               else rmap decode_publisher publishers))"

section \<open>Admission\<close>

definition policy_complete :: "AuditPublisherPolicy \<Rightarrow> bool" where
  "policy_complete p =
     (ValidAuditPublisherName (pp_Publisher p) \<and> has_suffix (pp_Principal p) MachineUserSuffix \<and>
      pp_CanAttestActors p \<and> pp_Resources p \<noteq> [])"

definition resource_complete :: "string \<times> AuditResourcePolicy \<Rightarrow> bool" where
  "resource_complete r = (case r of (resource, rp) \<Rightarrow> ValidAuditObjectType resource \<and> rp_Origins rp \<noteq> [])"

fun install_policies ::
    "AuditPublisherPolicy gomap \<Rightarrow> AuditPublisherPolicy list \<Rightarrow> go_error + AuditPublisherPolicy gomap" where
  "install_policies installed [] = Inr installed"
| "install_policies installed (p # ps) =
     (if \<not> policy_complete p then fail (Policy IncompletePolicy)
      else if has_key installed (pp_Publisher p) then fail (Policy DuplicatePolicy)
      else if \<not> list_all resource_complete (pp_Resources p) then fail (Policy IncompleteResource)
      else install_policies (gomap_put (pp_Publisher p) p installed) ps)"

definition NewAuditAdmission :: "AuditPublisherPolicy list \<Rightarrow> go_error + AuditPublisherPolicy gomap" where
  "NewAuditAdmission policies = install_policies [] policies"

definition validateContent :: "AuditPublisherPolicy gomap \<Rightarrow> content_validator" where
  "validateContent policies publisher resource content =
     (case map_of policies publisher of
        None \<Rightarrow> fail (Policy UnregisteredPublisher)
      | Some policy \<Rightarrow>
          (case map_of (pp_Resources policy) resource of
             None \<Rightarrow> fail (Policy CannotMutate)
           | Some rp \<Rightarrow>
               if AuditOriginMutation \<notin> set (rp_Origins rp) then fail (Policy CannotMutate)
               else (case map_of (rp_Schemas rp) (ac_Schema content) of
                  None \<Rightarrow> fail (Policy UnregisteredSchema)
                | Some validate \<Rightarrow> validate (ac_Before content) (ac_After content))))"

text \<open>The token validator answers with the principal of the token, or an error.\<close>

definition authorization_header :: "IndexerMessageEnvelope \<Rightarrow> string" where
  "authorization_header e = (case map_of (e_Headers e) AuthorizationHeader of Some h \<Rightarrow> h | None \<Rightarrow> [])"

definition authenticate_publisher ::
    "(string \<Rightarrow> go_error + Principal) \<Rightarrow> AuditPublisherPolicy \<Rightarrow> IndexerMessageEnvelope \<Rightarrow> go_error + unit" where
  "authenticate_publisher validate_token policy e =
     (case validate_token (authorization_header e) of
        Inl _ \<Rightarrow> fail (Policy PublisherAuthentication)
      | Inr who \<Rightarrow> require (p_Principal who = pp_Principal policy) (Errorf (Policy PublisherAuthentication) []))"

definition authorise_publisher ::
    "AuditPublisherPolicy gomap \<Rightarrow> AuditEvent \<Rightarrow> string \<Rightarrow> go_error + AuditPublisherPolicy" where
  "authorise_publisher policies audit objectType =
     (case map_of policies (ae_Publisher audit) of
        None \<Rightarrow> fail (Policy UnregisteredPublisher)
      | Some policy \<Rightarrow>
          if \<not> pp_CanAttestActors policy then fail (Policy UnregisteredPublisher)
          else (case map_of (pp_Resources policy) objectType of
             None \<Rightarrow> fail (Policy OriginNotAuthorized)
           | Some rp \<Rightarrow>
               if ae_Origin audit \<notin> set (rp_Origins rp) then fail (Policy OriginNotAuthorized)
               else Inr policy))"

definition Admit ::
    "text_parsers \<Rightarrow> (string \<Rightarrow> go_error + Principal)
     \<Rightarrow> AuditPublisherPolicy gomap \<Rightarrow> string \<Rightarrow> string \<Rightarrow> go_error + IndexerMessageEnvelope" where
  "Admit ps validate_token policies payload objectType =
     (if policies = [] then fail (Policy AdmissionNotConfigured)
      else rbind (DecodeV2Envelope ps (Some (validateContent policies)) payload objectType) (\<lambda>e.
        case e_Audit e of
          None \<Rightarrow> fail (Policy UnregisteredPublisher)
        | Some audit \<Rightarrow>
            rbind (authorise_publisher policies audit objectType) (\<lambda>policy.
            rbind (authenticate_publisher validate_token policy e) (\<lambda>_. Inr e))))"

definition NewRecord ::
    "text_parsers \<Rightarrow> (immutable_content \<Rightarrow> string) \<Rightarrow> AuditPublisherPolicy gomap
     \<Rightarrow> IndexerMessageEnvelope \<Rightarrow> string \<Rightarrow> int \<Rightarrow> go_error + HistoryRecord" where
  "NewRecord ps digest policies e objectType now =
     NewHistoryRecord ps digest (Some (validateContent policies)) e objectType now"

section \<open>Facts on schemas\<close>

text \<open>Every object key of a value, at any depth, satisfies a predicate.\<close>

fun all_keys :: "(string \<Rightarrow> bool) \<Rightarrow> json \<Rightarrow> bool" where
  "all_keys P (JObj m) = list_all (\<lambda>(k, v). P k \<and> all_keys P v) m"
| "all_keys P (JArr vs) = list_all (all_keys P) vs"
| "all_keys P _ = True"

lemma validateAuditRules_lookup:
  assumes "validateAuditRules depth flds = Inr ()" "map_of flds key = Some r"
  shows "\<not> prohibitedAuditField key" "validateAuditRule depth r = Inr ()"
proof -
  have "(key, r) \<in> set flds" using assms(2) by (rule map_of_SomeD)
  then show "\<not> prohibitedAuditField key" "validateAuditRule depth r = Inr ()"
    using assms(1) by (auto simp: validateAuditRules.simps rforeach_Inr_conv rbind_Inr_conv require_Inr_conv
        split: if_splits)
qed

lemma validateAuditRule_object:
  "validateAuditRule depth r = Inr () \<Longrightarrow> ru_Type r = ''object'' \<Longrightarrow> validateAuditRules (Suc depth) (ru_Fields r) = Inr ()"
  by (auto simp: validateAuditRule.simps is_scalar_type_def split: if_splits)

lemma validateAuditRule_array:
  assumes "validateAuditRule depth r = Inr ()" "ru_Type r = ''array''" "ru_Items r = Some item"
  shows "validateAuditRule (Suc depth) item = Inr ()"
proof -
  have "validateAuditRules (Suc depth) [(''item'', item)] = Inr ()"
    using assms by (auto simp: validateAuditRule.simps is_scalar_type_def split: if_splits)
  then show ?thesis by (rule validateAuditRules_lookup(2) [of _ _ "''item''"]) simp
qed

lemma validateAuditObject_Inr:
  assumes "validateAuditObject depth flds v = Inr ()"
  obtains m where "v = JObj m" "depth \<le> maxAuditSnapshotDepth"
    "\<And>k w. (k, w) \<in> set (keep_last m) \<Longrightarrow> \<exists>r. map_of flds k = Some r \<and> validateAuditValue (Suc depth) r w = Inr ()"
    "\<And>k r. (k, r) \<in> set flds \<Longrightarrow> ru_Required r \<Longrightarrow> has_key m k"
  using assms that
  by (fastforce simp: validateAuditObject.simps rforeach_Inr_conv rbind_Inr_conv require_Inr_conv
      split: if_splits json.splits option.splits)

lemma validateAuditValue_cases:
  assumes "validateAuditValue depth r v = Inr ()"
  obtains (object) "depth \<le> maxAuditSnapshotDepth" "ru_Type r = ''object''" "validateAuditObject depth (ru_Fields r) v = Inr ()"
  | (array) vs item where "depth \<le> maxAuditSnapshotDepth" "ru_Type r = ''array''" "v = JArr vs" "ru_Items r = Some item"
      "list_all (\<lambda>w. validateAuditValue (Suc depth) item w = Inr ()) vs"
  | (leaf) "depth \<le> maxAuditSnapshotDepth" "v = JArr [] \<or> \<not> (\<exists>m. v = JObj m) \<and> \<not> (\<exists>vs. v = JArr vs)"
  using assms
  by (subst (asm) validateAuditValue.simps)
    (auto simp: rforeach_Inr_conv list_all_iff split: if_splits json.splits option.splits)

lemma keep_last_map_snd:
  "keep_last (map (\<lambda>(k, v). (k, f v)) m) = map (\<lambda>(k, v). (k, f v)) (keep_last m)"
proof (induction m rule: keep_last.induct)
  case (2 k v m)
  have "has_key (map (\<lambda>(k, v). (k, f v)) m) k = has_key m k" by (force simp: has_key_conv)
  then show ?case using 2 by simp
qed simp

text \<open>The two bounds of an accepted snapshot, by induction on its validation.\<close>

lemma accepted_depth:
  "validateAuditObject depth flds v = Inr () \<Longrightarrow> depth + json_depth (json_norm v) \<le> maxAuditSnapshotDepth"
  "validateAuditValue depth r v = Inr () \<Longrightarrow> depth + json_depth (json_norm v) \<le> maxAuditSnapshotDepth"
proof (induction depth flds v and depth r v rule: validateAuditObject_validateAuditValue.induct)
  case (1 depth flds v)
  from "1.prems" obtain m where m: "v = JObj m" "depth \<le> maxAuditSnapshotDepth"
    "\<And>k w. (k, w) \<in> set (keep_last m) \<Longrightarrow> \<exists>r. map_of flds k = Some r \<and> validateAuditValue (Suc depth) r w = Inr ()"
    by (rule validateAuditObject_Inr) blast
  have "Suc depth + json_depth (json_norm w) \<le> maxAuditSnapshotDepth" if "(k, w) \<in> set (keep_last m)" for k w
    using "1.IH" m(1,2) m(3) [OF that] that by fastforce
  then have "fold max (map (\<lambda>(k, v). Suc (json_depth v)) (map (\<lambda>(k, v). (k, json_norm v)) (keep_last m))) 0
      \<le> maxAuditSnapshotDepth - depth"
    by (intro fold_max_le) force+
  then show ?case using m(1,2) by (simp add: keep_last_map_snd)
next
  case (2 depth r v)
  from "2.prems" show ?case
  proof (cases rule: validateAuditValue_cases)
    case object
    have "v \<noteq> JNull" using object(3) by (auto elim: validateAuditObject_Inr)
    then show ?thesis using "2.IH"(1) object by simp
  next
    case (array vs item)
    have "Suc depth + json_depth (json_norm w) \<le> maxAuditSnapshotDepth" if "w \<in> set vs" for w
      using "2.IH"(2) array that by (auto simp: list_all_iff)
    then have "fold max (map (\<lambda>v. Suc (json_depth v)) (map json_norm vs)) 0 \<le> maxAuditSnapshotDepth - depth"
      by (intro fold_max_le) force+
    then show ?thesis using array(1,3) by simp
  next
    case leaf
    then show ?thesis by (cases v) auto
  qed
qed

text \<open>A rule validated for objects at depth \<open>depth\<close> describes values one level below.\<close>

lemma accepted_keys:
  "validateAuditObject depth flds v = Inr () \<Longrightarrow> validateAuditRules depth flds = Inr () \<Longrightarrow>
     all_keys (\<lambda>k. \<not> prohibitedAuditField k) (json_norm v)"
  "validateAuditValue depth r v = Inr () \<Longrightarrow> depth = Suc d \<Longrightarrow> validateAuditRule d r = Inr () \<Longrightarrow>
     all_keys (\<lambda>k. \<not> prohibitedAuditField k) (json_norm v)"
proof (induction depth flds v and depth r v arbitrary: and d rule: validateAuditObject_validateAuditValue.induct)
  case (1 depth flds v)
  from "1.prems"(1) obtain m where m: "v = JObj m" "depth \<le> maxAuditSnapshotDepth"
    "\<And>k w. (k, w) \<in> set (keep_last m) \<Longrightarrow> \<exists>r. map_of flds k = Some r \<and> validateAuditValue (Suc depth) r w = Inr ()"
    by (rule validateAuditObject_Inr) blast
  have "\<not> prohibitedAuditField k \<and> all_keys (\<lambda>k. \<not> prohibitedAuditField k) (json_norm w)"
    if "(k, w) \<in> set (keep_last m)" for k w
    using "1.IH" m(1,2) m(3) [OF that] that validateAuditRules_lookup [OF "1.prems"(2)] by fastforce
  then show ?case using m(1) by (fastforce simp: keep_last_map_snd list_all_iff)
next
  case (2 depth r v d)
  from "2.prems"(1) show ?case
  proof (cases rule: validateAuditValue_cases)
    case object
    have "v \<noteq> JNull" using object(3) by (auto elim: validateAuditObject_Inr)
    then show ?thesis using "2.IH"(1) object "2.prems" validateAuditRule_object by simp
  next
    case (array vs item)
    have "all_keys (\<lambda>k. \<not> prohibitedAuditField k) (json_norm w)" if "w \<in> set vs" for w
      using "2.IH"(2) array that "2.prems" validateAuditRule_array [OF "2.prems"(3)] by (auto simp: list_all_iff)
    then show ?thesis using array(3) by (simp add: list_all_iff)
  next
    case leaf
    then show ?thesis by (cases v) auto
  qed
qed

section \<open>Facts on policies\<close>

definition schema_registered :: "(string \<Rightarrow> string \<Rightarrow> go_error + unit) \<Rightarrow> bool" where
  "schema_registered f \<longleftrightarrow> (\<exists>flds. f = snapshot_validator flds \<and> validateAuditRules 0 flds = Inr ())"

definition policy_registered :: "AuditPublisherPolicy \<Rightarrow> bool" where
  "policy_registered p \<longleftrightarrow>
     (\<forall>(_, rp) \<in> set (pp_Resources p). \<forall>(_, f) \<in> set (rp_Schemas rp). schema_registered f)"

lemma rmap_set:
  assumes "rmap f xs = Inr ys" "y \<in> set ys"
  obtains x where "x \<in> set xs" "f x = Inr y"
  using assms by (induction xs arbitrary: ys) (fastforce simp: rbind_Inr_conv)+

lemma decode_schema_registered: "decode_schema x = Inr (s, f) \<Longrightarrow> schema_registered f"
  by (auto simp: decode_schema_def schema_registered_def rbind_Inr_conv split: prod.splits if_splits)

lemma decode_resource_registered:
  "decode_resource x = Inr (t, rp) \<Longrightarrow> \<forall>(_, f) \<in> set (rp_Schemas rp). schema_registered f"
  by (auto simp: decode_resource_def rbind_Inr_conv split: prod.splits if_splits
      elim!: rmap_set dest: decode_schema_registered)

lemma DecodeAuditPolicies_registered:
  assumes "DecodeAuditPolicies decode data = Inr ps" "p \<in> set ps"
  shows "policy_registered p"
proof -
  obtain publishers where "rmap decode_publisher publishers = Inr ps"
    using assms(1) by (auto simp: DecodeAuditPolicies_def split: if_splits option.splits)
  then obtain entry where "decode_publisher entry = Inr p" using assms(2) by (rule rmap_set)
  then have "rmap decode_resource (pm_Resources entry) = Inr (pp_Resources p)"
    by (auto simp: decode_publisher_def rbind_Inr_conv split: if_splits)
  then show ?thesis
    unfolding policy_registered_def by (auto elim!: rmap_set dest!: decode_resource_registered)
qed

lemma install_policies_Inr:
  assumes "install_policies installed ps = Inr m"
  shows "(map_of m name = Some p \<longleftrightarrow> map_of installed name = Some p \<or> p \<in> set ps \<and> pp_Publisher p = name) \<and>
    list_all (\<lambda>q. policy_complete q \<and> list_all resource_complete (pp_Resources q)) ps"
  using assms
proof (induction installed ps rule: install_policies.induct)
  case (2 installed q ps)
  then show ?case
    by (auto simp: gomap_put_lookup has_key_def split: if_splits)
qed simp

text \<open>A successful admission, unfolded.\<close>

lemma Admit_Inr:
  assumes "Admit ps validate_token policies payload objectType = Inr e"
  obtains audit policy rp who where
    "validateV2 ps (Some (validateContent policies)) True objectType e = Inr ()" "e_Audit e = Some audit"
    "map_of policies (ae_Publisher audit) = Some policy" "pp_CanAttestActors policy"
    "map_of (pp_Resources policy) objectType = Some rp" "ae_Origin audit \<in> set (rp_Origins rp)"
    "validate_token (authorization_header e) = Inr who"
    "p_Principal who = pp_Principal policy"
proof -
  have "DecodeV2Envelope ps (Some (validateContent policies)) payload objectType = Inr e"
    using assms by (auto simp: Admit_def rbind_Inr_conv split: if_splits option.splits)
  then have "validateV2 ps (Some (validateContent policies)) True objectType e = Inr ()"
    by (auto simp: DecodeV2Envelope_def decodeV2Envelope_def rbind_Inr_conv split: if_splits option.splits)
  moreover obtain audit policy where p: "e_Audit e = Some audit" "authorise_publisher policies audit objectType = Inr policy"
    "authenticate_publisher validate_token policy e = Inr ()"
    using assms by (auto simp: Admit_def rbind_Inr_conv split: if_splits option.splits)
  moreover obtain who where "validate_token (authorization_header e) = Inr who" "p_Principal who = pp_Principal policy"
    using p(3) by (auto simp: authenticate_publisher_def require_Inr_conv split: sum.splits)
  ultimately show ?thesis
    using that by (auto simp: authorise_publisher_def split: option.splits if_splits)
qed

text \<open>A snapshot accepted under a schema that registration validated is nested at most sixteen levels
  and has no prohibited key.\<close>

lemma snapshot_validator_clean:
  assumes "validateAuditRules 0 flds = Inr ()" "snapshot_validator flds before after = Inr ()"
    "snapshot \<in> {before, after}" "snapshot \<noteq> []"
  shows "\<exists>v. json_parse snapshot = Some v \<and> json_depth (json_norm v) \<le> 16 \<and>
    all_keys (\<lambda>k. \<not> prohibitedAuditField k) (json_norm v)"
proof -
  have "(if snapshot = [] then Inr ()
       else case json_parse snapshot of
         None \<Rightarrow> fail (SchemaRule SnapshotNotObject)
       | Some v \<Rightarrow> validateAuditObject 0 flds v) = Inr ()"
    using assms(2,3) by (auto simp: snapshot_validator_def rbind_Inr_conv)
  then obtain v where "json_parse snapshot = Some v" "validateAuditObject 0 flds v = Inr ()"
    using assms(4) by (auto split: option.splits)
  then show ?thesis
    using accepted_depth(1) [of 0] accepted_keys(1) [OF _ assms(1)] by (auto simp: maxAuditSnapshotDepth_def)
qed

section \<open>Properties\<close>

text \<open>C9: an admitted delivery is one the operator's policy allows: the publisher was registered
  with a machine principal, the token's principal is the one registered, the origin is granted for the
  object type, and a mutation's content satisfies a schema registered for that publisher and type.\<close>

theorem Admit_authorised:
  assumes "NewAuditAdmission registered = Inr policies"
    "Admit ps validate_token policies payload objectType = Inr e"
  shows "\<exists>audit policy rp who. e_Audit e = Some audit \<and> policy \<in> set registered \<and>
    pp_Publisher policy = ae_Publisher audit \<and> has_suffix (pp_Principal policy) MachineUserSuffix \<and>
    validate_token (authorization_header e) = Inr who \<and>
    p_Principal who = pp_Principal policy \<and>
    map_of (pp_Resources policy) objectType = Some rp \<and> ae_Origin audit \<in> set (rp_Origins rp) \<and>
    (ae_Origin audit = AuditOriginMutation \<longrightarrow> (\<exists>content validate. ae_Content audit = Some content \<and>
       map_of (rp_Schemas rp) (ac_Schema content) = Some validate \<and>
       validate (ac_Before content) (ac_After content) = Inr ()))"
proof -
  from assms(2) obtain audit policy rp who where a:
    "validateV2 ps (Some (validateContent policies)) True objectType e = Inr ()" "e_Audit e = Some audit"
    "map_of policies (ae_Publisher audit) = Some policy" "map_of (pp_Resources policy) objectType = Some rp"
    "ae_Origin audit \<in> set (rp_Origins rp)"
    "validate_token (authorization_header e) = Inr who"
    "p_Principal who = pp_Principal policy"
    by (rule Admit_Inr)
  have reg: "policy \<in> set registered" "pp_Publisher policy = ae_Publisher audit" "policy_complete policy"
    using install_policies_Inr [OF assms(1) [unfolded NewAuditAdmission_def], of "ae_Publisher audit" policy] a(3)
    by (auto simp: list_all_iff)
  have "check_origin (Some (validateContent policies)) e audit objectType = Inr ()"
    using a(1,2) by (auto elim: validateV2_Inr)
  then have "\<exists>content. ae_Content audit = Some content \<and>
      validateContent policies (ae_Publisher audit) objectType content = Inr ()" if "ae_Origin audit = AuditOriginMutation"
    using that by (auto simp: check_origin_def validateAuditContent_def rbind_Inr_conv require_Inr_conv Let_def
        split: option.splits sum.splits)
  then have content: "ae_Origin audit = AuditOriginMutation \<longrightarrow> (\<exists>content validate. ae_Content audit = Some content \<and>
       map_of (rp_Schemas rp) (ac_Schema content) = Some validate \<and>
       validate (ac_Before content) (ac_After content) = Inr ())"
    using a(3,4) by (auto simp: validateContent_def split: option.splits if_splits)
  show ?thesis
    by (intro exI [of _ audit] exI [of _ policy] exI [of _ rp] exI [of _ who] conjI)
      (use a reg content in \<open>simp_all add: policy_complete_def\<close>)
qed

lemma Admit_content:
  assumes "Admit ps validate_token policies payload objectType = Inr e"
    "e_Audit e = Some audit" "ae_Content audit = Some content"
  obtains policy rp validate where "map_of policies (ae_Publisher audit) = Some policy"
    "map_of (pp_Resources policy) objectType = Some rp" "map_of (rp_Schemas rp) (ac_Schema content) = Some validate"
    "validate (ac_Before content) (ac_After content) = Inr ()"
proof -
  have "validateV2 ps (Some (validateContent policies)) True objectType e = Inr ()"
    using assms(1) by (rule Admit_Inr)
  then have "check_origin (Some (validateContent policies)) e audit objectType = Inr ()"
    using assms(2) by (auto elim: validateV2_Inr)
  then have "validateContent policies (ae_Publisher audit) objectType content = Inr ()"
    using assms(3) by (auto simp: check_origin_def validateAuditContent_def rbind_Inr_conv require_Inr_conv Let_def
        split: if_splits option.splits sum.splits)
  then show ?thesis using that by (auto simp: validateContent_def split: option.splits if_splits)
qed

text \<open>C10: under policies read from a manifest, no snapshot of an admitted mutation is nested more
  than sixteen levels or has an object key, at any depth, whose name contains a credential or
  raw-request word, so none reaches the history.\<close>

theorem admitted_snapshots_clean:
  assumes "DecodeAuditPolicies decode_manifest data = Inr registered"
    "NewAuditAdmission registered = Inr policies"
    "Admit ps validate_token policies payload objectType = Inr e"
    "e_Audit e = Some audit" "ae_Content audit = Some content"
    "snapshot \<in> {ac_Before content, ac_After content}" "snapshot \<noteq> []"
  shows "\<exists>v. json_parse snapshot = Some v \<and> json_depth (json_norm v) \<le> 16 \<and>
    all_keys (\<lambda>k. \<not> prohibitedAuditField k) (json_norm v)"
proof -
  obtain policy rp validate where v: "map_of policies (ae_Publisher audit) = Some policy"
    "map_of (pp_Resources policy) objectType = Some rp" "map_of (rp_Schemas rp) (ac_Schema content) = Some validate"
    "validate (ac_Before content) (ac_After content) = Inr ()"
    using assms(3-5) by (rule Admit_content)
  have "policy \<in> set registered"
    using install_policies_Inr [OF assms(2) [unfolded NewAuditAdmission_def], of "ae_Publisher audit" policy] v(1) by auto
  then have "policy_registered policy" by (rule DecodeAuditPolicies_registered [OF assms(1)])
  then have "schema_registered validate"
    using map_of_SomeD [OF v(2)] map_of_SomeD [OF v(3)] by (fastforce simp: policy_registered_def)
  then obtain flds where "validateAuditRules 0 flds = Inr ()" "validate = snapshot_validator flds"
    by (auto simp: schema_registered_def)
  then show ?thesis using snapshot_validator_clean v(4) assms(6,7) by blast
qed

section \<open>Witnesses\<close>

definition sample_schema :: "(string \<times> rule) list" where
  "sample_schema = [(''name'', Rule ''string'' True False [] None)]"

definition sample_manifest :: AuditPublisherManifest where
  "sample_manifest = \<lparr>pm_Publisher = ''proj'', pm_Principal = ''p@clients'', pm_CanAttestActors = True,
     pm_Resources = [(''project'', \<lparr>rm_Origins = [AuditOriginMutation], rm_Schemas = [(''v1'', sample_schema)]\<rparr>)]\<rparr>"

definition sample_policy :: AuditPublisherPolicy where
  "sample_policy = \<lparr>pp_Publisher = ''proj'', pp_Principal = ''p@clients'', pp_CanAttestActors = True,
     pp_Resources = [(''project'', \<lparr>rp_Origins = [AuditOriginMutation],
                                   rp_Schemas = [(''v1'', snapshot_validator sample_schema)]\<rparr>)]\<rparr>"

definition sample_snapshot :: string where
  \<open>sample_snapshot = ''{"name":"x"}''\<close>

definition sample_content :: AuditContent where
  "sample_content = \<lparr>ac_Schema = ''v1'', ac_Representation = AuditRepresentationSnapshots,
     ac_Before = sample_snapshot, ac_After = []\<rparr>"

definition sample_admitted :: IndexerMessageEnvelope where
  "sample_admitted = sample_envelope\<lparr>e_Audit := Some (sample_audit\<lparr>ae_Origin := AuditOriginMutation,
     ae_Content := Some sample_content\<rparr>)\<rparr>"

lemma sample_schema_valid: "validateAuditRules 0 sample_schema = Inr ()"
  by (simp add: sample_schema_def validateAuditRules.simps validateAuditRule.simps maxAuditSnapshotDepth_def
      auditSchemaField_def prohibitedAuditField_def prohibited_parts_def to_lower_def rune_list_all_ascii
      lower_rune_def byte_def is_lower_def is_digit_def is_scalar_type_def sublist_code)

lemma sample_snapshot_parse: "json_parse sample_snapshot = Some (JObj [(''name'', JStr ''x'')])"
  by (simp add: sample_snapshot_def json_parse_def parse_value.simps parse_members.simps
      skip_space_def is_json_space_def byte_def max_depth_def encode_rune_def char_of_eq_iff)

lemma sample_snapshot_accepted: "snapshot_validator sample_schema sample_snapshot [] = Inr ()"
  using sample_snapshot_parse
  by (simp add: snapshot_validator_def sample_snapshot_def sample_schema_def validateAuditObject.simps
      validateAuditValue.simps maxAuditSnapshotDepth_def)

lemma sample_manifest_decoded: "DecodeAuditPolicies (\<lambda>_. Some [sample_manifest]) ''{}'' = Inr [sample_policy]"
  using parse_empty_object sample_schema_valid
  by (simp add: DecodeAuditPolicies_def MaxAuditEnvelopeBytes_def skip_space_def decode_publisher_def
      sample_manifest_def sample_policy_def grammar_defs byte_def decode_resource_def decode_schema_def sample_schema_def
      AuditOriginMutation_def)

lemma sample_policy_installed: "NewAuditAdmission [sample_policy] = Inr [(''proj'', sample_policy)]"
  by (simp add: NewAuditAdmission_def sample_policy_def policy_complete_def resource_complete_def has_suffix_def
      MachineUserSuffix_def grammar_defs byte_def suffix_to_prefix)

lemma sample_snapshot_object: "auditJSONObject sample_snapshot"
proof -
  have "list_all (\<lambda>c. byte c < 128) sample_snapshot" by (simp add: sample_snapshot_def byte_def)
  moreover from this have "runes sample_snapshot = map (\<lambda>c. (byte c, [c])) sample_snapshot" by (rule runes_all_ascii)
  then have "trim_space sample_snapshot = sample_snapshot"
    by (simp add: trim_space_def sample_snapshot_def byte_def is_space_def)
  ultimately show ?thesis
    using valid_utf8_ascii sample_snapshot_parse
    by (simp add: auditJSONObject_def Let_def auditJSONKeys_def is_profile_path_def auditOpaqueJSONPath_def
        auditJSONFields_def sample_snapshot_def)
qed

lemma sample_admitted_valid:
  "validateV2 sample_parsers (Some (validateContent [(''proj'', sample_policy)])) True ''project'' sample_admitted = Inr ()"
proof -
  have "check_origin (Some (validateContent [(''proj'', sample_policy)])) sample_admitted
      (sample_audit\<lparr>ae_Origin := AuditOriginMutation, ae_Content := Some sample_content\<rparr>) ''project'' = Inr ()"
    using sample_snapshot_object sample_snapshot_accepted
    by (simp add: check_origin_def validateAuditContent_def sample_content_def sample_admitted_def sample_envelope_def
        sample_audit_def validateContent_def sample_policy_def grammar_defs byte_def sample_snapshot_def Let_def)
  then show ?thesis
    using sample_envelope_checks [of None]
    by (auto simp: validateV2_def sample_admitted_def sample_envelope_def sample_audit_def rbind_Inr_conv
        check_audit_identity_def validateVersion2Action_def Let_def)
qed

text \<open>The text of the admitted delivery.\<close>

definition sample_payload :: string where
  "sample_payload = marshal_envelope epoch_text sample_admitted"

lemma sample_admitted_tree: "envelope_json epoch_text sample_admitted = JObj
  [(''schema_version'', JNum ''2''),
   (''audit'', JObj [(''event_id'', JStr ''e1''), (''publisher'', JStr ''proj''), (''occurred_at'', JStr ''1970-01-01T00:00:00Z''),
      (''resource_revision'', JNum ''3''), (''origin'', JStr ''mutation''),
      (''attribution'', JObj [(''actor_ref'', JStr ''service:s''), (''effective_actor_ref'', JStr ''service:s'')]),
      (''scope'', JObj [(''before'', JArr [JStr ''project:1''])]),
      (''content'', JObj [(''schema'', JStr ''v1''), (''representation'', JStr ''snapshots''),
         (''before'', JObj [(''name'', JStr ''x'')])])]),
   (''action'', JStr ''deleted''), (''headers'', JObj [(''authorization'', JStr ''Bearer t'')]), (''data'', JStr ''42''),
   (''indexing_config'', JObj [(''object_id'', JStr ''42''), (''access_check_object'', JStr ''project:42''),
      (''access_check_relation'', JStr ''viewer''), (''history_check_object'', JStr ''project:42''),
      (''history_check_relation'', JStr ''historian'')])]"
proof -
  have "raw_member k sample_snapshot = [(k, JObj [(''name'', JStr ''x'')])]" for k
    using sample_snapshot_parse by (simp add: raw_member_def sample_snapshot_def)
  moreover have "raw_member k [] = []" for k by (simp add: raw_member_def)
  ultimately show ?thesis
    by (simp add: envelope_json_def audit_json_def attribution_json_def scope_json_def content_json_def config_json_def
        headers_json_def str_member_def ptr_member_def list_member_def sample_admitted_def sample_envelope_def sample_audit_def
        sample_content_def sample_v2_config_def epoch_text_def int_str_def nat_str.simps char_of_eq_iff
        AuditOriginMutation_def AuditRepresentationSnapshots_def ActionDeleted_def AuthorizationHeader_def)
qed

lemma sample_admitted_printable: "envelope_printable epoch_text sample_admitted"
proof -
  have "printable 0 (envelope_json epoch_text sample_admitted)"
    unfolding sample_admitted_tree by (simp add: plain_def plain_number_def byte_def max_depth_def is_digit_def)
  moreover have "compact_raw sample_snapshot"
    using sample_snapshot_parse by (simp add: compact_raw_def sample_snapshot_def quoted_def)
  moreover have "compact_raw []" by (simp add: compact_raw_def)
  ultimately show ?thesis
    using epoch_kept
    by (simp add: envelope_printable_def audit_printable_def sample_admitted_def sample_envelope_def sample_audit_def sample_content_def)
qed

lemma sample_admitted_shape: "auditJSONValue [] 0 (envelope_json epoch_text sample_admitted)"
proof -
  have "auditJSONChildPath ''audit.content'' ''before'' = auditOpaqueJSONPath"
    by (subst fixed_child; simp add: vocabulary) (simp add: auditJSONFields_def)
  then show ?thesis unfolding sample_admitted_tree
    by (simp add: auditJSONKeys_def vocabulary envelope_paths opaque_path) (simp add: is_profile_path_def)
qed

lemma sample_payload_decoded:
  "DecodeV2Envelope sample_parsers (Some (validateContent [(''proj'', sample_policy)])) sample_payload ''project'' = Inr sample_admitted"
proof -
  have "length sample_payload \<le> MaxAuditEnvelopeBytes"
    by (simp add: sample_payload_def marshal_envelope_def sample_admitted_tree quoted_def MaxAuditEnvelopeBytes_def)
  then show ?thesis
    using sample_admitted_printable sample_admitted_shape sample_admitted_valid
    by (simp add: DecodeV2Envelope_def decodeV2Envelope_marshalled sample_payload_def)
qed

lemma sample_admitted_admitted:
  "Admit sample_parsers (\<lambda>_. Inr \<lparr>p_Principal = ''p@clients'', p_Email = ''''\<rparr>)
     [(''proj'', sample_policy)] sample_payload ''project'' = Inr sample_admitted"
  using sample_payload_decoded
  by (simp add: Admit_def authorise_publisher_def authenticate_publisher_def sample_admitted_def sample_audit_def sample_policy_def)

theorem Admit_authorised_witness:
  "\<exists>audit policy. e_Audit sample_admitted = Some audit \<and> policy \<in> set [sample_policy] \<and>
     has_suffix (pp_Principal policy) MachineUserSuffix"
  using Admit_authorised [OF sample_policy_installed sample_admitted_admitted] by blast

theorem admitted_snapshots_clean_witness:
  "\<exists>v. json_parse sample_snapshot = Some v \<and> json_depth (json_norm v) \<le> 16 \<and>
     all_keys (\<lambda>k. \<not> prohibitedAuditField k) (json_norm v)"
  by (rule admitted_snapshots_clean [OF sample_manifest_decoded sample_policy_installed sample_admitted_admitted,
        of "sample_audit\<lparr>ae_Origin := AuditOriginMutation, ae_Content := Some sample_content\<rparr>" sample_content])
    (simp_all add: sample_admitted_def sample_content_def sample_snapshot_def)

end
