(* ===== verification/Audit_Workflow.thy ===== *)
theory Audit_Workflow
  imports Audit_Policy
begin

text \<open>
  internal/application/audit_workflow.go: one audited delivery, from admission through the receipt,
  the history and the guarded current write to the domain event. The stores are functions on the state
  of the world; erasure is the other operation on the history. The properties are invariants of every
  sequence of deliveries and erasures, whichever requests fail or lose their reply.
\<close>

section \<open>The workflow\<close>

text \<open>The dependencies that do not change state: parsers, the typed decoder, the token validator, the
  installed policies, the digest, the time format, and the clock by the number of the reading.\<close>

record audit_env =
  en_parsers :: text_parsers
  en_token :: "string \<Rightarrow> go_error + Principal"
  en_policies :: "AuditPublisherPolicy gomap"
  en_digest :: "immutable_content \<Rightarrow> string"
  en_fmt_nanos :: "int \<Rightarrow> string"
  en_clock :: "nat \<Rightarrow> int"

text \<open>The stores, the cleanup queue and the publisher. The answer of the publisher is discarded by the
  code and has no place here.\<close>

record 'w audit_stores =
  st_receipt_create :: "(receipt_doc, 'w) writer"
  st_receipt_get :: "(receipt_doc, 'w) reader"
  st_history_create :: "(history_doc, 'w) writer"
  st_history_get :: "(history_doc, 'w) reader"
  st_history_overwrite :: "(history_doc, 'w) writer"
  st_update :: "string \<Rightarrow> TransactionBody script_params \<Rightarrow> 'w \<Rightarrow> update_reply \<times> 'w"
  st_check :: "string \<Rightarrow> 'w \<Rightarrow> 'w"
  st_publish :: "string \<Rightarrow> IndexingEvent \<Rightarrow> 'w \<Rightarrow> 'w"

text \<open>\<open>NewAuditWorkflow\<close>: the arguments say which dependencies are not nil.\<close>

definition NewAuditWorkflow ::
    "bool \<Rightarrow> bool \<Rightarrow> bool \<Rightarrow> bool \<Rightarrow> bool \<Rightarrow> bool \<Rightarrow> 'w audit_stores \<Rightarrow> go_error + 'w audit_stores" where
  "NewAuditWorkflow admission history receipts current notifier cleanup st =
     (if \<not> admission \<or> \<not> history \<or> \<not> receipts \<or> \<not> current \<or> \<not> notifier \<or> \<not> cleanup
      then fail (Workflow WorkflowDependencies) else Inr st)"

definition delivery_receipt :: "AuditEvent \<Rightarrow> string \<Rightarrow> AuditDeliveryReceipt" where
  "delivery_receipt audit fingerprint =
     \<lparr>r_Publisher = ae_Publisher audit, r_EventID = ae_EventID audit, r_Origin = ae_Origin audit,
      r_Fingerprint = fingerprint\<rparr>"

definition audited_event :: "IndexerMessageEnvelope \<Rightarrow> AuditEvent \<Rightarrow> TransactionBody \<Rightarrow> int \<Rightarrow> IndexingEvent" where
  "audited_event e audit body now =
     \<lparr>ie_EventID = audit_identity audit, ie_DocumentID = b_ObjectRef body, ie_ObjectID = b_ObjectID body,
      ie_ObjectType = b_ObjectType body, ie_Action = e_Action e, ie_Body = body, ie_Timestamp = now\<rparr>"

text \<open>The history write of a mutation; a projection-only delivery has none.\<close>

definition append_history ::
    "audit_env \<Rightarrow> 'w audit_stores \<Rightarrow> IndexerMessageEnvelope \<Rightarrow> AuditEvent \<Rightarrow> string \<Rightarrow> 'w \<Rightarrow> go_error option \<times> 'w" where
  "append_history env st e audit objectType w =
     (if ae_Origin audit \<noteq> AuditOriginMutation then (None, w)
      else case NewRecord (en_parsers env) (en_digest env) (en_policies env) e objectType (en_clock env 0) of
        Inl err \<Rightarrow> (Some err, w)
      | Inr record \<Rightarrow>
          (case HistoryCreateOrVerify (st_history_create st) (st_history_get st) record w of
             (Some err, w') \<Rightarrow> (Some (Wrapf (Workflow AppendHistory) err), w')
           | (None, w') \<Rightarrow> (None, w')))"

text \<open>The current write, the cleanup check and the event. A body is returned exactly when the document
  was replaced, so the code's branch for an applied write without body has no instance.\<close>

definition apply_current ::
    "audit_env \<Rightarrow> 'w audit_stores \<Rightarrow> IndexerMessageEnvelope \<Rightarrow> AuditEvent \<Rightarrow> string \<Rightarrow> string \<Rightarrow> 'w
     \<Rightarrow> go_error option \<times> 'w" where
  "apply_current env st e audit objectType fingerprint w =
     (case ApplyIfNewer (st_update st) (en_fmt_nanos env) e objectType fingerprint w of
        (Inl err, w') \<Rightarrow> (Some (Wrapf (Workflow ApplyProjection) err), w')
      | (Inr applied, w') \<Rightarrow>
          let objectID = (case e_IndexingConfig e of Some c \<Rightarrow> c_ObjectID c | None \<Rightarrow> []);
              w'' = st_check st (objectType @ '':'' @ objectID) w'
          in (None, case applied of
                None \<Rightarrow> w''
              | Some body \<Rightarrow>
                  st_publish st (BuildEventSubject (b_ObjectType body) (e_Action e))
                    (audited_event e audit body (en_clock env 1)) w''))"

definition Process :: "audit_env \<Rightarrow> 'w audit_stores \<Rightarrow> string \<Rightarrow> string \<Rightarrow> 'w \<Rightarrow> go_error option \<times> 'w" where
  "Process env st payload subject w =
     (if \<not> has_prefix subject IndexPrefix then (Some (Errorf (Workflow InvalidAuditedSubject) []), w)
      else
        let objectType = drop (length IndexPrefix) subject in
        case Admit (en_parsers env) (en_token env) (en_policies env) payload objectType of
          Inl err \<Rightarrow> (Some err, w)
        | Inr e \<Rightarrow>
            (case e_Audit e of
               None \<Rightarrow> (Some (Errorf (Audit SchemaAndAuditRequired) []), w)
             | Some audit \<Rightarrow>
                 let fingerprint = AuditFingerprint (en_digest env) e audit objectType in
                 case ReceiptCreateOrVerify (st_receipt_create st) (st_receipt_get st)
                        (delivery_receipt audit fingerprint) w of
                   (Some err, w1) \<Rightarrow> (Some (Wrapf (Workflow ReserveIdentity) err), w1)
                 | (None, w1) \<Rightarrow>
                     (case append_history env st e audit objectType w1 of
                        (Some err, w2) \<Rightarrow> (Some err, w2)
                      | (None, w2) \<Rightarrow> apply_current env st e audit objectType fingerprint w2)))"

section \<open>Deliveries and erasures as steps\<close>

inductive audit_step :: "'w audit_stores \<Rightarrow> 'w \<Rightarrow> 'w \<Rightarrow> bool" for st where
  delivery: "Process env st payload subject w = (r, w') \<Longrightarrow> audit_step st w w'"
| erasure: "Erase (st_history_overwrite st) publisher eventID erasedAt w = (r, w') \<Longrightarrow> audit_step st w w'"

inductive audit_reachable :: "'w audit_stores \<Rightarrow> 'w \<Rightarrow> 'w \<Rightarrow> bool" for st where
  start: "audit_reachable st w w"
| further: "audit_reachable st w w1 \<Longrightarrow> audit_step st w1 w2 \<Longrightarrow> audit_reachable st w w2"

inductive_cases audit_step_cases: "audit_step st w w'"

text \<open>What the current index says is accounted for: the delivery that wrote a document has a receipt with
  its fingerprint, and the mutation recorded in a document has a history record with its fingerprint,
  unless the record has been erased.\<close>

definition accounted ::
    "(string \<Rightarrow> receipt_doc option) \<Rightarrow> (string \<Rightarrow> history_doc option)
     \<Rightarrow> (string \<Rightarrow> TransactionBody source option) \<Rightarrow> bool" where
  "accounted receipts history current \<longleftrightarrow>
     (\<forall>ref s. current ref = Some s \<longrightarrow>
        (\<forall>k. s_event_key s = Some k \<longrightarrow>
           (\<exists>d. receipts k = Some d \<and> s_event_fingerprint s = Some (r_Fingerprint (rd_receipt d)))) \<and>
        (\<forall>k. s_mutation_key s = Some k \<longrightarrow>
           (\<exists>h. history k = Some (HistoryDoc h) \<and> s_mutation_fingerprint s = Some (h_Fingerprint h)) \<or>
           (\<exists>p i. history k = Some (ErasureFence p i))))"

section \<open>Facts on the parts of a delivery\<close>

lemma deliver_event_key:
  assumes "deliver p src = Some s" "s_event_key s = Some k"
  shows "k = sp_identity p \<and> s_event_fingerprint s = Some (sp_fingerprint p) \<or>
    (\<exists>s0. src = Some s0 \<and> s_event_key s0 = Some k \<and> s_event_fingerprint s0 = s_event_fingerprint s)"
proof (cases "auditProjectionScript p src")
  case (Write s')
  have "s' = s" using Write assms(1) by (simp add: deliver_def)
  from Write this assms(2) show ?thesis
    by (cases rule: script_Write_cases) (auto simp: replace_source_def Let_def)
qed (use assms in \<open>auto simp: deliver_def\<close>)

lemma deliver_mutation_key:
  assumes "deliver p src = Some s" "s_mutation_key s = Some k"
  shows "\<not> sp_projection_only p \<and> k = sp_identity p \<and> s_mutation_fingerprint s = Some (sp_fingerprint p) \<or>
    (\<exists>s0. src = Some s0 \<and> s_mutation_key s0 = Some k \<and> s_mutation_fingerprint s0 = s_mutation_fingerprint s)"
proof (cases "auditProjectionScript p src")
  case (Write s')
  have "s' = s" using Write assms(1) by (simp add: deliver_def)
  from Write this assms(2) show ?thesis
    by (cases rule: script_Write_cases)
      (auto simp: replace_source_def Let_def split: if_splits option.splits bind_splits)
qed (use assms in \<open>auto simp: deliver_def\<close>)

lemma ApplyIfNewer_world:
  assumes "ApplyIfNewer update fmt e objectType fingerprint w = (res, w')" "e_Audit e = Some audit"
  shows "w' = w \<or> (\<exists>body. w' = snd (update (b_ObjectRef body) (projection_params fmt audit fingerprint body) w))"
proof (cases "AuditProjectionBody e objectType")
  case (Inr body)
  obtain reply w1 where u: "update (b_ObjectRef body) (projection_params fmt audit fingerprint body) w = (reply, w1)"
    by (cases "update (b_ObjectRef body) (projection_params fmt audit fingerprint body) w")
  then have "w' = w \<or> w' = w1"
    using assms Inr by (auto simp: ApplyIfNewer_def split: if_splits update_reply.splits option.splits)
  then show ?thesis using u by (metis snd_conv)
qed (use assms in \<open>auto simp: ApplyIfNewer_def split: if_splits\<close>)

lemma NewRecord_Inr:
  assumes "NewRecord ps digest policies e objectType now = Inr h" "e_Audit e = Some audit"
  shows "history_id h = audit_identity audit" "h_Fingerprint h = AuditFingerprint digest e audit objectType"
  using assms by (auto simp: NewRecord_def NewHistoryRecord_def rbind_Inr_conv history_id_def audit_identity_def
      split: option.splits if_splits)

lemma accountedI:
  assumes "\<And>ref s k. current ref = Some s \<Longrightarrow> s_event_key s = Some k \<Longrightarrow>
      \<exists>d. receipts k = Some d \<and> s_event_fingerprint s = Some (r_Fingerprint (rd_receipt d))"
    "\<And>ref s k. current ref = Some s \<Longrightarrow> s_mutation_key s = Some k \<Longrightarrow>
      (\<exists>h. history k = Some (HistoryDoc h) \<and> s_mutation_fingerprint s = Some (h_Fingerprint h)) \<or>
      (\<exists>p i. history k = Some (ErasureFence p i))"
  shows "accounted receipts history current"
  using assms unfolding accounted_def by blast

lemma accountedD:
  assumes "accounted receipts history current" "current ref = Some s"
  shows "s_event_key s = Some k \<Longrightarrow>
      \<exists>d. receipts k = Some d \<and> s_event_fingerprint s = Some (r_Fingerprint (rd_receipt d))"
    "s_mutation_key s = Some k \<Longrightarrow>
      (\<exists>h. history k = Some (HistoryDoc h) \<and> s_mutation_fingerprint s = Some (h_Fingerprint h)) \<or>
      (\<exists>p i. history k = Some (ErasureFence p i))"
  using assms unfolding accounted_def by blast+

text \<open>Growth of the receipts and of the history keeps what is accounted for.\<close>

lemma accounted_grow:
  assumes "accounted receipts history current"
    "\<And>k. receipts k \<noteq> None \<Longrightarrow> receipts' k = receipts k" "\<And>k. history k \<noteq> None \<Longrightarrow> history' k = history k"
  shows "accounted receipts' history' current"
  using assms unfolding accounted_def by (metis option.distinct(1))

lemma accounted_erase:
  assumes "accounted receipts history current"
  shows "accounted receipts (history(i \<mapsto> ErasureFence p e)) current"
  using assms unfolding accounted_def by (metis fun_upd_apply)

text \<open>A delivery whose receipt, and history record if it is a mutation, are in place.\<close>

lemma accounted_deliver:
  assumes "accounted receipts history current"
    "receipts (sp_identity p) = Some d" "r_Fingerprint (rd_receipt d) = sp_fingerprint p"
    "\<not> sp_projection_only p \<Longrightarrow> \<exists>h. history (sp_identity p) = Some (HistoryDoc h) \<and> h_Fingerprint h = sp_fingerprint p"
  shows "accounted receipts history (current(ref := deliver p (current ref)))"
proof (rule accountedI)
  fix ref' s k
  assume s: "(current(ref := deliver p (current ref))) ref' = Some s" "s_event_key s = Some k"
  then consider "current ref' = Some s" | "k = sp_identity p" "s_event_fingerprint s = Some (sp_fingerprint p)"
    | s0 where "current ref = Some s0" "s_event_key s0 = Some k" "s_event_fingerprint s0 = s_event_fingerprint s"
  proof (cases "ref' = ref")
    case True
    then have "deliver p (current ref) = Some s" using s(1) by simp
    from deliver_event_key [OF this s(2)] show ?thesis using that by blast
  qed (use s(1) that(1) in simp)
  then show "\<exists>d. receipts k = Some d \<and> s_event_fingerprint s = Some (r_Fingerprint (rd_receipt d))"
  proof cases
    case 1
    then show ?thesis using accountedD(1) [OF assms(1) _ s(2)] by blast
  next
    case 2
    then show ?thesis using assms(2,3) by simp
  next
    case (3 s0)
    then show ?thesis using accountedD(1) [OF assms(1) 3(1,2)] by simp
  qed
next
  fix ref' s k
  assume s: "(current(ref := deliver p (current ref))) ref' = Some s" "s_mutation_key s = Some k"
  then consider "current ref' = Some s"
    | "\<not> sp_projection_only p" "k = sp_identity p" "s_mutation_fingerprint s = Some (sp_fingerprint p)"
    | s0 where "current ref = Some s0" "s_mutation_key s0 = Some k" "s_mutation_fingerprint s0 = s_mutation_fingerprint s"
  proof (cases "ref' = ref")
    case True
    then have "deliver p (current ref) = Some s" using s(1) by simp
    from deliver_mutation_key [OF this s(2)] show ?thesis using that by blast
  qed (use s(1) that(1) in simp)
  then show "(\<exists>h. history k = Some (HistoryDoc h) \<and> s_mutation_fingerprint s = Some (h_Fingerprint h)) \<or>
      (\<exists>p i. history k = Some (ErasureFence p i))"
  proof cases
    case 1
    then show ?thesis using accountedD(2) [OF assms(1) _ s(2)] by blast
  next
    case 2
    then show ?thesis using assms(4) by auto
  next
    case (3 s0)
    then show ?thesis using accountedD(2) [OF assms(1) 3(1,2)] by simp
  qed
qed

section \<open>The interface of the stores\<close>

text \<open>What the workflow relies on: receipts and history are create-only, an erasure replaces the addressed
  slot or fails without effect, an update request runs the script on the addressed document or fails
  without effect, and no request touches another store.\<close>

locale audit_world =
  fixes st :: "'w audit_stores"
    and receipts :: "'w \<Rightarrow> string \<Rightarrow> receipt_doc option"
    and history :: "'w \<Rightarrow> string \<Rightarrow> history_doc option"
    and current :: "'w \<Rightarrow> string \<Rightarrow> TransactionBody source option"
  assumes receipts_create_only: "create_only (st_receipt_create st) (st_receipt_get st) receipts"
    and receipts_frame: "history (snd (st_receipt_create st i d w)) = history w"
      "current (snd (st_receipt_create st i d w)) = current w"
    and history_create_only: "create_only (st_history_create st) (st_history_get st) history"
    and history_frame: "receipts (snd (st_history_create st i h w)) = receipts w"
      "current (snd (st_history_create st i h w)) = current w"
    and overwrite: "history (snd (st_history_overwrite st i h w)) = history w \<or>
        history (snd (st_history_overwrite st i h w)) = (history w)(i \<mapsto> h)"
    and overwrite_frame: "receipts (snd (st_history_overwrite st i h w)) = receipts w"
      "current (snd (st_history_overwrite st i h w)) = current w"
    and update: "current (snd (st_update st ref p w)) = current w \<or>
        current (snd (st_update st ref p w)) = (current w)(ref := deliver p (current w ref))"
    and update_frame: "receipts (snd (st_update st ref p w)) = receipts w"
      "history (snd (st_update st ref p w)) = history w"
    and check_frame: "receipts (st_check st i w) = receipts w" "history (st_check st i w) = history w"
      "current (st_check st i w) = current w"
    and publish_frame: "receipts (st_publish st s ev w) = receipts w" "history (st_publish st s ev w) = history w"
      "current (st_publish st s ev w) = current w"
begin

lemmas frames = receipts_frame history_frame overwrite_frame update_frame check_frame publish_frame

definition consistent_world :: "'w \<Rightarrow> bool" where
  "consistent_world w = accounted (receipts w) (history w) (current w)"

lemma receipt_step:
  assumes "ReceiptCreateOrVerify (st_receipt_create st) (st_receipt_get st) r w = (res, w')"
  shows "history w' = history w" "current w' = current w"
    "receipts w k \<noteq> None \<Longrightarrow> receipts w' k = receipts w k"
    "res = None \<Longrightarrow> \<exists>d. receipts w' (receipt_id r) = Some d \<and> rd_receipt d = r"
proof -
  have w': "w' = w \<or> w' = snd (st_receipt_create st (receipt_id r) \<lparr>rd_receipt = r, rd_erased = False\<rparr> w)"
    using assms by (auto simp: ReceiptCreateOrVerify_def split: if_splits prod.splits write_reply.splits)
  then show "history w' = history w" "current w' = current w" by (auto simp: frames)
  show "receipts w k \<noteq> None \<Longrightarrow> receipts w' k = receipts w k"
    using w' create_only_keeps [OF receipts_create_only] by metis
  show "res = None \<Longrightarrow> \<exists>d. receipts w' (receipt_id r) = Some d \<and> rd_receipt d = r"
    using identity_store.put_ok [OF receipt_identity_store [OF receipts_create_only], of r w w'] assms
    by (auto simp: receipt_slot_def split: option.splits if_splits)
qed

lemma history_step:
  assumes "HistoryCreateOrVerify (st_history_create st) (st_history_get st) h w = (res, w')"
  shows "receipts w' = receipts w" "current w' = current w"
    "history w k \<noteq> None \<Longrightarrow> history w' k = history w k"
    "res = None \<Longrightarrow> \<exists>h'. history w' (history_id h) = Some (HistoryDoc h') \<and> h_Fingerprint h' = h_Fingerprint h"
proof -
  have w': "w' = w \<or> w' = snd (st_history_create st (history_id h) (HistoryDoc h) w)"
    using assms by (auto simp: HistoryCreateOrVerify_def split: if_splits prod.splits write_reply.splits)
  then show "receipts w' = receipts w" "current w' = current w" by (auto simp: frames)
  show "history w k \<noteq> None \<Longrightarrow> history w' k = history w k"
    using w' create_only_keeps [OF history_create_only] by metis
  show "res = None \<Longrightarrow> \<exists>h'. history w' (history_id h) = Some (HistoryDoc h') \<and> h_Fingerprint h' = h_Fingerprint h"
    using identity_store.put_ok [OF history_identity_store [OF history_create_only], of h w w'] assms
    by (auto simp: history_slot_def history_content_def split: option.splits history_doc.splits)
qed

end

context audit_world
begin

lemma append_history_step:
  assumes "append_history env st e audit objectType w = (res, w')" "e_Audit e = Some audit"
  shows "receipts w' = receipts w" "current w' = current w" "history w k \<noteq> None \<Longrightarrow> history w' k = history w k"
    "res = None \<Longrightarrow> ae_Origin audit = AuditOriginMutation \<Longrightarrow>
       \<exists>h. history w' (audit_identity audit) = Some (HistoryDoc h) \<and>
           h_Fingerprint h = AuditFingerprint (en_digest env) e audit objectType"
proof -
  consider "w' = w" "res = None \<longrightarrow> ae_Origin audit \<noteq> AuditOriginMutation"
    | h res' where "NewRecord (en_parsers env) (en_digest env) (en_policies env) e objectType (en_clock env 0) = Inr h"
      "HistoryCreateOrVerify (st_history_create st) (st_history_get st) h w = (res', w')" "res = None \<longleftrightarrow> res' = None"
    using assms(1) by (auto simp: append_history_def split: if_splits sum.splits prod.splits option.splits)
  then have "receipts w' = receipts w \<and> current w' = current w \<and> (history w k \<noteq> None \<longrightarrow> history w' k = history w k) \<and>
    (res = None \<longrightarrow> ae_Origin audit = AuditOriginMutation \<longrightarrow>
       (\<exists>h. history w' (audit_identity audit) = Some (HistoryDoc h) \<and>
            h_Fingerprint h = AuditFingerprint (en_digest env) e audit objectType))"
  proof cases
    case (2 h res')
    show ?thesis
      using history_step [OF 2(2)] NewRecord_Inr [OF 2(1) assms(2)] 2(3) by simp
  qed simp
  then show "receipts w' = receipts w" "current w' = current w" "history w k \<noteq> None \<Longrightarrow> history w' k = history w k"
    "res = None \<Longrightarrow> ae_Origin audit = AuditOriginMutation \<Longrightarrow>
       \<exists>h. history w' (audit_identity audit) = Some (HistoryDoc h) \<and>
           h_Fingerprint h = AuditFingerprint (en_digest env) e audit objectType"
    by blast+
qed

lemma apply_current_world:
  assumes "apply_current env st e audit objectType fingerprint w = (res, w')" "e_Audit e = Some audit"
  shows "receipts w' = receipts w \<and> history w' = history w \<and>
    (current w' = current w \<or>
     (\<exists>body. current w' = (current w)(b_ObjectRef body :=
        deliver (projection_params (en_fmt_nanos env) audit fingerprint body) (current w (b_ObjectRef body)))))"
proof -
  obtain a w1 where a: "ApplyIfNewer (st_update st) (en_fmt_nanos env) e objectType fingerprint w = (a, w1)"
    by (cases "ApplyIfNewer (st_update st) (en_fmt_nanos env) e objectType fingerprint w")
  have "receipts w' = receipts w1 \<and> history w' = history w1 \<and> current w' = current w1"
    using assms(1) a by (auto simp: apply_current_def frames Let_def split: sum.splits option.splits)
  moreover from ApplyIfNewer_world [OF a assms(2)]
  have "receipts w1 = receipts w \<and> history w1 = history w \<and>
    (current w1 = current w \<or>
     (\<exists>body. current w1 = (current w)(b_ObjectRef body :=
        deliver (projection_params (en_fmt_nanos env) audit fingerprint body) (current w (b_ObjectRef body)))))"
    by (auto simp: frames) (metis update)
  ultimately show ?thesis by simp
qed

lemma apply_current_consistent:
  assumes "accounted (receipts w) (history w) (current w)"
    "apply_current env st e audit objectType fingerprint w = (res, w')" "e_Audit e = Some audit"
    "receipts w (audit_identity audit) = Some d" "r_Fingerprint (rd_receipt d) = fingerprint"
    "ae_Origin audit = AuditOriginMutation \<Longrightarrow>
       \<exists>h. history w (audit_identity audit) = Some (HistoryDoc h) \<and> h_Fingerprint h = fingerprint"
  shows "consistent_world w'"
proof -
  have "accounted (receipts w) (history w) ((current w)(b_ObjectRef body :=
      deliver (projection_params (en_fmt_nanos env) audit fingerprint body) (current w (b_ObjectRef body))))" for body
    by (rule accounted_deliver [OF assms(1), of _ d]) (use assms(4-6) in \<open>auto simp: projection_params_def\<close>)
  then show ?thesis
    using apply_current_world [OF assms(2,3)] assms(1) unfolding consistent_world_def by metis
qed

lemma Process_consistent:
  assumes "consistent_world w" "Process env st payload subject w = (res, w')"
  shows "consistent_world w'"
proof -
  let ?ot = "drop (length IndexPrefix) subject"
  consider "w' = w"
    | e audit res1 w1 where "e_Audit e = Some audit"
      "ReceiptCreateOrVerify (st_receipt_create st) (st_receipt_get st)
         (delivery_receipt audit (AuditFingerprint (en_digest env) e audit ?ot)) w = (res1, w1)"
      "res1 \<noteq> None \<and> w' = w1 \<or> res1 = None \<and> (\<exists>res2 w2. append_history env st e audit ?ot w1 = (res2, w2) \<and>
         (res2 \<noteq> None \<and> w' = w2 \<or> res2 = None \<and>
          apply_current env st e audit ?ot (AuditFingerprint (en_digest env) e audit ?ot) w2 = (res, w')))"
    using assms(2)
    by (auto simp: Process_def Let_def split: if_splits sum.splits option.splits prod.splits)
  then show ?thesis
  proof cases
    case (2 e audit res1 w1)
    let ?fp = "AuditFingerprint (en_digest env) e audit ?ot"
    note r = receipt_step [OF 2(2)]
    have one: "accounted (receipts w1) (history w1) (current w1)"
      using accounted_grow [OF assms(1) [unfolded consistent_world_def]] r(1-3) by metis
    show ?thesis
    proof (cases "res1 = None")
      case True
      then obtain res2 w2 where h: "append_history env st e audit ?ot w1 = (res2, w2)"
        and rest: "res2 \<noteq> None \<and> w' = w2 \<or> res2 = None \<and> apply_current env st e audit ?ot ?fp w2 = (res, w')"
        using 2(3) by blast
      note a = append_history_step [OF h 2(1)]
      have two: "accounted (receipts w2) (history w2) (current w2)"
        using accounted_grow [OF one] a(1-3) by metis
      show ?thesis
      proof (cases "res2 = None")
        case True
        obtain d where d: "receipts w2 (audit_identity audit) = Some d" "r_Fingerprint (rd_receipt d) = ?fp"
          using r(4) [OF \<open>res1 = None\<close>] a(1) by (auto simp: receipt_id_def audit_identity_def delivery_receipt_def)
        show ?thesis
          by (rule apply_current_consistent [OF two _ 2(1) d]) (use rest True a(4) [OF True] in auto)
      next
        case False
        then show ?thesis using rest two by (auto simp: consistent_world_def)
      qed
    next
      case False
      then show ?thesis using 2(3) one by (auto simp: consistent_world_def)
    qed
  qed (use assms(1) in simp)
qed

lemma Erase_consistent:
  assumes "consistent_world w" "Erase (st_history_overwrite st) publisher eventID erasedAt w = (res, w')"
  shows "consistent_world w'"
proof -
  let ?i = "publisher @ '':'' @ eventID" and ?f = "ErasureFence publisher eventID"
  have "w' = w \<or> w' = snd (st_history_overwrite st ?i ?f w)"
    using assms(2) by (auto simp: Erase_def split: if_splits prod.splits write_reply.splits)
  then show ?thesis
    using assms(1) accounted_erase overwrite [of ?i ?f w] unfolding consistent_world_def
    by (metis overwrite_frame)
qed

lemma reachable_consistent:
  "audit_reachable st w w' \<Longrightarrow> consistent_world w \<Longrightarrow> consistent_world w'"
  by (induction rule: audit_reachable.induct)
    (auto elim!: audit_step_cases intro: Process_consistent Erase_consistent)

end

section \<open>Stores that can fail\<close>

text \<open>A world of the three indices, in which every write follows a schedule of faults, together with the
  logs of cleanup checks and published events.\<close>

record audit_cluster =
  wd_receipts :: "receipt_doc cluster"
  wd_history :: "history_doc cluster"
  wd_current :: "TransactionBody source gomap"
  wd_update_faults :: "fault list"
  wd_checks :: "string list"
  wd_published :: "(string \<times> IndexingEvent) list"

definition world_receipt_create :: "(receipt_doc, audit_cluster) writer" where
  "world_receipt_create i d w =
     (case cluster_create i d (wd_receipts w) of (reply, cl) \<Rightarrow> (reply, w\<lparr>wd_receipts := cl\<rparr>))"

definition world_history_create :: "(history_doc, audit_cluster) writer" where
  "world_history_create i d w =
     (case cluster_create i d (wd_history w) of (reply, cl) \<Rightarrow> (reply, w\<lparr>wd_history := cl\<rparr>))"

definition world_history_overwrite :: "(history_doc, audit_cluster) writer" where
  "world_history_overwrite i d w =
     (let cl = wd_history w; rest = cl\<lparr>cl_faults := tl (cl_faults cl)\<rparr>;
          applied = w\<lparr>wd_history := rest\<lparr>cl_docs := gomap_put i d (cl_docs cl)\<rparr>\<rparr>;
          kept = w\<lparr>wd_history := rest\<rparr>
      in case next_fault cl of
           NoFault \<Rightarrow> (WReply 200 True, applied)
         | DropRequest \<Rightarrow> (WTransport, kept)
         | DropReply \<Rightarrow> (WTransport, applied)
         | ServerError \<Rightarrow> (WReply 503 True, kept)
         | BadBody \<Rightarrow> (WReply 200 False, applied))"

definition world_update :: "string \<Rightarrow> TransactionBody script_params \<Rightarrow> audit_cluster \<Rightarrow> update_reply \<times> audit_cluster" where
  "world_update ref p w =
     (let src = map_of (wd_current w) ref;
          rest = w\<lparr>wd_update_faults := tl (wd_update_faults w)\<rparr>;
          applied = (case deliver p src of None \<Rightarrow> rest | Some s \<Rightarrow> rest\<lparr>wd_current := gomap_put ref s (wd_current w)\<rparr>)
      in case (case wd_update_faults w of [] \<Rightarrow> NoFault | f # _ \<Rightarrow> f) of
           NoFault \<Rightarrow> (script_reply p src, applied)
         | DropRequest \<Rightarrow> (UTransport, rest)
         | DropReply \<Rightarrow> (UTransport, applied)
         | ServerError \<Rightarrow> (UReply 503 None, rest)
         | BadBody \<Rightarrow> (UReply 200 None, applied))"

definition world_stores :: "audit_cluster audit_stores" where
  "world_stores = \<lparr>
     st_receipt_create = world_receipt_create, st_receipt_get = (\<lambda>i w. cluster_get i (wd_receipts w)),
     st_history_create = world_history_create, st_history_get = (\<lambda>i w. cluster_get i (wd_history w)),
     st_history_overwrite = world_history_overwrite, st_update = world_update,
     st_check = (\<lambda>i w. w\<lparr>wd_checks := wd_checks w @ [i]\<rparr>),
     st_publish = (\<lambda>s ev w. w\<lparr>wd_published := wd_published w @ [(s, ev)]\<rparr>)\<rparr>"

abbreviation receipts_in :: "audit_cluster \<Rightarrow> string \<Rightarrow> receipt_doc option" where
  "receipts_in w \<equiv> stored_in (wd_receipts w)"

abbreviation history_in :: "audit_cluster \<Rightarrow> string \<Rightarrow> history_doc option" where
  "history_in w \<equiv> stored_in (wd_history w)"

abbreviation current_in :: "audit_cluster \<Rightarrow> string \<Rightarrow> TransactionBody source option" where
  "current_in w \<equiv> map_of (wd_current w)"

lemma create_only_lift:
  assumes "create_only create get stored"
    "\<And>i d w. \<exists>cl. create i d (proj w) = (fst (create' i d w), cl) \<and> proj (snd (create' i d w)) = cl"
  shows "create_only create' (\<lambda>i w. get i (proj w)) (\<lambda>w. stored (proj w))"
proof -
  have "fst (create' i d w) = fst (create i d (proj w))" "proj (snd (create' i d w)) = snd (create i d (proj w))" for i d w
    using assms(2) [of i d w] by auto
  then show ?thesis using assms(1) unfolding create_only_def by simp
qed

interpretation audit: audit_world world_stores receipts_in history_in current_in
proof unfold_locales
  show "create_only (st_receipt_create world_stores) (st_receipt_get world_stores) receipts_in"
    using create_only_lift [OF cluster_create_only, of wd_receipts world_receipt_create]
    by (simp add: world_stores_def world_receipt_create_def split: prod.splits)
  show "create_only (st_history_create world_stores) (st_history_get world_stores) history_in"
    using create_only_lift [OF cluster_create_only, of wd_history world_history_create]
    by (simp add: world_stores_def world_history_create_def split: prod.splits)
next
  fix i h w
  show "history_in (snd (st_history_overwrite world_stores i h w)) = history_in w \<or>
        history_in (snd (st_history_overwrite world_stores i h w)) = (history_in w)(i \<mapsto> h)"
    by (auto simp: world_stores_def world_history_overwrite_def stored_in_def gomap_put_lookup Let_def split: fault.splits)
  show "receipts_in (snd (st_history_overwrite world_stores i h w)) = receipts_in w"
    "current_in (snd (st_history_overwrite world_stores i h w)) = current_in w"
    by (simp_all add: world_stores_def world_history_overwrite_def Let_def split: fault.splits)
next
  fix ref p w
  show "current_in (snd (st_update world_stores ref p w)) = current_in w \<or>
        current_in (snd (st_update world_stores ref p w)) = (current_in w)(ref := deliver p (current_in w ref))"
  proof (cases "deliver p (current_in w ref)")
    case None
    then show ?thesis by (auto simp: world_stores_def world_update_def Let_def split: fault.splits list.splits)
  next
    case (Some s)
    then show ?thesis
      by (auto simp: world_stores_def world_update_def Let_def gomap_put_lookup split: fault.splits list.splits)
  qed
  show "receipts_in (snd (st_update world_stores ref p w)) = receipts_in w"
    "history_in (snd (st_update world_stores ref p w)) = history_in w"
    by (simp_all add: world_stores_def world_update_def Let_def split: fault.splits list.splits option.splits)
qed (simp_all add: world_stores_def world_receipt_create_def world_history_create_def split: prod.splits)

section \<open>Facts on a completed delivery\<close>

lemma Process_None:
  assumes "Process env st payload subject w = (None, w')"
  obtains e audit objectType fingerprint w1 w2 where
    "has_prefix subject IndexPrefix" "objectType = drop (length IndexPrefix) subject"
    "Admit (en_parsers env) (en_token env) (en_policies env) payload objectType = Inr e"
    "e_Audit e = Some audit" "fingerprint = AuditFingerprint (en_digest env) e audit objectType"
    "ReceiptCreateOrVerify (st_receipt_create st) (st_receipt_get st) (delivery_receipt audit fingerprint) w = (None, w1)"
    "append_history env st e audit objectType w1 = (None, w2)"
    "apply_current env st e audit objectType fingerprint w2 = (None, w')"
  using assms that by (auto simp: Process_def Let_def split: if_splits sum.splits option.splits prod.splits)

lemma gomap_put_same: "map_of m k = Some v \<Longrightarrow> gomap_put k v m = m"
  by (induction m) auto

lemma cluster_create_taken:
  assumes "stored_in cl i = Some d" "cl_faults cl = []"
  shows "cluster_create i d' cl = (WReply status_conflict True, cl)"
proof -
  have "cl\<lparr>cl_faults := []\<rparr> = cl" using assms(2) by (cases cl) simp
  then show ?thesis using assms by (simp add: cluster_create_def next_fault_def Let_def)
qed

lemma receipt_again:
  assumes "receipts_in w (receipt_id r) = Some \<lparr>rd_receipt = r, rd_erased = False\<rparr>" "receipt_configured r"
    "cl_faults (wd_receipts w) = []"
  shows "ReceiptCreateOrVerify world_receipt_create (\<lambda>i w. cluster_get i (wd_receipts w)) r w = (None, w)"
  using assms
  by (simp add: ReceiptCreateOrVerify_def world_receipt_create_def cluster_create_taken
      receipt_verify_def cluster_get_def is_error_status_def)

lemma history_again:
  assumes "history_in w (history_id h) = Some (HistoryDoc h')" "same_history h' h" "history_configured h"
    "ae_Origin (h_Audit h) = AuditOriginMutation" "cl_faults (wd_history w) = []"
  shows "HistoryCreateOrVerify world_history_create (\<lambda>i w. cluster_get i (wd_history w)) h w = (None, w)"
  using assms
  by (simp add: HistoryCreateOrVerify_def world_history_create_def cluster_create_taken
      history_verify_def cluster_get_def is_error_status_def)

text \<open>A script that did not refuse is a no-op when it runs again on what it left.\<close>

lemma script_again:
  assumes "\<And>err. auditProjectionScript p src \<noteq> Throw err"
  obtains s where "deliver p src = Some s" "auditProjectionScript p (Some s) = Noop"
proof (cases "auditProjectionScript p src")
  case Noop
  then obtain s where "src = Some s" by (cases src) (auto simp: auditProjectionScript_def)
  then show ?thesis using that Noop by (simp add: deliver_def)
next
  case (Write s)
  then show ?thesis using that script_idempotent [OF Write] by (simp add: deliver_def)
qed (use assms in blast)

lemma deliver_None: "deliver p src = None \<Longrightarrow> src = None"
  by (auto simp: deliver_def split: outcome.splits)

lemma update_reply_ok:
  assumes "world_update ref p w = (UReply status (Some r), w')" "status = 200 \<or> status = 201"
  shows "script_reply p (current_in w ref) = UReply status (Some r)"
    "current_in w' ref = deliver p (current_in w ref)"
  using assms
  by (auto simp: world_update_def Let_def gomap_put_lookup dest: deliver_None
      split: fault.splits list.splits option.splits)

lemma ApplyIfNewer_again:
  assumes "ApplyIfNewer world_update fmt e objectType fingerprint w = (Inr applied, w')" "wd_update_faults v = []"
    "current_in v = current_in w'"
  shows "ApplyIfNewer world_update fmt e objectType fingerprint v = (Inr None, v)"
proof -
  obtain audit body where b: "e_Audit e = Some audit" "fingerprint \<noteq> ''''" "AuditProjectionBody e objectType = Inr body"
    using assms(1) by (auto simp: ApplyIfNewer_def split: option.splits if_splits sum.splits)
  let ?p = "projection_params fmt audit fingerprint body" and ?ref = "b_ObjectRef body"
  obtain status r where u: "world_update ?ref ?p w = (UReply status (Some r), w')" "status = 200 \<or> status = 201"
    using assms(1) b by (auto simp: ApplyIfNewer_def split: prod.splits update_reply.splits option.splits if_splits)
  have "auditProjectionScript ?p (current_in w ?ref) \<noteq> Throw err" for err
    using update_reply_ok(1) [OF u] by (auto simp: script_reply_def Let_def)
  then obtain s where s: "current_in w' ?ref = Some s" "auditProjectionScript ?p (Some s) = Noop"
    using update_reply_ok(2) [OF u] by (metis script_again)
  then have "world_update ?ref ?p v = (script_reply ?p (Some s), v)"
    using assms(2,3) by (simp add: world_update_def Let_def deliver_def gomap_put_same)
  then show ?thesis using b s(2)
    by (simp add: ApplyIfNewer_def script_reply_def interpret_update_def Let_def)
qed

lemma append_history_again:
  assumes "append_history env world_stores e audit objectType w = (None, w')" "e_Audit e = Some audit"
    "history_in v = history_in w'" "cl_faults (wd_history v) = []" "clock 0 \<noteq> year_one"
  shows "append_history (env\<lparr>en_clock := clock\<rparr>) world_stores e audit objectType v = (None, v)"
proof (cases "ae_Origin audit = AuditOriginMutation")
  case True
  then obtain h where h:
    "NewRecord (en_parsers env) (en_digest env) (en_policies env) e objectType (en_clock env 0) = Inr h"
    "HistoryCreateOrVerify world_history_create (\<lambda>i w. cluster_get i (wd_history w)) h w = (None, w')"
    using assms(1) by (auto simp: append_history_def world_stores_def split: sum.splits prod.splits option.splits)
  let ?h = "h\<lparr>h_IngestedAt := clock 0\<rparr>"
  have new: "NewRecord (en_parsers env) (en_digest env) (en_policies env) e objectType (clock 0) = Inr ?h"
    using h(1) assms(5) by (auto simp: NewRecord_def NewHistoryRecord_def rbind_Inr_conv split: option.splits if_splits)
  have "history_slot history_in w' (history_id h) = Held (history_content h)"
    using identity_store.put_ok [OF history_identity_store [OF audit.history_create_only], of h w w'] h(2)
    by (simp add: world_stores_def)
  then obtain h' where "history_in v (history_id h) = Some (HistoryDoc h')" "history_content h' = history_content h"
    using assms(3) by (auto simp: history_slot_def split: option.splits history_doc.splits)
  moreover have "history_configured h" "ae_Origin (h_Audit h) = AuditOriginMutation"
    using h(2) by (auto simp: HistoryCreateOrVerify_def split: if_splits)
  ultimately have "HistoryCreateOrVerify world_history_create (\<lambda>i w. cluster_get i (wd_history w)) ?h v = (None, v)"
    using assms(4) by (intro history_again [of _ _ h'])
      (auto simp: history_id_def same_history_def history_content_def history_configured_def)
  then show ?thesis using new by (simp add: append_history_def world_stores_def)
qed (simp add: append_history_def)

section \<open>Properties\<close>

text \<open>C1: in every state that deliveries and erasures reach, whichever requests failed or lost their
  reply: the delivery that wrote a current document has a receipt with its fingerprint, and the
  mutation recorded in a current document has its record in the history, unless it was erased. The
  current index never runs ahead of the history.\<close>

theorem current_accounted:
  assumes "audit_world st receipts history current"
    "accounted (receipts w0) (history w0) (current w0)" "audit_reachable st w0 w"
  shows "accounted (receipts w) (history w) (current w)"
  using audit_world.reachable_consistent [OF assms(1,3)] assms(2)
  by (simp add: audit_world.consistent_world_def [OF assms(1)])

text \<open>C12: a delivery that reports an error has scheduled no cleanup and published no event: its outcome
  is the same whatever the cleanup queue and the publisher are.\<close>

theorem failed_delivery_quiet:
  assumes "Process env st payload subject w = (Some err, w')"
  shows "Process env (st\<lparr>st_check := check, st_publish := publish\<rparr>) payload subject w = (Some err, w')"
  using assms
  by (auto simp: Process_def apply_current_def append_history_def Let_def
      split: if_splits sum.splits option.splits prod.splits)


section \<open>Witnesses\<close>

definition sample_env :: audit_env where
  "sample_env = \<lparr>en_parsers = sample_parsers,
     en_token = (\<lambda>_. Inr \<lparr>p_Principal = ''p@clients'', p_Email = ''''\<rparr>), en_policies = [(''proj'', sample_policy)],
     en_digest = (\<lambda>_. replicate 64 (CHR ''a'')), en_fmt_nanos = (\<lambda>_. ''t''), en_clock = (\<lambda>_. 0)\<rparr>"

definition empty_world :: "fault list \<Rightarrow> audit_cluster" where
  "empty_world faults = \<lparr>wd_receipts = empty_cluster, wd_history = empty_cluster, wd_current = [],
     wd_update_faults = faults, wd_checks = [], wd_published = []\<rparr>"

lemma empty_world_accounted: "accounted (receipts_in (empty_world f)) (history_in (empty_world f)) (current_in (empty_world f))"
  by (simp add: accounted_def empty_world_def)

theorem current_accounted_witness:
  "let w = snd (Process sample_env world_stores sample_payload ''lfx.index.project'' (empty_world [DropReply]))
   in accounted (receipts_in w) (history_in w) (current_in w)"
proof -
  have "audit_reachable world_stores (empty_world [DropReply])
      (snd (Process sample_env world_stores sample_payload ''lfx.index.project'' (empty_world [DropReply])))"
    by (rule audit_reachable.further [OF audit_reachable.start], rule audit_step.delivery) (rule prod.collapse [symmetric])
  then show ?thesis
    using current_accounted [OF audit.audit_world_axioms empty_world_accounted] by simp
qed

theorem failed_delivery_quiet_witness:
  "Process sample_env (world_stores\<lparr>st_check := \<lambda>_ w. w, st_publish := \<lambda>_ _ w. w\<rparr>) sample_payload ''x'' (empty_world []) =
     (Some (Errorf (Workflow InvalidAuditedSubject) []), empty_world [])"
  by (rule failed_delivery_quiet) (simp add: Process_def has_prefix_def IndexPrefix_def)

definition admitted_audit :: AuditEvent where
  "admitted_audit = sample_audit\<lparr>ae_Origin := AuditOriginMutation, ae_Content := Some sample_content\<rparr>"

definition sample_digest :: string where
  "sample_digest = replicate 64 (CHR ''a'')"

lemma sample_record:
  "NewRecord sample_parsers (en_digest sample_env) [(''proj'', sample_policy)] sample_admitted ''project'' 0 =
     Inr (sample_history\<lparr>h_Audit := admitted_audit, h_Fingerprint := sample_digest, h_IngestedAt := 0\<rparr>)"
  using sample_admitted_valid
  by (simp add: NewRecord_def NewHistoryRecord_def ValidateV2_def sample_admitted_def sample_envelope_def
      sample_history_def admitted_audit_def sample_digest_def sample_audit_def sample_v2_config_def year_one_def
      AuditFingerprint_def sample_env_def)

lemma sample_reserve:
  "ReceiptCreateOrVerify (st_receipt_create world_stores) (st_receipt_get world_stores)
     (delivery_receipt admitted_audit sample_digest) (empty_world []) =
   (None, (empty_world [])\<lparr>wd_receipts := \<lparr>cl_docs = [(''proj:e1'', \<lparr>rd_receipt = delivery_receipt admitted_audit sample_digest,
      rd_erased = False\<rparr>)], cl_faults = []\<rparr>\<rparr>)"
  by (simp add: store_defs world_stores_def world_receipt_create_def delivery_receipt_def admitted_audit_def
      sample_audit_def sample_digest_def empty_world_def empty_cluster_def grammar_defs byte_def AuditOriginMutation_def)

lemma sample_append:
  assumes "wd_history w = empty_cluster"
  shows "append_history sample_env world_stores sample_admitted admitted_audit ''project'' w =
    (None, w\<lparr>wd_history := \<lparr>cl_docs = [(''proj:e1'', HistoryDoc (sample_history\<lparr>h_Audit := admitted_audit,
       h_Fingerprint := sample_digest, h_IngestedAt := 0\<rparr>))], cl_faults = []\<rparr>\<rparr>)"
  using sample_record assms
  by (simp add: append_history_def store_defs world_stores_def world_history_create_def sample_env_def
      sample_history_def admitted_audit_def sample_digest_def empty_cluster_def grammar_defs byte_def)

lemma sample_apply:
  assumes "wd_current w = []" "wd_update_faults w = []"
  shows "\<exists>w'. apply_current sample_env world_stores sample_admitted admitted_audit ''project'' sample_digest w = (None, w') \<and>
    wd_receipts w' = wd_receipts w \<and> wd_history w' = wd_history w \<and> wd_update_faults w' = []"
proof -
  obtain body where b: "AuditProjectionBody sample_admitted ''project'' = Inr body"
    by (simp add: AuditProjectionBody_def sample_admitted_def sample_envelope_def sample_v2_config_def Let_def)
  have a: "e_Audit sample_admitted = Some admitted_audit" by (simp add: sample_admitted_def admitted_audit_def)
  show ?thesis using a b assms
    by (simp add: apply_current_def ApplyIfNewer_def world_stores_def world_update_def script_reply_def deliver_def
        auditProjectionScript_def replace_source_def projection_params_def interpret_update_def Let_def
        sample_digest_def audit_identity_def)
qed

lemma sample_delivery: "\<exists>w'. Process sample_env world_stores sample_payload ''lfx.index.project'' (empty_world []) = (None, w') \<and>
  cl_faults (wd_receipts w') = [] \<and> cl_faults (wd_history w') = [] \<and> wd_update_faults w' = []"
proof -
  have ot: "drop (length IndexPrefix) ''lfx.index.project'' = ''project''" by (simp add: IndexPrefix_def)
  have env: "Admit (en_parsers sample_env) (en_token sample_env) (en_policies sample_env) sample_payload ''project''
      = Inr sample_admitted" "e_Audit sample_admitted = Some admitted_audit"
    using sample_admitted_admitted by (simp_all add: sample_env_def sample_admitted_def admitted_audit_def)
  have fp: "AuditFingerprint (en_digest sample_env) e a t = sample_digest" for e a t
    by (simp add: AuditFingerprint_def sample_env_def sample_digest_def)
  let ?w1 = "snd (ReceiptCreateOrVerify (st_receipt_create world_stores) (st_receipt_get world_stores)
     (delivery_receipt admitted_audit sample_digest) (empty_world []))"
  have "wd_history ?w1 = empty_cluster" by (simp only: sample_reserve) (simp add: empty_world_def)
  note two = sample_append [OF this]
  let ?w2 = "snd (append_history sample_env world_stores sample_admitted admitted_audit ''project'' ?w1)"
  have "wd_current ?w2 = []" "wd_update_faults ?w2 = []" "cl_faults (wd_receipts ?w2) = []" "cl_faults (wd_history ?w2) = []"
    by (simp_all only: two, simp_all only: sample_reserve, simp_all add: empty_world_def)
  moreover from sample_apply [OF this(1,2)] obtain w' where
    "apply_current sample_env world_stores sample_admitted admitted_audit ''project'' sample_digest ?w2 = (None, w')"
    "wd_receipts w' = wd_receipts ?w2" "wd_history w' = wd_history ?w2" "wd_update_faults w' = []" by blast
  moreover have "has_prefix ''lfx.index.project'' IndexPrefix" by (simp add: has_prefix_def IndexPrefix_def)
  ultimately show ?thesis
    using two by (simp add: Process_def Let_def ot env fp sample_reserve)
qed


end
