(* ===== verification/Audit_Messages.thy ===== *)
theory Audit_Messages
  imports Envelope_Print
begin

text \<open>
  The outbox builders of pkg/types/audit_builder.go: a version 2 event frozen as JSON without
  credentials, its restoration, and the envelope a dispatcher sends. \<open>json.Marshal\<close> of an envelope
  (\<open>None\<close> when it fails) is a parameter; the strict decoder is the one of \<open>Envelope_Json\<close>.
\<close>

section \<open>Operations\<close>

record MessageV2Options =
  mo_Action :: message_action
  mo_Data :: json
  mo_Tags :: "string list"
  mo_IndexingConfig :: "IndexingConfig option"
  mo_Audit :: AuditEvent

record MessageV2 =
  m2_payload :: string
  m2_objectType :: string

record v2_codec =
  vc_parsers :: text_parsers
  vc_marshal :: "IndexerMessageEnvelope \<Rightarrow> string option"
  vc_validate :: "content_validator option"

definition RestoreMessageV2 :: "v2_codec \<Rightarrow> string \<Rightarrow> string \<Rightarrow> go_error + MessageV2" where
  "RestoreMessageV2 vc payload objectType =
     rbind (decodeV2Envelope (vc_parsers vc) (vc_validate vc) False payload objectType) (\<lambda>envelope.
       if e_Headers envelope \<noteq> [] then fail (Text ''outbox events must not contain transport headers'')
       else Inr \<lparr>m2_payload = payload, m2_objectType = objectType\<rparr>)"

definition NewMessageV2 :: "v2_codec \<Rightarrow> string \<Rightarrow> MessageV2Options \<Rightarrow> go_error + MessageV2" where
  "NewMessageV2 vc objectType options =
     (let envelope = \<lparr>
            e_SchemaVersion = AuditSchemaVersion, e_Audit = Some (mo_Audit options), e_Action = mo_Action options,
            e_Headers = [], e_Data = mo_Data options, e_Tags = mo_Tags options,
            e_IndexingConfig = mo_IndexingConfig options\<rparr>
      in rbind (validateV2 (vc_parsers vc) (vc_validate vc) False objectType envelope) (\<lambda>_.
         case vc_marshal vc envelope of
           None \<Rightarrow> fail (Text ''version 2 event must be JSON serializable'')
         | Some payload \<Rightarrow> RestoreMessageV2 vc payload objectType))"

definition MarshalMessageV2 :: "MessageV2 \<Rightarrow> go_error + string" where
  "MarshalMessageV2 msg =
     (if m2_payload msg = [] then fail (Text ''a constructed version 2 event is required'') else Inr (m2_payload msg))"

definition dispatch_envelope :: "v2_codec \<Rightarrow> MessageV2 \<Rightarrow> string \<Rightarrow> go_error + IndexerMessageEnvelope" where
  "dispatch_envelope vc msg authorization =
     (if m2_payload msg = [] then fail (Text ''a constructed version 2 event is required'')
      else rbind (decodeV2Envelope (vc_parsers vc) (vc_validate vc) False (m2_payload msg) (m2_objectType msg))
        (\<lambda>decoded.
           let envelope = decoded\<lparr>e_Headers := [(AuthorizationHeader, authorization)]\<rparr> in
           rbind (ValidateV2 (vc_parsers vc) (vc_validate vc) (m2_objectType msg) envelope) (\<lambda>_.
           case vc_marshal vc envelope of
             None \<Rightarrow> fail (Text ''version 2 event must be JSON serializable'')
           | Some payload \<Rightarrow>
               if length payload > MaxAuditEnvelopeBytes then fail (Audit EnvelopeTooLarge) else Inr envelope)))"

section \<open>Facts\<close>

lemma decodeV2Envelope_Inr:
  assumes "decodeV2Envelope ps validate auth payload objectType = Inr e"
  shows "validateV2 ps validate auth objectType e = Inr ()" "payload \<noteq> []" "length payload \<le> MaxAuditEnvelopeBytes"
  using assms
  by (auto simp: decodeV2Envelope_def auditJSONShape_def parse_value.simps rbind_Inr_conv split: if_splits option.splits)

lemma RestoreMessageV2_Inr:
  assumes "RestoreMessageV2 vc payload objectType = Inr msg"
  obtains e where "msg = \<lparr>m2_payload = payload, m2_objectType = objectType\<rparr>" "e_Headers e = []"
    "decodeV2Envelope (vc_parsers vc) (vc_validate vc) False payload objectType = Inr e"
  using assms that by (auto simp: RestoreMessageV2_def rbind_Inr_conv split: if_splits)

lemma NewMessageV2_restored:
  assumes "NewMessageV2 vc objectType options = Inr msg"
  obtains payload where "RestoreMessageV2 vc payload objectType = Inr msg"
  using assms that by (auto simp: NewMessageV2_def rbind_Inr_conv Let_def split: option.splits)

text \<open>What a dispatcher relies on in \<open>encoding/json\<close>. Marshalling normalises: it compacts and escapes raw
  snapshots, replaces invalid UTF-8, sorts the keys of maps and formats times to the minute of their
  zone, so that an arbitrary envelope need not come back as it was. But an envelope that was decoded from
  marshalled text is in this normal form, and stays so with a header of valid UTF-8: what it
  marshals to has the shape the strict decoder requires and decodes to it.\<close>

definition with_authorization :: "string \<Rightarrow> IndexerMessageEnvelope \<Rightarrow> IndexerMessageEnvelope" where
  "with_authorization authorization e = e\<lparr>e_Headers := [(AuthorizationHeader, authorization)]\<rparr>"

definition reads_as :: "string \<Rightarrow> IndexerMessageEnvelope \<Rightarrow> bool" where
  "reads_as payload e \<longleftrightarrow>
     auditJSONShape payload \<and> decode_envelope payload = Some e \<and>
     (\<exists>v rest. parse_value (payload @ payload) 0 payload = Some (v, rest) \<and> skip_space rest = [])"

definition codec_law :: "v2_codec \<Rightarrow> bool" where
  "codec_law vc \<longleftrightarrow>
     (\<forall>built payload e authorization payload'.
        vc_marshal vc built = Some payload \<longrightarrow> reads_as payload e \<longrightarrow> valid_utf8 authorization \<longrightarrow>
        vc_marshal vc (with_authorization authorization e) = Some payload' \<longrightarrow>
        reads_as payload' (with_authorization authorization e))"

lemma decoded_reads_as:
  assumes "decodeV2Envelope (vc_parsers vc) (vc_validate vc) auth payload objectType = Inr e"
  shows "reads_as payload e"
  using assms by (auto simp: decodeV2Envelope_def reads_as_def rbind_Inr_conv split: if_splits option.splits)

section \<open>Properties\<close>

text \<open>A constructed event survives storage: the JSON it marshals to restores to the same event, which
  marshals to the same bytes; the stored envelope has no transport header.\<close>

lemma outbox_roundtrip:
  assumes "NewMessageV2 vc objectType options = Inr msg"
  shows "\<exists>payload. MarshalMessageV2 msg = Inr payload \<and> RestoreMessageV2 vc payload objectType = Inr msg \<and>
    (\<exists>e. decodeV2Envelope (vc_parsers vc) (vc_validate vc) False payload objectType = Inr e \<and> e_Headers e = [])"
proof -
  obtain payload where r: "RestoreMessageV2 vc payload objectType = Inr msg" using assms by (rule NewMessageV2_restored)
  then obtain e where e: "msg = \<lparr>m2_payload = payload, m2_objectType = objectType\<rparr>" "e_Headers e = []"
    "decodeV2Envelope (vc_parsers vc) (vc_validate vc) False payload objectType = Inr e"
    by (rule RestoreMessageV2_Inr)
  then show ?thesis using r decodeV2Envelope_Inr(2) [OF e(3)] by (auto simp: MarshalMessageV2_def)
qed

lemma dispatch_decodes_step:
  assumes "codec_law vc" "NewMessageV2 vc objectType options = Inr msg" "valid_utf8 authorization"
    and "dispatch_envelope vc msg authorization = Inr envelope"
  shows "\<exists>payload stored. vc_marshal vc envelope = Some payload \<and>
    DecodeV2Envelope (vc_parsers vc) (vc_validate vc) payload (m2_objectType msg) = Inr envelope \<and>
    decodeV2Envelope (vc_parsers vc) (vc_validate vc) False (m2_payload msg) (m2_objectType msg) = Inr stored \<and>
    envelope = stored\<lparr>e_Headers := [(AuthorizationHeader, authorization)]\<rparr>"
proof -
  obtain stored payload where s:
    "decodeV2Envelope (vc_parsers vc) (vc_validate vc) False (m2_payload msg) (m2_objectType msg) = Inr stored"
    "envelope = with_authorization authorization stored"
    "validateV2 (vc_parsers vc) (vc_validate vc) True (m2_objectType msg) envelope = Inr ()"
    "vc_marshal vc envelope = Some payload" "length payload \<le> MaxAuditEnvelopeBytes"
    using assms(4)
    by (auto simp: dispatch_envelope_def ValidateV2_def with_authorization_def rbind_Inr_conv Let_def
        split: if_splits option.splits)
  obtain built where b: "vc_marshal vc built = Some (m2_payload msg)"
    using assms(2) by (auto simp: NewMessageV2_def RestoreMessageV2_def rbind_Inr_conv Let_def split: option.splits if_splits)
  have "reads_as payload envelope"
    using assms(1,3) b decoded_reads_as [OF s(1)] s(2,4) unfolding codec_law_def by metis
  then show ?thesis using s by (auto simp: reads_as_def DecodeV2Envelope_def decodeV2Envelope_def skip_space_def with_authorization_def)
qed


section \<open>Witnesses\<close>

text \<open>The codec of \<open>encoding/json\<close>, as far as \<open>Envelope_Print\<close> models its marshalling.\<close>

definition plain_codec :: "(go_time \<Rightarrow> string) \<Rightarrow> text_parsers \<Rightarrow> content_validator option \<Rightarrow> v2_codec" where
  "plain_codec fmt ps validate = \<lparr>vc_parsers = ps,
     vc_marshal = (\<lambda>e. if envelope_printable fmt e \<and> auditJSONValue [] 0 (envelope_json fmt e)
                       then Some (marshal_envelope fmt e) else None),
     vc_validate = validate\<rparr>"

lemma marshalled_reads_as:
  assumes "vc_marshal (plain_codec fmt ps validate) e = Some payload"
  shows "reads_as payload e"
  using assms envelope_roundtrip_step printed_shape printed_parse
  by (auto simp: reads_as_def plain_codec_def marshal_envelope_def envelope_printable_def split: if_splits)

lemma plain_codec_law: "codec_law (plain_codec fmt ps validate)"
  unfolding codec_law_def using marshalled_reads_as by blast

definition stored_envelope :: IndexerMessageEnvelope where
  "stored_envelope = sample_envelope\<lparr>e_Headers := []\<rparr>"

definition sample_codec :: v2_codec where
  "sample_codec = plain_codec epoch_text sample_parsers None"

lemma stored_envelope_checks: "validateV2 sample_parsers validate False ''project'' stored_envelope = Inr ()"
  using sample_envelope_checks [of validate]
  by (auto simp: validateV2_def stored_envelope_def sample_envelope_def rbind_Inr_conv validateVersion2Action_def
      check_origin_def sample_audit_def Let_def AuditOriginMutation_def AuditOriginReindex_def)

lemma stored_tree: "envelope_json epoch_text stored_envelope = JObj
  [(''schema_version'', JNum ''2''),
   (''audit'', JObj [(''event_id'', JStr ''e1''), (''publisher'', JStr ''proj''), (''occurred_at'', JStr ''1970-01-01T00:00:00Z''),
      (''resource_revision'', JNum ''3''), (''origin'', JStr ''reindex''),
      (''attribution'', JObj [(''actor_ref'', JStr ''service:s''), (''effective_actor_ref'', JStr ''service:s'')]),
      (''scope'', JObj [(''before'', JArr [JStr ''project:1''])])]),
   (''action'', JStr ''deleted''), (''headers'', JNull), (''data'', JStr ''42''),
   (''indexing_config'', JObj [(''object_id'', JStr ''42''), (''access_check_object'', JStr ''project:42''),
      (''access_check_relation'', JStr ''viewer''), (''history_check_object'', JStr ''project:42''),
      (''history_check_relation'', JStr ''historian'')])]"
  by (simp add: envelope_json_defs stored_envelope_def sample_envelope_def sample_audit_def sample_v2_config_def epoch_text_def
      int_str_def nat_str.simps char_of_eq_iff AuditOriginReindex_def ActionDeleted_def)

lemma stored_marshals: "envelope_printable epoch_text stored_envelope" "auditJSONValue [] 0 (envelope_json epoch_text stored_envelope)"
proof -
  have "printable 0 (envelope_json epoch_text stored_envelope)"
    unfolding stored_tree by (simp add: plain_def plain_number_def byte_def max_depth_def is_digit_def)
  then show "envelope_printable epoch_text stored_envelope"
    using epoch_kept by (simp add: envelope_printable_def audit_printable_def stored_envelope_def sample_envelope_def sample_audit_def)
  show "auditJSONValue [] 0 (envelope_json epoch_text stored_envelope)"
    unfolding stored_tree by (simp add: auditJSONKeys_def vocabulary envelope_paths) (simp add: is_profile_path_def)
qed

lemma sample_sizes:
  "length (marshal_envelope epoch_text stored_envelope) \<le> MaxAuditEnvelopeBytes"
  "length (marshal_envelope epoch_text sample_envelope) \<le> MaxAuditEnvelopeBytes"
  "marshal_envelope epoch_text stored_envelope \<noteq> []"
  by (simp_all add: marshal_envelope_def stored_tree sample_tree quoted_def MaxAuditEnvelopeBytes_def)

lemma sample_stored:
  "decodeV2Envelope sample_parsers None False (marshal_envelope epoch_text stored_envelope) ''project'' = Inr stored_envelope"
  by (rule decodeV2Envelope_marshalled [OF stored_marshals sample_sizes(1) stored_envelope_checks])

definition sample_options :: MessageV2Options where
  "sample_options = \<lparr>mo_Action = ActionDeleted, mo_Data = JStr ''42'', mo_Tags = [],
      mo_IndexingConfig = Some sample_v2_config, mo_Audit = sample_audit\<rparr>"

definition sample_message :: MessageV2 where
  "sample_message = \<lparr>m2_payload = marshal_envelope epoch_text stored_envelope, m2_objectType = ''project''\<rparr>"

lemma sample_built: "NewMessageV2 sample_codec ''project'' sample_options = Inr sample_message"
proof -
  have e: "\<lparr>e_SchemaVersion = AuditSchemaVersion, e_Audit = Some (mo_Audit sample_options), e_Action = mo_Action sample_options,
      e_Headers = [], e_Data = mo_Data sample_options, e_Tags = mo_Tags sample_options,
      e_IndexingConfig = mo_IndexingConfig sample_options\<rparr> = stored_envelope"
    by (simp add: sample_options_def stored_envelope_def sample_envelope_def AuditSchemaVersion_def)
  show ?thesis
    unfolding NewMessageV2_def Let_def e
    using stored_marshals sample_stored stored_envelope_checks [of None]
    by (simp add: sample_codec_def plain_codec_def RestoreMessageV2_def sample_message_def)
      (simp add: stored_envelope_def)
qed


end
