(* ===== verification/Audit_Example.thy ===== *)
theory Audit_Example
  imports Audit_Messages
begin

text \<open>
  examples/audit-v2/main.go: the program that shows how a publisher builds a version 2 event, stores it, restores it
  and, on request, sends it to JetStream. The broker and \<open>json.Marshal\<close> of an envelope are parameters.
\<close>

section \<open>The fixture\<close>

definition fixtureObjectType :: string where "fixtureObjectType = ''fixture_resource''"

text \<open>The test on one snapshot: an object whose only member is a name, a string of 1 to 1024 bytes. A missing member does not
  decode, and null leaves the name empty.\<close>

definition fixture_members :: "string \<Rightarrow> (string \<times> json) option" where
  "fixture_members snapshot =
     (case json_parse snapshot of Some (JObj m) \<Rightarrow> (case keep_last m of [member] \<Rightarrow> Some member | _ \<Rightarrow> None) | _ \<Rightarrow> None)"

definition check_snapshot :: "string \<Rightarrow> go_error + unit" where
  "check_snapshot snapshot =
     (if snapshot = [] then Inr ()
      else case fixture_members snapshot of
        None \<Rightarrow> fail (Text ''snapshot requires only the approved name field'')
      | Some (k, v) \<Rightarrow>
          (case v of
             JStr name \<Rightarrow>
               if k \<noteq> ''name'' \<or> name = [] \<or> 1024 < length name
               then fail (Text ''snapshot requires a bounded nonempty name string'') else Inr ()
           | _ \<Rightarrow> fail (Text ''snapshot requires a bounded nonempty name string'')))"

definition fixtureSchema :: content_validator where
  "fixtureSchema publisher resourceType content =
     (if publisher \<noteq> ''test-publisher'' \<or> resourceType \<noteq> fixtureObjectType \<or> ac_Schema content \<noteq> ''fixture.audit.v1''
      then fail (Text ''unregistered schema ownership'')
      else rforeach check_snapshot [ac_Before content, ac_After content])"

definition fixture_after :: string where
  \<open>fixture_after = ''{"name":"Fixture Resource"}''\<close>

definition fixture_codec :: "text_parsers \<Rightarrow> (IndexerMessageEnvelope \<Rightarrow> string option) \<Rightarrow> v2_codec" where
  "fixture_codec ps marshal = \<lparr>vc_parsers = ps, vc_marshal = marshal, vc_validate = Some fixtureSchema\<rparr>"

definition fixture_event :: "AuditAttribution \<Rightarrow> AuditContent \<Rightarrow> AuditEvent" where
  "fixture_event attribution content = \<lparr>
     ae_EventID = ''fixture-event-1'', ae_Publisher = ''test-publisher'',
     ae_OccurredAt = \<lparr>tm_instant = (civil_days 2026 10 29 * 86400 + 16 * 3600) * 10 ^ 9, tm_offset = 0\<rparr>,
     ae_ResourceRevision = 42, ae_Origin = AuditOriginMutation, ae_Attribution = attribution,
     ae_Scope = \<lparr>as_Before = [], as_After = [''project:fixture-project'']\<rparr>, ae_Content = Some content\<rparr>"

definition fixture_config :: IndexingConfig where
  "fixture_config = \<lparr>
     c_ObjectID = ''fixture-resource'', c_Public = None, c_AccessCheckObject = ''fixture_resource:fixture-resource'',
     c_AccessCheckRelation = ''viewer'', c_HistoryCheckObject = ''project:fixture-project'', c_HistoryCheckRelation = ''auditor'',
     c_SortName = '''', c_NameAndAliases = [], c_ParentRefs = [], c_Tags = [], c_Fulltext = '''', c_Contacts = []\<rparr>"

text \<open>The data is a Go map, which is written in the order of its keys.\<close>

definition buildEvent :: "v2_codec \<Rightarrow> go_error + MessageV2" where
  "buildEvent vc =
     rbind (NewAuditActorProfile (vc_parsers vc) (Some ''Test User 1'') None None None) (\<lambda>profile.
     rbind (NewAuditAttribution (vc_parsers vc) (''user:testuser01'', Some profile) None) (\<lambda>attribution.
     rbind (NewAuditSnapshots ''fixture.audit.v1'' [] fixture_after) (\<lambda>content.
     NewMessageV2 vc fixtureObjectType \<lparr>
       mo_Action = ActionCreated,
       mo_Data = JObj [(''name'', JStr ''Fixture Resource''), (''uid'', JStr ''fixture-resource'')],
       mo_Tags = [], mo_IndexingConfig = Some fixture_config, mo_Audit = fixture_event attribution content\<rparr>)))"

section \<open>The run\<close>

record PubAck =
  pa_Stream :: string
  pa_Sequence :: nat

record 'w example_broker =
  xb_Connect :: "string \<Rightarrow> 'w \<Rightarrow> go_error option \<times> 'w"
  xb_New :: "'w \<Rightarrow> go_error option"
  xb_Publish :: "string \<Rightarrow> string \<Rightarrow> string \<Rightarrow> 'w \<Rightarrow> (go_error + PubAck option) \<times> 'w"
  xb_Close :: "'w \<Rightarrow> 'w"

text \<open>The outbox: the event is built, stored as JSON and restored.\<close>

definition example_restored :: "v2_codec \<Rightarrow> go_error + MessageV2" where
  "example_restored vc =
     rbind (buildEvent vc) (\<lambda>event.
     rbind (MarshalMessageV2 event) (\<lambda>outboxJSON.
     RestoreMessageV2 vc outboxJSON fixtureObjectType))"

definition example_payload :: "v2_codec \<Rightarrow> MessageV2 \<Rightarrow> string \<Rightarrow> go_error + IndexerMessageEnvelope \<times> string" where
  "example_payload vc restored authorization =
     rbind (dispatch_envelope vc restored authorization) (\<lambda>envelope.
     rbind (ValidateV2 (vc_parsers vc) (vc_validate vc) fixtureObjectType envelope) (\<lambda>_.
     case vc_marshal vc envelope of None \<Rightarrow> fail (Text ''marshal'') | Some payload \<Rightarrow> Inr (envelope, payload)))"

definition message_id :: "IndexerMessageEnvelope \<Rightarrow> string" where
  "message_id envelope = (case e_Audit envelope of Some a \<Rightarrow> ae_Publisher a @ '':'' @ ae_EventID a | None \<Rightarrow> [])"

definition confirmed_ack :: "PubAck option \<Rightarrow> bool" where
  "confirmed_ack ack = (case ack of None \<Rightarrow> False | Some a \<Rightarrow> pa_Stream a \<noteq> [] \<and> pa_Sequence a \<noteq> 0)"

definition example_publish :: "'w example_broker \<Rightarrow> string \<Rightarrow> IndexerMessageEnvelope \<times> string \<Rightarrow> 'w \<Rightarrow> go_error option \<times> 'w" where
  "example_publish broker url message w =
     (case xb_Connect broker url w of
        (Some err, w1) \<Rightarrow> (Some err, w1)
      | (None, w1) \<Rightarrow>
          (case xb_New broker w1 of
             Some err \<Rightarrow> (Some err, xb_Close broker w1)
           | None \<Rightarrow>
               (case xb_Publish broker (IndexPrefix @ fixtureObjectType) (snd message) (message_id (fst message)) w1 of
                  (Inl err, w2) \<Rightarrow> (Some err, xb_Close broker w2)
                | (Inr ack, w2) \<Rightarrow>
                    (if confirmed_ack ack then None else Some (Errorf (Text ''broker persistence acknowledgment is required'') []),
                     xb_Close broker w2))))"

definition example_run :: "(string \<Rightarrow> string) \<Rightarrow> v2_codec \<Rightarrow> 'w example_broker \<Rightarrow> 'w \<Rightarrow> go_error option \<times> 'w" where
  "example_run env vc broker w =
     (case example_restored vc of
        Inl err \<Rightarrow> (Some err, w)
      | Inr restored \<Rightarrow>
          if env ''AUDIT_V2_EXAMPLE_SEND'' \<noteq> ''isolated-test-only'' then (None, w)
          else if env ''NATS_URL'' = [] \<or> env ''INDEXER_AUTHORIZATION'' = []
          then (Some (Errorf (Text ''isolated broker URL and fresh authorization are required'') []), w)
          else case example_payload vc restored (env ''INDEXER_AUTHORIZATION'') of
            Inl err \<Rightarrow> (Some err, w)
          | Inr message \<Rightarrow> example_publish broker (env ''NATS_URL'') message w)"

definition example_exit :: "go_error option \<Rightarrow> nat" where
  "example_exit err = (if err = None then 0 else 1)"

section \<open>Properties\<close>

lemma example_restored_built:
  assumes "example_restored vc = Inr restored"
  obtains options where "NewMessageV2 vc fixtureObjectType options = Inr restored"
proof -
  obtain options event where e: "NewMessageV2 vc fixtureObjectType options = Inr event"
    "rbind (MarshalMessageV2 event) (\<lambda>outboxJSON. RestoreMessageV2 vc outboxJSON fixtureObjectType) = Inr restored"
    using assms by (auto simp: example_restored_def buildEvent_def rbind_Inr_conv)
  with outbox_roundtrip [OF e(1)] have "event = restored" by auto
  then show thesis using that e(1) by simp
qed

text \<open>An example that ends without error has published nothing, or exactly one message: an envelope that the strict decoder
  of the service accepts, with the authorization as its only header, which the broker confirmed to have stored.\<close>

theorem example_publishes_decodable:
  assumes "codec_law vc" "valid_utf8 (env ''INDEXER_AUTHORIZATION'')" "example_run env vc broker w = (None, w')"
  shows "w' = w \<or> (\<exists>envelope payload ack w1 w2.
    xb_Connect broker (env ''NATS_URL'') w = (None, w1) \<and>
    xb_Publish broker (IndexPrefix @ fixtureObjectType) payload (message_id envelope) w1 = (Inr ack, w2) \<and>
    w' = xb_Close broker w2 \<and> confirmed_ack ack \<and>
    DecodeV2Envelope (vc_parsers vc) (vc_validate vc) payload fixtureObjectType = Inr envelope \<and>
    e_Headers envelope = [(AuthorizationHeader, env ''INDEXER_AUTHORIZATION'')])"
proof (cases "env ''AUDIT_V2_EXAMPLE_SEND'' = ''isolated-test-only''")
  case False
  then show ?thesis using assms(3) by (auto simp: example_run_def split: sum.splits)
next
  case True
  obtain restored envelope payload where run: "example_restored vc = Inr restored"
    "dispatch_envelope vc restored (env ''INDEXER_AUTHORIZATION'') = Inr envelope" "vc_marshal vc envelope = Some payload"
    "example_publish broker (env ''NATS_URL'') (envelope, payload) w = (None, w')"
    using assms(3) True
    by (auto simp: example_run_def example_payload_def rbind_Inr_conv split: sum.splits if_splits option.splits)
  obtain options where built: "NewMessageV2 vc fixtureObjectType options = Inr restored"
    using run(1) by (rule example_restored_built)
  have "m2_objectType restored = fixtureObjectType"
    using outbox_roundtrip [OF built] by (auto simp: RestoreMessageV2_def rbind_Inr_conv split: if_splits)
  with dispatch_decodes_step [OF assms(1) built assms(2) run(2)] run(3)
  have "DecodeV2Envelope (vc_parsers vc) (vc_validate vc) payload fixtureObjectType = Inr envelope"
    "e_Headers envelope = [(AuthorizationHeader, env ''INDEXER_AUTHORIZATION'')]" by auto
  then show ?thesis using run(4)
    by (auto simp: example_publish_def split: prod.splits option.splits sum.splits if_splits)
qed

section \<open>The fixture is accepted\<close>

definition fixture_text :: "go_time \<Rightarrow> string" where
  "fixture_text t = ''2026-10-29T16:00:00Z''"

definition fixture_time :: go_time where
  "fixture_time = \<lparr>tm_instant = (civil_days 2026 10 29 * 86400 + 16 * 3600) * 10 ^ 9, tm_offset = 0\<rparr>"

lemma fixture_kept: "keeps_time fixture_text fixture_time"
  by (simp add: keeps_time_def fixture_text_def fixture_time_def parse_rfc3339_def uint_in_def slice_def is_digit_def byte_def digit_val_def
      Let_def month_days_def fraction_zone_def zone_offset_def civil_days_def is_leap_def nanoseconds_def)

definition fixture_profile :: AuditActorProfile where
  "fixture_profile = \<lparr>ap_Availability = AuditProfileCaptured, ap_Name = Some ''Test User 1'', ap_AvatarURL = None, ap_Email = None, ap_Username = None\<rparr>"

definition fixture_attribution :: AuditAttribution where
  "fixture_attribution = \<lparr>aa_ActorRef = ''user:testuser01'', aa_EffectiveActorRef = ''user:testuser01'',
     aa_ActorProfile = Some fixture_profile, aa_EffectiveActorProfile = Some fixture_profile\<rparr>"

definition fixture_content :: AuditContent where
  "fixture_content = \<lparr>ac_Schema = ''fixture.audit.v1'', ac_Representation = AuditRepresentationSnapshots, ac_Before = [], ac_After = fixture_after\<rparr>"

lemma dropWhile_kept: "xs \<noteq> [] \<Longrightarrow> \<not> P (hd xs) \<Longrightarrow> dropWhile P xs = xs"
  by (cases xs) simp_all

lemma trim_ascii:
  assumes "list_all (\<lambda>c. byte c < 128) s" "s \<noteq> []" "\<not> is_space (byte (hd s))" "\<not> is_space (byte (last s))"
  shows "trim_space s = s"
proof -
  let ?rs = "map (\<lambda>c. (byte c, [c])) s" and ?P = "\<lambda>(r, _). is_space r"
  have r: "runes s = ?rs" by (rule runes_all_ascii) (use assms(1) in simp)
  have "dropWhile ?P ?rs = ?rs" using assms(2,3) by (intro dropWhile_kept) (simp_all add: hd_map)
  moreover have "dropWhile ?P (rev ?rs) = rev ?rs"
    using assms(2,4) by (intro dropWhile_kept) (simp_all add: hd_rev last_map)
  moreover have "concat (map snd ?rs) = s" by (simp add: o_def)
  ultimately show ?thesis unfolding trim_space_def r by simp
qed

lemma fixture_profile_built: "NewAuditActorProfile sample_parsers (Some ''Test User 1'') None None None = Inr fixture_profile"
  "validateAuditActorProfile sample_parsers ''user:testuser01'' (Some fixture_profile) = Inr ()"
proof -
  have "trim_space ''Test User 1'' = ''Test User 1''" by (rule trim_ascii; simp add: byte_def is_space_def)
  moreover have "valid_utf8 ''Test User 1''" by (rule valid_utf8_ascii) (simp add: byte_def)
  ultimately have "auditProfileText ''Test User 1'' 1024"
    by (simp add: auditProfileText_def rune_list_all_ascii byte_def is_control_def)
  then show "validateAuditActorProfile sample_parsers ''user:testuser01'' (Some fixture_profile) = Inr ()"
    "NewAuditActorProfile sample_parsers (Some ''Test User 1'') None None None = Inr fixture_profile"
    by (simp_all add: NewAuditActorProfile_def validateAuditActorProfile_def fixture_profile_def has_prefix_def profile_attributes_def
        check_attribute_def attributes_present_def check_email_def check_avatar_def AuditProfileCaptured_def AuditProfileUnavailable_def)
qed

lemma fixture_attribution_built:
  "NewAuditAttribution sample_parsers (''user:testuser01'', Some fixture_profile) None = Inr fixture_attribution"
  "validateProfiles sample_parsers fixture_attribution = Inr ()"
  "auditActorRef ''user:testuser01''"
proof -
  show ref: "auditActorRef ''user:testuser01''" by (simp add: grammar_defs has_prefix_def rune_list_all_ascii byte_def)
  show v: "validateProfiles sample_parsers fixture_attribution = Inr ()"
    using fixture_profile_built(2) by (simp add: validateProfiles_def fixture_attribution_def sameAuditProfile_def)
  show "NewAuditAttribution sample_parsers (''user:testuser01'', Some fixture_profile) None = Inr fixture_attribution"
    using ref v by (simp add: NewAuditAttribution_def fixture_attribution_def Let_def)
qed

definition fixture_snapshot :: json where
  "fixture_snapshot = JObj [(''name'', JStr ''Fixture Resource'')]"

lemma fixture_printed: "json_print fixture_snapshot = fixture_after" "printable 0 fixture_snapshot"
  by (simp_all add: fixture_snapshot_def fixture_after_def quoted_def plain_def byte_def max_depth_def)

lemma fixture_parsed: "json_parse fixture_after = Some fixture_snapshot"
  using printed_parse [OF fixture_printed(2)] by (simp add: json_parse_def fixture_printed(1) skip_space_def)

lemma fixture_object: "auditJSONObject fixture_after"
proof -
  have "trim_space fixture_after = fixture_after" by (rule trim_ascii; simp add: fixture_after_def byte_def is_space_def)
  moreover have "valid_utf8 fixture_after" by (rule valid_utf8_ascii) (simp add: fixture_after_def byte_def)
  moreover have "auditJSONValue auditOpaqueJSONPath 0 fixture_snapshot"
    by (simp add: fixture_snapshot_def auditJSONKeys_def opaque_path)
  ultimately show ?thesis by (simp add: auditJSONObject_def Let_def fixture_parsed) (simp add: fixture_after_def)
qed

lemma fixture_content_built: "NewAuditSnapshots ''fixture.audit.v1'' [] fixture_after = Inr fixture_content"
proof -
  have "auditEventIDPattern ''fixture.audit.v1''" by (simp add: grammar_defs byte_def)
  then show ?thesis using fixture_object by (simp add: NewAuditSnapshots_def fixture_content_def)
qed

lemma fixture_schema_accepts: "fixtureSchema ''test-publisher'' fixtureObjectType fixture_content = Inr ()"
  using fixture_parsed
  by (simp add: fixtureSchema_def fixture_content_def check_snapshot_def fixture_members_def fixture_snapshot_def)

definition fixture_envelope :: IndexerMessageEnvelope where
  "fixture_envelope = \<lparr>
     e_SchemaVersion = AuditSchemaVersion, e_Audit = Some (fixture_event fixture_attribution fixture_content), e_Action = ActionCreated,
     e_Headers = [], e_Data = JObj [(''name'', JStr ''Fixture Resource''), (''uid'', JStr ''fixture-resource'')], e_Tags = [],
     e_IndexingConfig = Some fixture_config\<rparr>"

lemma fixture_identity:
  "check_config (Some fixture_config) = Inr fixture_config"
  "check_audit_identity (fixture_event fixture_attribution fixture_content) = Inr ()"
  "auditRef ''project:fixture-project''"
proof -
  show "auditRef ''project:fixture-project''" by (simp add: grammar_defs rune_list_all_ascii byte_def)
  then show "check_config (Some fixture_config) = Inr fixture_config"
    by (simp add: check_config_def fixture_config_def) (simp add: grammar_defs rune_list_all_ascii byte_def)
  show "check_audit_identity (fixture_event fixture_attribution fixture_content) = Inr ()"
    using fixture_attribution_built(3)
    by (simp add: check_audit_identity_def fixture_event_def fixture_attribution_def valid_occurred_at_def year_one_def
        year_ten_thousand_def MaxInt64_def civil_days_def month_days_def is_leap_def Let_def)
      (simp add: grammar_defs byte_def)
qed

lemma fixture_fields:
  "ae_Origin (fixture_event a c) = AuditOriginMutation" "ae_Content (fixture_event a c) = Some c" "ae_Attribution (fixture_event a c) = a"
  "as_Before (ae_Scope (fixture_event a c)) = []" "as_After (ae_Scope (fixture_event a c)) = [''project:fixture-project'']"
  "ae_Publisher (fixture_event a c) = ''test-publisher''"
  "ac_Schema fixture_content = ''fixture.audit.v1''" "ac_Representation fixture_content = AuditRepresentationSnapshots"
  "ac_Before fixture_content = []" "ac_After fixture_content = fixture_after" "fixture_after \<noteq> []"
  by (simp_all add: fixture_event_def fixture_content_def fixture_after_def)

lemma fixture_checks: "validateV2 sample_parsers (Some fixtureSchema) False fixtureObjectType fixture_envelope = Inr ()"
proof -
  have "ValidAuditObjectType fixtureObjectType" by (simp add: fixtureObjectType_def grammar_defs byte_def)
  moreover have "data_is_object (e_Data fixture_envelope)"
    by (simp add: data_is_object_def fixture_envelope_def auditJSONKeys_def opaque_path)
  moreover have "ValidAuditSchemaName ''fixture.audit.v1''" by (simp add: grammar_defs byte_def)
  ultimately show ?thesis
    using fixture_identity fixture_attribution_built(2) fixture_schema_accepts fixture_object
    by (simp add: validateV2_def fixture_envelope_def validateVersion2Action_def check_origin_def validateAuditContent_def fixture_fields)
qed

text \<open>The envelope as it is stored, and its text.\<close>

lemma fixture_tree: "envelope_json fixture_text fixture_envelope = JObj
  [(''schema_version'', JNum ''2''),
   (''audit'', JObj [(''event_id'', JStr ''fixture-event-1''), (''publisher'', JStr ''test-publisher''),
      (''occurred_at'', JStr ''2026-10-29T16:00:00Z''), (''resource_revision'', JNum ''42''), (''origin'', JStr ''mutation''),
      (''attribution'', JObj [(''actor_ref'', JStr ''user:testuser01''), (''effective_actor_ref'', JStr ''user:testuser01''),
         (''actor_profile'', profile_json fixture_profile), (''effective_actor_profile'', profile_json fixture_profile)]),
      (''scope'', JObj [(''after'', JArr [JStr ''project:fixture-project''])]),
      (''content'', JObj [(''schema'', JStr ''fixture.audit.v1''), (''representation'', JStr ''snapshots''), (''after'', fixture_snapshot)])]),
   (''action'', JStr ''created''), (''headers'', JNull),
   (''data'', JObj [(''name'', JStr ''Fixture Resource''), (''uid'', JStr ''fixture-resource'')]),
   (''indexing_config'', JObj [(''object_id'', JStr ''fixture-resource''), (''access_check_object'', JStr ''fixture_resource:fixture-resource''),
      (''access_check_relation'', JStr ''viewer''), (''history_check_object'', JStr ''project:fixture-project''),
      (''history_check_relation'', JStr ''auditor'')])]"
  using fixture_parsed
  by (simp add: envelope_json_defs fixture_envelope_def fixture_event_def fixture_attribution_def fixture_content_def fixture_config_def
      fixture_text_def int_str_def nat_str.simps char_of_eq_iff AuditSchemaVersion_def AuditOriginMutation_def
      AuditRepresentationSnapshots_def ActionCreated_def fixture_fields)

lemma fixture_profile_tree: "profile_json fixture_profile = JObj [(''availability'', JStr ''captured''), (''name'', JStr ''Test User 1''),
    (''avatar_url'', JNull), (''email'', JNull), (''username'', JNull)]"
  by (simp add: profile_json_def fixture_profile_def nullable_def AuditProfileCaptured_def)

lemma fixture_paths:
  "auditJSONChildPath ''audit.attribution'' ''actor_profile'' = ''audit.attribution.actor_profile''"
  "auditJSONChildPath ''audit.attribution'' ''effective_actor_profile'' = ''audit.attribution.effective_actor_profile''"
  "auditJSONChildPath ''audit.content'' ''after'' = auditOpaqueJSONPath"
  "auditJSONChildPath [] ''data'' = auditOpaqueJSONPath"
  by (subst fixed_child; simp add: vocabulary; simp add: auditJSONFields_def)+

lemma fixture_marshals:
  "envelope_printable fixture_text fixture_envelope" "auditJSONValue [] 0 (envelope_json fixture_text fixture_envelope)"
proof -
  have "printable 0 (envelope_json fixture_text fixture_envelope)"
    unfolding fixture_tree fixture_profile_tree fixture_snapshot_def
    by (simp add: plain_def plain_number_def byte_def max_depth_def is_digit_def)
  moreover have "audit_printable fixture_text (fixture_event fixture_attribution fixture_content)"
    using fixture_kept fixture_parsed fixture_printed(1)
    by (simp add: audit_printable_def fixture_event_def fixture_time_def fixture_fields compact_raw_def)
  ultimately show "envelope_printable fixture_text fixture_envelope"
    by (simp add: envelope_printable_def fixture_envelope_def AuditSchemaVersion_def)
  show "auditJSONValue [] 0 (envelope_json fixture_text fixture_envelope)"
    unfolding fixture_tree fixture_profile_tree fixture_snapshot_def
    by (simp add: auditJSONKeys_def vocabulary envelope_paths fixture_paths opaque_path profile_fields_def) (simp add: is_profile_path_def)
qed

lemma fixture_size:
  "length (marshal_envelope fixture_text fixture_envelope) \<le> MaxAuditEnvelopeBytes" "marshal_envelope fixture_text fixture_envelope \<noteq> []"
  by (simp_all add: marshal_envelope_def fixture_tree fixture_profile_tree fixture_snapshot_def quoted_def MaxAuditEnvelopeBytes_def)

definition fixture_plain_codec :: v2_codec where
  "fixture_plain_codec = plain_codec fixture_text sample_parsers (Some fixtureSchema)"

text \<open>The event of the example is valid: it is built, stored and restored without error, so the offline run succeeds and
  contacts no broker.\<close>

theorem example_offline_succeeds:
  "\<exists>restored. example_restored fixture_plain_codec = Inr restored \<and>
     decodeV2Envelope sample_parsers (Some fixtureSchema) False (m2_payload restored) fixtureObjectType = Inr fixture_envelope \<and>
     example_run (\<lambda>_. []) fixture_plain_codec broker w = (None, w)"
proof -
  define payload where "payload = marshal_envelope fixture_text fixture_envelope"
  have decoded: "decodeV2Envelope sample_parsers (Some fixtureSchema) False payload fixtureObjectType = Inr fixture_envelope"
    unfolding payload_def by (rule decodeV2Envelope_marshalled [OF fixture_marshals fixture_size(1) fixture_checks])
  have codec: "vc_parsers fixture_plain_codec = sample_parsers" "vc_validate fixture_plain_codec = Some fixtureSchema"
    "vc_marshal fixture_plain_codec fixture_envelope = Some payload"
    using fixture_marshals by (simp_all add: fixture_plain_codec_def plain_codec_def payload_def)
  have e: "\<lparr>e_SchemaVersion = AuditSchemaVersion, e_Audit = Some (fixture_event fixture_attribution fixture_content), e_Action = ActionCreated,
      e_Headers = [], e_Data = JObj [(''name'', JStr ''Fixture Resource''), (''uid'', JStr ''fixture-resource'')], e_Tags = [],
      e_IndexingConfig = Some fixture_config\<rparr> = fixture_envelope" by (simp add: fixture_envelope_def)
  have restore: "RestoreMessageV2 fixture_plain_codec payload fixtureObjectType = Inr \<lparr>m2_payload = payload, m2_objectType = fixtureObjectType\<rparr>"
    using decoded by (simp add: RestoreMessageV2_def codec) (simp add: fixture_envelope_def)
  then have "buildEvent fixture_plain_codec = Inr \<lparr>m2_payload = payload, m2_objectType = fixtureObjectType\<rparr>"
    using fixture_profile_built(1) fixture_attribution_built(1) fixture_content_built fixture_checks
    by (simp add: buildEvent_def codec NewMessageV2_def Let_def e)
  moreover have "payload \<noteq> []" using fixture_size(2) by (simp add: payload_def)
  ultimately have "example_restored fixture_plain_codec = Inr \<lparr>m2_payload = payload, m2_objectType = fixtureObjectType\<rparr>"
    using restore by (simp add: example_restored_def MarshalMessageV2_def)
  then show ?thesis using decoded by (simp add: example_run_def)
qed

end
