(* ===== verification/Storage.thy ===== *)
theory Storage
  imports Contracts
begin

text \<open>
  internal/infrastructure/storage/storage_repository.go: the OpenSearch repository. Each request is a
  function from its parameters and the state of the cluster to a reply and the next state; the
  repository's own work is building the request, classifying the reply and reading its body. A reply
  that arrived carries its status code, its status line and the decoded body, if it decodes.
\<close>

section \<open>Messages and replies\<close>

definition ErrIndexDocument :: string where "ErrIndexDocument = ''failed to index document''"
definition ErrHealthCheck :: string where "ErrHealthCheck = ''health check failed''"
definition ErrSearchFailed :: string where "ErrSearchFailed = ''failed to search''"
definition ErrDecodeResponse :: string where "ErrDecodeResponse = ''failed to decode search response''"
definition ErrUpdateDocument :: string where "ErrUpdateDocument = ''failed to update document''"
definition ErrDeleteDocument :: string where "ErrDeleteDocument = ''failed to delete document''"
definition ErrBulkOperation :: string where "ErrBulkOperation = ''failed to perform bulk operation''"
definition ErrReadBulkBody :: string where "ErrReadBulkBody = ''failed to read bulk operation body''"
definition ErrDecodeBulkResponse :: string where "ErrDecodeBulkResponse = ''failed to decode bulk response''"
definition ErrOptimisticUpdate :: string where "ErrOptimisticUpdate = ''failed to perform optimistic update''"

definition RefreshFalse :: string where "RefreshFalse = ''false''"
definition RefreshWaitFor :: string where "RefreshWaitFor = ''wait_for''"

datatype 'b reply = Transport go_error | Reply nat string 'b

definition is_error :: "nat \<Rightarrow> bool" where
  "is_error status = (status > 299)"

text \<open>\<open>refreshValue\<close>: the context says whether the caller waits for an acknowledgement.\<close>

definition refreshValue :: "bool \<Rightarrow> string" where
  "refreshValue waits = (if waits then RefreshWaitFor else RefreshFalse)"

text \<open>A transport failure wraps its cause, an error status is reported by its status line.\<close>

definition accept_reply :: "string \<Rightarrow> 'b reply \<Rightarrow> go_error + 'b" where
  "accept_reply message r =
     (case r of
        Transport err \<Rightarrow> Inl (Wrapf (Text message) err)
      | Reply status line body \<Rightarrow>
          if is_error status then failf (Text message) [line] else Inr body)"

definition outcome_error :: "go_error + 'b \<Rightarrow> go_error option" where
  "outcome_error r = (case r of Inl err \<Rightarrow> Some err | Inr _ \<Rightarrow> None)"

section \<open>Single documents\<close>

type_synonym 'w document_request = "string \<Rightarrow> string \<Rightarrow> string \<Rightarrow> string \<Rightarrow> 'w \<Rightarrow> unit reply \<times> 'w"

text \<open>Arguments of a request: index, document id, body, refresh. The error type that \<open>Index\<close> reads from
  the body of an error reply is only logged.\<close>

definition Index :: "'w document_request \<Rightarrow> bool \<Rightarrow> string \<Rightarrow> string \<Rightarrow> string \<Rightarrow> 'w \<Rightarrow> go_error option \<times> 'w" where
  "Index request waits idx docID body w =
     (case request idx docID body (refreshValue waits) w of
        (r, w') \<Rightarrow> (outcome_error (accept_reply ErrIndexDocument r), w'))"

definition Update :: "'w document_request \<Rightarrow> bool \<Rightarrow> string \<Rightarrow> string \<Rightarrow> string \<Rightarrow> 'w \<Rightarrow> go_error option \<times> 'w" where
  "Update request waits idx docID body w =
     (case request idx docID body (refreshValue waits) w of
        (r, w') \<Rightarrow> (outcome_error (accept_reply ErrUpdateDocument r), w'))"

definition Delete ::
    "(string \<Rightarrow> string \<Rightarrow> string \<Rightarrow> 'w \<Rightarrow> unit reply \<times> 'w) \<Rightarrow> bool \<Rightarrow> string \<Rightarrow> string \<Rightarrow> 'w \<Rightarrow> go_error option \<times> 'w" where
  "Delete request waits idx docID w =
     (case request idx docID (refreshValue waits) w of
        (Transport err, w') \<Rightarrow> (Some (Wrapf (Text ErrDeleteDocument) err), w')
      | (Reply status line _, w') \<Rightarrow>
          if is_error status then
            (if sublist ''404'' line then (None, w')
             else (Some (Errorf (Text ErrDeleteDocument) [line]), w'))
          else (None, w'))"

definition HealthCheck :: "('w \<Rightarrow> unit reply) \<Rightarrow> 'w \<Rightarrow> go_error option" where
  "HealthCheck info w = outcome_error (accept_reply ErrHealthCheck (info w))"

section \<open>Search\<close>

record VersionedDocument =
  vd_ID :: string
  vd_SeqNo :: "int option"
  vd_PrimaryTerm :: "int option"
  vd_Source :: "json gomap"

definition SearchWithVersions ::
    "(string \<Rightarrow> json gomap \<Rightarrow> 'w \<Rightarrow> VersionedDocument list option reply) \<Rightarrow> string \<Rightarrow> json gomap \<Rightarrow> 'w
     \<Rightarrow> go_error + VersionedDocument list" where
  "SearchWithVersions request idx query w =
     rbind (accept_reply ErrSearchFailed (request idx query w)) (\<lambda>body.
       case body of
         None \<Rightarrow> Inl (Wrapf (Text ErrDecodeResponse) (External ''decode''))
       | Some hits \<Rightarrow> Inr hits)"

definition Search ::
    "(string \<Rightarrow> json gomap \<Rightarrow> 'w \<Rightarrow> json gomap list option reply) \<Rightarrow> string \<Rightarrow> json gomap \<Rightarrow> 'w
     \<Rightarrow> go_error + json gomap list" where
  "Search request idx query w =
     rbind (accept_reply ErrSearchFailed (request idx query w)) (\<lambda>body.
       case body of
         None \<Rightarrow> Inl (Wrapf (Text ErrDecodeResponse) (External ''decode''))
       | Some sources \<Rightarrow> Inr sources)"

section \<open>Optimistic updates\<close>

record OptimisticUpdateParams =
  ou_SeqNo :: "int option"
  ou_PrimaryTerm :: "int option"

text \<open>The request carries \<open>if_seq_no\<close> and \<open>if_primary_term\<close> when the parameters have them; \<open>int\<close> is 64
  bits wide on the platforms the service is built for, so the conversions keep the value.\<close>

definition UpdateWithOptimisticLock ::
    "(string \<Rightarrow> string \<Rightarrow> string \<Rightarrow> string \<Rightarrow> int option \<Rightarrow> int option \<Rightarrow> 'w \<Rightarrow> unit reply \<times> 'w) \<Rightarrow> bool
     \<Rightarrow> string \<Rightarrow> string \<Rightarrow> string \<Rightarrow> OptimisticUpdateParams option \<Rightarrow> 'w \<Rightarrow> go_error option \<times> 'w" where
  "UpdateWithOptimisticLock request waits idx docID body params w =
     (case request idx docID body (refreshValue waits) (Option.bind params ou_SeqNo)
             (Option.bind params ou_PrimaryTerm) w of
        (Transport err, w') \<Rightarrow> (Some (Wrapf (Text ErrOptimisticUpdate) err), w')
      | (Reply status line _, w') \<Rightarrow>
          if is_error status then
            (if sublist ''409'' line
             then (Some (VersionConflictError docID (Errorf (Text ''version conflict: %s'') [line])), w')
             else (Some (Errorf (Text ErrOptimisticUpdate) [line]), w'))
          else (None, w'))"

section \<open>Bulk requests\<close>

text \<open>A body is \<open>None\<close> when there is none, and a reader that fails is \<open>Some None\<close>.\<close>

record BulkOperation =
  bo_Index :: string
  bo_DocID :: string
  bo_Action :: string
  bo_Body :: "string option option"

text \<open>One line of the request: the action with its target, and the document unless it is a delete.\<close>

record bulk_line =
  bl_Action :: string
  bl_Index :: string
  bl_DocID :: string
  bl_Document :: "string option"

definition bulk_line_of :: "BulkOperation \<Rightarrow> go_error + bulk_line" where
  "bulk_line_of op =
     (let line = (\<lambda>doc. \<lparr>bl_Action = bo_Action op, bl_Index = bo_Index op, bl_DocID = bo_DocID op, bl_Document = doc\<rparr>) in
      if bo_Action op \<noteq> ''delete'' \<and> bo_Body op \<noteq> None then
        (case bo_Body op of
           Some (Some document) \<Rightarrow> Inr (line (Some document))
         | _ \<Rightarrow> Inl (Wrapf (Text ErrReadBulkBody) (External ''read'')))
      else Inr (line None))"

text \<open>An item of the reply maps an action to its status and the type of its error, if it has one.\<close>

type_synonym bulk_item = "(nat \<times> string option) gomap"

record bulk_response =
  br_Errors :: bool
  br_Items :: "bulk_item list"

definition failed_status :: "nat \<Rightarrow> bool" where
  "failed_status status = (status \<ge> 400)"

definition item_failure :: "string \<Rightarrow> nat \<times> string option \<Rightarrow> go_error" where
  "item_failure docID st =
     Errorf (Text ''bulk operation failed for document %s with status %d: %s'')
       [docID, nat_str (fst st), case snd st of Some ty \<Rightarrow> ty | None \<Rightarrow> ''unknown'']"

text \<open>The loop over the entries of one item: the last failing entry gives the error.\<close>

definition item_error :: "BulkOperation \<Rightarrow> bulk_item \<Rightarrow> go_error option" where
  "item_error op item =
     fold (\<lambda>(_, st) err. if failed_status (fst st) then Some (item_failure (bo_DocID op) st) else err) item None"

definition missing_item :: go_error where
  "missing_item = Errorf (Text (ErrBulkOperation @ '': no result item returned for this operation'')) []"

fun bulk_item_errors :: "bool \<Rightarrow> BulkOperation list \<Rightarrow> bulk_item list \<Rightarrow> go_error option list" where
  "bulk_item_errors errors [] items = []"
| "bulk_item_errors errors (op # ops) [] = Some missing_item # bulk_item_errors errors ops []"
| "bulk_item_errors errors (op # ops) (item # items) =
     (if errors then item_error op item else None) # bulk_item_errors errors ops items"

definition BulkIndex ::
    "(bulk_line list \<Rightarrow> string \<Rightarrow> 'w \<Rightarrow> bulk_response option reply \<times> 'w) \<Rightarrow> bool \<Rightarrow> BulkOperation list \<Rightarrow> 'w
     \<Rightarrow> (go_error + go_error option list) \<times> 'w" where
  "BulkIndex request waits operations w =
     (if operations = [] then (Inr [], w)
      else case rmap bulk_line_of operations of
        Inl err \<Rightarrow> (Inl err, w)
      | Inr lines \<Rightarrow>
          (case request lines (refreshValue waits) w of
             (r, w') \<Rightarrow>
               (rbind (accept_reply ErrBulkOperation r) (\<lambda>body.
                  case body of
                    None \<Rightarrow> Inl (Wrapf (Text ErrDecodeBulkResponse) (External ''decode''))
                  | Some response \<Rightarrow>
                      Inr (bulk_item_errors (br_Errors response) operations (br_Items response))), w')))"

section \<open>Facts\<close>

lemma bulk_item_errors_length [simp]: "length (bulk_item_errors errors ops items) = length ops"
  by (induction errors ops items rule: bulk_item_errors.induct) simp_all

lemma fold_last_failure:
  "fold (\<lambda>(_, st) err. if failed_status (fst st) then Some (f st) else err) item err0 = None \<longleftrightarrow>
     err0 = None \<and> list_all (\<lambda>(_, st). \<not> failed_status (fst st)) item"
  by (induction item arbitrary: err0) (simp_all add: split_beta)

lemma item_error_None: "item_error op item = None \<longleftrightarrow> list_all (\<lambda>(_, st). \<not> failed_status (fst st)) item"
  unfolding item_error_def using fold_last_failure [of "item_failure (bo_DocID op)" item None] by simp

lemma bulk_item_errors_nth:
  assumes "i < length ops"
  shows "bulk_item_errors errors ops items ! i = None \<longleftrightarrow>
    i < length items \<and> (errors \<longrightarrow> list_all (\<lambda>(_, st). \<not> failed_status (fst st)) (items ! i))"
  using assms
proof (induction errors ops items arbitrary: i rule: bulk_item_errors.induct)
  case (3 errors op ops item items)
  then show ?case by (cases i) (simp_all add: item_error_None)
next
  case (2 errors op ops)
  then show ?case by (cases i) simp_all
qed simp

section \<open>Properties\<close>

text \<open>C18: a bulk request reports one result per operation, and reports success for an operation exactly
  when the reply has an item at its position and, if the reply flags errors, no status of that item
  is an error: a short reply never reads as success.\<close>

theorem BulkIndex_confirmed:
  assumes "BulkIndex request waits operations w = (Inr errs, w')" "operations \<noteq> []"
  shows "\<exists>lines status line response. request lines (refreshValue waits) w = (Reply status line (Some response), w') \<and>
    status \<le> 299 \<and> length lines = length operations \<and> length errs = length operations \<and>
    list_all (\<lambda>i. errs ! i = None \<longleftrightarrow> i < length (br_Items response) \<and>
       (br_Errors response \<longrightarrow> list_all (\<lambda>(_, st). \<not> failed_status (fst st)) (br_Items response ! i))) [0..<length operations]"
proof -
  obtain lines r where l: "rmap bulk_line_of operations = Inr lines" "request lines (refreshValue waits) w = (r, w')"
    "rbind (accept_reply ErrBulkOperation r) (\<lambda>body.
       case body of
         None \<Rightarrow> Inl (Wrapf (Text ErrDecodeBulkResponse) (External ''decode''))
       | Some response \<Rightarrow> Inr (bulk_item_errors (br_Errors response) operations (br_Items response))) = Inr errs"
    using assms by (auto simp: BulkIndex_def split: sum.splits prod.splits)
  then obtain status line response where r: "r = Reply status line (Some response)" "status \<le> 299"
    "errs = bulk_item_errors (br_Errors response) operations (br_Items response)"
    by (auto simp: accept_reply_def is_error_def rbind_Inr_conv split: reply.splits if_splits option.splits)
  show ?thesis
    by (intro exI [of _ lines] exI [of _ status] exI [of _ line] exI [of _ response])
      (use l(2) r rmap_length [OF l(1)] in \<open>auto simp: list_all_iff bulk_item_errors_nth\<close>)
qed

section \<open>Witnesses\<close>

definition sample_operation :: BulkOperation where
  "sample_operation = \<lparr>bo_Index = ''resources'', bo_DocID = ''project:1'', bo_Action = ''index'', bo_Body = Some (Some ''{}'')\<rparr>"

definition short_reply :: "bulk_line list \<Rightarrow> string \<Rightarrow> unit \<Rightarrow> bulk_response option reply \<times> unit" where
  "short_reply lines refresh w =
     (Reply 200 ''200 OK'' (Some \<lparr>br_Errors = False, br_Items = [[(''index'', (201, None))]]\<rparr>), ())"

theorem BulkIndex_confirmed_witness:
  "BulkIndex short_reply False [sample_operation, sample_operation] () = (Inr [None, Some missing_item], ()) \<and>
   (\<exists>lines status line response. short_reply lines RefreshFalse () = (Reply status line (Some response), ()) \<and> status \<le> 299)"
proof
  show run: "BulkIndex short_reply False [sample_operation, sample_operation] () = (Inr [None, Some missing_item], ())"
    by (simp add: BulkIndex_def bulk_line_of_def sample_operation_def short_reply_def accept_reply_def is_error_def Let_def)
  show "\<exists>lines status line response. short_reply lines RefreshFalse () = (Reply status line (Some response), ()) \<and> status \<le> 299"
    using BulkIndex_confirmed [OF run] by (auto simp: refreshValue_def)
qed

end
