(* ===== verification/Batch_Indexer.thy ===== *)
theory Batch_Indexer
  imports Storage "HOL-Library.Word" "HOL-Library.Multiset"
begin

text \<open>
  internal/infrastructure/storage/batch_indexer.go: single-document writes coalesced into bulk requests.
  The operations under the mutex are functions on the record \<open>BatchIndexer\<close>; goroutines, timers and
  callers are a step relation on \<open>batch_world\<close>, one step per critical section or channel operation, so
  that every interleaving is a sequence of steps. An operation is identified by a number, as the code
  identifies it by its pointer.
\<close>

section \<open>State\<close>

record pendingIndexOp =
  po_id :: nat
  po_op :: BulkOperation
  po_needsRefresh :: bool

text \<open>\<open>timer\<close> is the generation of the timer that is armed and not stopped.\<close>

record BatchIndexer =
  bi_maxBatchSize :: nat
  bi_pending :: "pendingIndexOp list"
  bi_timer :: "64 word option"
  bi_generation :: "64 word"
  bi_needsRefresh :: bool

definition NewBatchIndexer :: "nat \<Rightarrow> BatchIndexer" where
  "NewBatchIndexer maxBatchSize = \<lparr>bi_maxBatchSize = maxBatchSize, bi_pending = [], bi_timer = None,
     bi_generation = 0, bi_needsRefresh = False\<rparr>"

section \<open>Critical sections\<close>

definition drainLocked :: "BatchIndexer \<Rightarrow> (pendingIndexOp list \<times> bool) \<times> BatchIndexer" where
  "drainLocked b =
     ((bi_pending b, bi_needsRefresh b), b\<lparr>bi_timer := None, bi_pending := [], bi_needsRefresh := False\<rparr>)"

text \<open>\<open>enqueue\<close>: the timer it starts, the batch it claims, and the new state.\<close>

definition enqueue ::
    "pendingIndexOp \<Rightarrow> bool \<Rightarrow> BatchIndexer
     \<Rightarrow> 64 word option \<times> (pendingIndexOp list \<times> bool) option \<times> BatchIndexer" where
  "enqueue op needsRefresh b =
     (let b1 = b\<lparr>bi_pending := bi_pending b @ [op], bi_needsRefresh := (needsRefresh \<or> bi_needsRefresh b)\<rparr>;
          gen = bi_generation b1 + 1;
          started = (if length (bi_pending b1) = 1 then Some gen else None);
          b2 = (if length (bi_pending b1) = 1 then b1\<lparr>bi_generation := gen, bi_timer := Some gen\<rparr> else b1)
      in if length (bi_pending b2) \<ge> bi_maxBatchSize b2
         then (case drainLocked b2 of (batch, b3) \<Rightarrow> (started, Some batch, b3))
         else (started, None, b2))"

definition removeIfPending :: "nat \<Rightarrow> BatchIndexer \<Rightarrow> bool \<times> BatchIndexer" where
  "removeIfPending i b =
     (if list_ex (\<lambda>p. po_id p = i) (bi_pending b) then
        let rest = filter (\<lambda>p. po_id p \<noteq> i) (bi_pending b)
        in (True, b\<lparr>bi_pending := rest, bi_needsRefresh := list_ex po_needsRefresh rest\<rparr>)
      else (False, b))"

text \<open>The timer callback of a generation; a stale one changes nothing.\<close>

definition flush :: "64 word \<Rightarrow> BatchIndexer \<Rightarrow> (pendingIndexOp list \<times> bool) option \<times> BatchIndexer" where
  "flush gen b =
     (if gen \<noteq> bi_generation b then (None, b)
      else case drainLocked b of (batch, b') \<Rightarrow> (Some batch, b'))"

definition missing_result :: "nat \<Rightarrow> go_error" where
  "missing_result i = Errorf (Text (ErrBulkOperation @ '': bulk index response missing result for item %d'')) [nat_str i]"

text \<open>\<open>flushBatch\<close> after the bulk request answered: the results sent, one per operation.\<close>

definition flush_results ::
    "(go_error + go_error option list) \<Rightarrow> pendingIndexOp list \<Rightarrow> (nat \<times> go_error option) list" where
  "flush_results answer batch =
     (case answer of
        Inl err \<Rightarrow> map (\<lambda>p. (po_id p, Some err)) batch
      | Inr itemErrors \<Rightarrow>
          map (\<lambda>(i, p). (po_id p, if i < length itemErrors then itemErrors ! i else Some (missing_result i)))
            (enumerate 0 batch))"

definition flushBatch ::
    "(BulkOperation list \<Rightarrow> bool \<Rightarrow> go_error + go_error option list) \<Rightarrow> pendingIndexOp list \<Rightarrow> bool
     \<Rightarrow> (nat \<times> go_error option) list" where
  "flushBatch bulk batch needsRefresh =
     (if batch = [] then [] else flush_results (bulk (map po_op batch) needsRefresh) batch)"

text \<open>The first part of \<open>Index\<close>: the error of a dead context or of a body that cannot be read, or the
  operation to enqueue.\<close>

definition index_operation ::
    "go_error option \<Rightarrow> bool \<Rightarrow> nat \<Rightarrow> string \<Rightarrow> string \<Rightarrow> go_error + string \<Rightarrow> go_error + pendingIndexOp" where
  "index_operation ctx_err needsRefresh i idx docID body =
     (case ctx_err of
        Some err \<Rightarrow> Inl err
      | None \<Rightarrow> rbind body (\<lambda>bytes.
          Inr \<lparr>po_id = i, po_op = \<lparr>bo_Index = idx, bo_DocID = docID, bo_Action = ''index'', bo_Body = Some (Some bytes)\<rparr>,
               po_needsRefresh = needsRefresh\<rparr>))"

section \<open>Interleavings\<close>

datatype index_return = Returned "go_error option" | Canceled

text \<open>Callbacks of timers not yet run (a stopped timer may still run), batches claimed and not yet
  answered, the buffered result of each operation, and what each call of \<open>Index\<close> returned.\<close>

record batch_world =
  bw_indexer :: BatchIndexer
  bw_timers :: "64 word list"
  bw_flights :: "(pendingIndexOp list \<times> bool) list"
  bw_sent :: "(pendingIndexOp list \<times> bool) list"
  bw_results :: "(nat \<times> go_error option) list"
  bw_returns :: "(nat \<times> index_return) list"

definition initial_world :: "nat \<Rightarrow> batch_world" where
  "initial_world maxBatchSize = \<lparr>bw_indexer = NewBatchIndexer maxBatchSize, bw_timers = [], bw_flights = [], bw_sent = [],
     bw_results = [], bw_returns = []\<rparr>"

definition launch :: "(pendingIndexOp list \<times> bool) option \<Rightarrow> (pendingIndexOp list \<times> bool) list \<Rightarrow> (pendingIndexOp list \<times> bool) list" where
  "launch claimed flights = (case claimed of Some (batch, r) \<Rightarrow> if batch = [] then flights else flights @ [(batch, r)] | None \<Rightarrow> flights)"

definition op_ids :: "batch_world \<Rightarrow> nat list" where
  "op_ids w = map po_id (bi_pending (bw_indexer w)) @ map po_id (concat (map fst (bw_flights w))) @ map fst (bw_results w)"

inductive batch_step :: "batch_world \<Rightarrow> batch_world \<Rightarrow> bool" where
  enqueue: "po_id op \<notin> set (op_ids w) \<Longrightarrow> po_id op \<notin> fst ` set (bw_returns w) \<Longrightarrow>
    Batch_Indexer.enqueue op (po_needsRefresh op) (bw_indexer w) = (started, claimed, b) \<Longrightarrow>
    batch_step w (w\<lparr>bw_indexer := b, bw_timers := bw_timers w @ (case started of Some g \<Rightarrow> [g] | None \<Rightarrow> []),
                    bw_flights := launch claimed (bw_flights w)\<rparr>)"
| fire: "gen \<in> set (bw_timers w) \<Longrightarrow> flush gen (bw_indexer w) = (claimed, b) \<Longrightarrow>
    batch_step w (w\<lparr>bw_indexer := b, bw_timers := remove1 gen (bw_timers w), bw_flights := launch claimed (bw_flights w)\<rparr>)"
| answer: "bw_flights w = fs @ (batch, r) # gs \<Longrightarrow>
    batch_step w (w\<lparr>bw_flights := fs @ gs, bw_sent := bw_sent w @ [(batch, r)],
                    bw_results := bw_results w @ flush_results reply batch\<rparr>)"
| receive: "(i, err) \<in> set (bw_results w) \<Longrightarrow> i \<notin> fst ` set (bw_returns w) \<Longrightarrow>
    batch_step w (w\<lparr>bw_returns := bw_returns w @ [(i, Returned err)]\<rparr>)"
| cancel: "removeIfPending i (bw_indexer w) = (True, b) \<Longrightarrow>
    batch_step w (w\<lparr>bw_indexer := b, bw_returns := bw_returns w @ [(i, Canceled)]\<rparr>)"

inductive batch_reachable :: "nat \<Rightarrow> batch_world \<Rightarrow> bool" for maxBatchSize where
  start: "batch_reachable maxBatchSize (initial_world maxBatchSize)"
| further: "batch_reachable maxBatchSize w \<Longrightarrow> batch_step w w' \<Longrightarrow> batch_reachable maxBatchSize w'"

inductive_cases batch_step_cases: "batch_step w w'"

section \<open>Invariants\<close>

text \<open>Every operation is at one place: queued, in one batch, or answered; an answer goes to every
  operation of a batch that was sent.\<close>

definition placed :: "batch_world \<Rightarrow> bool" where
  "placed w \<longleftrightarrow> distinct (op_ids w) \<and> map fst (bw_results w) = map po_id (concat (map fst (bw_sent w)))"

text \<open>A call returns once: the result of its operation, or a cancellation, and then the operation is
  nowhere.\<close>

fun return_ok :: "nat set \<Rightarrow> (nat \<times> go_error option) list \<Rightarrow> nat \<times> index_return \<Rightarrow> bool" where
  "return_ok ids rs (i, Canceled) = (i \<notin> ids)"
| "return_ok ids rs (i, Returned err) = ((i, err) \<in> set rs)"

definition returned_once :: "batch_world \<Rightarrow> bool" where
  "returned_once w \<longleftrightarrow> distinct (map fst (bw_returns w)) \<and>
     list_all (return_ok (set (op_ids w)) (bw_results w)) (bw_returns w)"

text \<open>Sizes and refresh modes of the queue and of a claimed batch.\<close>

definition batch_ok :: "nat \<Rightarrow> pendingIndexOp list \<times> bool \<Rightarrow> bool" where
  "batch_ok m f \<longleftrightarrow> fst f \<noteq> [] \<and> length (fst f) \<le> max 1 m \<and> snd f = list_ex po_needsRefresh (fst f)"

definition bounded :: "nat \<Rightarrow> batch_world \<Rightarrow> bool" where
  "bounded m w \<longleftrightarrow> bi_maxBatchSize (bw_indexer w) = m \<and> length (bi_pending (bw_indexer w)) < max 1 m \<and>
     bi_needsRefresh (bw_indexer w) = list_ex po_needsRefresh (bi_pending (bw_indexer w)) \<and>
     list_all (batch_ok m) (bw_flights w) \<and> list_all (batch_ok m) (bw_sent w)"

text \<open>A queue that is not empty has a timer of the current generation.\<close>

definition armed :: "batch_world \<Rightarrow> bool" where
  "armed w \<longleftrightarrow> (bi_pending (bw_indexer w) \<noteq> [] \<longrightarrow>
     bi_timer (bw_indexer w) = Some (bi_generation (bw_indexer w)) \<and> bi_generation (bw_indexer w) \<in> set (bw_timers w))"

definition batch_inv :: "nat \<Rightarrow> batch_world \<Rightarrow> bool" where
  "batch_inv m w \<longleftrightarrow> placed w \<and> returned_once w \<and> bounded m w \<and> armed w"

text \<open>What the critical sections do, by cases.\<close>

lemma enqueue_cases:
  assumes "enqueue op r b = (started, claimed, b')"
  obtains (queued) "claimed = None" "bi_pending b' = bi_pending b @ [op]" "Suc (length (bi_pending b)) < bi_maxBatchSize b"
      "bi_needsRefresh b' = (r \<or> bi_needsRefresh b)" "bi_maxBatchSize b' = bi_maxBatchSize b"
      "if bi_pending b = [] then started = Some (bi_generation b') \<and> bi_timer b' = Some (bi_generation b')
       else started = None \<and> bi_timer b' = bi_timer b \<and> bi_generation b' = bi_generation b"
  | (claimed) "claimed = Some (bi_pending b @ [op], r \<or> bi_needsRefresh b)" "bi_pending b' = []"
      "bi_maxBatchSize b \<le> Suc (length (bi_pending b))" "\<not> bi_needsRefresh b'" "bi_maxBatchSize b' = bi_maxBatchSize b"
  using assms that
  by (auto simp: enqueue_def drainLocked_def Let_def split: if_splits)

lemma flush_cases:
  assumes "flush gen b = (claimed, b')"
  obtains (stale) "claimed = None" "b' = b" "gen \<noteq> bi_generation b"
  | (claimed) "claimed = Some (bi_pending b, bi_needsRefresh b)" "bi_pending b' = []" "\<not> bi_needsRefresh b'"
      "bi_maxBatchSize b' = bi_maxBatchSize b" "gen = bi_generation b"
  using assms that by (auto simp: flush_def drainLocked_def split: if_splits)

lemma removeIfPending_True:
  assumes "removeIfPending i b = (True, b')"
  shows "i \<in> set (map po_id (bi_pending b))" "bi_pending b' = filter (\<lambda>p. po_id p \<noteq> i) (bi_pending b)"
    "bi_needsRefresh b' = list_ex po_needsRefresh (bi_pending b')" "bi_maxBatchSize b' = bi_maxBatchSize b"
    "bi_timer b' = bi_timer b" "bi_generation b' = bi_generation b"
  using assms by (auto simp: removeIfPending_def Let_def list_ex_iff split: if_splits)

lemma enumerate_ids: "map (\<lambda>(i, p). (po_id p, f i p)) (enumerate n batch) =
    zip (map po_id batch) (map (\<lambda>(i, p). f i p) (enumerate n batch))"
  by (induction batch arbitrary: n) simp_all

lemma flush_results_ids [simp]: "map fst (flush_results answer batch) = map po_id batch"
  by (cases answer) (simp_all add: flush_results_def enumerate_ids comp_def)

lemma launch_flights:
  "launch None fs = fs" "launch (Some ([], r)) fs = fs" "batch \<noteq> [] \<Longrightarrow> launch (Some (batch, r)) fs = fs @ [(batch, r)]"
  by (simp_all add: launch_def)

lemma launch_ids: "concat (map fst (launch claimed fs)) = concat (map fst fs) @ (case claimed of None \<Rightarrow> [] | Some (b, _) \<Rightarrow> b)"
  by (auto simp: launch_def split: option.splits)

lemma launch_ok:
  "list_all (batch_ok m) fs \<Longrightarrow> (\<And>b r. claimed = Some (b, r) \<Longrightarrow> b \<noteq> [] \<Longrightarrow> batch_ok m (b, r)) \<Longrightarrow>
     list_all (batch_ok m) (launch claimed fs)"
  by (auto simp: launch_def split: option.splits)

text \<open>How the steps move operations between the places.\<close>

lemma step_ids:
  assumes "batch_step w w'"
  obtains (enqueue) i where "i \<notin> set (op_ids w)" "i \<notin> fst ` set (bw_returns w)" "mset (op_ids w') = add_mset i (mset (op_ids w))"
      "bw_sent w' = bw_sent w" "bw_results w' = bw_results w" "bw_returns w' = bw_returns w"
  | (fire) "mset (op_ids w') = mset (op_ids w)" "bw_sent w' = bw_sent w" "bw_results w' = bw_results w"
      "bw_returns w' = bw_returns w"
  | (answer) batch r rs where "mset (op_ids w') = mset (op_ids w)" "bw_sent w' = bw_sent w @ [(batch, r)]"
      "bw_results w' = bw_results w @ rs" "map fst rs = map po_id batch" "bw_returns w' = bw_returns w"
  | (receive) i err where "op_ids w' = op_ids w" "bw_sent w' = bw_sent w" "bw_results w' = bw_results w"
      "(i, err) \<in> set (bw_results w)" "i \<notin> fst ` set (bw_returns w)" "bw_returns w' = bw_returns w @ [(i, Returned err)]"
  | (cancel) i queued rest where "op_ids w = queued @ rest" "op_ids w' = filter (\<lambda>j. j \<noteq> i) queued @ rest" "i \<in> set queued"
      "set (map fst (bw_results w)) \<subseteq> set rest" "bw_sent w' = bw_sent w" "bw_results w' = bw_results w"
      "bw_returns w' = bw_returns w @ [(i, Canceled)]"
  using assms
proof (cases rule: batch_step.cases)
  case (enqueue op started claimed b)
  then have "mset (op_ids w') = add_mset (po_id op) (mset (op_ids w))"
    by (cases rule: enqueue_cases [OF enqueue(4)]) (auto simp: op_ids_def launch_ids)
  then show ?thesis using enqueue that(1) [of "po_id op"] by simp
next
  case (fire gen claimed b)
  then have "mset (op_ids w') = mset (op_ids w)"
    by (cases rule: flush_cases [OF fire(3)]) (auto simp: op_ids_def launch_ids)
  then show ?thesis using fire that(2) by simp
next
  case (answer fs batch r gs reply)
  then have "mset (op_ids w') = mset (op_ids w)" by (simp add: op_ids_def)
  then show ?thesis using answer that(3) [of batch r "flush_results reply batch"] by simp
next
  case (receive i err)
  then show ?thesis using that(4) [of i err] by (simp add: op_ids_def)
next
  case (cancel i b)
  then show ?thesis
    using that(5) [of "map po_id (bi_pending (bw_indexer w))"
        "map po_id (concat (map fst (bw_flights w))) @ map fst (bw_results w)" i] removeIfPending_True [OF cancel(2)]
    by (simp add: op_ids_def filter_map comp_def)
qed

lemma placed_step:
  assumes "batch_step w w'" "placed w"
  shows "placed w'"
  using assms(1)
proof (cases rule: step_ids)
  case (enqueue i)
  have "distinct (op_ids w') = distinct (i # op_ids w)" by (rule mset_eq_imp_distinct_iff) (simp add: enqueue)
  then show ?thesis using assms(2) enqueue by (simp add: placed_def)
next
  case fire
  then show ?thesis using assms(2) mset_eq_imp_distinct_iff [OF fire(1)] by (simp add: placed_def)
next
  case (answer batch r rs)
  then show ?thesis using assms(2) mset_eq_imp_distinct_iff [OF answer(1)] by (simp add: placed_def)
next
  case (receive i err)
  then show ?thesis using assms(2) by (simp add: placed_def)
next
  case (cancel i queued rest)
  then show ?thesis using assms(2) by (auto simp: placed_def)
qed

lemma return_ok_mono:
  assumes "return_ok ids rs x" "fst x \<in> ids' \<Longrightarrow> fst x \<in> ids" "set rs \<subseteq> set rs'"
  shows "return_ok ids' rs' x"
  using assms by (cases "(ids, rs, x)" rule: return_ok.cases) auto

lemma returned_once_mono:
  assumes "returned_once w" "bw_returns w' = bw_returns w" "set (bw_results w) \<subseteq> set (bw_results w')"
    "set (op_ids w') \<inter> fst ` set (bw_returns w) \<subseteq> set (op_ids w)"
  shows "returned_once w'"
  using assms unfolding returned_once_def list_all_iff by (auto intro: return_ok_mono)

lemma returned_once_step:
  assumes "batch_step w w'" "placed w" "returned_once w"
  shows "returned_once w'"
  using assms(1)
proof (cases rule: step_ids)
  case (enqueue i)
  have "set (op_ids w') = insert i (set (op_ids w))" using enqueue(3) by (metis set_mset_add_mset_insert set_mset_mset)
  then show ?thesis using enqueue by (intro returned_once_mono [OF assms(3)]) auto
next
  case fire
  then show ?thesis using mset_eq_setD [OF fire(1)] by (intro returned_once_mono [OF assms(3)]) auto
next
  case (answer batch r rs)
  then show ?thesis using mset_eq_setD [OF answer(1)] by (intro returned_once_mono [OF assms(3)]) auto
next
  case (receive i err)
  then show ?thesis using assms(3) by (simp add: returned_once_def)
next
  case (cancel i queued rest)
  have "i \<notin> set rest" "i \<notin> set (op_ids w')" using assms(2) cancel(1-3) by (auto simp: placed_def)
  moreover have "i \<notin> fst ` set (bw_returns w)"
  proof
    assume "i \<in> fst ` set (bw_returns w)"
    then obtain r where r: "(i, r) \<in> set (bw_returns w)" by auto
    then have "return_ok (set (op_ids w)) (bw_results w) (i, r)" using assms(3) by (auto simp: returned_once_def list_all_iff)
    then have "i \<in> set rest" using cancel(1,3,4) by (cases r) force+
    then show False using \<open>i \<notin> set rest\<close> by simp
  qed
  moreover have "list_all (return_ok (set (op_ids w')) (bw_results w')) (bw_returns w)"
    using assms(3) cancel(1,2,6) unfolding returned_once_def list_all_iff by (auto intro: return_ok_mono)
  ultimately show ?thesis using assms(3) cancel by (simp add: returned_once_def)
qed

lemma bounded_step:
  assumes "batch_step w w'" "bounded m w"
  shows "bounded m w'"
  using assms(1)
proof (cases rule: batch_step.cases)
  case (enqueue op started claimed b)
  from enqueue(4) show ?thesis
  proof (cases rule: enqueue_cases)
    case queued
    then show ?thesis using assms(2) enqueue(1) by (auto simp: bounded_def launch_def)
  next
    case claimed
    have "batch_ok m (bi_pending (bw_indexer w) @ [op], po_needsRefresh op \<or> bi_needsRefresh (bw_indexer w))"
      using assms(2) by (auto simp: bounded_def batch_ok_def)
    then show ?thesis using assms(2) enqueue(1) claimed
      by (auto simp: bounded_def intro!: launch_ok)
  qed
next
  case (fire gen claimed b)
  from fire(3) show ?thesis
  proof (cases rule: flush_cases)
    case stale
    then show ?thesis using assms(2) fire(1) by (simp add: bounded_def launch_def)
  next
    case claimed
    then show ?thesis using assms(2) fire(1)
      by (auto simp: bounded_def batch_ok_def intro!: launch_ok)
  qed
next
  case (cancel i b)
  note r = removeIfPending_True [OF cancel(2)]
  have "length (bi_pending b) < max 1 m"
    unfolding r(2) by (rule le_less_trans [OF length_filter_le]) (use assms(2) in \<open>simp add: bounded_def\<close>)
  then show ?thesis using assms(2) cancel(1) r by (simp add: bounded_def)
qed (use assms(2) in \<open>auto simp: bounded_def\<close>)

lemma armed_step:
  assumes "batch_step w w'" "armed w"
  shows "armed w'"
  using assms(1)
proof (cases rule: batch_step.cases)
  case (enqueue op started claimed b)
  from enqueue(4) show ?thesis
    by (cases rule: enqueue_cases) (use assms(2) enqueue(1) in \<open>auto simp: armed_def split: if_splits\<close>)
next
  case (fire gen claimed b)
  from fire(3) show ?thesis
    by (cases rule: flush_cases) (use assms(2) fire(1) in \<open>auto simp: armed_def\<close>)
next
  case (cancel i b)
  then show ?thesis using assms(2) removeIfPending_True [OF cancel(2)] by (auto simp: armed_def)
qed (use assms(2) in \<open>auto simp: armed_def\<close>)

lemma batch_inv_initial: "batch_inv m (initial_world m)"
  by (simp add: batch_inv_def placed_def returned_once_def bounded_def armed_def initial_world_def NewBatchIndexer_def
      op_ids_def)

lemma batch_inv_reachable: "batch_reachable m w \<Longrightarrow> batch_inv m w"
proof (induction rule: batch_reachable.induct)
  case (further w w')
  then show ?case
    by (auto simp: batch_inv_def intro: placed_step returned_once_step bounded_step armed_step)
qed (rule batch_inv_initial)

section \<open>Properties\<close>


text \<open>C16: a call that returned because its context ended has its operation in no batch, waiting or
  sent: a write reported as cancelled is never made. A call that returned a result returned the one
  the bulk request gave for its operation.\<close>

theorem canceled_not_written:
  assumes "batch_reachable m w" "(i, r) \<in> set (bw_returns w)"
  shows "case r of
      Canceled \<Rightarrow> i \<notin> set (map po_id (concat (map fst (bw_flights w @ bw_sent w))))
    | Returned err \<Rightarrow> (i, err) \<in> set (bw_results w)"
proof -
  have inv: "placed w" "returned_once w" using batch_inv_reachable [OF assms(1)] by (simp_all add: batch_inv_def)
  have ok: "return_ok (set (op_ids w)) (bw_results w) (i, r)"
    using inv(2) assms(2) by (auto simp: returned_once_def list_all_iff)
  have "set (map fst (bw_results w)) = set (map po_id (concat (map fst (bw_sent w))))"
    using inv(1) by (simp only: placed_def)
  then show ?thesis using ok by (cases r) (auto simp: op_ids_def)
qed


text \<open>An operation of a flushed batch gets success exactly when the bulk request answered, has an
  entry at the operation's position and that entry is success; a failed request fails every
  operation.\<close>

theorem flush_results_success:
  assumes "k < length batch"
  shows "flush_results answer batch ! k = (po_id (batch ! k), None) \<longleftrightarrow>
    (\<exists>itemErrors. answer = Inr itemErrors \<and> k < length itemErrors \<and> itemErrors ! k = None)"
  using assms by (cases answer) (auto simp: flush_results_def nth_enumerate_eq)

section \<open>Witnesses\<close>

definition sample_op :: "nat \<Rightarrow> pendingIndexOp" where
  "sample_op i = \<lparr>po_id = i, po_op = sample_operation, po_needsRefresh = False\<rparr>"

text \<open>One operation queued under a batch size of two, and the same one cancelled.\<close>

definition queued_world :: batch_world where
  "queued_world = (initial_world 2)\<lparr>bw_indexer := \<lparr>bi_maxBatchSize = 2, bi_pending = [sample_op 7], bi_timer = Some 1,
     bi_generation = 1, bi_needsRefresh = False\<rparr>, bw_timers := [1]\<rparr>"

definition canceled_world :: batch_world where
  "canceled_world = queued_world\<lparr>bw_indexer := (bw_indexer queued_world)\<lparr>bi_pending := []\<rparr>, bw_returns := [(7, Canceled)]\<rparr>"

lemma queued_reachable: "batch_reachable 2 queued_world"
proof (rule batch_reachable.further [OF batch_reachable.start])
  show "batch_step (initial_world 2) queued_world"
    using batch_step.enqueue [of "sample_op 7" "initial_world 2" "Some 1" None "bw_indexer queued_world"]
    by (simp add: queued_world_def initial_world_def NewBatchIndexer_def op_ids_def enqueue_def sample_op_def launch_def Let_def)
qed

lemma canceled_reachable: "batch_reachable 2 canceled_world"
proof (rule batch_reachable.further [OF queued_reachable])
  show "batch_step queued_world canceled_world"
    using batch_step.cancel [of 7 queued_world "bw_indexer canceled_world"]
    by (simp add: canceled_world_def queued_world_def initial_world_def removeIfPending_def sample_op_def Let_def)
qed


theorem canceled_not_written_witness:
  "7 \<notin> set (map po_id (concat (map fst (bw_flights canceled_world @ bw_sent canceled_world))))"
  using canceled_not_written [OF canceled_reachable, of 7 Canceled] by (simp add: canceled_world_def)


theorem flush_results_success_witness:
  "flush_results (Inr [None]) [sample_op 1, sample_op 2] ! 1 \<noteq> (2, None)"
  using flush_results_success [of 1 "[sample_op 1, sample_op 2]" "Inr [None]"] by (simp add: sample_op_def)

end
