(* ===== verification/Write_Path.thy ===== *)
theory Write_Path
  imports Batch_Indexer
begin

text \<open>
  The batching indexer (internal/infrastructure/storage/batch_indexer.go) over the repository
  (storage_repository.go) over a cluster: what a caller of \<open>Index\<close> may conclude from a nil error. The cluster is
  used by other clients too.
\<close>

section \<open>The composed system\<close>

type_synonym 'w bulk_request = "bulk_line list \<Rightarrow> string \<Rightarrow> 'w \<Rightarrow> bulk_response option reply \<times> 'w"

text \<open>A step of callers and timers, the answer of a flushed batch by \<open>BulkIndex\<close>, or a step of another client.\<close>

inductive write_step :: "'w bulk_request \<Rightarrow> ('w \<Rightarrow> 'w \<Rightarrow> bool) \<Rightarrow> batch_world \<times> 'w \<Rightarrow> batch_world \<times> 'w \<Rightarrow> bool"
  for request others where
  local_step: "batch_step b b' \<Longrightarrow> bw_sent b' = bw_sent b \<Longrightarrow> bw_results b' = bw_results b \<Longrightarrow> write_step request others (b, c) (b', c)"
| flushed: "bw_flights b = fs @ (batch, r) # gs \<Longrightarrow> BulkIndex request r (map po_op batch) c = (reply, c') \<Longrightarrow>
    write_step request others (b, c)
      (b\<lparr>bw_flights := fs @ gs, bw_sent := bw_sent b @ [(batch, r)], bw_results := bw_results b @ flush_results reply batch\<rparr>, c')"
| elsewhere: "others c c' \<Longrightarrow> write_step request others (b, c) (b, c')"

inductive write_reachable :: "'w bulk_request \<Rightarrow> ('w \<Rightarrow> 'w \<Rightarrow> bool) \<Rightarrow> nat \<Rightarrow> 'w \<Rightarrow> batch_world \<times> 'w \<Rightarrow> bool"
  for request others maxBatchSize c0 where
  start: "write_reachable request others maxBatchSize c0 (initial_world maxBatchSize, c0)"
| further: "write_reachable request others maxBatchSize c0 s \<Longrightarrow> write_step request others s s' \<Longrightarrow>
    write_reachable request others maxBatchSize c0 s'"

lemma write_step_batch:
  assumes "write_step request others s s'"
  shows "fst s' = fst s \<or> batch_step (fst s) (fst s')"
  using assms by cases (auto intro: batch_step.answer)

lemma write_reachable_batch: "write_reachable request others m c0 s \<Longrightarrow> batch_reachable m (fst s)"
  by (induction rule: write_reachable.induct) (auto dest!: write_step_batch intro: batch_reachable.intros)

section \<open>What the cluster promises\<close>

text \<open>\<open>applied\<close> says that a line was applied at some time. A reply with an item that is not an error
  applied the line at its position; what was applied stays so, whoever writes.\<close>

definition item_accepted :: "bulk_response \<Rightarrow> nat \<Rightarrow> bool" where
  "item_accepted response k \<longleftrightarrow> k < length (br_Items response) \<and>
     (br_Errors response \<longrightarrow> list_all (\<lambda>(_, st). \<not> failed_status (fst st)) (br_Items response ! k))"

locale bulk_cluster =
  fixes request :: "'w bulk_request" and others :: "'w \<Rightarrow> 'w \<Rightarrow> bool" and applied :: "'w \<Rightarrow> bulk_line \<Rightarrow> bool"
  assumes accepted_applied: "request lines refresh w = (Reply status line (Some response), w') \<Longrightarrow> status \<le> 299 \<Longrightarrow>
      k < length lines \<Longrightarrow> item_accepted response k \<Longrightarrow> applied w' (lines ! k)"
    and request_keeps: "request lines refresh w = (r, w') \<Longrightarrow> applied w l \<Longrightarrow> applied w' l"
    and others_keep: "others w w' \<Longrightarrow> applied w l \<Longrightarrow> applied w' l"
begin

lemma BulkIndex_keeps: "BulkIndex request waits ops w = (res, w') \<Longrightarrow> applied w l \<Longrightarrow> applied w' l"
  by (auto simp: BulkIndex_def intro: request_keeps split: if_splits sum.splits prod.splits)

lemma BulkIndex_applied:
  assumes "BulkIndex request waits ops w = (Inr errs, w')" "k < length ops" "k < length errs" "errs ! k = None"
  shows "\<exists>l. bulk_line_of (ops ! k) = Inr l \<and> applied w' l"
proof -
  obtain lines r where l: "rmap bulk_line_of ops = Inr lines" "request lines (refreshValue waits) w = (r, w')"
    "rbind (accept_reply ErrBulkOperation r) (\<lambda>body.
       case body of
         None \<Rightarrow> Inl (Wrapf (Text ErrDecodeBulkResponse) (External ''decode''))
       | Some response \<Rightarrow> Inr (bulk_item_errors (br_Errors response) ops (br_Items response))) = Inr errs"
    using assms(1,2) by (auto simp: BulkIndex_def split: sum.splits prod.splits if_splits)
  then obtain status line response where r: "r = Reply status line (Some response)" "status \<le> 299"
    "errs = bulk_item_errors (br_Errors response) ops (br_Items response)"
    by (auto simp: accept_reply_def is_error_def rbind_Inr_conv split: reply.splits if_splits option.splits)
  have len: "length lines = length ops" using rmap_length [OF l(1)] by simp
  have "item_accepted response k"
    using assms(2,4) r(3) bulk_item_errors_nth [of k ops "br_Errors response" "br_Items response"] by (simp add: item_accepted_def)
  then have "applied w' (lines ! k)" using accepted_applied l(2) r(1,2) assms(2) len by auto
  moreover have "bulk_line_of (ops ! k) = Inr (lines ! k)" using l(1) assms(2) by (auto simp: rmap_Inr_conv dest: list_all2_nthD)
  ultimately show ?thesis by blast
qed

definition confirmed :: "batch_world \<times> 'w \<Rightarrow> nat \<Rightarrow> bool" where
  "confirmed s i \<longleftrightarrow> (\<exists>op l. op \<in> set (concat (map fst (bw_sent (fst s)))) \<and> po_id op = i \<and>
     bulk_line_of (po_op op) = Inr l \<and> applied (snd s) l)"

lemma flushed_confirmed:
  assumes "BulkIndex request r (map po_op batch) c = (reply, c')" "(i, None) \<in> set (flush_results reply batch)"
  shows "\<exists>op l. op \<in> set batch \<and> po_id op = i \<and> bulk_line_of (po_op op) = Inr l \<and> applied c' l"
proof -
  obtain errs where errs: "reply = Inr errs" using assms(2) by (cases reply) (auto simp: flush_results_def)
  then obtain k where k: "k < length batch" "po_id (batch ! k) = i" "k < length errs" "errs ! k = None"
    using assms(2) by (auto simp: flush_results_def in_set_enumerate_eq split: if_splits)
  then show ?thesis
    using BulkIndex_applied [of r "map po_op batch" c errs c' k] assms(1) errs by (auto intro!: exI [of _ "batch ! k"])
qed

lemma confirmed_step:
  assumes "write_step request others s s'" "\<And>i. (i, None) \<in> set (bw_results (fst s)) \<Longrightarrow> confirmed s i"
    and "(i, None) \<in> set (bw_results (fst s'))"
  shows "confirmed s' i"
  using assms(1)
proof cases
  case (local_step b b' c)
  then show ?thesis using assms(2,3) by (auto simp: confirmed_def)
next
  case (flushed b fs batch r gs c reply c')
  show ?thesis
  proof (cases "(i, None) \<in> set (bw_results b)")
    case True
    then show ?thesis using assms(2) flushed BulkIndex_keeps [OF flushed(4)] by (fastforce simp: confirmed_def)
  next
    case False
    then have "(i, None) \<in> set (flush_results reply batch)" using assms(3) flushed(2) by simp
    from flushed_confirmed [OF flushed(4) this] show ?thesis using flushed(2) by (auto simp: confirmed_def)
  qed
next
  case (elsewhere c c' b)
  then show ?thesis using assms(2,3) others_keep by (fastforce simp: confirmed_def)
qed

lemma results_confirmed:
  "write_reachable request others m c0 s \<Longrightarrow> (i, None) \<in> set (bw_results (fst s)) \<Longrightarrow> confirmed s i"
  by (induction arbitrary: i rule: write_reachable.induct) (auto simp: initial_world_def intro: confirmed_step)

end

section \<open>A cluster\<close>

text \<open>The lines applied so far, and what happens to the next requests: they are lost, applied but
  their reply is lost, refused, answered with some items rejected, or answered without the last item.\<close>

datatype bulk_fault = Lost | LostReply | Refused | Rejected "nat list" | ShortReply

record bulk_log =
  lg_applied :: "bulk_line list"
  lg_faults :: "bulk_fault list"

definition item_of :: "nat list \<Rightarrow> nat \<Rightarrow> bulk_item" where
  "item_of rejected k = [(''index'', if k \<in> set rejected then (429, Some ''es_rejected_execution_exception'') else (201, None))]"

definition accepted_lines :: "nat list \<Rightarrow> bulk_line list \<Rightarrow> bulk_line list" where
  "accepted_lines rejected lines = map snd (filter (\<lambda>(k, _). k \<notin> set rejected) (enumerate 0 lines))"

definition answer_bulk :: "nat list \<Rightarrow> nat \<Rightarrow> bulk_line list \<Rightarrow> bulk_response option reply" where
  "answer_bulk rejected n lines = Reply 200 ''200 OK'' (Some \<lparr>br_Errors = list_ex (\<lambda>k. k < length lines) rejected,
     br_Items = map (item_of rejected) [0..<n]\<rparr>)"

definition log_bulk :: "bulk_log bulk_request" where
  "log_bulk lines refresh w =
     (let apply = (\<lambda>rejected faults. w\<lparr>lg_applied := lg_applied w @ accepted_lines rejected lines, lg_faults := faults\<rparr>) in
      case lg_faults w of
        [] \<Rightarrow> (answer_bulk [] (length lines) lines, apply [] [])
      | f # fs \<Rightarrow>
          (case f of
             Lost \<Rightarrow> (Transport (External ''reset''), w\<lparr>lg_faults := fs\<rparr>)
           | LostReply \<Rightarrow> (Transport (External ''timeout''), apply [] fs)
           | Refused \<Rightarrow> (Reply 503 ''503 Service Unavailable'' None, w\<lparr>lg_faults := fs\<rparr>)
           | Rejected ks \<Rightarrow> (answer_bulk ks (length lines) lines, apply ks fs)
           | ShortReply \<Rightarrow> (answer_bulk [] (length lines - 1) lines, apply [] fs)))"

definition log_others :: "bulk_log \<Rightarrow> bulk_log \<Rightarrow> bool" where
  "log_others w w' \<longleftrightarrow> (\<exists>ls. lg_applied w' = lg_applied w @ ls)"

definition log_has :: "bulk_log \<Rightarrow> bulk_line \<Rightarrow> bool" where
  "log_has w l = (l \<in> set (lg_applied w))"

lemma accepted_line: "k < length lines \<Longrightarrow> k \<notin> set rejected \<Longrightarrow> lines ! k \<in> set (accepted_lines rejected lines)"
  by (force simp: accepted_lines_def in_set_enumerate_eq)

lemma answered_lines:
  assumes "answer_bulk rejected n lines = Reply status line (Some response)" "k < length lines" "item_accepted response k" "n \<le> length lines"
  shows "lines ! k \<in> set (accepted_lines rejected lines)"
proof (rule accepted_line [OF assms(2)])
  have "br_Errors response = list_ex (\<lambda>k. k < length lines) rejected" "k < n \<Longrightarrow> br_Items response ! k = item_of rejected k"
    using assms(1,3) by (auto simp: answer_bulk_def item_accepted_def)
  moreover have "k < n" using assms(1,3) by (auto simp: answer_bulk_def item_accepted_def)
  ultimately show "k \<notin> set rejected"
    using assms(2,3) by (auto simp: item_accepted_def item_of_def failed_status_def list_ex_iff)
qed

interpretation log: bulk_cluster log_bulk log_others log_has
proof
  fix lines refresh w status line response w' k
  assume a: "log_bulk lines refresh w = (Reply status line (Some response), w')" "k < length lines" "item_accepted response k"
  then obtain rejected n where "answer_bulk rejected n lines = Reply status line (Some response)" "n \<le> length lines"
    "lg_applied w' = lg_applied w @ accepted_lines rejected lines"
    by (auto simp: log_bulk_def Let_def split: list.splits bulk_fault.splits)
  then show "log_has w' (lines ! k)" using answered_lines a(2,3) by (simp add: log_has_def)
next
  show "log_has w' l" if "log_bulk lines refresh w = (r, w')" "log_has w l" for lines refresh w r w' l
    using that by (auto simp: log_bulk_def log_has_def Let_def split: list.splits bulk_fault.splits)
  show "log_has w' l" if "log_others w w'" "log_has w l" for w w' l
    using that by (auto simp: log_others_def log_has_def)
qed

lemma filter_by_id:
  assumes "distinct (map f xs)" "x \<in> set xs" "f x = i"
  shows "filter (\<lambda>y. f y = i) xs = [x]"
  using assms by (induction xs) (auto simp: filter_empty_conv image_iff)

section \<open>Properties\<close>

text \<open>C14: when a call of \<open>Index\<close> returned nil, its operation was sent in exactly one bulk request, and the cluster applied
  the line of that operation, whatever requests failed, lost their reply or were answered in part, and
  whoever else writes.\<close>

theorem acknowledged_write_applied:
  assumes "bulk_cluster request others applied" "write_reachable request others m c0 s"
    and "(i, Returned None) \<in> set (bw_returns (fst s))"
  shows "\<exists>op l. filter (\<lambda>p. po_id p = i) (concat (map fst (bw_sent (fst s)))) = [op] \<and>
    bulk_line_of (po_op op) = Inr l \<and> applied (snd s) l"
proof -
  have inv: "placed (fst s)" "returned_once (fst s)"
    using batch_inv_reachable [OF write_reachable_batch [OF assms(2)]] by (simp_all add: batch_inv_def)
  then have "(i, None) \<in> set (bw_results (fst s))" using assms(3) by (force simp: returned_once_def list_all_iff)
  then have "bulk_cluster.confirmed applied s i"
    using bulk_cluster.results_confirmed [OF assms(1,2)] by blast
  then obtain op l where op: "op \<in> set (concat (map fst (bw_sent (fst s))))" "po_id op = i"
    "bulk_line_of (po_op op) = Inr l" "applied (snd s) l"
    by (auto simp: bulk_cluster.confirmed_def [OF assms(1)])
  have "distinct (map po_id (concat (map fst (bw_sent (fst s)))))"
    using inv(1) by (metis distinct_append op_ids_def placed_def)
  then have "filter (\<lambda>p. po_id p = i) (concat (map fst (bw_sent (fst s)))) = [op]"
    using op(1,2) by (rule filter_by_id)
  then show ?thesis using op by blast
qed

section \<open>Witnesses\<close>

definition sample_line :: bulk_line where
  "sample_line = \<lparr>bl_Action = ''index'', bl_Index = ''resources'', bl_DocID = ''project:1'', bl_Document = Some ''{}''\<rparr>"

lemma sample_bulk:
  "BulkIndex log_bulk False [sample_operation] \<lparr>lg_applied = [], lg_faults = []\<rparr> = (Inr [None], \<lparr>lg_applied = [sample_line], lg_faults = []\<rparr>)"
  by (simp add: BulkIndex_def bulk_line_of_def sample_operation_def log_bulk_def answer_bulk_def accepted_lines_def
      accept_reply_def is_error_def sample_line_def Let_def)

text \<open>A batch size of one: the call is claimed at once, sent, answered and returned.\<close>

definition claimed_world :: batch_world where
  "claimed_world = (initial_world 1)\<lparr>bw_indexer := (NewBatchIndexer 1)\<lparr>bi_generation := 1\<rparr>, bw_timers := [1],
     bw_flights := [([sample_op 7], False)]\<rparr>"

definition answered_world :: batch_world where
  "answered_world = claimed_world\<lparr>bw_flights := [], bw_sent := [([sample_op 7], False)], bw_results := [(7, None)]\<rparr>"

lemma acknowledged_reachable:
  "write_reachable log_bulk log_others 1 \<lparr>lg_applied = [], lg_faults = []\<rparr>
     (answered_world\<lparr>bw_returns := [(7, Returned None)]\<rparr>, \<lparr>lg_applied = [sample_line], lg_faults = []\<rparr>)"
proof -
  have one: "write_step log_bulk log_others (initial_world 1, c) (claimed_world, c)" for c
  proof (rule write_step.local_step)
    show "batch_step (initial_world 1) claimed_world"
      using batch_step.enqueue [of "sample_op 7" "initial_world 1" "Some 1" "Some ([sample_op 7], False)" "(NewBatchIndexer 1)\<lparr>bi_generation := 1\<rparr>"]
      by (simp add: claimed_world_def initial_world_def NewBatchIndexer_def op_ids_def enqueue_def drainLocked_def
          sample_op_def launch_def Let_def)
  qed (simp_all add: claimed_world_def initial_world_def)
  have two: "write_step log_bulk log_others (claimed_world, \<lparr>lg_applied = [], lg_faults = []\<rparr>)
      (answered_world, \<lparr>lg_applied = [sample_line], lg_faults = []\<rparr>)"
    using write_step.flushed [of claimed_world "[]" "[sample_op 7]" False "[]" log_bulk "\<lparr>lg_applied = [], lg_faults = []\<rparr>"
        "Inr [None]" "\<lparr>lg_applied = [sample_line], lg_faults = []\<rparr>" log_others] sample_bulk
    by (simp add: claimed_world_def answered_world_def initial_world_def sample_op_def flush_results_def)
  have three: "write_step log_bulk log_others (answered_world, c) (answered_world\<lparr>bw_returns := [(7, Returned None)]\<rparr>, c)" for c
  proof (rule write_step.local_step)
    show "batch_step answered_world (answered_world\<lparr>bw_returns := [(7, Returned None)]\<rparr>)"
      using batch_step.receive [of 7 None answered_world] by (simp add: answered_world_def claimed_world_def initial_world_def)
  qed simp_all
  show ?thesis
    by (rule write_reachable.further [OF write_reachable.further [OF write_reachable.further [OF write_reachable.start one] two] three])
qed

theorem acknowledged_write_applied_witness:
  "\<exists>(op :: pendingIndexOp) l. po_id op = 7 \<and> bulk_line_of (po_op op) = Inr l \<and> log_has \<lparr>lg_applied = [sample_line], lg_faults = []\<rparr> l"
proof -
  obtain op l where a: "filter (\<lambda>p. po_id p = 7) (concat (map fst (bw_sent answered_world))) = [op]"
    "bulk_line_of (po_op op) = Inr l" "log_has \<lparr>lg_applied = [sample_line], lg_faults = []\<rparr> l"
    using acknowledged_write_applied [OF log.bulk_cluster_axioms acknowledged_reachable, of 7] by auto
  moreover have "po_id op = 7" using arg_cong [OF a(1), of set] by auto
  ultimately show ?thesis by blast
qed

end
