(* ===== verification/Config.thy ===== *)
theory Config
  imports Audit_Types Go_Int
begin

text \<open>
  internal/infrastructure/config/app_config.go: the configuration read from the environment and its
  validation. The environment is a function from names to values, empty when unset;
  \<open>time.ParseDuration\<close> is a parameter. Durations are \<open>int64\<close> nanoseconds, and the sums of the timing
  rules wrap as the code's do.
\<close>

section \<open>Records\<close>

definition ackWaitSafetyMargin :: duration where "ackWaitSafetyMargin = 10 * Second"
definition auditMaxOpenSearchRequests :: int where "auditMaxOpenSearchRequests = 5"
definition drainTimeoutSafetyMargin :: duration where "drainTimeoutSafetyMargin = 5 * Second"

record AuditConfig =
  au_Enabled :: bool
  au_PolicyFile :: string
  au_RequiredTypes :: "string list"

record ServerConfig =
  sv_Port :: int
  sv_ReadTimeout :: duration
  sv_WriteTimeout :: duration
  sv_ShutdownTimeout :: duration

record NATSConfig =
  na_URL :: string
  na_MaxReconnects :: int
  na_ReconnectWait :: duration
  na_ConnectionTimeout :: duration
  na_IndexingSubject :: string
  na_V1IndexingSubject :: string
  na_Queue :: string
  na_DrainTimeout :: duration
  na_PendingMsgLimit :: int
  na_PendingBytesLimit :: int
  na_WorkerCount :: int
  na_AckWait :: duration
  na_MaxAckPending :: int

record OpenSearchConfig =
  os_URL :: string
  os_Username :: string
  os_Password :: string
  os_Index :: string
  os_Timeout :: duration
  os_BatchMaxSize :: int
  os_BatchMaxWait :: duration

record JWTConfig =
  jw_Issuer :: string
  jw_Audiences :: "string list"
  jw_JWKSURL :: string
  jw_ClockSkew :: duration

record LoggingConfig =
  lo_Level :: string
  lo_Format :: string

record JanitorConfig =
  ja_Enabled :: bool

record HealthConfig =
  hc_CheckTimeout :: duration
  hc_CacheDuration :: duration
  hc_EnableDetailedResponse :: bool

record AppConfig =
  ac_Server :: ServerConfig
  ac_NATS :: NATSConfig
  ac_OpenSearch :: OpenSearchConfig
  ac_JWT :: JWTConfig
  ac_Logging :: LoggingConfig
  ac_Janitor :: JanitorConfig
  ac_Health :: HealthConfig
  ac_Audit :: AuditConfig

section \<open>Environment variables\<close>

text \<open>\<open>strconv.Atoi\<close>: an optional sign and decimal digits, within 64 bits.\<close>

definition parse_digits :: "string \<Rightarrow> int option" where
  "parse_digits s = (if s \<noteq> [] \<and> list_all is_digit s then Some (digits_val 0 s) else None)"

definition Atoi :: "string \<Rightarrow> int option" where
  "Atoi s =
     Option.bind
       (case s of
          [] \<Rightarrow> None
        | c # cs \<Rightarrow>
            if c = CHR ''-'' then map_option uminus (parse_digits cs)
            else if c = CHR ''+'' then parse_digits cs
            else parse_digits s)
       (\<lambda>n. if in_int64 n then Some n else None)"

definition ParseBool :: "string \<Rightarrow> bool option" where
  "ParseBool s =
     (if s \<in> set [''1'', ''t'', ''T'', ''TRUE'', ''true'', ''True''] then Some True
      else if s \<in> set [''0'', ''f'', ''F'', ''FALSE'', ''false'', ''False''] then Some False
      else None)"

definition getEnvString :: "(string \<Rightarrow> string) \<Rightarrow> string \<Rightarrow> string \<Rightarrow> string" where
  "getEnvString env key defaultValue = (if env key \<noteq> [] then env key else defaultValue)"

definition getEnvWith :: "(string \<Rightarrow> 'a option) \<Rightarrow> (string \<Rightarrow> string) \<Rightarrow> string \<Rightarrow> 'a \<Rightarrow> 'a" where
  "getEnvWith parse env key defaultValue =
     (if env key \<noteq> [] then (case parse (env key) of Some v \<Rightarrow> v | None \<Rightarrow> defaultValue) else defaultValue)"

definition getEnvInt :: "(string \<Rightarrow> string) \<Rightarrow> string \<Rightarrow> int \<Rightarrow> int" where
  "getEnvInt = getEnvWith Atoi"

definition getEnvBool :: "(string \<Rightarrow> string) \<Rightarrow> string \<Rightarrow> bool \<Rightarrow> bool" where
  "getEnvBool = getEnvWith ParseBool"

definition getEnvDuration :: "(string \<Rightarrow> duration option) \<Rightarrow> (string \<Rightarrow> string) \<Rightarrow> string \<Rightarrow> duration \<Rightarrow> duration" where
  "getEnvDuration ParseDuration = getEnvWith ParseDuration"

section \<open>Loading\<close>

definition minimumAckWait :: "AppConfig \<Rightarrow> duration" where
  "minimumAckWait c =
     (let legacy = int64 (int64 (os_Timeout (ac_OpenSearch c) + os_BatchMaxWait (ac_OpenSearch c)) + ackWaitSafetyMargin);
          audited = int64 (int64 (auditMaxOpenSearchRequests * os_Timeout (ac_OpenSearch c)) + ackWaitSafetyMargin) in
      if au_Enabled (ac_Audit c) \<and> audited > legacy then audited else legacy)"

definition env_server :: "(string \<Rightarrow> duration option) \<Rightarrow> (string \<Rightarrow> string) \<Rightarrow> ServerConfig" where
  "env_server pd env = \<lparr>
     sv_Port = getEnvInt env ''PORT'' 8080,
     sv_ReadTimeout = getEnvDuration pd env ''READ_TIMEOUT'' (5 * Second),
     sv_WriteTimeout = getEnvDuration pd env ''WRITE_TIMEOUT'' (5 * Second),
     sv_ShutdownTimeout = getEnvDuration pd env ''SHUTDOWN_TIMEOUT'' (10 * Second)\<rparr>"

definition env_nats :: "(string \<Rightarrow> duration option) \<Rightarrow> (string \<Rightarrow> string) \<Rightarrow> NATSConfig" where
  "env_nats pd env = \<lparr>
     na_URL = getEnvString env ''NATS_URL'' ''nats://nats:4222'',
     na_MaxReconnects = getEnvInt env ''NATS_MAX_RECONNECTS'' (-1),
     na_ReconnectWait = getEnvDuration pd env ''NATS_RECONNECT_WAIT'' (2 * Second),
     na_ConnectionTimeout = getEnvDuration pd env ''NATS_CONNECTION_TIMEOUT'' (10 * Second),
     na_IndexingSubject = getEnvString env ''NATS_INDEXING_SUBJECT'' ''lfx.index.>'',
     na_V1IndexingSubject = getEnvString env ''NATS_V1_INDEXING_SUBJECT'' ''lfx.v1.index.>'',
     na_Queue = getEnvString env ''NATS_QUEUE'' ''lfx.indexer.queue'',
     na_DrainTimeout = getEnvDuration pd env ''NATS_DRAIN_TIMEOUT'' (55 * Second),
     na_PendingMsgLimit = getEnvInt env ''NATS_PENDING_MSG_LIMIT'' 1000000,
     na_PendingBytesLimit = getEnvInt env ''NATS_PENDING_BYTES_LIMIT'' (512 * 1024 * 1024),
     na_WorkerCount = getEnvInt env ''NATS_WORKER_COUNT'' 100,
     na_AckWait = getEnvDuration pd env ''NATS_ACK_WAIT'' 0,
     na_MaxAckPending = getEnvInt env ''NATS_MAX_ACK_PENDING'' 0\<rparr>"

definition env_opensearch :: "(string \<Rightarrow> duration option) \<Rightarrow> (string \<Rightarrow> string) \<Rightarrow> OpenSearchConfig" where
  "env_opensearch pd env = \<lparr>
     os_URL = getEnvString env ''OPENSEARCH_URL'' ''http://localhost:9200'',
     os_Username = getEnvString env ''OPENSEARCH_USERNAME'' [],
     os_Password = getEnvString env ''OPENSEARCH_PASSWORD'' [],
     os_Index = getEnvString env ''OPENSEARCH_INDEX'' ''resources'',
     os_Timeout = getEnvDuration pd env ''OPENSEARCH_TIMEOUT'' (30 * Second),
     os_BatchMaxSize = getEnvInt env ''OPENSEARCH_BATCH_MAX_SIZE'' 50,
     os_BatchMaxWait = getEnvDuration pd env ''OPENSEARCH_BATCH_MAX_WAIT'' (200 * Millisecond)\<rparr>"

definition env_jwt :: "(string \<Rightarrow> duration option) \<Rightarrow> (string \<Rightarrow> string) \<Rightarrow> JWTConfig" where
  "env_jwt pd env = \<lparr>
     jw_Issuer = getEnvString env ''JWT_ISSUER'' ''heimdall'',
     jw_Audiences = (let v = getEnvString env ''JWT_AUDIENCES'' [] in if v \<noteq> [] then split_on CHR '','' v else [''projects-api'']),
     jw_JWKSURL = getEnvString env ''JWKS_URL'' ''http://heimdall:4457/.well-known/jwks'',
     jw_ClockSkew = getEnvDuration pd env ''JWT_CLOCK_SKEW'' (360 * Minute)\<rparr>"

definition env_health :: "(string \<Rightarrow> duration option) \<Rightarrow> (string \<Rightarrow> string) \<Rightarrow> HealthConfig" where
  "env_health pd env = \<lparr>
     hc_CheckTimeout = getEnvDuration pd env ''HEALTH_CHECK_TIMEOUT'' (5 * Second),
     hc_CacheDuration = getEnvDuration pd env ''HEALTH_CACHE_DURATION'' (5 * Second),
     hc_EnableDetailedResponse = getEnvBool env ''HEALTH_DETAILED_RESPONSE'' True\<rparr>"

definition env_audit :: "(string \<Rightarrow> string) \<Rightarrow> AuditConfig" where
  "env_audit env = \<lparr>
     au_Enabled = getEnvBool env ''AUDIT_ENABLED'' False,
     au_PolicyFile = getEnvString env ''AUDIT_POLICY_FILE'' [],
     au_RequiredTypes = (let v = getEnvString env ''AUDIT_REQUIRED_TYPES'' [] in if v = [] then [] else split_on CHR '','' v)\<rparr>"

definition env_config :: "(string \<Rightarrow> duration option) \<Rightarrow> (string \<Rightarrow> string) \<Rightarrow> AppConfig" where
  "env_config pd env = \<lparr>ac_Server = env_server pd env, ac_NATS = env_nats pd env, ac_OpenSearch = env_opensearch pd env,
     ac_JWT = env_jwt pd env,
     ac_Logging = \<lparr>lo_Level = getEnvString env ''LOG_LEVEL'' ''info'', lo_Format = getEnvString env ''LOG_FORMAT'' ''json''\<rparr>,
     ac_Janitor = \<lparr>ja_Enabled = getEnvBool env ''JANITOR_ENABLED'' True\<rparr>,
     ac_Health = env_health pd env, ac_Audit = env_audit env\<rparr>"

abbreviation update_nats :: "(NATSConfig \<Rightarrow> NATSConfig) \<Rightarrow> AppConfig \<Rightarrow> AppConfig" where
  "update_nats f c \<equiv> c\<lparr>ac_NATS := f (ac_NATS c)\<rparr>"

definition resolve_ack_wait :: "AppConfig \<Rightarrow> go_error + AppConfig" where
  "resolve_ack_wait c =
     (if na_AckWait (ac_NATS c) < 0 then fail (Text ''NATS_ACK_WAIT must not be negative, got: %v'')
      else if na_AckWait (ac_NATS c) = 0 then Inr (update_nats (\<lambda>n. n\<lparr>na_AckWait := minimumAckWait c\<rparr>) c)
      else Inr c)"

definition resolve_max_ack_pending :: "AppConfig \<Rightarrow> go_error + AppConfig" where
  "resolve_max_ack_pending c =
     (if na_MaxAckPending (ac_NATS c) < 0 then fail (Text ''NATS_MAX_ACK_PENDING must not be negative, got: %d'')
      else if na_MaxAckPending (ac_NATS c) = 0 then Inr (update_nats (\<lambda>n. n\<lparr>na_MaxAckPending := na_WorkerCount n\<rparr>) c)
      else Inr c)"

definition LoadConfig :: "(string \<Rightarrow> duration option) \<Rightarrow> (string \<Rightarrow> string) \<Rightarrow> go_error + AppConfig" where
  "LoadConfig pd env = rbind (resolve_ack_wait (env_config pd env)) resolve_max_ack_pending"

section \<open>Validation\<close>

definition check_all :: "(bool \<times> string) list \<Rightarrow> go_error + unit" where
  "check_all cs = rforeach (\<lambda>(ok, message). require ok (Errorf (Text message) [])) cs"

definition validateAudit :: "AppConfig \<Rightarrow> go_error + unit" where
  "validateAudit c =
     (let a = ac_Audit c; o' = ac_OpenSearch c in
      if \<not> au_Enabled a then Inr ()
      else check_all [
        (au_PolicyFile a \<noteq> [] \<and> au_RequiredTypes a \<noteq> [], ''AUDIT_POLICY_FILE and AUDIT_REQUIRED_TYPES are required when AUDIT_ENABLED=true''),
        (os_Username o' \<noteq> [] \<and> os_Password o' \<noteq> [], ''authenticated OpenSearch credentials are required for audited ingestion''),
        (list_all ValidAuditObjectType (au_RequiredTypes a), ''invalid AUDIT_REQUIRED_TYPES entry'')])"

definition validateServer :: "AppConfig \<Rightarrow> go_error + unit" where
  "validateServer c =
     (let s = ac_Server c in
      check_all [
        (0 < sv_Port s \<and> sv_Port s \<le> 65535, ''invalid server port: %d, must be between 1 and 65535''),
        (0 < sv_ReadTimeout s, ''read timeout must be positive, got: %v''),
        (0 < sv_WriteTimeout s, ''write timeout must be positive, got: %v''),
        (0 < sv_ShutdownTimeout s, ''shutdown timeout must be positive, got: %v'')])"

definition minDrainTimeout :: "AppConfig \<Rightarrow> duration" where
  "minDrainTimeout c =
     (let t = os_Timeout (ac_OpenSearch c);
          legacy = int64 (int64 (t + os_BatchMaxWait (ac_OpenSearch c)) + drainTimeoutSafetyMargin) in
      if au_Enabled (ac_Audit c)
      then max legacy (int64 (int64 (auditMaxOpenSearchRequests * t) + drainTimeoutSafetyMargin))
      else legacy)"

definition validateNATS :: "AppConfig \<Rightarrow> go_error + unit" where
  "validateNATS c =
     (let n = ac_NATS c in
      check_all [
        (na_URL n \<noteq> [], ''NATS URL is required''),
        (na_Queue n \<noteq> [], ''NATS queue is required''),
        (na_IndexingSubject n \<noteq> [], ''NATS indexing subject is required''),
        (na_V1IndexingSubject n \<noteq> [], ''NATS V1 indexing subject is required''),
        (-1 \<le> na_MaxReconnects n, ''NATS max reconnects must be -1 (infinite) or a non-negative integer, got: %d''),
        (0 < na_ReconnectWait n, ''NATS reconnect wait must be positive, got: %v''),
        (0 < na_ConnectionTimeout n, ''NATS connection timeout must be positive, got: %v''),
        (0 < na_PendingMsgLimit n, ''NATS pending message limit must be positive, got: %d''),
        (0 < na_PendingBytesLimit n, ''NATS pending bytes limit must be positive, got: %d''),
        (0 < na_WorkerCount n, ''NATS worker count must be positive, got: %d''),
        (0 < na_MaxAckPending n, ''NATS max ack pending must be positive, got: %d''),
        (minimumAckWait c \<le> na_AckWait n,
         if au_Enabled (ac_Audit c)
         then ''NATS ack wait (%v) must be at least max(5 * OpenSearch timeout + 10s, OpenSearch timeout + batch max wait + 10s) (%v)''
         else ''NATS ack wait (%v) must be at least OpenSearch timeout plus batch max wait plus safety margin (%v)''),
        (minDrainTimeout c \<le> na_DrainTimeout n,
         if au_Enabled (ac_Audit c)
         then ''NATS drain timeout (%v) must be at least max(5 * OpenSearch timeout + 5s, OpenSearch timeout + batch max wait + 5s) (%v)''
         else ''NATS drain timeout (%v) must be at least OpenSearch timeout plus batch max wait plus safety margin (%v)'')])"

definition validateOpenSearch :: "AppConfig \<Rightarrow> go_error + unit" where
  "validateOpenSearch c =
     (let o' = ac_OpenSearch c in
      check_all [
        (os_URL o' \<noteq> [], ''OpenSearch URL is required''),
        (os_Index o' \<noteq> [], ''OpenSearch index is required''),
        (0 < os_Timeout o', ''OpenSearch timeout must be positive, got: %v''),
        (0 < os_BatchMaxSize o', ''OpenSearch batch max size must be positive, got: %d''),
        (0 < os_BatchMaxWait o', ''OpenSearch batch max wait must be positive, got: %v'')])"

definition validateJWT :: "AppConfig \<Rightarrow> go_error + unit" where
  "validateJWT c =
     (let j = ac_JWT c in
      check_all [
        (trim_space (jw_Issuer j) \<noteq> [], ''JWT issuer is required''),
        (jw_Audiences j \<noteq> [], ''JWT audiences array is required''),
        (trim_space (jw_JWKSURL j) \<noteq> [], ''JWKS URL is required''),
        (0 \<le> jw_ClockSkew j, ''JWT clock skew cannot be negative, got: %v'')])"

definition validateLogging :: "AppConfig \<Rightarrow> go_error + unit" where
  "validateLogging c =
     check_all [
       (lo_Level (ac_Logging c) \<in> set [''debug'', ''info'', ''warn'', ''error'', ''fatal'', ''panic''], ''invalid log level: %s, must be one of: %v''),
       (lo_Format (ac_Logging c) \<in> set [''json'', ''text'', ''console''], ''invalid log format: %s, must be one of: %v'')]"

definition validateHealth :: "AppConfig \<Rightarrow> go_error + unit" where
  "validateHealth c =
     (let h = ac_Health c in
      check_all [
        (0 < hc_CheckTimeout h, ''health check timeout must be positive, got: %v''),
        (0 \<le> hc_CacheDuration h, ''health cache duration must be non-negative, got: %v''),
        (hc_CacheDuration h \<le> hc_CheckTimeout h, ''health cache duration (%v) should not exceed check timeout (%v)'')])"

definition Validate :: "AppConfig \<Rightarrow> go_error + unit" where
  "Validate c =
     rforeach (\<lambda>(name, fn). map_err (Wrapf (Text (name @ '' configuration''))) (fn c))
       [(''server'', validateServer), (''nats'', validateNATS), (''opensearch'', validateOpenSearch), (''jwt'', validateJWT),
        (''logging'', validateLogging), (''janitor'', \<lambda>_. Inr ()), (''health'', validateHealth), (''audit'', validateAudit)]"

section \<open>Lemmas\<close>

lemma check_all_Inr [simp]: "check_all cs = Inr () \<longleftrightarrow> list_all fst cs"
  by (auto simp: check_all_def rforeach_Inr_conv require_Inr_conv list_all_iff)

lemma Validate_Inr:
  "Validate c = Inr () \<longleftrightarrow> validateServer c = Inr () \<and> validateNATS c = Inr () \<and> validateOpenSearch c = Inr () \<and>
     validateJWT c = Inr () \<and> validateLogging c = Inr () \<and> validateHealth c = Inr () \<and> validateAudit c = Inr ()"
  by (simp add: Validate_def rbind_Inr_conv map_err_Inr_conv)

lemma resolve_keeps:
  "LoadConfig pd env = Inr c \<Longrightarrow> ac_OpenSearch c = env_opensearch pd env \<and> ac_Audit c = env_audit env"
  by (auto simp: LoadConfig_def rbind_Inr_conv resolve_ack_wait_def resolve_max_ack_pending_def env_config_def split: if_splits)

lemma minimumAckWait_cong:
  "ac_OpenSearch c = ac_OpenSearch c' \<Longrightarrow> ac_Audit c = ac_Audit c' \<Longrightarrow> minimumAckWait c = minimumAckWait c'"
  by (simp add: minimumAckWait_def)

definition fits :: "AppConfig \<Rightarrow> bool" where
  "fits c = (5 * os_Timeout (ac_OpenSearch c) + os_BatchMaxWait (ac_OpenSearch c) + 10 * Second < 2 ^ 63)"

lemma fits_sums:
  assumes "fits c" "0 < os_Timeout (ac_OpenSearch c)" "0 < os_BatchMaxWait (ac_OpenSearch c)"
  defines "t \<equiv> os_Timeout (ac_OpenSearch c)" and "b \<equiv> os_BatchMaxWait (ac_OpenSearch c)"
  shows "int64 (t + b) = t + b" "int64 (5 * t) = 5 * t" "int64 (t + b + 10 * Second) = t + b + 10 * Second"
    "int64 (5 * t + 10 * Second) = 5 * t + 10 * Second" "int64 (t + b + 5 * Second) = t + b + 5 * Second"
    "int64 (5 * t + 5 * Second) = 5 * t + 5 * Second"
  using assms by (auto intro!: int64_id simp: in_int64_def fits_def)

section \<open>The default configuration\<close>

definition default_config :: "(string \<Rightarrow> duration option) \<Rightarrow> AppConfig" where
  "default_config pd = update_nats
     (\<lambda>n. n\<lparr>na_AckWait := 30 * Second + 200 * Millisecond + 10 * Second, na_MaxAckPending := 100\<rparr>) (env_config pd (\<lambda>_. []))"

definition overflow_config :: "(string \<Rightarrow> duration option) \<Rightarrow> AppConfig" where
  "overflow_config pd = (default_config pd)\<lparr>ac_OpenSearch := (ac_OpenSearch (default_config pd))\<lparr>os_Timeout := 2 ^ 63 - 1\<rparr>\<rparr>"

lemma unset [simp]: "getEnvString (\<lambda>_. []) k d = d" "getEnvInt (\<lambda>_. []) k n = n" "getEnvBool (\<lambda>_. []) k b = b"
  "getEnvDuration pd (\<lambda>_. []) k n = n"
  by (simp_all add: getEnvString_def getEnvInt_def getEnvBool_def getEnvDuration_def getEnvWith_def)

lemmas default_defs = default_config_def env_config_def env_server_def env_nats_def env_opensearch_def env_jwt_def
  env_health_def env_audit_def Let_def

lemmas validate_defs = Validate_Inr validateServer_def validateNATS_def validateOpenSearch_def validateJWT_def
  validateLogging_def validateHealth_def validateAudit_def minimumAckWait_def minDrainTimeout_def ackWaitSafetyMargin_def
  drainTimeoutSafetyMargin_def auditMaxOpenSearchRequests_def

lemma trim_space_ascii:
  assumes "list_all (\<lambda>c. byte c < 128 \<and> \<not> is_space (byte c)) s" "s \<noteq> []"
  shows "trim_space s \<noteq> []"
proof -
  have "runes s = map (\<lambda>c. (byte c, [c])) s" using assms by (intro runes_all_ascii) (auto simp: list_all_iff)
  moreover have "dropWhile (\<lambda>(r, _). is_space r) (map (\<lambda>c. (byte c, [c])) xs) = map (\<lambda>c. (byte c, [c])) xs"
    if "list_all (\<lambda>c. \<not> is_space (byte c)) xs" for xs
    using that by (cases xs) simp_all
  ultimately show ?thesis using assms by (simp add: trim_space_def rev_map list_all_iff)
qed

lemma default_names: "trim_space ''heimdall'' \<noteq> []" "trim_space ''http://heimdall:4457/.well-known/jwks'' \<noteq> []"
  by (rule trim_space_ascii; simp add: byte_def is_space_def)+

section \<open>Properties\<close>

text \<open>C27: the timing rules of a valid configuration, as long as the sums fit in 64 bits: a delivery is not
  repeated and the connection is not closed before a message can have waited for its batch and for the
  bulk request, or, with auditing, for five requests one after the other; there is a worker, room for
  an unacknowledged message and a positive batch size.\<close>

theorem config_timing:
  assumes "Validate c = Inr ()" "fits c"
  shows "let t = os_Timeout (ac_OpenSearch c); b = os_BatchMaxWait (ac_OpenSearch c); n = ac_NATS c in
    0 < t \<and> 0 < b \<and> t + b + 10 * Second \<le> na_AckWait n \<and> t + b + 5 * Second \<le> na_DrainTimeout n \<and>
    (\<not> au_Enabled (ac_Audit c) \<or> 5 * t + 10 * Second \<le> na_AckWait n \<and> 5 * t + 5 * Second \<le> na_DrainTimeout n) \<and>
    0 < na_WorkerCount n \<and> 0 < na_MaxAckPending n \<and> 0 < os_BatchMaxSize (ac_OpenSearch c)"
proof -
  let ?t = "os_Timeout (ac_OpenSearch c)" and ?b = "os_BatchMaxWait (ac_OpenSearch c)"
  have pos: "0 < ?t" "0 < ?b" "0 < os_BatchMaxSize (ac_OpenSearch c)"
    using assms(1) by (simp_all add: Validate_Inr validateOpenSearch_def Let_def)
  have nats: "minimumAckWait c \<le> na_AckWait (ac_NATS c)" "minDrainTimeout c \<le> na_DrainTimeout (ac_NATS c)"
    "0 < na_WorkerCount (ac_NATS c)" "0 < na_MaxAckPending (ac_NATS c)"
    using assms(1) by (simp_all add: Validate_Inr validateNATS_def Let_def)
  note sums = fits_sums [OF assms(2) pos(1,2)]
  have "minimumAckWait c = (if au_Enabled (ac_Audit c) then max (?t + ?b + 10 * Second) (5 * ?t + 10 * Second) else ?t + ?b + 10 * Second)"
    unfolding minimumAckWait_def ackWaitSafetyMargin_def auditMaxOpenSearchRequests_def sums Let_def by auto
  moreover have "minDrainTimeout c = (if au_Enabled (ac_Audit c) then max (?t + ?b + 5 * Second) (5 * ?t + 5 * Second) else ?t + ?b + 5 * Second)"
    unfolding minDrainTimeout_def drainTimeoutSafetyMargin_def auditMaxOpenSearchRequests_def Let_def sums by auto
  ultimately show ?thesis using pos nats by (auto simp: Let_def split: if_splits)
qed

text \<open>An acknowledgement wait that is left unset is derived as exactly the minimum the validation asks
  for, and an unset limit of unacknowledged messages is the number of workers.\<close>

theorem derived_defaults:
  assumes "LoadConfig pd env = Inr c" "env ''NATS_ACK_WAIT'' = []" "env ''NATS_MAX_ACK_PENDING'' = []"
  shows "na_AckWait (ac_NATS c) = minimumAckWait c \<and> na_MaxAckPending (ac_NATS c) = na_WorkerCount (ac_NATS c)"
proof -
  have "c = update_nats (\<lambda>n. n\<lparr>na_AckWait := minimumAckWait (env_config pd env), na_MaxAckPending := na_WorkerCount n\<rparr>) (env_config pd env)"
    using assms by (auto simp: LoadConfig_def rbind_Inr_conv resolve_ack_wait_def resolve_max_ack_pending_def env_config_def env_nats_def
        getEnvDuration_def getEnvInt_def getEnvWith_def split: if_splits)
  then show ?thesis using minimumAckWait_cong [of c "env_config pd env"] by simp
qed

text \<open>With an empty environment the configuration loads and is valid.\<close>

theorem default_config_valid: "LoadConfig pd (\<lambda>_. []) = Inr (default_config pd) \<and> Validate (default_config pd) = Inr ()"
proof
  show "LoadConfig pd (\<lambda>_. []) = Inr (default_config pd)"
    by (simp add: LoadConfig_def resolve_ack_wait_def resolve_max_ack_pending_def minimumAckWait_def ackWaitSafetyMargin_def
        int64_def default_defs)
  show "Validate (default_config pd) = Inr ()" by (simp add: validate_defs default_defs default_names int64_def)
qed

text \<open>The timing rules are computed with wrap-around: an OpenSearch timeout close to the largest duration
  makes the required minimum negative, and a configuration passes validation although deliveries are
  repeated and the connection is closed long before a request can time out.\<close>

theorem config_timing_overflow:
  "Validate (overflow_config pd) = Inr () \<and> in_int64 (os_Timeout (ac_OpenSearch (overflow_config pd))) \<and>
   na_AckWait (ac_NATS (overflow_config pd)) < os_Timeout (ac_OpenSearch (overflow_config pd)) \<and>
   na_DrainTimeout (ac_NATS (overflow_config pd)) < os_Timeout (ac_OpenSearch (overflow_config pd))"
proof (intro conjI)
  show "Validate (overflow_config pd) = Inr ()"
    by (simp add: validate_defs overflow_config_def default_defs default_names int64_def)
qed (simp_all add: overflow_config_def default_defs in_int64_def)

section \<open>Witnesses\<close>

theorem config_timing_witness: "fits (default_config (\<lambda>_. None)) \<and>
    os_Timeout (ac_OpenSearch (default_config (\<lambda>_. None))) + 10 * Second \<le> na_AckWait (ac_NATS (default_config (\<lambda>_. None)))"
proof
  show f: "fits (default_config (\<lambda>_. None))" by (simp add: fits_def default_defs)
  have "Validate (default_config (\<lambda>_. None)) = Inr ()" by (simp add: validate_defs default_defs default_names int64_def)
  from config_timing [OF this f] show "os_Timeout (ac_OpenSearch (default_config (\<lambda>_. None))) + 10 * Second
      \<le> na_AckWait (ac_NATS (default_config (\<lambda>_. None)))" by (simp add: Let_def)
qed

theorem derived_defaults_witness: "na_AckWait (ac_NATS (default_config (\<lambda>_. None))) = minimumAckWait (default_config (\<lambda>_. None))"
proof -
  have "LoadConfig (\<lambda>_. None) (\<lambda>_. []) = Inr (default_config (\<lambda>_. None))"
    by (simp add: LoadConfig_def resolve_ack_wait_def resolve_max_ack_pending_def minimumAckWait_def ackWaitSafetyMargin_def
        int64_def default_defs)
  then show ?thesis using derived_defaults by blast
qed

end
