(* ===== verification/Message_Processor.thy ===== *)
theory Message_Processor
  imports Indexer_Service Audit_Workflow
begin

text \<open>
  internal/application/message_processor.go and internal/presentation/handlers/
  indexing_message_handler.go: what happens to one message from NATS. A message goes to the audit
  workflow or to the legacy path; the legacy path is closed to object types that must be audited.
\<close>

section \<open>State\<close>

text \<open>The indexer service depends on the context of a message, which says whether the sender waits for a
  reply. The repositories act on a world of type \<open>'w\<close>.\<close>

record 'w MessageProcessor =
  mp_service :: "bool \<Rightarrow> 'w service_deps"
  mp_subscribe :: "string \<Rightarrow> string \<Rightarrow> 'w \<Rightarrow> go_error option \<times> 'w"
  mp_CheckItem :: "string \<Rightarrow> 'w \<Rightarrow> 'w"
  mp_index :: string
  mp_queue :: string
  mp_indexingSubject :: string
  mp_v1IndexingSubject :: string
  mp_auditWorkflow :: "(audit_env \<times> 'w audit_stores) option"
  mp_auditRequiredTypes :: "string list"

record message_env =
  me_decode :: "string \<Rightarrow> string"
  me_fmt_time :: "timestamp \<Rightarrow> string"
  me_now :: timestamp

definition DefaultIndex :: string where "DefaultIndex = ''resources''"
definition DefaultQueue :: string where "DefaultQueue = ''lfx.indexer.queue''"
definition AllSubjects :: string where "AllSubjects = IndexPrefix @ ''>''"
definition AllV1Subjects :: string where "AllV1Subjects = FromV1Prefix @ ''>''"

definition NewMessageProcessor ::
    "(bool \<Rightarrow> 'w service_deps) \<Rightarrow> (string \<Rightarrow> string \<Rightarrow> 'w \<Rightarrow> go_error option \<times> 'w) \<Rightarrow> (string \<Rightarrow> 'w \<Rightarrow> 'w) \<Rightarrow> 'w MessageProcessor" where
  "NewMessageProcessor indexerService messagingRepo cleanupRepository = \<lparr>
     mp_service = indexerService, mp_subscribe = messagingRepo, mp_CheckItem = cleanupRepository,
     mp_index = DefaultIndex, mp_queue = DefaultQueue, mp_indexingSubject = AllSubjects,
     mp_v1IndexingSubject = AllV1Subjects, mp_auditWorkflow = None, mp_auditRequiredTypes = []\<rparr>"

definition SetAuditWorkflow ::
    "(audit_env \<times> 'w audit_stores) option \<Rightarrow> string list \<Rightarrow> 'w MessageProcessor \<Rightarrow> go_error + 'w MessageProcessor" where
  "SetAuditWorkflow workflow requiredTypes mp =
     (case workflow of
        None \<Rightarrow> fail (Text ''audit workflow is required'')
      | Some flow \<Rightarrow>
          rbind (rforeach (\<lambda>objectType. require (ValidAuditObjectType objectType)
                   (Errorf (Text ''invalid audit-required object type'') [])) requiredTypes) (\<lambda>_.
          Inr (mp\<lparr>mp_auditWorkflow := Some flow, mp_auditRequiredTypes := requiredTypes\<rparr>)))"

definition Configure :: "string \<Rightarrow> string \<Rightarrow> string \<Rightarrow> string \<Rightarrow> 'w MessageProcessor \<Rightarrow> 'w MessageProcessor" where
  "Configure index queue indexingSubject v1IndexingSubject mp =
     (let set = (\<lambda>v old. if v \<noteq> [] then v else old) in
      mp\<lparr>mp_index := set index (mp_index mp), mp_queue := set queue (mp_queue mp),
         mp_indexingSubject := set indexingSubject (mp_indexingSubject mp),
         mp_v1IndexingSubject := set v1IndexingSubject (mp_v1IndexingSubject mp)\<rparr>)"

definition CutPrefix :: "string \<Rightarrow> string \<Rightarrow> string option" where
  "CutPrefix s p = (if has_prefix s p then Some (drop (length p) s) else None)"

definition audit_required :: "'w MessageProcessor \<Rightarrow> string option \<Rightarrow> bool" where
  "audit_required mp objectType = (case objectType of Some t \<Rightarrow> t \<in> set (mp_auditRequiredTypes mp) | None \<Rightarrow> False)"

section \<open>Transactions\<close>

definition createTransaction :: "message_env \<Rightarrow> string \<Rightarrow> string \<Rightarrow> go_error + LFXTransaction" where
  "createTransaction env data subject =
     (case json_unmarshal_map data of
        None \<Rightarrow> Inl (Wrapf (Text ''failed to unmarshal message data: %w'') (External ''json''))
      | Some messageData \<Rightarrow>
          (case CutPrefix subject IndexPrefix of
             None \<Rightarrow> failf (Text ''invalid V2 subject format: %s'') [subject]
           | Some objectType \<Rightarrow>
               map_err (Wrapf (Text ''failed to create V2 transaction''))
                 (CreateTransactionFromMessage (me_decode env) (me_now env)
                    (case messageData of Some m \<Rightarrow> m | None \<Rightarrow> []) objectType False)))"

definition createV1Transaction :: "message_env \<Rightarrow> string \<Rightarrow> string \<Rightarrow> go_error + LFXTransaction" where
  "createV1Transaction env data subject =
     (case json_unmarshal_map data of
        None \<Rightarrow> Inl (Wrapf (Text ''failed to unmarshal V1 message data: %w'') (External ''json''))
      | Some messageData \<Rightarrow>
          (case CutPrefix subject FromV1Prefix of
             None \<Rightarrow> failf (Text ''invalid V1 subject format: %s'') [subject]
           | Some objectType \<Rightarrow>
               map_err (Wrapf (Text ''failed to create V1 transaction''))
                 (CreateTransactionFromMessage (me_decode env) (me_now env)
                    (case messageData of Some m \<Rightarrow> m | None \<Rightarrow> []) objectType True)))"

section \<open>Audited messages\<close>

text \<open>\<open>json.Unmarshal\<close> of the audit member into a struct with one field \<open>origin\<close>: keys are matched up to
  case, the last match wins, \<open>null\<close> leaves the field, another type is an error. A missing member is an
  empty input, which is an error.\<close>

definition decode_origin_member :: "string \<times> json \<Rightarrow> string option \<Rightarrow> string option" where
  "decode_origin_member kv acc =
     (case acc of
        None \<Rightarrow> None
      | Some origin \<Rightarrow>
          if equal_fold (fst kv) ''origin'' then
            (case snd kv of JStr s \<Rightarrow> Some s | JNull \<Rightarrow> Some origin | _ \<Rightarrow> None)
          else Some origin)"

definition decode_origin :: "json option \<Rightarrow> string option" where
  "decode_origin raw =
     (case raw of
        Some (JObj m) \<Rightarrow> fold decode_origin_member m (Some [])
      | Some JNull \<Rightarrow> Some []
      | _ \<Rightarrow> None)"

definition validateAuditFencedType :: "'w MessageProcessor \<Rightarrow> json option \<Rightarrow> string \<Rightarrow> go_error + unit" where
  "validateAuditFencedType mp raw subject =
     (case decode_origin raw of
        None \<Rightarrow> fail (Text ''invalid audit metadata'')
      | Some origin \<Rightarrow>
          if RequiresLegacyFence origin then
            require (audit_required mp (CutPrefix subject IndexPrefix))
              (Errorf (Text ''mutation/reindex/sync resource type is not audit-required'') [])
          else Inr ())"

text \<open>The members of the message, as raw values; the last of repeated keys counts.\<close>

definition discriminator :: "string \<Rightarrow> (json gomap) option" where
  "discriminator data =
     (case json_parse data of
        Some (JObj m) \<Rightarrow> Some (keep_last m)
      | Some JNull \<Rightarrow> Some []
      | _ \<Rightarrow> None)"

section \<open>Use cases\<close>

definition finish_transaction ::
    "err_text \<Rightarrow> message_env \<Rightarrow> 'w MessageProcessor \<Rightarrow> bool \<Rightarrow> LFXTransaction \<Rightarrow> 'w \<Rightarrow> go_error option \<times> 'w" where
  "finish_transaction message env mp waits t w =
     (case ProcessTransaction (mp_service mp waits) (me_fmt_time env) (me_now env) t (mp_index mp) w of
        (_, Some err, w') \<Rightarrow> (Some (Wrapf message err), w')
      | (result, None, w') \<Rightarrow>
          (None, if pr_Success result \<and> pr_DocumentID result \<noteq> [] then mp_CheckItem mp (pr_DocumentID result) w' else w'))"

definition legacy_message ::
    "message_env \<Rightarrow> 'w MessageProcessor \<Rightarrow> bool \<Rightarrow> string \<Rightarrow> string \<Rightarrow> 'w \<Rightarrow> go_error option \<times> 'w" where
  "legacy_message env mp waits data subject w =
     (case createTransaction env data subject of
        Inl err \<Rightarrow> (Some (Wrapf (Text ''failed to create transaction'') err), w)
      | Inr t \<Rightarrow> finish_transaction (Text ''failed to process transaction: %w'') env mp waits t w)"

definition audited_message ::
    "'w MessageProcessor \<Rightarrow> audit_env \<times> 'w audit_stores \<Rightarrow> json option \<Rightarrow> string \<Rightarrow> string \<Rightarrow> 'w \<Rightarrow> go_error option \<times> 'w" where
  "audited_message mp workflow raw data subject w =
     (case validateAuditFencedType mp raw subject of
        Inl err \<Rightarrow> (Some err, w)
      | Inr _ \<Rightarrow> Process (fst workflow) (snd workflow) data subject w)"

definition ProcessIndexingMessage ::
    "message_env \<Rightarrow> 'w MessageProcessor \<Rightarrow> bool \<Rightarrow> string \<Rightarrow> string \<Rightarrow> 'w \<Rightarrow> go_error option \<times> 'w" where
  "ProcessIndexingMessage env mp waits data subject w =
     (case mp_auditWorkflow mp of
        None \<Rightarrow> legacy_message env mp waits data subject w
      | Some workflow \<Rightarrow>
          (case discriminator data of
             None \<Rightarrow> (Some (Errorf (Text ''invalid indexing message JSON'') []), w)
           | Some members \<Rightarrow>
               if has_key members ''schema_version'' \<or> has_key members ''audit''
               then audited_message mp workflow (map_of members ''audit'') data subject w
               else if audit_required mp (CutPrefix subject IndexPrefix)
               then (Some (Errorf (Text ''audited resource type requires schema_version 2'') []), w)
               else legacy_message env mp waits data subject w))"

definition ProcessV1IndexingMessage ::
    "message_env \<Rightarrow> 'w MessageProcessor \<Rightarrow> bool \<Rightarrow> string \<Rightarrow> string \<Rightarrow> 'w \<Rightarrow> go_error option \<times> 'w" where
  "ProcessV1IndexingMessage env mp waits data subject w =
     (if mp_auditWorkflow mp \<noteq> None \<and>
         audit_required mp (CutPrefix subject FromV1Prefix)
      then (Some (Errorf (Text ''audited resource type rejects platform V1 writes'') []), w)
      else case createV1Transaction env data subject of
        Inl err \<Rightarrow> (Some (Wrapf (Text ''failed to create V1 transaction'') err), w)
      | Inr t \<Rightarrow> finish_transaction (Text ''failed to process V1 transaction: %w'') env mp waits t w)"

section \<open>Handlers\<close>

text \<open>The payload of a reply: \<open>OK\<close>, or \<open>ERROR: \<close> and the text of an error.\<close>

datatype reply_payload = ReplyOK | ReplyError go_error | ReplyMessage string

definition route :: "message_env \<Rightarrow> 'w MessageProcessor \<Rightarrow> bool \<Rightarrow> string \<Rightarrow> string \<Rightarrow> 'w \<Rightarrow> go_error option \<times> 'w" where
  "route env mp waits data subject w =
     (if has_prefix subject FromV1Prefix then ProcessV1IndexingMessage env mp waits data subject w
      else ProcessIndexingMessage env mp waits data subject w)"

text \<open>\<open>indexingHandler.HandleWithReply\<close>: a reply is sent when the sender asked for one; its own failure is
  only logged.\<close>

definition HandleWithReply ::
    "message_env \<Rightarrow> 'w MessageProcessor \<Rightarrow> (reply_payload \<Rightarrow> 'w \<Rightarrow> 'w) option \<Rightarrow> string \<Rightarrow> string \<Rightarrow> 'w \<Rightarrow> go_error option \<times> 'w" where
  "HandleWithReply env mp reply data subject w =
     (case route env mp (reply \<noteq> None) data subject w of
        (err, w') \<Rightarrow>
          (err, case reply of
             None \<Rightarrow> w'
           | Some send \<Rightarrow> send (case err of Some e \<Rightarrow> ReplyError e | None \<Rightarrow> ReplyOK) w'))"

text \<open>\<open>IndexingMessageHandler\<close>: the handler of the presentation layer, which hides the error from the
  sender and does not ask for a refresh.\<close>

definition PresentationHandle :: "message_env \<Rightarrow> 'w MessageProcessor \<Rightarrow> bool \<Rightarrow> string \<Rightarrow> string \<Rightarrow> 'w \<Rightarrow> go_error option \<times> 'w" where
  "PresentationHandle env mp waits data subject w = route env mp waits data subject w"

definition PresentationHandleWithReply ::
    "message_env \<Rightarrow> 'w MessageProcessor \<Rightarrow> bool \<Rightarrow> (reply_payload \<Rightarrow> 'w \<Rightarrow> 'w) option \<Rightarrow> string \<Rightarrow> string \<Rightarrow> 'w \<Rightarrow> go_error option \<times> 'w" where
  "PresentationHandleWithReply env mp waits reply data subject w =
     (case route env mp waits data subject w of
        (err, w') \<Rightarrow>
          (err, case reply of
             None \<Rightarrow> w'
           | Some send \<Rightarrow>
               send (case err of Some _ \<Rightarrow> ReplyMessage ''error processing indexing message'' | None \<Rightarrow> ReplyOK) w'))"

section \<open>Subscriptions\<close>

definition subscribeTo :: "'w MessageProcessor \<Rightarrow> string \<Rightarrow> 'w \<Rightarrow> go_error option \<times> 'w" where
  "subscribeTo mp subject w =
     (case mp_subscribe mp subject (mp_queue mp) w of
        (Some err, w') \<Rightarrow> (Some (Wrapf (Text ''failed to subscribe to %s: %w'') err), w')
      | (None, w') \<Rightarrow> (None, w'))"

definition StartSubscriptions :: "'w MessageProcessor \<Rightarrow> 'w \<Rightarrow> go_error option \<times> 'w" where
  "StartSubscriptions mp w =
     (case subscribeTo mp (mp_indexingSubject mp) w of
        (Some err, w1) \<Rightarrow> (Some (Wrapf (Text ''failed to subscribe to V2 messages: %w'') err), w1)
      | (None, w1) \<Rightarrow>
          (case subscribeTo mp (mp_v1IndexingSubject mp) w1 of
             (Some err, w2) \<Rightarrow> (Some (Wrapf (Text ''failed to subscribe to V1 messages: %w'') err), w2)
           | (None, w2) \<Rightarrow> (None, w2)))"

section \<open>Facts\<close>

lemma EnrichTransaction_index [simp]: "EnrichTransaction (deps\<lparr>sd_Index := f\<rparr>) t = EnrichTransaction deps t"
proof -
  have "parsePrincipals (deps\<lparr>sd_Index := f\<rparr>) = parsePrincipals deps"
    by (rule ext) (simp add: parsePrincipals_def parseV2Principals_def)
  then show ?thesis unfolding EnrichTransaction_def by (simp only:)
qed

text \<open>The index request of a transaction is the only one it makes, and is addressed by its object type
  and an identifier.\<close>

lemma ProcessTransaction_index_cong:
  assumes "\<And>i doc w. f index (t_ObjectType t @ CHR '':'' # i) doc w = sd_Index deps index (t_ObjectType t @ CHR '':'' # i) doc w"
  shows "ProcessTransaction (deps\<lparr>sd_Index := f\<rparr>) ft now t index w = ProcessTransaction deps ft now t index w"
proof (cases "EnrichTransaction deps t")
  case (Inr t')
  show ?thesis
  proof (cases "GenerateTransactionBody t'")
    case (Inr body)
    have "b_ObjectRef body = t_ObjectType t @ CHR '':'' # b_ObjectID body"
      using generated_ref(1) [OF Inr] EnrichTransaction_simps(2) [OF \<open>EnrichTransaction deps t = Inr t'\<close>] by simp
    then show ?thesis using assms Inr \<open>EnrichTransaction deps t = Inr t'\<close>
      by (simp add: ProcessTransaction_def publishIndexingEvent_def split: prod.splits option.splits)
  qed (simp add: ProcessTransaction_def Inr)
qed (simp add: ProcessTransaction_def)

lemma CreateTransactionFromMessage_type:
  "CreateTransactionFromMessage dec now m objectType isV1 = Inr t \<Longrightarrow> t_ObjectType t = objectType"
  by (auto simp: CreateTransactionFromMessage_def rbind_Inr_conv Let_def setV1Data_def split: option.splits if_splits)

lemma createTransaction_type:
  "createTransaction env data subject = Inr t \<Longrightarrow> CutPrefix subject IndexPrefix = Some (t_ObjectType t)"
  by (auto simp: createTransaction_def map_err_Inr_conv dest: CreateTransactionFromMessage_type split: option.splits)

lemma createV1Transaction_type:
  "createV1Transaction env data subject = Inr t \<Longrightarrow> CutPrefix subject FromV1Prefix = Some (t_ObjectType t)"
  by (auto simp: createV1Transaction_def map_err_Inr_conv dest: CreateTransactionFromMessage_type split: option.splits)

section \<open>Properties\<close>

text \<open>The reference of a document of one of the types, whose identifier has no colon: every document the
  audit workflow writes for such a type has one.\<close>

definition fenced_ref :: "string list \<Rightarrow> string \<Rightarrow> bool" where
  "fenced_ref types ref =
     list_ex (\<lambda>t. prefix (t @ '':'') ref \<and> CHR '':'' \<notin> set (drop (Suc (length t)) ref)) types"

lemma fenced_ref_type:
  assumes "fenced_ref types (objectType @ CHR '':'' # i)" "list_all ValidAuditObjectType types"
  shows "objectType \<in> set types"
proof -
  let ?ref = "objectType @ CHR '':'' # i"
  obtain t where t1: "t \<in> set types" "prefix (t @ '':'') ?ref" "CHR '':'' \<notin> set (drop (Suc (length t)) ?ref)"
    using assms(1) by (auto simp only: fenced_ref_def list_ex_iff)
  obtain rest where rest: "?ref = (t @ '':'') @ rest" using t1(2) by (rule prefixE)
  have t: "t \<in> set types" "?ref = t @ CHR '':'' # rest" "CHR '':'' \<notin> set rest"
    using t1(1,3) unfolding rest by simp_all
  have "CHR '':'' \<notin> set t"
    using t(1) assms(2) object_pattern_no_colon by (auto simp: list_all_iff ValidAuditObjectType_def)
  then have "count_list t (CHR '':'') = 0" "count_list rest (CHR '':'') = 0" using t(3) by (simp_all add: count_list_0_iff)
  moreover have "count_list (objectType @ CHR '':'' # i) (CHR '':'') = count_list (t @ CHR '':'' # rest) (CHR '':'')"
    using t(2) by (simp only:)
  ultimately have "count_list objectType (CHR '':'') = 0" by simp
  then have "CHR '':'' \<notin> set objectType" by (simp add: count_list_0_iff)
  then have "objectType = t" using sep_inject [of "CHR '':''" objectType t i rest] t(2) \<open>CHR '':'' \<notin> set t\<close> by simp
  then show ?thesis using t(1) by simp
qed

lemma finish_transaction_fenced:
  assumes "t_ObjectType t \<notin> set types" "list_all ValidAuditObjectType types"
  shows "finish_transaction message env (mp\<lparr>mp_service := \<lambda>c. (mp_service mp c)\<lparr>sd_Index := \<lambda>i d doc w.
      if fenced_ref types d then other i d doc w else sd_Index (mp_service mp c) i d doc w\<rparr>\<rparr>) waits t w =
    finish_transaction message env mp waits t w"
proof -
  have "\<not> fenced_ref types (t_ObjectType t @ CHR '':'' # i)" for i using fenced_ref_type assms by blast
  then show ?thesis
    by (simp add: finish_transaction_def ProcessTransaction_index_cong cong: if_cong option.case_cong prod.case_cong)
qed

lemma audit_required_service [simp]: "audit_required (mp\<lparr>mp_service := s\<rparr>) t = audit_required mp t"
  by (simp add: audit_required_def cong: option.case_cong)

lemma audited_message_service [simp]:
  "audited_message (mp\<lparr>mp_service := s\<rparr>) workflow raw data subject w = audited_message mp workflow raw data subject w"
  by (simp add: audited_message_def validateAuditFencedType_def cong: if_cong option.case_cong)

text \<open>Once the audit workflow is installed, no legacy message, in either version, can write a
  document of a type that must be audited: the outcome of every message is the same whatever an index
  request for such a document would do.\<close>

theorem audited_documents_fenced:
  assumes "SetAuditWorkflow workflow required mp0 = Inr mp"
  shows "route env (mp\<lparr>mp_service := \<lambda>c. (mp_service mp c)\<lparr>sd_Index := \<lambda>i d doc w.
      if fenced_ref required d then other i d doc w else sd_Index (mp_service mp c) i d doc w\<rparr>\<rparr>) waits data subject w =
    route env mp waits data subject w"
proof -
  have mp: "mp_auditRequiredTypes mp = required" "mp_auditWorkflow mp \<noteq> None" "list_all ValidAuditObjectType required"
    using assms by (auto simp: SetAuditWorkflow_def rbind_Inr_conv rforeach_Inr_conv require_Inr_conv list_all_iff
        split: option.splits)
  let ?mp' = "mp\<lparr>mp_service := \<lambda>c. (mp_service mp c)\<lparr>sd_Index := \<lambda>i d doc w.
      if fenced_ref required d then other i d doc w else sd_Index (mp_service mp c) i d doc w\<rparr>\<rparr>"
  note fin = finish_transaction_fenced [OF _ mp(3)]
  show ?thesis
  proof (cases "has_prefix subject FromV1Prefix")
    case True
    have "ProcessV1IndexingMessage env ?mp' waits data subject w = ProcessV1IndexingMessage env mp waits data subject w"
    proof (cases "createV1Transaction env data subject")
      case (Inr t)
      then show ?thesis using mp(1,2) fin [of t] createV1Transaction_type [OF Inr]
        by (cases "t_ObjectType t \<in> set required") (simp_all add: ProcessV1IndexingMessage_def audit_required_def)
    qed (simp add: ProcessV1IndexingMessage_def)
    then show ?thesis using True by (simp add: route_def)
  next
    case False
    have "legacy_message env ?mp' waits data subject w = legacy_message env mp waits data subject w"
      if "\<not> audit_required mp (CutPrefix subject IndexPrefix)"
    proof (cases "createTransaction env data subject")
      case (Inr t)
      then show ?thesis using that mp(1) fin [of t] createTransaction_type [OF Inr]
        by (simp add: legacy_message_def audit_required_def)
    qed (simp add: legacy_message_def)
    moreover obtain workflow where "mp_auditWorkflow mp = Some workflow" using mp(2) by blast
    ultimately have "ProcessIndexingMessage env ?mp' waits data subject w = ProcessIndexingMessage env mp waits data subject w"
      using mp(1) by (cases "discriminator data") (simp_all add: ProcessIndexingMessage_def)
    then show ?thesis using False by (simp add: route_def)
  qed
qed

text \<open>A processor without audit workflow whose repositories answer as the functions say and record every
  call.\<close>

datatype message_effect = MIndexed string string "go_error option" | MPublished string | MChecked string | MReplied reply_payload

definition tracing ::
    "(string \<Rightarrow> string \<Rightarrow> json gomap \<Rightarrow> go_error option) \<Rightarrow> (string \<Rightarrow> IndexingEvent \<Rightarrow> go_error option)
     \<Rightarrow> (string gomap \<Rightarrow> go_error + Principal list) \<Rightarrow> message_effect list MessageProcessor" where
  "tracing ai ap pp = NewMessageProcessor
     (\<lambda>_. \<lparr>sd_Index = (\<lambda>i d doc w. (ai i d doc, w @ [MIndexed i d (ai i d doc)])),
           sd_Publish = (\<lambda>s e w. (ap s e, w @ [MPublished s])), sd_ParsePrincipals = pp\<rparr>)
     (\<lambda>_ _ w. (None, w)) (\<lambda>d w. w @ [MChecked d])"

definition message_done :: "go_error option \<Rightarrow> message_effect list \<Rightarrow> bool" where
  "message_done err tr \<longleftrightarrow>
     (case err of
        Some e \<Rightarrow> tr = [] \<or> (\<exists>i d e'. tr = [MIndexed i d (Some e')])
      | None \<Rightarrow> \<exists>i d s. tr = [MIndexed i d None, MPublished s, MChecked d])"

lemma finish_transaction_done:
  "case finish_transaction message env (tracing ai ap pp) waits t [] of (err, tr) \<Rightarrow> message_done err tr"
proof -
  let ?deps = "mp_service (tracing ai ap pp) waits"
  show ?thesis
  proof (cases "EnrichTransaction ?deps t")
    case (Inr t')
    show ?thesis
    proof (cases "GenerateTransactionBody t'")
      case (Inr body)
      have "b_ObjectRef body \<noteq> []" using generated_ref(1) [OF Inr] by simp
      then show ?thesis using Inr \<open>EnrichTransaction ?deps t = Inr t'\<close>
        by (cases "ai (mp_index (tracing ai ap pp)) (b_ObjectRef body) (body_to_json (me_fmt_time env) body)")
          (simp_all add: finish_transaction_def ProcessTransaction_def tracing_def NewMessageProcessor_def message_done_def
            publishIndexingEvent_def)
    qed (use Inr in \<open>simp add: finish_transaction_def ProcessTransaction_def message_done_def\<close>)
  qed (simp add: finish_transaction_def ProcessTransaction_def message_done_def)
qed

text \<open>C13: a legacy message is indexed at most once; its event, its cleanup check and its positive reply
  follow in this order and only after the document was indexed; every other message is answered with
  the error and has neither event nor check.\<close>

theorem message_effects:
  "case HandleWithReply env (tracing ai ap pp) (Some (\<lambda>p w. w @ [MReplied p])) data subject [] of
     (Some e, tr) \<Rightarrow> \<exists>done. tr = done @ [MReplied (ReplyError e)] \<and>
        (done = [] \<or> (\<exists>i d e'. done = [MIndexed i d (Some e')]))
   | (None, tr) \<Rightarrow> \<exists>i d s. tr = [MIndexed i d None, MPublished s, MChecked d, MReplied ReplyOK]"
proof -
  have "case route env (tracing ai ap pp) True data subject [] of (err, tr) \<Rightarrow> message_done err tr"
    using finish_transaction_done [of _ env ai ap pp True]
    by (auto simp: route_def ProcessV1IndexingMessage_def ProcessIndexingMessage_def legacy_message_def tracing_def
        NewMessageProcessor_def message_done_def split: sum.splits)
  then show ?thesis
    by (auto simp: HandleWithReply_def message_done_def split: prod.splits option.splits)
qed

section \<open>Witnesses\<close>

definition fenced_processor :: "message_effect list MessageProcessor" where
  "fenced_processor = (tracing (\<lambda>_ _ _. None) (\<lambda>_ _. None) (\<lambda>_. Inr []))\<lparr>
     mp_auditWorkflow := Some (sample_env, \<lparr>st_receipt_create = \<lambda>_ _ w. (WTransport, w), st_receipt_get = \<lambda>_ _. RTransport,
       st_history_create = \<lambda>_ _ w. (WTransport, w), st_history_get = \<lambda>_ _. RTransport,
       st_history_overwrite = \<lambda>_ _ w. (WTransport, w), st_update = \<lambda>_ _ w. (UTransport, w),
       st_check = \<lambda>_ w. w, st_publish = \<lambda>_ _ w. w\<rparr>), mp_auditRequiredTypes := [''project'']\<rparr>"

definition plain_env :: message_env where
  "plain_env = \<lparr>me_decode = \<lambda>s. s, me_fmt_time = \<lambda>_. [], me_now = 0\<rparr>"

theorem audited_documents_fenced_witness:
  "route plain_env (fenced_processor\<lparr>mp_service := \<lambda>c. (mp_service fenced_processor c)\<lparr>sd_Index := \<lambda>i d doc w.
      if fenced_ref [''project''] d then (Some (External ''down''), w) else sd_Index (mp_service fenced_processor c) i d doc w\<rparr>\<rparr>)
      False ''{}'' ''lfx.index.project'' [] =
    route plain_env fenced_processor False ''{}'' ''lfx.index.project'' []"
proof -
  have "SetAuditWorkflow (mp_auditWorkflow fenced_processor) [''project'']
      (tracing (\<lambda>_ _ _. None) (\<lambda>_ _. None) (\<lambda>_. Inr [])) = Inr fenced_processor"
    by (simp add: SetAuditWorkflow_def fenced_processor_def grammar_defs byte_def)
  then show ?thesis by (rule audited_documents_fenced)
qed

end
