(* ===== verification/Auth.thy ===== *)
theory Auth
  imports Contracts "HOL-Library.Multiset"
begin

text \<open>
  internal/infrastructure/auth/auth_repository.go: tokens and principals. The JWT library is a
  parameter: a function from a token to an error or the claims it validated. Logging is left out, but
  the functions that redact what is logged are modelled.
\<close>

section \<open>Claims\<close>

record HeimdallClaims =
  hc_Principal :: string
  hc_Email :: string

text \<open>\<open>HeimdallClaims.Validate\<close>, called by the JWT library.\<close>

definition ValidateClaims :: "HeimdallClaims \<Rightarrow> go_error option" where
  "ValidateClaims c = (if hc_Principal c = [] then Some (Errorf (Text ''principal must be provided'') []) else None)"

text \<open>The claims behind the library's interface values: custom claims of another type are \<open>None\<close>.\<close>

record ValidatedClaims =
  cl_Custom :: "HeimdallClaims option"
  cl_Subject :: string

text \<open>The answer of the library for a token: an error, a value of another type, or claims.\<close>

type_synonym jwt_validator = "string \<Rightarrow> go_error + ValidatedClaims option"

record AuthRepository =
  ar_validator :: "jwt_validator option"
  ar_issuer :: string
  ar_audiences :: "string list"

text \<open>\<open>NewAuthRepository\<close>: the URL parser and the library's constructor are parameters.\<close>

definition NewAuthRepository ::
    "(string \<Rightarrow> go_error option) \<Rightarrow> (string \<Rightarrow> string list \<Rightarrow> int \<Rightarrow> go_error + jwt_validator)
     \<Rightarrow> string \<Rightarrow> string list \<Rightarrow> string \<Rightarrow> int \<Rightarrow> go_error + AuthRepository" where
  "NewAuthRepository url_error new_validator issuer audiences jwksURL clockSkew =
     (case url_error issuer of
        Some err \<Rightarrow> Inl (Wrapf (Text ''invalid issuer URL: %w'') err)
      | None \<Rightarrow>
          (case url_error jwksURL of
             Some err \<Rightarrow> Inl (Wrapf (Text ''invalid JWKS URL: %w'') err)
           | None \<Rightarrow>
               rbind (map_err (Wrapf (Text ''failed to create JWT validator: %w'')) (new_validator issuer audiences clockSkew))
                 (\<lambda>v. Inr \<lparr>ar_validator = Some v, ar_issuer = issuer, ar_audiences = audiences\<rparr>)))"

section \<open>Tokens\<close>

text \<open>A leading \<open>bearer \<close>, in any case, is dropped once.\<close>

definition strip_bearer :: "string \<Rightarrow> string" where
  "strip_bearer token =
     (let n = length BearerPrefix in
      if length token \<ge> n \<and> lower_eq (take n token) BearerPrefix then drop n token else token)"

definition extractPrincipalFromClaims :: "ValidatedClaims option \<Rightarrow> go_error + Principal" where
  "extractPrincipalFromClaims claims =
     (case claims of
        None \<Rightarrow> fail (Text ''invalid claims type'')
      | Some c \<Rightarrow>
          (case cl_Custom c of
             None \<Rightarrow> fail (Text ''invalid custom claims type'')
           | Some custom \<Rightarrow>
               let p = (if hc_Principal custom = [] \<and> cl_Subject c \<noteq> [] then cl_Subject c else hc_Principal custom)
               in if p = [] then fail (Text ''no principal identifier found in token'')
                  else Inr \<lparr>p_Principal = p, p_Email = hc_Email custom\<rparr>))"

text \<open>\<open>ValidateToken\<close> on a repository whose validator was constructed.\<close>

definition ValidateToken :: "jwt_validator \<Rightarrow> string \<Rightarrow> go_error + Principal" where
  "ValidateToken jwt token0 =
     (let token = strip_bearer token0 in
      if token = [] then fail (Text ''invalid token: empty token'')
      else rbind (map_err (Wrapf (Text ''invalid token'')) (jwt token)) (\<lambda>claims.
           map_err (Wrapf (Text ''failed to extract principal: %w'')) (extractPrincipalFromClaims claims)))"

definition safeTokenLog :: "string \<Rightarrow> string" where
  "safeTokenLog token =
     (if token = [] then ''<empty>''
      else if length token < 20 then ''<too_short>''
      else take 8 token @ ''...'' @ drop (length token - 8) token)"

definition parsePrincipalAndEmail :: "AuthRepository \<Rightarrow> string \<Rightarrow> go_error + Principal" where
  "parsePrincipalAndEmail r token0 =
     (case ar_validator r of
        None \<Rightarrow> fail (Text ''JWT validator is not set up'')
      | Some jwt \<Rightarrow>
          (let token = strip_bearer token0 in
           if token = [] then fail (Text ''empty token'')
           else if CHR ''.'' \<notin> set token then failf (Text ''token is not a JWT: %s'') [safeTokenLog token]
           else rbind (jwt token) (\<lambda>parsed.
             case parsed of
               None \<Rightarrow> fail (Text ''failed to get validated authorization claims'')
             | Some claims \<Rightarrow>
                 (case cl_Custom claims of
                    None \<Rightarrow> fail (Text ''failed to get custom authorization claims'')
                  | Some custom \<Rightarrow> Inr \<lparr>p_Principal = hc_Principal custom, p_Email = hc_Email custom\<rparr>))))"

section \<open>Principals of a request\<close>

definition isMachineUser :: "string \<Rightarrow> bool" where
  "isMachineUser p = (length p > length MachineUserSuffix \<and> has_suffix p MachineUserSuffix)"

definition ok_list :: "'e + 'a \<Rightarrow> 'a list" where
  "ok_list r = (case r of Inl _ \<Rightarrow> [] | Inr x \<Rightarrow> [x])"

text \<open>The principals of one \<open>X-On-Behalf-Of\<close> value: those of its tokens that parse.\<close>

definition forwarded_principals :: "AuthRepository \<Rightarrow> string \<Rightarrow> Principal list" where
  "forwarded_principals r v =
     concat (map (\<lambda>jwt. ok_list (parsePrincipalAndEmail r (trim_space jwt))) (split_on (CHR '','') v))"

record principal_state =
  ps_machine :: bool
  ps_authorized :: "Principal list"
  ps_onBehalfOf :: "Principal list"

definition scan_header :: "AuthRepository \<Rightarrow> string \<times> string \<Rightarrow> principal_state \<Rightarrow> principal_state" where
  "scan_header r kv st =
     (if lower_eq (fst kv) AuthorizationHeader then
        (case parsePrincipalAndEmail r (snd kv) of
           Inl _ \<Rightarrow> st
         | Inr p \<Rightarrow> st\<lparr>ps_authorized := ps_authorized st @ [p],
                      ps_machine := (isMachineUser (p_Principal p) \<or> ps_machine st)\<rparr>)
      else if lower_eq (fst kv) OnBehalfOfHeader then
        st\<lparr>ps_onBehalfOf := ps_onBehalfOf st @ forwarded_principals r (snd kv)\<rparr>
      else st)"

text \<open>\<open>ParsePrincipals\<close> never returns an error; the headers come in the order of one iteration.\<close>

definition ParsePrincipals :: "AuthRepository \<Rightarrow> string gomap \<Rightarrow> Principal list" where
  "ParsePrincipals r headers =
     (let st = fold (scan_header r) headers \<lparr>ps_machine = False, ps_authorized = [], ps_onBehalfOf = []\<rparr> in
      if ps_machine st then ps_authorized st @ ps_onBehalfOf st else ps_authorized st)"

section \<open>Health and logging\<close>

definition AuthHealthCheck :: "bool \<Rightarrow> AuthRepository \<Rightarrow> go_error option" where
  "AuthHealthCheck logger r =
     (if \<not> logger then Some (Errorf (Text ''auth repository logger not initialized'') [])
      else if ar_validator r = None then Some (Errorf (Text ''JWT validator is not initialized'') [])
      else None)"

definition classifyAuthError :: "string option \<Rightarrow> string" where
  "classifyAuthError err =
     (case err of
        None \<Rightarrow> ''none''
      | Some e \<Rightarrow>
          if sublist ''token is expired'' e then ''expired_token''
          else if sublist ''token is not valid yet'' e then ''premature_token''
          else if sublist ''signature verification failed'' e then ''invalid_signature''
          else if sublist ''token is malformed'' e then ''malformed_token''
          else if sublist ''audience'' e then ''invalid_audience''
          else if sublist ''issuer'' e then ''invalid_issuer''
          else if sublist ''claims'' e then ''invalid_claims''
          else ''unknown_error'')"

definition safePrincipalLog :: "string \<Rightarrow> string" where
  "safePrincipalLog p =
     (if p = [] then ''<empty>''
      else if isMachineUser p then p
      else if CHR ''@'' \<in> set p \<and> length (split_on (CHR ''@'') p) = 2 then hd (split_on (CHR ''@'') p) @ ''@***''
      else p)"

section \<open>Facts\<close>

definition authorized_of :: "AuthRepository \<Rightarrow> string \<times> string \<Rightarrow> Principal list" where
  "authorized_of r kv = (if lower_eq (fst kv) AuthorizationHeader then ok_list (parsePrincipalAndEmail r (snd kv)) else [])"

definition forwarded_of :: "AuthRepository \<Rightarrow> string \<times> string \<Rightarrow> Principal list" where
  "forwarded_of r kv =
     (if \<not> lower_eq (fst kv) AuthorizationHeader \<and> lower_eq (fst kv) OnBehalfOfHeader
      then forwarded_principals r (snd kv) else [])"

lemma scan_headers:
  "fold (scan_header r) headers st =
     st\<lparr>ps_machine := (list_ex (\<lambda>p. isMachineUser (p_Principal p)) (concat (map (authorized_of r) headers)) \<or> ps_machine st),
        ps_authorized := ps_authorized st @ concat (map (authorized_of r) headers),
        ps_onBehalfOf := ps_onBehalfOf st @ concat (map (forwarded_of r) headers)\<rparr>"
proof (induction headers arbitrary: st)
  case (Cons kv headers)
  then show ?case
    by (auto simp: scan_header_def authorized_of_def forwarded_of_def ok_list_def disj_ac split: sum.splits)
qed simp

text \<open>The loop as an expression.\<close>

lemma ParsePrincipals_eq:
  "ParsePrincipals r headers =
     (let authorized = concat (map (authorized_of r) headers) in
      authorized @ (if list_ex (\<lambda>p. isMachineUser (p_Principal p)) authorized
                    then concat (map (forwarded_of r) headers) else []))"
  by (simp add: ParsePrincipals_def scan_headers Let_def)

lemma mset_concat_sum: "mset (concat (map f xs)) = (\<Sum>x\<in>#mset xs. mset (f x))"
  by (induction xs) simp_all

lemma mset_concat_map: "mset xs = mset ys \<Longrightarrow> mset (concat (map f xs)) = mset (concat (map f ys))"
  by (simp only: mset_concat_sum)

section \<open>Properties\<close>

text \<open>C11: every principal of a request is the validated principal of an authorization header, or was
  forwarded in an on-behalf-of header while an authorization header has a validated machine
  principal.\<close>

theorem on_behalf_of_machines_only:
  assumes "p \<in> set (ParsePrincipals r headers)"
  shows "(\<exists>h v. (h, v) \<in> set headers \<and> lower_eq h AuthorizationHeader \<and> parsePrincipalAndEmail r v = Inr p) \<or>
    (\<exists>h v h' v' m. (h, v) \<in> set headers \<and> lower_eq h OnBehalfOfHeader \<and> p \<in> set (forwarded_principals r v) \<and>
       (h', v') \<in> set headers \<and> lower_eq h' AuthorizationHeader \<and> parsePrincipalAndEmail r v' = Inr m \<and>
       isMachineUser (p_Principal m))"
proof -
  have auth: "\<exists>h v. (h, v) \<in> set headers \<and> lower_eq h AuthorizationHeader \<and> parsePrincipalAndEmail r v = Inr q"
    if "q \<in> set (concat (map (authorized_of r) headers))" for q
    using that by (fastforce simp: authorized_of_def ok_list_def split: if_splits sum.splits)
  have fwd: "\<exists>h v. (h, v) \<in> set headers \<and> lower_eq h OnBehalfOfHeader \<and> q \<in> set (forwarded_principals r v)"
    if "q \<in> set (concat (map (forwarded_of r) headers))" for q
    using that by (fastforce simp: forwarded_of_def split: if_splits)
  show ?thesis
    using assms auth fwd unfolding ParsePrincipals_eq Let_def by (fastforce simp: list_ex_iff split: if_splits)
qed

text \<open>The principals found do not depend on the order in which the header map is iterated.\<close>

theorem ParsePrincipals_order:
  assumes "mset headers = mset headers'"
  shows "mset (ParsePrincipals r headers) = mset (ParsePrincipals r headers')"
proof -
  have a: "mset (concat (map (authorized_of r) headers)) = mset (concat (map (authorized_of r) headers'))"
    "mset (concat (map (forwarded_of r) headers)) = mset (concat (map (forwarded_of r) headers'))"
    using assms by (rule mset_concat_map)+
  then show ?thesis
    using mset_eq_setD [OF a(1)] by (simp add: ParsePrincipals_eq Let_def list_ex_iff)
qed

text \<open>A token that validates gives a principal, taken from the custom claims or, when they name
  none, from the subject.\<close>

theorem ValidateToken_principal:
  assumes "ValidateToken jwt token = Inr p"
  shows "p_Principal p \<noteq> [] \<and> strip_bearer token \<noteq> [] \<and>
    (\<exists>claims custom. jwt (strip_bearer token) = Inr (Some claims) \<and> cl_Custom claims = Some custom \<and>
       p_Email p = hc_Email custom \<and>
       p_Principal p = (if hc_Principal custom = [] then cl_Subject claims else hc_Principal custom))"
proof -
  obtain claims where ok: "strip_bearer token \<noteq> []" "jwt (strip_bearer token) = Inr claims"
    "extractPrincipalFromClaims claims = Inr p"
    using assms by (auto simp: ValidateToken_def Let_def rbind_Inr_conv map_err_Inr_conv split: if_splits)
  then obtain c custom where "claims = Some c" "cl_Custom c = Some custom"
    by (auto simp: extractPrincipalFromClaims_def split: option.splits)
  then show ?thesis using ok by (auto simp: extractPrincipalFromClaims_def Let_def split: if_splits)
qed

text \<open>What is logged of a token is a fixed text or its first and last eight bytes, at most nineteen
  bytes in all.\<close>

theorem safeTokenLog_bound: "length (safeTokenLog token) \<le> 19"
  by (simp add: safeTokenLog_def)

section \<open>Witnesses\<close>

definition sample_jwt :: jwt_validator where
  "sample_jwt token = (if token = ''a.b'' then Inr (Some \<lparr>cl_Custom = Some \<lparr>hc_Principal = ''svc@clients'', hc_Email = ''''\<rparr>, cl_Subject = ''''\<rparr>)
     else Inr (Some \<lparr>cl_Custom = Some \<lparr>hc_Principal = ''alice'', hc_Email = ''''\<rparr>, cl_Subject = ''''\<rparr>))"

definition sample_repository :: AuthRepository where
  "sample_repository = \<lparr>ar_validator = Some sample_jwt, ar_issuer = ''i'', ar_audiences = []\<rparr>"

lemma sample_machine: "parsePrincipalAndEmail sample_repository ''a.b'' = Inr \<lparr>p_Principal = ''svc@clients'', p_Email = ''''\<rparr>"
  by (simp add: parsePrincipalAndEmail_def sample_repository_def sample_jwt_def strip_bearer_def BearerPrefix_def Let_def)

lemma sample_forwarded: "forwarded_principals sample_repository ''c.d'' = [\<lparr>p_Principal = ''alice'', p_Email = ''''\<rparr>]"
proof -
  have "runes ''c.d'' = map (\<lambda>c. (byte c, [c])) ''c.d''" by (rule runes_all_ascii) (simp add: byte_def)
  then have "trim_space ''c.d'' = ''c.d''" by (simp add: trim_space_def byte_def is_space_def)
  then show ?thesis
    by (simp add: forwarded_principals_def parsePrincipalAndEmail_def sample_repository_def sample_jwt_def strip_bearer_def
        BearerPrefix_def ok_list_def Let_def)
qed

definition sample_headers :: "string gomap" where
  "sample_headers = [(''authorization'', ''a.b''), (''x-on-behalf-of'', ''c.d'')]"

lemma sample_lower:
  "lower_eq ''authorization'' AuthorizationHeader" "lower_eq ''x-on-behalf-of'' OnBehalfOfHeader"
  "\<not> lower_eq ''x-on-behalf-of'' AuthorizationHeader"
  by (simp_all add: lower_eq_def to_lower_def rune_list_all_ascii byte_def lower_rune_def go_consts)

lemma sample_principals: "ParsePrincipals sample_repository sample_headers =
    [\<lparr>p_Principal = ''svc@clients'', p_Email = ''''\<rparr>, \<lparr>p_Principal = ''alice'', p_Email = ''''\<rparr>]"
  using sample_machine sample_forwarded sample_lower
  by (simp add: ParsePrincipals_eq sample_headers_def authorized_of_def forwarded_of_def ok_list_def Let_def
      isMachineUser_def MachineUserSuffix_def has_suffix_def suffix_to_prefix)

theorem on_behalf_of_machines_only_witness:
  "\<exists>h v. (h, v) \<in> set sample_headers \<and>
     (lower_eq h AuthorizationHeader \<and> parsePrincipalAndEmail sample_repository v = Inr \<lparr>p_Principal = ''alice'', p_Email = ''''\<rparr> \<or>
      lower_eq h OnBehalfOfHeader \<and> \<lparr>p_Principal = ''alice'', p_Email = ''''\<rparr> \<in> set (forwarded_principals sample_repository v))"
  using on_behalf_of_machines_only [of "\<lparr>p_Principal = ''alice'', p_Email = ''''\<rparr>" sample_repository sample_headers] sample_principals
  by auto

theorem ParsePrincipals_order_witness:
  "mset (ParsePrincipals sample_repository (rev sample_headers)) = mset (ParsePrincipals sample_repository sample_headers)"
  by (rule ParsePrincipals_order) simp

theorem ValidateToken_principal_witness: "strip_bearer ''a.b'' \<noteq> [] \<and> ''svc@clients'' \<noteq> ''''"
proof -
  have "ValidateToken sample_jwt ''a.b'' = Inr \<lparr>p_Principal = ''svc@clients'', p_Email = ''''\<rparr>"
    by (simp add: ValidateToken_def sample_jwt_def strip_bearer_def BearerPrefix_def extractPrincipalFromClaims_def Let_def)
  from ValidateToken_principal [OF this] show ?thesis by simp
qed

end
