(* ===== verification/Messaging.thy ===== *)
theory Messaging
  imports Contracts Go_Int "HOL-Library.Word"
begin

text \<open>
  internal/infrastructure/messaging/messaging_repository.go: the NATS repository. The connection is a
  record of the calls the repository makes on it. Subscribing, publishing, closing and starting the
  consumer are functions of the repository and the state behind the connection; the handler
  goroutines and the worker slots are a step relation; the drain is a function of the times at which
  the events it waits for happen.
\<close>

section \<open>The repository\<close>

definition DefaultWorkerCount :: int where "DefaultWorkerCount = 100"
definition DefaultAckWait :: duration where "DefaultAckWait = 45 * Second"
definition ConsumerNameIndexer :: string where "ConsumerNameIndexer = ''indexer-consumer''"
definition ErrAuthRepoNotConfigured :: string where "ErrAuthRepoNotConfigured = ''auth repository not configured''"

record ('s, 'c) MessagingRepository =
  mr_subscriptions :: "'s list"
  mr_consumeContexts :: "'c list"
  mr_drainTimeout :: duration
  mr_isShuttingDown :: bool
  mr_pendingMsgLimit :: int
  mr_pendingBytesLimit :: int
  mr_sem :: nat
  mr_ackWait :: duration
  mr_maxAckPending :: int

definition NewMessagingRepository :: "duration \<Rightarrow> int \<Rightarrow> int \<Rightarrow> int \<Rightarrow> duration \<Rightarrow> int \<Rightarrow> ('s, 'c) MessagingRepository" where
  "NewMessagingRepository drainTimeout pendingMsgLimit pendingBytesLimit workerCount ackWait maxAckPending =
     (let workerCount = (if workerCount \<le> 0 then DefaultWorkerCount else workerCount) in
      \<lparr>mr_subscriptions = [], mr_consumeContexts = [], mr_drainTimeout = drainTimeout, mr_isShuttingDown = False,
       mr_pendingMsgLimit = pendingMsgLimit, mr_pendingBytesLimit = pendingBytesLimit, mr_sem = nat workerCount,
       mr_ackWait = (if ackWait \<le> 0 then DefaultAckWait else ackWait),
       mr_maxAckPending = (if maxAckPending \<le> 0 then workerCount else maxAckPending)\<rparr>)"

text \<open>The calls on a connection. A plain subscription has no queue group.\<close>

record ('s, 'w) nats_conn =
  nc_IsConnected :: "'w \<Rightarrow> bool"
  nc_IsClosed :: "'w \<Rightarrow> bool"
  nc_connected_status :: "'w \<Rightarrow> bool"
  nc_Subscribe :: "string \<Rightarrow> string option \<Rightarrow> 'w \<Rightarrow> (go_error + 's) \<times> 'w"
  nc_SetPendingLimits :: "'s \<Rightarrow> int \<Rightarrow> int \<Rightarrow> 'w \<Rightarrow> go_error option \<times> 'w"
  nc_IsValid :: "'s \<Rightarrow> 'w \<Rightarrow> bool"
  nc_Unsubscribe :: "'s \<Rightarrow> 'w \<Rightarrow> 'w"
  nc_PublishMsg :: "string \<Rightarrow> string \<Rightarrow> 'w \<Rightarrow> go_error option \<times> 'w"
  nc_Close :: "'w \<Rightarrow> 'w"

definition IsConnected :: "('s, 'w) nats_conn option \<Rightarrow> 'w \<Rightarrow> bool" where
  "IsConnected conn w = (case conn of None \<Rightarrow> False | Some c \<Rightarrow> nc_IsConnected c w)"

section \<open>Subscribing and publishing\<close>

text \<open>The three ways to subscribe share their guards and their failure handling and differ in the queue
  group and the error texts.\<close>

definition subscribe_guarded ::
    "string \<Rightarrow> go_error \<Rightarrow> (go_error \<Rightarrow> go_error) \<Rightarrow> string option \<Rightarrow> ('s, 'w) nats_conn option \<Rightarrow> string \<Rightarrow>
     ('s, 'c) MessagingRepository \<Rightarrow> 'w \<Rightarrow> go_error option \<times> ('s, 'c) MessagingRepository \<times> 'w" where
  "subscribe_guarded shutting_down unavailable failed queue conn subject r w =
     (if mr_isShuttingDown r then (Some (Errorf (Text shutting_down) [subject]), r, w)
      else if \<not> IsConnected conn w then (Some unavailable, r, w)
      else
        (case conn of
           None \<Rightarrow> (Some unavailable, r, w)
         | Some c \<Rightarrow>
             (case nc_Subscribe c subject queue w of
                (Inl err, w1) \<Rightarrow> (Some (failed err), r, w1)
              | (Inr sub, w1) \<Rightarrow>
                  (case nc_SetPendingLimits c sub (mr_pendingMsgLimit r) (mr_pendingBytesLimit r) w1 of
                     (Some err, w2) \<Rightarrow>
                       (Some (Wrapf (Text (''failed to set pending limits on subscription '' @ subject)) err), r,
                        nc_Unsubscribe c sub w2)
                   | (None, w2) \<Rightarrow> (None, r\<lparr>mr_subscriptions := mr_subscriptions r @ [sub]\<rparr>, w2)))))"

definition Subscribe ::
    "('s, 'w) nats_conn option \<Rightarrow> string \<Rightarrow> ('s, 'c) MessagingRepository \<Rightarrow> 'w \<Rightarrow> go_error option \<times> ('s, 'c) MessagingRepository \<times> 'w" where
  "Subscribe conn subject = subscribe_guarded ''cannot subscribe to %s: repository is shutting down''
     (Errorf (Text ''cannot subscribe to %s: NATS connection not available'') [subject])
     (Wrapf (Text (''failed to subscribe to subject '' @ subject))) None conn subject"

definition QueueSubscribe ::
    "('s, 'w) nats_conn option \<Rightarrow> string \<Rightarrow> string \<Rightarrow> ('s, 'c) MessagingRepository \<Rightarrow> 'w \<Rightarrow> go_error option \<times> ('s, 'c) MessagingRepository \<times> 'w" where
  "QueueSubscribe conn subject queue = subscribe_guarded ''cannot queue subscribe to %s: repository is shutting down''
     (Errorf (Text ''cannot queue subscribe to %s: NATS connection not available'') [subject])
     (Wrapf (Text (''failed to queue subscribe to subject '' @ subject @ '' with queue '' @ queue))) (Some queue) conn subject"

definition QueueSubscribeWithReply ::
    "('s, 'w) nats_conn option \<Rightarrow> string \<Rightarrow> string \<Rightarrow> ('s, 'c) MessagingRepository \<Rightarrow> 'w \<Rightarrow> go_error option \<times> ('s, 'c) MessagingRepository \<times> 'w" where
  "QueueSubscribeWithReply conn subject queue = subscribe_guarded ''cannot queue subscribe with reply to %s: repository is shutting down''
     (Errorf (Text ''cannot queue subscribe with reply to %s: NATS connection not available'') [subject])
     (Wrapf (Text (''failed to queue subscribe with reply to subject '' @ subject @ '' with queue '' @ queue))) (Some queue) conn subject"

text \<open>The reply function of a message: there is one only when the message names a reply subject.\<close>

definition replyFunc :: "('s, 'w) nats_conn \<Rightarrow> string \<Rightarrow> (string \<Rightarrow> 'w \<Rightarrow> go_error option \<times> 'w) option" where
  "replyFunc c replySubject = (if replySubject = [] then None else Some (nc_PublishMsg c replySubject))"

definition Publish :: "('s, 'w) nats_conn option \<Rightarrow> string \<Rightarrow> string \<Rightarrow> 'w \<Rightarrow> go_error option \<times> 'w" where
  "Publish conn subject data w =
     (case conn of
        None \<Rightarrow> (Some (Errorf (Text ''NATS connection not available for publishing to subject %s'') [subject]), w)
      | Some c \<Rightarrow>
          if \<not> nc_IsConnected c w then (Some (Errorf (Text ''NATS connection not available for publishing to subject %s'') [subject]), w)
          else
            (case nc_PublishMsg c subject data w of
               (Some err, w') \<Rightarrow> (Some (Wrapf (Text (''failed to publish message to subject '' @ subject)) err), w')
             | (None, w') \<Rightarrow> (None, w')))"

section \<open>The consumer\<close>

record ConsumerConfig =
  cc_Name :: string
  cc_Durable :: string
  cc_FilterSubjects :: "string list"
  cc_MaxDeliver :: int
  cc_AckWait :: duration
  cc_MaxAckPending :: int

definition consumer_config :: "string list \<Rightarrow> ('s, 'c) MessagingRepository \<Rightarrow> ConsumerConfig" where
  "consumer_config filterSubjects r = \<lparr>cc_Name = ConsumerNameIndexer, cc_Durable = ConsumerNameIndexer,
     cc_FilterSubjects = filterSubjects, cc_MaxDeliver = 5, cc_AckWait = mr_ackWait r, cc_MaxAckPending = mr_maxAckPending r\<rparr>"

record ('k, 'c, 'w) jetstream =
  jt_New :: "'w \<Rightarrow> go_error option"
  jt_CreateOrUpdateConsumer :: "string \<Rightarrow> ConsumerConfig \<Rightarrow> 'w \<Rightarrow> (go_error + 'k) \<times> 'w"
  jt_Consume :: "'k \<Rightarrow> 'w \<Rightarrow> (go_error + 'c) \<times> 'w"
  jt_Stop :: "'c \<Rightarrow> 'w \<Rightarrow> 'w"

text \<open>The repository is read again under its lock after the consumer has started (\<open>current\<close>): a drain that
  began meanwhile has already taken the list of consumers, so the new one is stopped.\<close>

definition ConsumeWithJetStream ::
    "('k, 'c, 'w) jetstream \<Rightarrow> string \<Rightarrow> string list \<Rightarrow> ('w \<Rightarrow> ('s, 'c) MessagingRepository) \<Rightarrow> ('s, 'c) MessagingRepository \<Rightarrow> 'w
     \<Rightarrow> go_error option \<times> ('s, 'c) MessagingRepository \<times> 'w" where
  "ConsumeWithJetStream js streamName filterSubjects current r w =
     (case jt_New js w of
        Some err \<Rightarrow> (Some (Wrapf (Text ''failed to create JetStream client'') err), r, w)
      | None \<Rightarrow>
          (case jt_CreateOrUpdateConsumer js streamName (consumer_config filterSubjects r) w of
             (Inl err, w1) \<Rightarrow> (Some (Wrapf (Text (''failed to create JetStream consumer on stream '' @ streamName)) err), r, w1)
           | (Inr consumer, w1) \<Rightarrow>
               (case jt_Consume js consumer w1 of
                  (Inl err, w2) \<Rightarrow> (Some (Wrapf (Text ''failed to start JetStream consume loop'') err), r, w2)
                | (Inr ctx, w2) \<Rightarrow>
                    let r2 = current w2 in
                    if mr_isShuttingDown r2 then
                      (Some (Errorf (Text ''cannot start JetStream consumer on %s: messaging repository is shutting down'') [streamName]),
                       r2, jt_Stop js ctx w2)
                    else (None, r2\<lparr>mr_consumeContexts := mr_consumeContexts r2 @ [ctx]\<rparr>, w2))))"

datatype consume_error = ErrConsumerDeleted | ErrBadRequest | OtherConsumeError

text \<open>\<open>consumeErrHandler\<close> ends the process on an error from which the consumer does not recover.\<close>

definition consume_error_exits :: "consume_error \<Rightarrow> bool" where
  "consume_error_exits err = (err = ErrConsumerDeleted \<or> err = ErrBadRequest)"

section \<open>Redelivery delay\<close>

definition nakMaxBackoff :: duration where "nakMaxBackoff = 5 * Minute"
definition nakMaxExp :: nat where "nakMaxExp = 9"

text \<open>The number of deliveries is a \<open>uint64\<close>, so a count of zero wraps before the exponent is capped. The
  cap comes before the multiplication; \<open>rand.Int63n\<close> panics on an argument that is not positive, which
  is \<open>None\<close>.\<close>

definition nak_max_delay :: "64 word \<Rightarrow> duration" where
  "nak_max_delay numDelivered =
     (let exponent = min nakMaxExp (unat (numDelivered - 1));
          maxDelay = int64 (Second * 2 ^ exponent) in
      if maxDelay > nakMaxBackoff then nakMaxBackoff else maxDelay)"

definition nakDelay :: "(int \<Rightarrow> int) \<Rightarrow> 64 word option \<Rightarrow> duration option" where
  "nakDelay Int63n metadata =
     (case metadata of
        None \<Rightarrow> Some Second
      | Some numDelivered \<Rightarrow>
          let n = int64 (nak_max_delay numDelivered + 1) in
          if n \<le> 0 then None else Some (Int63n n))"

section \<open>Handlers and worker slots\<close>

text \<open>A message is handled by its own goroutine. A message of the durable consumer waits for a slot and
  watches its context; it takes the slot and then checks the context again. A message of a core
  subscription blocks for its slot. Slots are counted; the two wait groups count the goroutines that
  have not ended.\<close>

datatype source = Durable | Core

datatype phase = Queued | Holding | Running | Settled

datatype settle = InProgress nat | Handled nat "go_error option" | Ack nat | Nak nat | NakWithDelay nat duration

record pool =
  pl_capacity :: nat
  pl_slots :: nat
  pl_messages :: "(nat \<times> source \<times> phase) list"
  pl_ctxDone :: bool
  pl_log :: "settle list"

definition new_pool :: "('s, 'c) MessagingRepository \<Rightarrow> pool" where
  "new_pool r = \<lparr>pl_capacity = mr_sem r, pl_slots = 0, pl_messages = [], pl_ctxDone = False, pl_log = []\<rparr>"

definition set_phase :: "nat \<Rightarrow> phase \<Rightarrow> pool \<Rightarrow> pool" where
  "set_phase i p s = s\<lparr>pl_messages := map (\<lambda>(j, k, q). if j = i then (j, k, p) else (j, k, q)) (pl_messages s)\<rparr>"

definition log_call :: "settle list \<Rightarrow> pool \<Rightarrow> pool" where
  "log_call calls s = s\<lparr>pl_log := pl_log s @ calls\<rparr>"

definition take_slot :: "nat \<Rightarrow> pool \<Rightarrow> pool" where
  "take_slot i s = set_phase i Holding (s\<lparr>pl_slots := pl_slots s + 1\<rparr>)"

definition release_slot :: "nat \<Rightarrow> pool \<Rightarrow> pool" where
  "release_slot i s = set_phase i Settled (s\<lparr>pl_slots := pl_slots s - 1\<rparr>)"

text \<open>What a finished handler of a durable message is answered with.\<close>

definition settle_calls :: "source \<Rightarrow> nat \<Rightarrow> duration \<Rightarrow> go_error option \<Rightarrow> settle list" where
  "settle_calls k i delay err =
     (case k of
        Core \<Rightarrow> []
      | Durable \<Rightarrow> (case err of None \<Rightarrow> [Ack i] | Some _ \<Rightarrow> [NakWithDelay i delay]))"

inductive pool_step :: "(int \<Rightarrow> int) \<Rightarrow> pool \<Rightarrow> pool \<Rightarrow> bool" for Int63n where
  deliver: "i \<notin> fst ` set (pl_messages s) \<Longrightarrow>
    pool_step Int63n s (s\<lparr>pl_messages := pl_messages s @ [(i, k, Queued)]\<rparr>)"
| cancel: "pool_step Int63n s (s\<lparr>pl_ctxDone := True\<rparr>)"
| heartbeat: "(i, Durable, Queued) \<in> set (pl_messages s) \<Longrightarrow> pool_step Int63n s (log_call [InProgress i] s)"
| abandon: "(i, Durable, Queued) \<in> set (pl_messages s) \<Longrightarrow> pl_ctxDone s \<Longrightarrow>
    pool_step Int63n s (log_call [Nak i] (set_phase i Settled s))"
| acquire: "(i, k, Queued) \<in> set (pl_messages s) \<Longrightarrow> pl_slots s < pl_capacity s \<Longrightarrow>
    pool_step Int63n s (take_slot i s)"
| start: "(i, k, Holding) \<in> set (pl_messages s) \<Longrightarrow> k = Core \<or> \<not> pl_ctxDone s \<Longrightarrow>
    pool_step Int63n s (log_call (if beat \<and> k = Durable then [InProgress i] else []) (set_phase i Running s))"
| give_back: "(i, Durable, Holding) \<in> set (pl_messages s) \<Longrightarrow> pl_ctxDone s \<Longrightarrow>
    pool_step Int63n s (log_call [Nak i] (release_slot i s))"
| finish: "(i, k, Running) \<in> set (pl_messages s) \<Longrightarrow> nakDelay Int63n metadata = Some delay \<Longrightarrow>
    pool_step Int63n s (log_call (Handled i err # settle_calls k i delay err) (release_slot i s))"

inductive pool_reachable :: "(int \<Rightarrow> int) \<Rightarrow> ('s, 'c) MessagingRepository \<Rightarrow> pool \<Rightarrow> bool" for Int63n r where
  initial: "pool_reachable Int63n r (new_pool r)"
| step: "pool_reachable Int63n r s \<Longrightarrow> pool_step Int63n s s' \<Longrightarrow> pool_reachable Int63n r s'"

text \<open>The counters of the wait groups.\<close>

definition jsWg :: "pool \<Rightarrow> nat" where
  "jsWg s = length (filter (\<lambda>(_, k, p). k = Durable \<and> p \<noteq> Settled) (pl_messages s))"

definition wg :: "pool \<Rightarrow> nat" where
  "wg s = length (filter (\<lambda>(_, _, p). p \<noteq> Settled) (pl_messages s))"

section \<open>Draining\<close>

text \<open>An event the drain waits for happens never, or at a time; the flag says whether it is seen when the
  timer is due at the same moment, where \<open>select\<close> may take either case.\<close>

datatype event = Never | At int bool

text \<open>Waiting from \<open>now\<close> until the event or the deadline: whether it timed out, and the time after.\<close>

definition await :: "int \<Rightarrow> int \<Rightarrow> event \<Rightarrow> bool \<times> int" where
  "await now deadline ev =
     (case ev of
        Never \<Rightarrow> (True, max now deadline)
      | At t seen \<Rightarrow>
          if (now < deadline \<and> t < deadline) \<or> (t \<le> max now deadline \<and> seen) then (False, max now t)
          else (True, max now deadline))"

definition waitForHandlers :: "int \<Rightarrow> int \<Rightarrow> event \<Rightarrow> bool \<times> int" where
  "waitForHandlers now deadline idle = (if deadline \<le> now then (False, now) else await now deadline idle)"

definition waitForJetStreamWorkers :: "int \<Rightarrow> int \<Rightarrow> event \<Rightarrow> bool \<times> int" where
  "waitForJetStreamWorkers now deadline idle = (if deadline \<le> now then (True, now) else await now deadline idle)"

text \<open>The first phase: stop each consumer and wait until it is closed, as long as there is time. The
  result has the number of consumers that were stopped.\<close>

fun stop_consumers :: "int \<Rightarrow> int \<Rightarrow> event list \<Rightarrow> nat \<times> int" where
  "stop_consumers now deadline [] = (0, now)"
| "stop_consumers now deadline (closed # rest) =
     (if deadline \<le> now then (0, now)
      else (case stop_consumers (snd (await now deadline closed)) deadline rest of (n, t) \<Rightarrow> (n + 1, t)))"

datatype conn_state = NilConn | ClosedConn | DrainingConn | OpenConn "go_error option"

record drain_events =
  de_closed :: "event list"      \<comment> \<open>the consumers, once stopped\<close>
  de_jsIdle :: event             \<comment> \<open>no goroutine of the consumer is left\<close>
  de_connClosed :: event
  de_idle :: event               \<comment> \<open>no handler goroutine is left\<close>

definition drain_error :: "(duration \<Rightarrow> string) \<Rightarrow> duration \<Rightarrow> bool \<Rightarrow> bool \<Rightarrow> bool \<Rightarrow> go_error option" where
  "drain_error fmt timeout jsWorkersTimedOut drainTimedOut handlersTimedOut =
     (if jsWorkersTimedOut \<and> drainTimedOut \<and> handlersTimedOut then
        Some (Errorf (Text ''JetStream worker wait, NATS drain, and handler wait all timed out after %s'') [fmt timeout])
      else if jsWorkersTimedOut \<and> drainTimedOut then
        Some (Errorf (Text ''JetStream worker wait and NATS drain both timed out after %s'') [fmt timeout])
      else if jsWorkersTimedOut \<and> handlersTimedOut then
        Some (Errorf (Text ''JetStream worker wait and handler wait both timed out after %s'') [fmt timeout])
      else if drainTimedOut \<and> handlersTimedOut then
        Some (Errorf (Text ''NATS drain and in-flight handler wait both timed out after %s'') [fmt timeout])
      else if jsWorkersTimedOut then
        Some (Errorf (Text ''timed out waiting for in-flight JetStream workers to finish after %s'') [fmt timeout])
      else if drainTimedOut then Some (Errorf (Text ''NATS drain timed out after %s'') [fmt timeout])
      else if handlersTimedOut then
        Some (Errorf (Text ''NATS drain completed but timed out waiting for in-flight handlers to finish'') [])
      else None)"

record drain_result =
  dr_error :: "go_error option"
  dr_finished :: int
  dr_stopped :: nat
  dr_drained_at :: "int option"      \<comment> \<open>when \<open>conn.Drain\<close> was called\<close>

definition DrainWithTimeout ::
    "(duration \<Rightarrow> string) \<Rightarrow> conn_state \<Rightarrow> drain_events \<Rightarrow> int \<Rightarrow> ('s, 'c) MessagingRepository
     \<Rightarrow> drain_result \<times> ('s, 'c) MessagingRepository" where
  "DrainWithTimeout fmt conn ev now r =
     (let timeout = mr_drainTimeout r;
          deadline = now + timeout;
          r' = r\<lparr>mr_isShuttingDown := True, mr_consumeContexts := []\<rparr>;
          (stopped, t1) = stop_consumers now deadline (de_closed ev);
          (jsWorkersTimedOut, t2) = waitForJetStreamWorkers t1 deadline (de_jsIdle ev);
          done = (\<lambda>err t drained. (\<lparr>dr_error = err, dr_finished = t, dr_stopped = stopped, dr_drained_at = drained\<rparr>, r')) in
      (case conn of
         NilConn \<Rightarrow> done None (snd (waitForHandlers t2 deadline (de_idle ev))) None
       | ClosedConn \<Rightarrow> done None (snd (waitForHandlers t2 deadline (de_idle ev))) None
       | DrainingConn \<Rightarrow>
           (case await t2 deadline (de_connClosed ev) of
              (True, t3) \<Rightarrow> done (Some (Errorf (Text ''timed out waiting for ongoing NATS drain after %s'') [fmt timeout])) t3 None
            | (False, t3) \<Rightarrow> done None (snd (waitForHandlers t3 deadline (de_idle ev))) None)
       | OpenConn (Some err) \<Rightarrow> done (Some (Wrapf (Text ''failed to drain NATS connection'') err)) t2 (Some t2)
       | OpenConn None \<Rightarrow>
           (let (drainTimedOut, t3) = await t2 deadline (de_connClosed ev);
                (handlersTimedOut, t4) = waitForHandlers t3 deadline (de_idle ev) in
            done (drain_error fmt timeout jsWorkersTimedOut drainTimedOut handlersTimedOut) t4 (Some t2))))"

text \<open>\<open>Close\<close>: a drain first unless one was started, then every valid subscription is cancelled and an open
  connection is closed; the drain's error is only logged.\<close>

definition Close ::
    "(duration \<Rightarrow> string) \<Rightarrow> ('s, 'w) nats_conn option \<Rightarrow> conn_state \<Rightarrow> drain_events \<Rightarrow> int \<Rightarrow> ('s, 'c) MessagingRepository \<Rightarrow> 'w
     \<Rightarrow> ('s, 'c) MessagingRepository \<times> 'w" where
  "Close fmt conn cstate ev now r w =
     (let r1 = (if mr_isShuttingDown r then r else snd (DrainWithTimeout fmt cstate ev now r)) in
      case conn of
        None \<Rightarrow> (r1\<lparr>mr_subscriptions := []\<rparr>, w)
      | Some c \<Rightarrow>
          let w1 = fold (\<lambda>sub w. if nc_IsValid c sub w then nc_Unsubscribe c sub w else w) (mr_subscriptions r1) w in
          (r1\<lparr>mr_subscriptions := []\<rparr>, if nc_IsClosed c w1 then w1 else nc_Close c w1))"

section \<open>Health and delegation\<close>

definition MessagingHealthCheck :: "('s, 'w) nats_conn option \<Rightarrow> 'w \<Rightarrow> go_error option" where
  "MessagingHealthCheck conn w =
     (case conn of
        None \<Rightarrow> Some (Errorf (Text ''health check failed: NATS connection is nil'') [])
      | Some c \<Rightarrow>
          if \<not> nc_IsConnected c w then Some (Errorf (Text ''health check failed: NATS connection is not connected'') [])
          else if \<not> nc_connected_status c w then Some (Errorf (Text ''health check failed: NATS connection status is not connected'') [])
          else None)"

definition MessagingValidateToken :: "(string \<Rightarrow> go_error + Principal) option \<Rightarrow> string \<Rightarrow> go_error + Principal" where
  "MessagingValidateToken authRepo token =
     (case authRepo of None \<Rightarrow> fail (Text ErrAuthRepoNotConfigured) | Some validate \<Rightarrow> validate token)"

definition MessagingParsePrincipals ::
    "(string gomap \<Rightarrow> go_error + Principal list) option \<Rightarrow> string gomap \<Rightarrow> go_error + Principal list" where
  "MessagingParsePrincipals authRepo headers =
     (case authRepo of None \<Rightarrow> fail (Text ErrAuthRepoNotConfigured) | Some parse \<Rightarrow> parse headers)"

section \<open>Delay bounds\<close>

lemma nak_max_delay_bounds: "Second \<le> nak_max_delay n" "nak_max_delay n \<le> 5 * Minute"
  "1 \<le> unat n \<Longrightarrow> nak_max_delay n \<le> Second * 2 ^ (unat n - 1)"
proof -
  define e where "e = min nakMaxExp (unat (n - 1))"
  have "e \<le> 9" by (simp add: e_def nakMaxExp_def)
  then have pow: "1 \<le> (2::int) ^ e" "(2::int) ^ e \<le> 2 ^ 9" by (simp, intro power_increasing) simp_all
  then have "0 \<le> Second * 2 ^ e" "Second * 2 ^ e \<le> Second * 512" by simp_all
  moreover have "(512::int) * Second < 2 ^ 63" by simp
  ultimately have "in_int64 (Second * 2 ^ e)" unfolding in_int64_def by linarith
  then have "int64 (Second * 2 ^ e) = Second * 2 ^ e" by (rule int64_id)
  then have eq: "nak_max_delay n = min (Second * 2 ^ e) (5 * Minute)"
    unfolding nak_max_delay_def Let_def e_def [symmetric] nakMaxBackoff_def by (auto simp: min_def)
  show "Second \<le> nak_max_delay n" "nak_max_delay n \<le> 5 * Minute" using pow unfolding eq by simp_all
  assume "1 \<le> unat n"
  then have "unat (n - 1) = unat n - 1" by (metis One_nat_def unat_1 unat_sub word_le_nat_alt)
  then have "(2::int) ^ e \<le> 2 ^ (unat n - 1)" by (simp add: e_def)
  then have "Second * 2 ^ e \<le> Second * 2 ^ (unat n - 1)" by linarith
  then show "nak_max_delay n \<le> Second * 2 ^ (unat n - 1)" unfolding eq by (rule min.coboundedI1)
qed

lemma nakDelay_cases:
  "nakDelay Int63n metadata =
     Some (case metadata of None \<Rightarrow> Second | Some n \<Rightarrow> Int63n (nak_max_delay n + 1))"
proof (cases metadata)
  case (Some n)
  have "int64 (nak_max_delay n + 1) = nak_max_delay n + 1"
    using nak_max_delay_bounds(1,2) [of n] by (intro int64_id) (simp add: in_int64_def)
  then show ?thesis using nak_max_delay_bounds(1) [of n] Some by (simp add: nakDelay_def Let_def)
qed (simp add: nakDelay_def)

section \<open>The pool\<close>

definition busy :: "nat \<times> source \<times> phase \<Rightarrow> bool" where
  "busy m = (snd (snd m) = Holding \<or> snd (snd m) = Running)"

fun call_id :: "settle \<Rightarrow> nat" where
  "call_id (InProgress i) = i" | "call_id (Handled i _) = i" | "call_id (Ack i) = i" | "call_id (Nak i) = i"
| "call_id (NakWithDelay i _) = i"

fun is_heartbeat :: "settle \<Rightarrow> bool" where
  "is_heartbeat (InProgress _) = True" | "is_heartbeat _ = False"

text \<open>What was done for message \<open>i\<close>, heartbeats aside.\<close>

definition outcome :: "nat \<Rightarrow> settle list \<Rightarrow> settle list" where
  "outcome i calls = filter (\<lambda>c. call_id c = i \<and> \<not> is_heartbeat c) calls"

definition settled_ok :: "pool \<Rightarrow> nat \<Rightarrow> source \<Rightarrow> settle list \<Rightarrow> bool" where
  "settled_ok s i k calls =
     (case k of
        Core \<Rightarrow> \<exists>err. calls = [Handled i err]
      | Durable \<Rightarrow> calls = [Nak i] \<and> pl_ctxDone s \<or> calls = [Handled i None, Ack i] \<or>
          (\<exists>err delay. calls = [Handled i (Some err), NakWithDelay i delay] \<and> 0 \<le> delay \<and> delay \<le> 5 * Minute))"

definition message_ok :: "pool \<Rightarrow> nat \<times> source \<times> phase \<Rightarrow> bool" where
  "message_ok s m = (case m of (i, k, p) \<Rightarrow>
     if p = Settled then settled_ok s i k (outcome i (pl_log s)) else outcome i (pl_log s) = [])"

definition pool_inv :: "nat \<Rightarrow> pool \<Rightarrow> bool" where
  "pool_inv capacity s = (pl_capacity s = capacity \<and> distinct (map fst (pl_messages s)) \<and>
     pl_slots s = length (filter busy (pl_messages s)) \<and> pl_slots s \<le> capacity \<and>
     call_id ` set (pl_log s) \<subseteq> fst ` set (pl_messages s) \<and> list_all (message_ok s) (pl_messages s))"

lemma settled_ok_ctx: "pl_ctxDone s' = pl_ctxDone s \<Longrightarrow> settled_ok s' i k calls = settled_ok s i k calls"
  by (cases k) (simp_all add: settled_ok_def)

lemma outcome_simps [simp]:
  "outcome i [] = []" "outcome i (xs @ ys) = outcome i xs @ outcome i ys"
  "outcome i (c # cs) = (if call_id c = i \<and> \<not> is_heartbeat c then c # outcome i cs else outcome i cs)"
  by (simp_all add: outcome_def)

lemma outcome_other: "i \<notin> call_id ` set calls \<Longrightarrow> outcome i calls = []"
  by (auto simp: outcome_def filter_empty_conv)

text \<open>A step changes the phase of one message and appends to the log calls for this message only.\<close>

lemma phase_split:
  assumes "distinct (map fst ms)" "(i, k, p) \<in> set ms"
  shows "\<exists>xs ys. ms = xs @ (i, k, p) # ys \<and> i \<notin> fst ` set (xs @ ys) \<and>
    map (\<lambda>(j, k, q). if j = i then (j, k, p') else (j, k, q)) ms = xs @ (i, k, p') # ys"
proof -
  obtain xs ys where ms: "ms = xs @ (i, k, p) # ys" using assms(2) by (meson split_list)
  then have i: "i \<notin> fst ` set xs" "i \<notin> fst ` set ys" using assms(1) by auto
  then have "map (\<lambda>(j, k, q). if j = i then (j, k, p') else (j, k, q)) xs = xs"
    "map (\<lambda>(j, k, q). if j = i then (j, k, p') else (j, k, q)) ys = ys"
    by (force intro!: map_idI)+
  then show ?thesis using ms i by auto
qed

lemma pool_inv_update:
  assumes inv: "pool_inv c s" and m: "(i, k, p) \<in> set (pl_messages s)"
    and slots: "pl_slots s' + (if busy (i, k, p) then 1 else 0) = pl_slots s + (if busy (i, k, p') then 1 else 0)"
      "pl_slots s' \<le> c"
    and s': "pl_capacity s' = c" "pl_messages s' = pl_messages (set_phase i p' s)" "pl_log s' = pl_log s @ calls"
      "pl_ctxDone s' = pl_ctxDone s"
    and calls: "\<And>x. x \<in> set calls \<Longrightarrow> call_id x = i"
    and ok: "if p' = Settled then settled_ok s i k (outcome i (pl_log s) @ outcome i calls) else outcome i (pl_log s) @ outcome i calls = []"
  shows "pool_inv c s'"
proof -
  obtain xs ys where ms: "pl_messages s = xs @ (i, k, p) # ys" "i \<notin> fst ` set (xs @ ys)"
    "pl_messages s' = xs @ (i, k, p') # ys"
    using phase_split [of "pl_messages s" i k p p'] inv m s'(2) by (auto simp: pool_inv_def set_phase_def)
  have other: "message_ok s' m'" if "m' \<in> set (xs @ ys)" for m'
  proof -
    have "fst m' \<noteq> i" using that ms(2) by (metis imageI)
    then have "outcome (fst m') calls = []" using calls by (intro outcome_other) auto
    moreover have "message_ok s m'" using inv that ms(1) by (auto simp: pool_inv_def list_all_iff)
    ultimately show ?thesis using s' settled_ok_ctx [OF s'(4)] by (cases m') (simp add: message_ok_def)
  qed
  have "message_ok s' (i, k, p')"
    using ok s' settled_ok_ctx [OF s'(4)] by (simp add: message_ok_def)
  then have "list_all (message_ok s') (pl_messages s')"
    using other ms(3) by (auto simp: list_all_iff)
  moreover have "distinct (map fst (pl_messages s'))" "fst ` set (pl_messages s') = fst ` set (pl_messages s)"
    using inv ms by (auto simp: pool_inv_def)
  moreover have "pl_slots s' = length (filter busy (pl_messages s'))"
    using inv slots ms by (simp add: pool_inv_def split: if_splits)
  moreover have "call_id ` set (pl_log s') \<subseteq> fst ` set (pl_messages s)"
    using inv s' calls ms by (auto simp: pool_inv_def)
  ultimately show ?thesis using slots(2) s'(1) by (simp add: pool_inv_def)
qed

lemma pool_inv_ok: "pool_inv c s \<Longrightarrow> (i, k, p) \<in> set (pl_messages s) \<Longrightarrow> p \<noteq> Settled \<Longrightarrow> outcome i (pl_log s) = []"
  by (auto simp: pool_inv_def message_ok_def list_all_iff)

lemma pool_inv_slot: "pool_inv c s \<Longrightarrow> (i, k, p) \<in> set (pl_messages s) \<Longrightarrow> busy (i, k, p) \<Longrightarrow> 0 < pl_slots s"
  by (auto simp: pool_inv_def filter_empty_conv)

lemmas pool_ops = set_phase_def log_call_def take_slot_def release_slot_def

lemma settle_calls_ids: "x \<in> set (Handled i err # settle_calls k i delay err) \<Longrightarrow> call_id x = i"
  by (auto simp: settle_calls_def split: source.splits option.splits)

lemma settle_calls_ok:
  "0 \<le> delay \<Longrightarrow> delay \<le> 5 * Minute \<Longrightarrow> settled_ok s i k (outcome i (Handled i err # settle_calls k i delay err))"
  by (cases k; cases err) (auto simp: settled_ok_def settle_calls_def)

definition random_below :: "(int \<Rightarrow> int) \<Rightarrow> bool" where
  "random_below Int63n = (\<forall>n > 0. 0 \<le> Int63n n \<and> Int63n n < n)"

lemma nakDelay_bounds:
  assumes "random_below Int63n" "nakDelay Int63n metadata = Some delay"
  shows "0 \<le> delay" "delay \<le> 5 * Minute"
  using assms nak_max_delay_bounds [of "the metadata"]
  by (auto simp: nakDelay_cases random_below_def split: option.splits dest!: spec [of _ "nak_max_delay (the metadata) + 1"])

lemma pool_inv_step:
  assumes "random_below Int63n" "pool_step Int63n s s'" "pool_inv c s"
  shows "pool_inv c s'"
  using assms(2,3)
proof (induction rule: pool_step.induct)
  case (deliver i s k)
  have "outcome i (pl_log s) = []" using deliver by (intro outcome_other) (auto simp: pool_inv_def)
  moreover have same: "message_ok (s\<lparr>pl_messages := ms\<rparr>) = message_ok s" for ms
    by (rule ext) (simp add: message_ok_def settled_ok_ctx [of "s\<lparr>pl_messages := ms\<rparr>" s] split: prod.split)
  ultimately have "message_ok (s\<lparr>pl_messages := ms\<rparr>) (i, k, Queued)" for ms by (simp add: message_ok_def)
  then show ?case using deliver same by (auto simp: pool_inv_def busy_def)
next
  case (cancel s)
  have "message_ok (s\<lparr>pl_ctxDone := True\<rparr>) m" if "message_ok s m" for m
    using that by (auto simp: message_ok_def settled_ok_def split: prod.splits if_splits source.splits)
  then show ?case using cancel by (auto simp: pool_inv_def list_all_iff)
next
  case (heartbeat i s)
  have same: "pl_messages (set_phase i Queued s) = pl_messages s"
    using phase_split [of "pl_messages s" i Durable Queued Queued] heartbeat by (auto simp: pool_inv_def set_phase_def)
  have "pl_capacity s = c" "pl_slots s \<le> c" using heartbeat(2) by (simp_all add: pool_inv_def)
  then show ?case using pool_inv_ok [OF heartbeat(2,1)]
    by (intro pool_inv_update [OF heartbeat(2,1), of _ Queued "[InProgress i]"]) (simp_all add: log_call_def same)
next
  case (abandon i s)
  then show ?case using pool_inv_ok [OF abandon(3,1)]
    by (intro pool_inv_update [OF abandon(3,1), of _ Settled "[Nak i]"])
       (auto simp: pool_ops pool_inv_def busy_def settled_ok_def)
next
  case (acquire i k s)
  then show ?case using pool_inv_ok [OF acquire(3,1)]
    by (intro pool_inv_update [OF acquire(3,1), of _ Holding "[]"]) (auto simp: pool_ops pool_inv_def busy_def)
next
  case (start i k s beat)
  then show ?case using pool_inv_ok [OF start(3,1)]
    by (intro pool_inv_update [OF start(3,1), of _ Running "if beat \<and> k = Durable then [InProgress i] else []"])
       (auto simp: pool_ops pool_inv_def busy_def)
next
  case (give_back i s)
  then show ?case using pool_inv_ok [OF give_back(3,1)] pool_inv_slot [OF give_back(3,1)]
    by (intro pool_inv_update [OF give_back(3,1), of _ Settled "[Nak i]"])
       (auto simp: pool_ops pool_inv_def busy_def settled_ok_def)
next
  case (finish i k s metadata delay err)
  have "settled_ok s i k (outcome i (pl_log s) @ outcome i (Handled i err # settle_calls k i delay err))"
    using pool_inv_ok [OF finish(3,1)] settle_calls_ok nakDelay_bounds [OF assms(1) finish(2)] by simp
  then show ?case using pool_inv_slot [OF finish(3,1)] settle_calls_ids [of _ i err k delay] finish(3)
    by (intro pool_inv_update [OF finish(3,1), of _ Settled "Handled i err # settle_calls k i delay err"])
       (auto simp: pool_ops pool_inv_def busy_def)
qed

lemma pool_inv_reachable:
  assumes "random_below Int63n" "pool_reachable Int63n r s"
  shows "pool_inv (mr_sem r) s"
  using assms(2)
proof (induction rule: pool_reachable.induct)
  case initial
  show ?case by (simp add: new_pool_def pool_inv_def)
qed (rule pool_inv_step [OF assms(1)])

section \<open>The pool drains\<close>

text \<open>The steps that are left to a message.\<close>

fun phase_weight :: "phase \<Rightarrow> nat" where
  "phase_weight Queued = 3" | "phase_weight Holding = 2" | "phase_weight Running = 1" | "phase_weight Settled = 0"

definition pool_weight :: "pool \<Rightarrow> nat" where
  "pool_weight s = sum_list (map (\<lambda>(_, _, p). phase_weight p) (pl_messages s))"

text \<open>Of two states, the second has the same messages and fewer steps left.\<close>

definition advances :: "pool \<Rightarrow> pool \<Rightarrow> bool" where
  "advances s s' \<longleftrightarrow> map fst (pl_messages s') = map fst (pl_messages s) \<and> pool_weight s' < pool_weight s"

lemma set_phase_advances:
  assumes "distinct (map fst (pl_messages s))" "(i, k, p) \<in> set (pl_messages s)" "phase_weight p' < phase_weight p"
    and "pl_messages s' = pl_messages (set_phase i p' s)"
  shows "advances s s'"
proof -
  obtain xs ys where ms: "pl_messages s = xs @ (i, k, p) # ys" "pl_messages s' = xs @ (i, k, p') # ys"
    using phase_split [OF assms(1,2), of p'] assms(4) by (auto simp: set_phase_def)
  then show ?thesis using assms(3) by (simp add: advances_def pool_weight_def)
qed

lemma pool_progress:
  assumes "pool_inv c s" "0 < c" "(i, k, p) \<in> set (pl_messages s)" "p \<noteq> Settled"
  shows "\<exists>s'. pool_step Int63n s s' \<and> advances s s'"
proof -
  have d: "distinct (map fst (pl_messages s))" using assms(1) by (simp add: pool_inv_def)
  note settle_defs = log_call_def release_slot_def take_slot_def set_phase_def
  consider (running) j l where "(j, l, Running) \<in> set (pl_messages s)" | (holding) j l where "(j, l, Holding) \<in> set (pl_messages s)"
    | (idle) "p = Queued" "filter busy (pl_messages s) = []"
  proof (cases "filter busy (pl_messages s) = []")
    case True
    then show thesis using that(3) assms(3,4) by (cases p) (auto simp: filter_empty_conv busy_def)
  next
    case False
    then show thesis using that(1,2) by (auto simp: filter_empty_conv busy_def)
  qed
  then show ?thesis
  proof cases
    case running
    have "nakDelay Int63n None = Some Second" by (simp add: nakDelay_def)
    from pool_step.finish [OF running this, of None] show ?thesis
      using set_phase_advances [OF d running, of Settled] by (auto simp: settle_defs)
  next
    case holding
    show ?thesis
    proof (cases "l = Core \<or> \<not> pl_ctxDone s")
      case True
      from pool_step.start [OF holding this, of Int63n False] show ?thesis
        using set_phase_advances [OF d holding, of Running] by (auto simp: settle_defs)
    next
      case False
      then have "(j, Durable, Holding) \<in> set (pl_messages s)" "pl_ctxDone s" using holding by (cases l; simp)+
      from pool_step.give_back [OF this, of Int63n] show ?thesis
        using set_phase_advances [OF d holding, of Settled] by (auto simp: settle_defs)
    qed
  next
    case idle
    have "(i, k, Queued) \<in> set (pl_messages s)" "pl_slots s < pl_capacity s" using idle assms(1-3) by (auto simp: pool_inv_def)
    from pool_step.acquire [OF this, of Int63n] show ?thesis
      using set_phase_advances [OF d assms(3), of Holding] idle(1) by (auto simp: settle_defs)
  qed
qed

text \<open>Only a delivery adds steps: heartbeats and the cancellation keep them, every other step takes one away.\<close>

lemma pool_drains:
  assumes "random_below Int63n" "pool_inv c s" "0 < c"
  shows "\<exists>s'. (pool_step Int63n)\<^sup>*\<^sup>* s s' \<and> pool_inv c s' \<and> map fst (pl_messages s') = map fst (pl_messages s) \<and>
    list_all (\<lambda>(_, _, p). p = Settled) (pl_messages s')"
  using assms(2)
proof (induction "pool_weight s" arbitrary: s rule: less_induct)
  case less
  show ?case
  proof (cases "list_all (\<lambda>(_, _, p). p = Settled) (pl_messages s)")
    case True
    then show ?thesis using less.prems by blast
  next
    case False
    then obtain i k p where "(i, k, p) \<in> set (pl_messages s)" "p \<noteq> Settled" by (auto simp: list_all_iff)
    from pool_progress [OF less.prems assms(3) this, of Int63n]
    obtain s1 where s1: "pool_step Int63n s s1" "map fst (pl_messages s1) = map fst (pl_messages s)" "pool_weight s1 < pool_weight s"
      by (auto simp: advances_def)
    then show ?thesis
      using less.hyps [OF s1(3) pool_inv_step [OF assms(1) s1(1) less.prems]] by (metis converse_rtranclp_into_rtranclp)
  qed
qed

section \<open>Drain times\<close>

lemma await_bounds: "now \<le> snd (await now deadline ev)" "snd (await now deadline ev) \<le> max now deadline"
  "fst (await now deadline ev) \<Longrightarrow> deadline \<le> snd (await now deadline ev)"
  by (auto simp: await_def split: event.split)

lemma await_in_time:
  "\<not> fst (await now deadline ev) \<Longrightarrow> \<exists>t seen. ev = At t seen \<and> t \<le> max now deadline"
  by (auto simp: await_def split: event.splits if_splits)

lemma waits_bounds:
  "now \<le> snd (waitForHandlers now deadline ev)" "snd (waitForHandlers now deadline ev) \<le> max now deadline"
  "now \<le> snd (waitForJetStreamWorkers now deadline ev)" "snd (waitForJetStreamWorkers now deadline ev) \<le> max now deadline"
  "fst (waitForJetStreamWorkers now deadline ev) \<Longrightarrow> deadline \<le> snd (waitForJetStreamWorkers now deadline ev)"
  "deadline \<le> now \<Longrightarrow> \<not> fst (waitForHandlers now deadline ev)"
  using await_bounds [of now deadline ev] by (auto simp: waitForHandlers_def waitForJetStreamWorkers_def)

lemma stop_consumers_times:
  "now \<le> snd (stop_consumers now deadline evs) \<and> snd (stop_consumers now deadline evs) \<le> max now deadline \<and>
   fst (stop_consumers now deadline evs) \<le> length evs \<and>
   (fst (stop_consumers now deadline evs) = length evs \<or> deadline \<le> snd (stop_consumers now deadline evs))"
proof (induction evs arbitrary: now)
  case (Cons ev evs)
  from Cons [of "snd (await now deadline ev)"] await_bounds(1,2) [of now deadline ev]
  show ?case by (simp add: split_beta) linarith
qed simp

lemmas stop_consumers_bounds = stop_consumers_times [THEN conjunct1] stop_consumers_times [THEN conjunct2, THEN conjunct1]
  stop_consumers_times [THEN conjunct2, THEN conjunct2, THEN conjunct2]

text \<open>The times of the phases, in order.\<close>

lemma drain_phases:
  assumes "stop_consumers now deadline evs = (stopped, t1)" "waitForJetStreamWorkers t1 deadline js = (jsOut, t2)"
    "await t2 deadline closed = (drainOut, t3)" "waitForHandlers t3 deadline idle = (idleOut, t4)"
  shows "now \<le> t1" "t1 \<le> t2" "t2 \<le> t3" "t3 \<le> t4" "t4 \<le> max now deadline"
    "stopped = length evs \<or> deadline \<le> t1" "jsOut \<Longrightarrow> deadline \<le> t2" "drainOut \<Longrightarrow> deadline \<le> t3" "deadline \<le> t3 \<Longrightarrow> \<not> idleOut"
    "\<not> jsOut \<Longrightarrow> t1 < deadline" "\<not> jsOut \<Longrightarrow> \<exists>t seen. js = At t seen \<and> t \<le> deadline"
    "\<not> drainOut \<Longrightarrow> \<exists>t seen. closed = At t seen \<and> t \<le> max t2 deadline"
    "\<not> idleOut \<Longrightarrow> deadline \<le> t3 \<or> (\<exists>t seen. idle = At t seen \<and> t \<le> deadline)"
proof -
  show t1: "now \<le> t1" and t2: "t1 \<le> t2" and t3: "t2 \<le> t3" and t4: "t3 \<le> t4"
    using stop_consumers_bounds(1) [of now deadline evs] waits_bounds(3) [of t1 deadline js] await_bounds(1) [of t2 deadline closed]
      waits_bounds(1) [of t3 deadline idle] assms by simp_all
  have "t1 \<le> max now deadline" "t2 \<le> max t1 deadline" "t3 \<le> max t2 deadline" "t4 \<le> max t3 deadline"
    using stop_consumers_bounds(2) [of now deadline evs] waits_bounds(4) [of t1 deadline js] await_bounds(2) [of t2 deadline closed]
      waits_bounds(2) [of t3 deadline idle] assms by simp_all
  then show "t4 \<le> max now deadline" by linarith
  show "stopped = length evs \<or> deadline \<le> t1"
    using stop_consumers_bounds(3) [of now deadline evs] assms(1) by simp
  show "jsOut \<Longrightarrow> deadline \<le> t2" "drainOut \<Longrightarrow> deadline \<le> t3" "deadline \<le> t3 \<Longrightarrow> \<not> idleOut"
    using waits_bounds(5) [of t1 deadline js] await_bounds(3) [of t2 deadline closed] waits_bounds(6) [of deadline t3 idle] assms
    by simp_all
  show "\<not> jsOut \<Longrightarrow> t1 < deadline" using assms(2) by (auto simp: waitForJetStreamWorkers_def split: if_splits)
  show "\<not> jsOut \<Longrightarrow> \<exists>t seen. js = At t seen \<and> t \<le> deadline"
    using assms(2) await_in_time [of t1 deadline js] by (auto simp: waitForJetStreamWorkers_def max_def split: if_splits)
  show "\<not> drainOut \<Longrightarrow> \<exists>t seen. closed = At t seen \<and> t \<le> max t2 deadline"
    using assms(3) await_in_time [of t2 deadline closed] by simp
  show "\<not> idleOut \<Longrightarrow> deadline \<le> t3 \<or> (\<exists>t seen. idle = At t seen \<and> t \<le> deadline)"
    using assms(4) await_in_time [of t3 deadline idle] by (auto simp: waitForHandlers_def max_def split: if_splits)
qed

section \<open>Properties\<close>

text \<open>The delay before a redelivery always exists: the argument of the random number is positive whatever
  the delivery count, zero included, and nothing overflows. The delay is at most five minutes, and at
  most \<open>2 ^ (n - 1)\<close> seconds after \<open>n\<close> deliveries.\<close>

theorem nakDelay_bounded:
  assumes "random_below Int63n"
  shows "\<exists>delay. nakDelay Int63n metadata = Some delay \<and> 0 \<le> delay \<and> delay \<le> 5 * Minute \<and>
    (case metadata of None \<Rightarrow> delay = Second | Some n \<Rightarrow> n = 0 \<or> delay \<le> Second * 2 ^ (unat n - 1))"
proof -
  obtain delay where d: "nakDelay Int63n metadata = Some delay" using nakDelay_cases by blast
  have "n = 0 \<or> delay \<le> Second * 2 ^ (unat n - 1)" if "metadata = Some n" for n
  proof (cases "n = 0")
    case False
    then have "1 \<le> unat n" by (simp add: Suc_leI unat_gt_0)
    moreover have "delay \<le> nak_max_delay n"
      using d that assms [unfolded random_below_def, rule_format, of "nak_max_delay n + 1"] nak_max_delay_bounds(1) [of n]
      by (simp add: nakDelay_cases)
    ultimately show ?thesis using nak_max_delay_bounds(3) [of n] by linarith
  qed simp
  then show ?thesis using d nakDelay_bounds [OF assms d] by (auto simp: nakDelay_cases split: option.split)
qed

text \<open>C23: in every interleaving of deliveries, handlers and cancellation, the busy messages are as many as the
  taken slots and at most as many as workers; a message that is not settled has had no answer; a
  settled message of the consumer has had exactly one answer: a negative one without running when the
  context ended, an acknowledgement after its handler succeeded, or a delayed negative one after its
  handler failed.\<close>

theorem worker_pool_invariant:
  assumes "random_below Int63n" "pool_reachable Int63n r s"
  shows "pl_slots s = length (filter busy (pl_messages s)) \<and> pl_slots s \<le> mr_sem r \<and>
    list_all (\<lambda>(i, k, p). if p = Settled then settled_ok s i k (outcome i (pl_log s)) else outcome i (pl_log s) = []) (pl_messages s)"
  using pool_inv_reachable [OF assms] by (simp add: pool_inv_def message_ok_def [abs_def])

text \<open>C24: the pool never gets stuck: with at least one worker, from every reachable state the messages that were delivered can all be
  settled without a further delivery; then no slot is taken and both wait groups are done.\<close>

theorem worker_pool_drains:
  assumes "random_below Int63n" "pool_reachable Int63n r s" "0 < mr_sem r"
  shows "\<exists>s'. (pool_step Int63n)\<^sup>*\<^sup>* s s' \<and> map fst (pl_messages s') = map fst (pl_messages s) \<and>
    list_all (\<lambda>(_, _, p). p = Settled) (pl_messages s') \<and> pl_slots s' = 0 \<and> jsWg s' = 0 \<and> wg s' = 0"
proof -
  obtain s' where "(pool_step Int63n)\<^sup>*\<^sup>* s s'" "pool_inv (mr_sem r) s'" "map fst (pl_messages s') = map fst (pl_messages s)"
    "list_all (\<lambda>(_, _, p). p = Settled) (pl_messages s')"
    using pool_drains [OF assms(1) pool_inv_reachable [OF assms(1,2)] assms(3)] by blast
  moreover from this have "pl_slots s' = 0" "jsWg s' = 0" "wg s' = 0"
    by (auto simp: pool_inv_def jsWg_def wg_def filter_empty_conv list_all_iff busy_def)
  ultimately show ?thesis by blast
qed


text \<open>The handler wait is never reported as timed out together with another wait: once the deadline has
  passed it returns at once without a timeout, so three of the drain's error messages cannot occur.\<close>

theorem drain_handler_timeout_hidden:
  "dr_error (fst (DrainWithTimeout fmt (OpenConn None) ev now r)) \<notin> Some ` {
     Errorf (Text ''JetStream worker wait, NATS drain, and handler wait all timed out after %s'') [fmt (mr_drainTimeout r)],
     Errorf (Text ''JetStream worker wait and handler wait both timed out after %s'') [fmt (mr_drainTimeout r)],
     Errorf (Text ''NATS drain and in-flight handler wait both timed out after %s'') [fmt (mr_drainTimeout r)]}"
proof -
  define deadline where "deadline = now + mr_drainTimeout r"
  obtain stopped t1 jsOut t2 drainOut t3 idleOut t4 where p:
    "stop_consumers now deadline (de_closed ev) = (stopped, t1)" "waitForJetStreamWorkers t1 deadline (de_jsIdle ev) = (jsOut, t2)"
    "await t2 deadline (de_connClosed ev) = (drainOut, t3)" "waitForHandlers t3 deadline (de_idle ev) = (idleOut, t4)"
    by (metis surj_pair)
  have "dr_error (fst (DrainWithTimeout fmt (OpenConn None) ev now r)) = drain_error fmt (mr_drainTimeout r) jsOut drainOut idleOut"
    using p by (simp add: DrainWithTimeout_def Let_def deadline_def [symmetric])
  moreover have "\<not> (idleOut \<and> (jsOut \<or> drainOut))"
    using drain_phases(3,7,8,9) [OF p] by linarith
  ultimately show ?thesis
    by (cases jsOut; cases drainOut; cases idleOut) (simp_all add: drain_error_def)
qed

section \<open>Witnesses\<close>

definition sample_repo :: "(unit, unit) MessagingRepository" where
  "sample_repo = NewMessagingRepository (55 * Second) 1000 1000 2 0 0"

lemma sample_random: "random_below (\<lambda>n. n - 1)"
  by (simp add: random_below_def)

theorem nakDelay_bounded_witness: "\<exists>delay. nakDelay (\<lambda>n. n - 1) (Some 0) = Some delay \<and> 0 \<le> delay \<and> delay \<le> 5 * Minute"
  using nakDelay_bounded [OF sample_random, of "Some 0"] by blast

definition sample_pool :: pool where
  "sample_pool = take_slot 7 ((new_pool sample_repo)\<lparr>pl_messages := pl_messages (new_pool sample_repo) @ [(7, Durable, Queued)]\<rparr>)"

lemma sample_pool_reachable: "pool_reachable (\<lambda>n. n - 1) sample_repo sample_pool"
proof -
  have "pool_reachable (\<lambda>n. n - 1) sample_repo ((new_pool sample_repo)\<lparr>pl_messages := pl_messages (new_pool sample_repo) @ [(7, Durable, Queued)]\<rparr>)"
    by (rule pool_reachable.step [OF pool_reachable.initial pool_step.deliver]) (simp add: new_pool_def)
  then show ?thesis unfolding sample_pool_def
    by (rule pool_reachable.step [OF _ pool_step.acquire [of 7 Durable]])
       (simp_all add: new_pool_def sample_repo_def NewMessagingRepository_def)
qed

theorem worker_pool_invariant_witness: "pl_slots sample_pool = length (filter busy (pl_messages sample_pool)) \<and> pl_slots sample_pool \<le> mr_sem sample_repo"
  using worker_pool_invariant [OF sample_random sample_pool_reachable] by blast

theorem worker_pool_drains_witness:
  "\<exists>s'. (pool_step (\<lambda>n. n - 1))\<^sup>*\<^sup>* sample_pool s' \<and> pl_slots s' = 0 \<and> wg s' = 0"
proof -
  have "0 < mr_sem sample_repo" by (simp add: sample_repo_def NewMessagingRepository_def DefaultWorkerCount_def Let_def)
  from worker_pool_drains [OF sample_random sample_pool_reachable this] show ?thesis by blast
qed

definition sample_events :: drain_events where
  "sample_events = \<lparr>de_closed = [At 2 True], de_jsIdle = At 5 True, de_connClosed = At 6 True, de_idle = At 7 True\<rparr>"


end
