(* ===== verification/Cleanup.thy ===== *)
theory Cleanup
  imports Storage Go_Strings
begin

text \<open>
  internal/infrastructure/cleanup/cleanup_repository.go: the janitor. One worker takes object
  references from a bounded queue, looks for several documents of an object that are marked as
  latest, and demotes all but one of them with optimistic locking. The search and the update are the
  requests of the storage repository; what the worker, the delayed retries, the callers and the
  shutdown do to the queue is a step relation.
\<close>

section \<open>Requests\<close>

definition janitorMaxDuplicates :: nat where "janitorMaxDuplicates = 100"
definition janitorMaxVisibilityRetries :: nat where "janitorMaxVisibilityRetries = 12"
definition janitorCapacity :: nat where "janitorCapacity = 50"

record janitorRequest =
  jr_objectRef :: string
  jr_requireAuditedCanonical :: bool
  jr_visibilityAttempts :: nat

text \<open>The three members of a document that decide a conflict. \<open>json.Marshal\<close> writes the members of the
  source in the order of their keys, and \<open>json.Unmarshal\<close> matches keys up to case: the last match
  counts, \<open>null\<close> clears the field, another type is an error.\<close>

record TransactionBodyStub =
  ts_CreatedAt :: "string option"
  ts_UpdatedAt :: "string option"
  ts_DeletedAt :: "string option"

fun stub_value :: "json \<Rightarrow> string option option" where
  "stub_value (JStr s) = Some (Some s)"
| "stub_value JNull = Some None"
| "stub_value _ = None"

definition decode_stub_member :: "string \<times> json \<Rightarrow> TransactionBodyStub option \<Rightarrow> TransactionBodyStub option" where
  "decode_stub_member kv acc = Option.bind acc (\<lambda>b.
     if equal_fold (fst kv) ''created_at'' then map_option (\<lambda>v. b\<lparr>ts_CreatedAt := v\<rparr>) (stub_value (snd kv))
     else if equal_fold (fst kv) ''updated_at'' then map_option (\<lambda>v. b\<lparr>ts_UpdatedAt := v\<rparr>) (stub_value (snd kv))
     else if equal_fold (fst kv) ''deleted_at'' then map_option (\<lambda>v. b\<lparr>ts_DeletedAt := v\<rparr>) (stub_value (snd kv))
     else Some b)"

definition decode_stub :: "json gomap \<Rightarrow> TransactionBodyStub option" where
  "decode_stub source = fold decode_stub_member (sort_key fst source)
     (Some \<lparr>ts_CreatedAt = None, ts_UpdatedAt = None, ts_DeletedAt = None\<rparr>)"

text \<open>A pointer to a string that is neither nil nor empty.\<close>

definition present :: "string option \<Rightarrow> string option" where
  "present p = (case p of Some s \<Rightarrow> (if s = [] then None else Some s) | None \<Rightarrow> None)"

section \<open>The winner of a conflict\<close>

definition audited_canonical :: "string \<Rightarrow> VersionedDocument \<Rightarrow> bool" where
  "audited_canonical objectRef doc =
     (vd_ID doc = objectRef \<and> field (vd_Source doc) ''audit_source_revision'' \<noteq> JNull)"

fun legacy_winner :: "VersionedDocument list \<Rightarrow> string \<Rightarrow> string \<Rightarrow> string" where
  "legacy_winner [] winningID winningUpdatedAt = winningID"
| "legacy_winner (doc # docs) winningID winningUpdatedAt =
     (case decode_stub (vd_Source doc) of
        None \<Rightarrow> legacy_winner docs winningID winningUpdatedAt
      | Some hitBody \<Rightarrow>
          if present (ts_DeletedAt hitBody) \<noteq> None then vd_ID doc
          else
            (case present (ts_UpdatedAt hitBody) of
               Some updatedAt \<Rightarrow>
                 if winningID = [] \<or> winningUpdatedAt < updatedAt
                 then legacy_winner docs (vd_ID doc) updatedAt
                 else legacy_winner docs winningID winningUpdatedAt
             | None \<Rightarrow> legacy_winner docs winningID winningUpdatedAt))"

definition winning_id :: "string \<Rightarrow> VersionedDocument list \<Rightarrow> string" where
  "winning_id objectRef docs =
     (if list_ex (audited_canonical objectRef) docs then objectRef else legacy_winner docs [] [])"

section \<open>Processing one request\<close>

record 'w janitor_env =
  je_search :: "string \<Rightarrow> json gomap \<Rightarrow> 'w \<Rightarrow> VersionedDocument list option reply"
  je_update :: "string \<Rightarrow> string \<Rightarrow> string \<Rightarrow> string \<Rightarrow> int option \<Rightarrow> int option \<Rightarrow> 'w \<Rightarrow> unit reply \<times> 'w"
  je_index :: string

definition sort_desc :: "string \<Rightarrow> string \<Rightarrow> json" where
  "sort_desc name unmapped = JObj [(name, JObj [(''order'', JStr ''desc''), (''missing'', JStr ''_last''),
     (''unmapped_type'', JStr unmapped)])]"

definition janitor_query :: "string \<Rightarrow> json gomap" where
  "janitor_query objectRef = [
     (''size'', JNum ''101''),
     (''seq_no_primary_term'', JBool True),
     (''sort'', JArr [sort_desc ''audit_source_revision'' ''long'', sort_desc ''deleted_at'' ''date'',
        sort_desc ''updated_at'' ''date'']),
     (''_source'', JArr (map JStr [''created_at'', ''updated_at'', ''deleted_at'', ''audit_source_revision''])),
     (''query'', JObj [(''bool'', JObj [(''must'', JArr [
        JObj [(''term'', JObj [(''object_ref'', JStr objectRef)])],
        JObj [(''term'', JObj [(''latest'', JBool True)])]])])])]"

definition latest_body :: "bool \<Rightarrow> string" where
  \<open>latest_body latest = ''{"doc":{"latest":'' @ (if latest then ''true'' else ''false'') @ ''}}''\<close>

definition updateLatestFlag :: "'w janitor_env \<Rightarrow> VersionedDocument \<Rightarrow> bool \<Rightarrow> 'w \<Rightarrow> go_error option \<times> 'w" where
  "updateLatestFlag env doc latest w =
     UpdateWithOptimisticLock (je_update env) False (je_index env) (vd_ID doc) (latest_body latest)
       (Some \<lparr>ou_SeqNo = vd_SeqNo doc, ou_PrimaryTerm = vd_PrimaryTerm doc\<rparr>) w"

text \<open>The loop over the losers: it stops at the first version conflict and passes over other errors.
  The result says whether there was a conflict.\<close>

fun demote :: "'w janitor_env \<Rightarrow> string \<Rightarrow> VersionedDocument list \<Rightarrow> 'w \<Rightarrow> bool \<times> 'w" where
  "demote env winningID [] w = (False, w)"
| "demote env winningID (doc # docs) w =
     (if vd_ID doc = winningID then demote env winningID docs w
      else
        (case updateLatestFlag env doc False w of
           (Some err, w') \<Rightarrow> if is_version_conflict err then (True, w') else demote env winningID docs w'
         | (None, w') \<Rightarrow> demote env winningID docs w'))"

datatype janitor_result = Skipped | Failed | RetryScheduled | ConflictResolved

text \<open>The request that \<open>asyncRetry\<close> schedules, if any, is part of the result.\<close>

definition processItemWithPolicy ::
    "'w janitor_env \<Rightarrow> janitorRequest \<Rightarrow> 'w \<Rightarrow> janitor_result \<times> janitorRequest option \<times> 'w" where
  "processItemWithPolicy env request w =
     (let objectRef = jr_objectRef request in
      if objectRef = [] then (Skipped, None, w)
      else
        (case SearchWithVersions (je_search env) (je_index env) (janitor_query objectRef) w of
           Inl _ \<Rightarrow> (Failed, None, w)
         | Inr found \<Rightarrow>
             let docs = take janitorMaxDuplicates found in
             if jr_requireAuditedCanonical request \<and> \<not> list_ex (audited_canonical objectRef) docs then
               (if jr_visibilityAttempts request \<ge> janitorMaxVisibilityRetries then (Failed, None, w)
                else (RetryScheduled, Some (request\<lparr>jr_visibilityAttempts := jr_visibilityAttempts request + 1\<rparr>), w))
             else if length docs \<le> 1 then (Skipped, None, w)
             else
               let winningID = winning_id objectRef docs in
               if winningID = [] then (Skipped, None, w)
               else
                 (case demote env winningID docs w of
                    (conflict, w') \<Rightarrow> (ConflictResolved, if conflict then Some request else None, w'))))"

definition processItem :: "'w janitor_env \<Rightarrow> string option \<Rightarrow> 'w \<Rightarrow> janitor_result \<times> janitorRequest option \<times> 'w" where
  "processItem env objectRef w =
     (case objectRef of
        None \<Rightarrow> (Skipped, None, w)
      | Some r \<Rightarrow> processItemWithPolicy env
          \<lparr>jr_objectRef = r, jr_requireAuditedCanonical = False, jr_visibilityAttempts = 0\<rparr> w)"

section \<open>The queue, the worker and the retries\<close>

record janitor_state =
  js_queue :: "janitorRequest list"
  js_overflows :: nat
  js_retries :: "janitorRequest list"
  js_isRunning :: bool
  js_shutdown :: bool
  js_ctxDone :: bool
  js_itemsProcessed :: nat
  js_itemsSkipped :: nat
  js_conflictsResolved :: nat
  js_errors :: nat

definition NewCleanupRepository :: janitor_state where
  "NewCleanupRepository = \<lparr>js_queue = [], js_overflows = 0, js_retries = [], js_isRunning = False,
     js_shutdown = False, js_ctxDone = False, js_itemsProcessed = 0, js_itemsSkipped = 0,
     js_conflictsResolved = 0, js_errors = 0\<rparr>"

definition queueItem :: "janitorRequest \<Rightarrow> janitor_state \<Rightarrow> janitor_state" where
  "queueItem request s =
     (if jr_objectRef request = [] then s
      else if length (js_queue s) < janitorCapacity then s\<lparr>js_queue := js_queue s @ [request]\<rparr>
      else s\<lparr>js_overflows := js_overflows s + 1\<rparr>)"

definition CheckItem :: "string \<Rightarrow> janitor_state \<Rightarrow> janitor_state" where
  "CheckItem objectRef = queueItem \<lparr>jr_objectRef = objectRef, jr_requireAuditedCanonical = False, jr_visibilityAttempts = 0\<rparr>"

definition CheckAuditedItem :: "string \<Rightarrow> janitor_state \<Rightarrow> janitor_state" where
  "CheckAuditedItem objectRef = queueItem \<lparr>jr_objectRef = objectRef, jr_requireAuditedCanonical = True, jr_visibilityAttempts = 0\<rparr>"

text \<open>The counters belong to the goroutine, so a restarted worker begins at zero.\<close>

definition StartItemLoop :: "janitor_state \<Rightarrow> janitor_state" where
  "StartItemLoop s =
     (if js_isRunning s then s
      else s\<lparr>js_isRunning := True, js_itemsProcessed := 0, js_itemsSkipped := 0, js_conflictsResolved := 0, js_errors := 0\<rparr>)"

text \<open>\<open>Shutdown\<close> closes the channel of a running worker; closing it a second time panics, which is
  \<open>None\<close>. It returns once the worker and the retries have ended.\<close>

definition Shutdown :: "janitor_state \<Rightarrow> janitor_state option" where
  "Shutdown s =
     (if \<not> js_isRunning s then Some s
      else if js_shutdown s then None
      else Some (s\<lparr>js_shutdown := True\<rparr>))"

definition shutdown_returns :: "janitor_state \<Rightarrow> bool" where
  "shutdown_returns s = (\<not> js_isRunning s \<and> js_retries s = [])"

text \<open>The switch of the loop over the result of one request.\<close>

definition count_result :: "janitor_result \<Rightarrow> janitor_state \<Rightarrow> janitor_state" where
  "count_result r s =
     (case r of
        Skipped \<Rightarrow> s\<lparr>js_itemsSkipped := js_itemsSkipped s + 1\<rparr>
      | ConflictResolved \<Rightarrow> s\<lparr>js_conflictsResolved := js_conflictsResolved s + 1\<rparr>
      | Failed \<Rightarrow> s\<lparr>js_errors := js_errors s + 1\<rparr>
      | RetryScheduled \<Rightarrow> s)"

definition asyncRetry :: "janitorRequest option \<Rightarrow> janitor_state \<Rightarrow> janitor_state" where
  "asyncRetry retry s = (case retry of None \<Rightarrow> s | Some r \<Rightarrow> s\<lparr>js_retries := js_retries s @ [r]\<rparr>)"

text \<open>The delay in seconds, from a random number below five, or two when none can be drawn.\<close>

definition retryDelay :: "nat option \<Rightarrow> nat" where
  "retryDelay randomDelay = 5 + (case randomDelay of Some n \<Rightarrow> n | None \<Rightarrow> 2)"

definition receive_item :: "janitor_result \<Rightarrow> janitorRequest option \<Rightarrow> janitorRequest list \<Rightarrow> janitor_state \<Rightarrow> janitor_state" where
  "receive_item result retry rest s =
     count_result result (asyncRetry retry (s\<lparr>js_queue := rest, js_itemsProcessed := js_itemsProcessed s + 1\<rparr>))"

text \<open>One step. The index is shared with every other writer, so each request meets an arbitrary state of
  the cluster. A step is labelled with what happened: a request that ended without a version conflict,
  one that met a conflict, a retry that fired or was cancelled, or a call from outside.\<close>

datatype janitor_label = Worked | Conflicted | Retried | Canceled | Called

inductive janitor_step :: "'w janitor_env \<Rightarrow> janitor_label \<Rightarrow> janitor_state \<Rightarrow> janitor_state \<Rightarrow> bool" for env where
  check: "janitor_step env Called s (CheckItem r s)"
| check_audited: "janitor_step env Called s (CheckAuditedItem r s)"
| start: "janitor_step env Called s (StartItemLoop s)"
| signal: "Shutdown s = Some s' \<Longrightarrow> janitor_step env Called s s'"
| ctx_done: "janitor_step env Called s (s\<lparr>js_ctxDone := True\<rparr>)"
| stop: "js_isRunning s \<Longrightarrow> js_shutdown s \<or> js_ctxDone s \<Longrightarrow> janitor_step env Called s (s\<lparr>js_isRunning := False\<rparr>)"
| work: "js_isRunning s \<Longrightarrow> js_queue s = request # rest \<Longrightarrow> processItemWithPolicy env request w = (result, retry, w') \<Longrightarrow>
    janitor_step env (if result = ConflictResolved \<and> retry \<noteq> None then Conflicted else Worked) s
      (receive_item result retry rest s)"
| retry: "js_retries s = rs @ request # rs' \<Longrightarrow>
    janitor_step env Retried s (queueItem request (s\<lparr>js_retries := rs @ rs'\<rparr>))"
| cancel: "js_retries s = rs @ request # rs' \<Longrightarrow> js_shutdown s \<or> js_ctxDone s \<Longrightarrow>
    janitor_step env Canceled s (s\<lparr>js_retries := rs @ rs'\<rparr>)"

inductive janitor_reachable :: "'w janitor_env \<Rightarrow> janitor_state \<Rightarrow> bool" for env where
  initial: "janitor_reachable env NewCleanupRepository"
| step: "janitor_reachable env s \<Longrightarrow> janitor_step env label s s' \<Longrightarrow> janitor_reachable env s'"

section \<open>Reports\<close>

text \<open>The queue holds fifty requests, so its utilization in percent is twice its length.\<close>

definition queueUtilization :: "janitor_state \<Rightarrow> nat" where
  "queueUtilization s = 2 * length (js_queue s)"

definition getHealthStatus :: "nat \<Rightarrow> bool \<Rightarrow> string" where
  "getHealthStatus utilization isRunning =
     (if \<not> isRunning then ''stopped''
      else if utilization > 90 then ''critical''
      else if utilization > 70 then ''warning''
      else ''healthy'')"

definition safeLogString :: "string option \<Rightarrow> string" where
  "safeLogString p =
     (case p of
        None \<Rightarrow> ''<nil>''
      | Some s \<Rightarrow>
          if s = [] then ''<empty>''
          else if length s > 50 then take 47 s @ ''...''
          else s)"

section \<open>Which document wins\<close>

definition deleted_at :: "VersionedDocument \<Rightarrow> string option" where
  "deleted_at doc = Option.bind (decode_stub (vd_Source doc)) (\<lambda>b. present (ts_DeletedAt b))"

definition updated_at :: "VersionedDocument \<Rightarrow> string option" where
  "updated_at doc = Option.bind (decode_stub (vd_Source doc)) (\<lambda>b. present (ts_UpdatedAt b))"

text \<open>No update time, or one that a later time \<open>u\<close> bounds.\<close>

definition older :: "string \<Rightarrow> VersionedDocument \<Rightarrow> bool" where
  "older u doc = (case updated_at doc of None \<Rightarrow> True | Some u' \<Rightarrow> u' < u)"

definition not_newer :: "string \<Rightarrow> VersionedDocument \<Rightarrow> bool" where
  "not_newer u doc = (case updated_at doc of None \<Rightarrow> True | Some u' \<Rightarrow> u' \<le> u)"

lemma not_newer_None: "updated_at d = None \<Longrightarrow> not_newer u d"
  by (simp add: not_newer_def)

lemma not_newer_Some: "updated_at d = Some u \<Longrightarrow> not_newer v d \<longleftrightarrow> u \<le> v"
  by (simp add: not_newer_def)

lemma legacy_winner_Cons:
  "legacy_winner (doc # docs) w t =
     (if deleted_at doc \<noteq> None then vd_ID doc
      else case updated_at doc of
        Some u \<Rightarrow> if w = [] \<or> t < u then legacy_winner docs (vd_ID doc) u else legacy_winner docs w t
      | None \<Rightarrow> legacy_winner docs w t)"
  by (auto simp: deleted_at_def updated_at_def split: option.splits)

declare legacy_winner.simps(2) [simp del]

lemma legacy_winner_deleted:
  "find (\<lambda>d. deleted_at d \<noteq> None) docs = Some d \<Longrightarrow> legacy_winner docs w t = vd_ID d"
  by (induction docs arbitrary: w t) (auto simp: legacy_winner_Cons split: if_splits option.splits)

lemma legacy_winner_in: "legacy_winner docs w t \<in> insert w (vd_ID ` set docs)"
proof (induction docs arbitrary: w t)
  case (Cons doc docs)
  have "legacy_winner docs (vd_ID doc) u \<in> insert w (vd_ID ` set (doc # docs))"
    "legacy_winner docs w t \<in> insert w (vd_ID ` set (doc # docs))" for u
    using Cons.IH [of "vd_ID doc" u] Cons.IH [of w t] by auto
  then show ?case by (simp add: legacy_winner_Cons split: option.split)
qed simp

text \<open>The document \<open>x\<close> has the latest update time, the first of them when several have it, and the
  time satisfies \<open>P\<close>.\<close>

definition newest :: "(string \<Rightarrow> bool) \<Rightarrow> string \<Rightarrow> VersionedDocument list \<Rightarrow> bool" where
  "newest P x docs = (\<exists>ds d ds' u. docs = ds @ d # ds' \<and> x = vd_ID d \<and> updated_at d = Some u \<and> P u \<and>
     list_all (older u) ds \<and> list_all (not_newer u) ds')"

lemma newest_here:
  "updated_at d = Some u \<Longrightarrow> P u \<Longrightarrow> list_all (not_newer u) docs \<Longrightarrow> newest P (vd_ID d) (d # docs)"
  unfolding newest_def by (rule exI [of _ "[]"]) auto

lemma newest_later:
  assumes "newest Q x docs" "\<And>u. Q u \<Longrightarrow> P u \<and> older u d"
  shows "newest P x (d # docs)"
proof -
  obtain ds e ds' u where "docs = ds @ e # ds' \<and> x = vd_ID e \<and> updated_at e = Some u \<and> Q u \<and>
     list_all (older u) ds \<and> list_all (not_newer u) ds'"
    using assms(1) unfolding newest_def by blast
  then show ?thesis using assms(2) [of u] unfolding newest_def by (intro exI [of _ "d # ds"]) auto
qed

lemma legacy_winner_newest:
  assumes "list_all (\<lambda>d. deleted_at d = None \<and> vd_ID d \<noteq> []) docs"
  shows "legacy_winner docs w t = w \<and> (if w = [] then list_all (\<lambda>d. updated_at d = None) docs else list_all (not_newer t) docs)
    \<or> newest (\<lambda>u. w = [] \<or> t < u) (legacy_winner docs w t) docs"
  using assms
proof (induction docs arbitrary: w t)
  case (Cons doc docs)
  have ok: "deleted_at doc = None" "vd_ID doc \<noteq> []" and IH: "\<And>w t. legacy_winner docs w t = w \<and>
      (if w = [] then list_all (\<lambda>d. updated_at d = None) docs else list_all (not_newer t) docs)
    \<or> newest (\<lambda>u. w = [] \<or> t < u) (legacy_winner docs w t) docs"
    using Cons by simp_all
  show ?case
  proof (cases "updated_at doc")
    case None
    have "newest P x docs \<Longrightarrow> newest P x (doc # docs)" for P x
      by (erule newest_later) (simp add: older_def None)
    then show ?thesis using IH [of w t] None ok(1) not_newer_None [OF None] by (auto simp: legacy_winner_Cons split: if_splits)
  next
    case (Some u)
    show ?thesis
    proof (cases "w = [] \<or> t < u")
      case True
      have "newest (\<lambda>v. vd_ID doc = [] \<or> u < v) x docs \<Longrightarrow> newest (\<lambda>v. w = [] \<or> t < v) x (doc # docs)" for x
        by (erule newest_later) (use True ok(2) in \<open>auto simp: older_def Some\<close>)
      then show ?thesis using IH [of "vd_ID doc" u] True Some ok newest_here [of doc u "\<lambda>v. w = [] \<or> t < v" docs]
        by (auto simp: legacy_winner_Cons)
    next
      case False
      have "newest (\<lambda>v. w = [] \<or> t < v) x docs \<Longrightarrow> newest (\<lambda>v. w = [] \<or> t < v) x (doc # docs)" for x
        by (erule newest_later) (use False in \<open>auto simp: older_def Some\<close>)
      then show ?thesis using IH [of w t] False Some ok(1) not_newer_Some [OF Some, of t]
        by (auto simp: legacy_winner_Cons)
    qed
  qed
qed simp

lemma winning_id_in: "winning_id r docs \<noteq> [] \<Longrightarrow> winning_id r docs \<in> vd_ID ` set docs"
  using legacy_winner_in [of docs "[]" "[]"]
  by (auto simp: winning_id_def list_ex_iff audited_canonical_def split: if_splits)

section \<open>What one request changes\<close>

text \<open>A cluster that records the updates it is sent: document, body, sequence number and primary term.\<close>

type_synonym update_log = "(string \<times> string \<times> int option \<times> int option) list"

definition logging_env ::
    "(json gomap \<Rightarrow> VersionedDocument list option reply) \<Rightarrow> (string \<Rightarrow> update_log \<Rightarrow> unit reply) \<Rightarrow> string \<Rightarrow> update_log janitor_env" where
  "logging_env found answer idx = \<lparr>je_search = \<lambda>_ query _. found query,
     je_update = \<lambda>_ docID body _ seq term log. (answer docID log, log @ [(docID, body, seq, term)]), je_index = idx\<rparr>"

definition demotion :: "VersionedDocument \<Rightarrow> string \<times> string \<times> int option \<times> int option" where
  "demotion doc = (vd_ID doc, latest_body False, vd_SeqNo doc, vd_PrimaryTerm doc)"

lemma updateLatestFlag_log:
  "snd (updateLatestFlag (logging_env found answer idx) doc False log) = log @ [demotion doc]"
  by (simp add: updateLatestFlag_def UpdateWithOptimisticLock_def logging_env_def demotion_def split: reply.split)

lemma demote_log:
  assumes "demote (logging_env found answer idx) x docs log = (conflict, log')"
  shows "if conflict then \<exists>n. log' = log @ map demotion (take n (filter (\<lambda>d. vd_ID d \<noteq> x) docs))
    else log' = log @ map demotion (filter (\<lambda>d. vd_ID d \<noteq> x) docs)"
  using assms
proof (induction docs arbitrary: log)
  case (Cons doc docs)
  show ?case
  proof (cases "vd_ID doc = x")
    case False
    obtain err log1 where u: "updateLatestFlag (logging_env found answer idx) doc False log = (err, log1)"
      by (cases "updateLatestFlag (logging_env found answer idx) doc False log") auto
    then have log1: "log1 = log @ [demotion doc]" using updateLatestFlag_log by (metis snd_conv)
    have IH: ?thesis if "demote (logging_env found answer idx) x docs log1 = (conflict, log')"
      using Cons.IH [OF that] False log1
      by (auto intro: exI [of _ "Suc n" for n] simp: map_filter_simps split: if_splits)
    show ?thesis
    proof (cases "\<exists>e. err = Some e \<and> is_version_conflict e")
      case True
      then have "conflict" "log' = log1" using Cons.prems u False by auto
      then show ?thesis using log1 False by (auto intro: exI [of _ "Suc 0"])
    next
      case False': False
      then have "demote (logging_env found answer idx) x docs log1 = (conflict, log')"
        using Cons.prems u False by (cases err) auto
      then show ?thesis by (rule IH)
    qed
  qed (use Cons in simp)
qed simp

section \<open>Invariant of the queue\<close>

definition request_ok :: "janitorRequest \<Rightarrow> bool" where
  "request_ok r = (jr_objectRef r \<noteq> [] \<and> jr_visibilityAttempts r \<le> janitorMaxVisibilityRetries \<and>
     (jr_requireAuditedCanonical r \<or> jr_visibilityAttempts r = 0))"

definition janitor_inv :: "janitor_state \<Rightarrow> bool" where
  "janitor_inv s = (length (js_queue s) \<le> janitorCapacity \<and> list_all request_ok (js_queue s @ js_retries s) \<and>
     js_itemsSkipped s + js_conflictsResolved s + js_errors s \<le> js_itemsProcessed s)"

lemma queueItem_inv: "janitor_inv s \<Longrightarrow> jr_objectRef r = [] \<or> request_ok r \<Longrightarrow> janitor_inv (queueItem r s)"
  by (auto simp: queueItem_def janitor_inv_def request_ok_def)

lemma CheckItem_inv: "janitor_inv s \<Longrightarrow> janitor_inv (CheckItem r s)" "janitor_inv s \<Longrightarrow> janitor_inv (CheckAuditedItem r s)"
  unfolding CheckItem_def CheckAuditedItem_def by (erule queueItem_inv, simp add: request_ok_def)+

lemma StartItemLoop_inv: "janitor_inv s \<Longrightarrow> janitor_inv (StartItemLoop s)"
  by (simp add: StartItemLoop_def janitor_inv_def)

lemma Shutdown_inv: "Shutdown s = Some s' \<Longrightarrow> janitor_inv s \<Longrightarrow> janitor_inv s'"
  by (auto simp: Shutdown_def janitor_inv_def split: if_splits)

lemma processItem_resolved:
  assumes "processItemWithPolicy env request w = (ConflictResolved, retry, w')"
  shows "\<exists>hits conflict. SearchWithVersions (je_search env) (je_index env) (janitor_query (jr_objectRef request)) w = Inr hits \<and>
    winning_id (jr_objectRef request) (take 100 hits) \<noteq> [] \<and>
    demote env (winning_id (jr_objectRef request) (take 100 hits)) (take 100 hits) w = (conflict, w') \<and>
    retry = (if conflict then Some request else None)"
  using assms by (auto simp: processItemWithPolicy_def Let_def janitorMaxDuplicates_def split: if_splits sum.splits prod.splits)

lemma processItem_unresolved:
  "processItemWithPolicy env request w = (result, retry, w') \<Longrightarrow> result \<noteq> ConflictResolved \<Longrightarrow> w' = w"
  by (auto simp: processItemWithPolicy_def Let_def split: if_splits sum.splits prod.splits)

lemma processItem_retry:
  assumes "processItemWithPolicy env request w = (result, Some retry, w')"
  shows "(result = ConflictResolved \<and> retry = request) \<or>
    (result = RetryScheduled \<and> jr_requireAuditedCanonical request \<and>
     jr_visibilityAttempts request < janitorMaxVisibilityRetries \<and>
     retry = request\<lparr>jr_visibilityAttempts := jr_visibilityAttempts request + 1\<rparr>)"
  using assms by (auto simp: processItemWithPolicy_def Let_def split: if_splits sum.splits prod.splits)

lemma receive_item_inv:
  assumes "janitor_inv s" "js_queue s = request # rest" "processItemWithPolicy env request w = (result, retry, w')"
  shows "janitor_inv (receive_item result retry rest s)"
proof -
  have "request_ok r" if "retry = Some r" for r
    using processItem_retry [OF assms(3) [unfolded that]] assms(1,2)
    by (auto simp: janitor_inv_def request_ok_def)
  then show ?thesis using assms(1,2)
    by (cases result; cases retry) (auto simp: receive_item_def count_result_def asyncRetry_def janitor_inv_def)
qed

lemma janitor_inv_step: "janitor_step env label s s' \<Longrightarrow> janitor_inv s \<Longrightarrow> janitor_inv s'"
proof (induction rule: janitor_step.induct)
  case (retry s rs request rs')
  then show ?case by (intro queueItem_inv) (auto simp: janitor_inv_def)
next
  case (work s request rest w result retry w')
  then show ?case by (intro receive_item_inv)
qed (simp_all add: CheckItem_inv StartItemLoop_inv Shutdown_inv, simp_all add: janitor_inv_def)

lemma janitor_inv_reachable: "janitor_reachable env s \<Longrightarrow> janitor_inv s"
proof (induction rule: janitor_reachable.induct)
  case initial
  show ?case by (simp add: NewCleanupRepository_def janitor_inv_def)
qed (rule janitor_inv_step)

section \<open>Retries end\<close>

definition request_weight :: "janitorRequest \<Rightarrow> nat" where
  "request_weight r = 2 * (13 - jr_visibilityAttempts r) + 1"

definition retry_weight :: "janitor_state \<Rightarrow> nat" where
  "retry_weight s = sum_list (map request_weight (js_queue s)) + sum_list (map (\<lambda>r. request_weight r + 1) (js_retries s))"

lemma queueItem_weight: "retry_weight (queueItem r s) \<le> retry_weight s + request_weight r"
  by (simp add: queueItem_def retry_weight_def)

lemma receive_item_weight:
  "retry_weight (receive_item result retry rest s) =
     sum_list (map request_weight rest) + sum_list (map (\<lambda>r. request_weight r + 1) (js_retries s)) +
     (case retry of None \<Rightarrow> 0 | Some r \<Rightarrow> request_weight r + 1)"
  by (simp add: receive_item_def count_result_def asyncRetry_def retry_weight_def split: janitor_result.split option.split)

text \<open>The janitor working through what it has, without new calls and without meeting a version
  conflict.\<close>

definition janitor_settles :: "'w janitor_env \<Rightarrow> janitor_state \<Rightarrow> janitor_state \<Rightarrow> bool" where
  "janitor_settles env s s' = (\<exists>label. label \<in> {Worked, Retried, Canceled} \<and> janitor_step env label s s')"

lemma settling_weight:
  assumes "janitor_settles env s s'"
  shows "retry_weight s' < retry_weight s"
proof -
  obtain label where "label \<in> {Worked, Retried, Canceled}" "janitor_step env label s s'"
    using assms by (auto simp: janitor_settles_def)
  from this(2,1) show ?thesis
  proof (cases rule: janitor_step.cases)
    case (work request rest w result retry w')
    then have "retry = None \<or> (\<exists>r. retry = Some r \<and> request_weight r + 1 < request_weight request)"
      using processItem_retry [of env request w result _ w'] \<open>label \<in> _\<close>
      by (cases retry) (auto simp: request_weight_def janitorMaxVisibilityRetries_def split: if_splits)
    moreover have "retry_weight s = request_weight request + sum_list (map request_weight rest) +
        sum_list (map (\<lambda>r. request_weight r + 1) (js_retries s))"
      using work by (simp add: retry_weight_def)
    moreover have "0 < request_weight request" by (simp add: request_weight_def)
    ultimately show ?thesis unfolding work(2) by (auto simp: receive_item_weight)
  next
    case (retry rs request rs')
    then show ?thesis using queueItem_weight [of request "s\<lparr>js_retries := rs @ rs'\<rparr>"] by (simp add: retry_weight_def)
  next
    case (cancel rs request rs')
    then show ?thesis by (simp add: retry_weight_def)
  qed auto
qed

section \<open>Properties\<close>

text \<open>C20: the winner of a conflict: the audited canonical document when it is among the hits; otherwise the
  first document with a deletion time; otherwise the document with the latest update time, the first of
  them when several have it; otherwise none.\<close>

theorem winner_priority:
  assumes "list_all (\<lambda>d. vd_ID d \<noteq> []) docs"
  shows "if list_ex (audited_canonical r) docs then winning_id r docs = r
    else case find (\<lambda>d. deleted_at d \<noteq> None) docs of
      Some d \<Rightarrow> winning_id r docs = vd_ID d
    | None \<Rightarrow>
        if list_all (\<lambda>d. updated_at d = None) docs then winning_id r docs = []
        else newest (\<lambda>_. True) (winning_id r docs) docs"
proof (cases "list_ex (audited_canonical r) docs \<or> find (\<lambda>d. deleted_at d \<noteq> None) docs \<noteq> None")
  case True
  then show ?thesis by (auto simp: winning_id_def legacy_winner_deleted)
next
  case False
  then have "list_all (\<lambda>d. deleted_at d = None \<and> vd_ID d \<noteq> []) docs"
    using assms by (auto simp: find_None_iff list_all_iff)
  from legacy_winner_newest [OF this, of "[]" "[]"] show ?thesis
    using False by (auto simp: winning_id_def newest_def list_all_iff)
qed


text \<open>C22: in every interleaving of callers, worker, retries and shutdown the queue holds at most fifty
  requests, every waiting request names an object and has been retried for visibility at most twelve
  times, and only when it asked for the audited document; the counters never exceed the processed
  items.\<close>

theorem janitor_invariant:
  assumes "janitor_reachable env s"
  shows "length (js_queue s) \<le> 50 \<and>
    list_all (\<lambda>r. jr_objectRef r \<noteq> [] \<and> jr_visibilityAttempts r \<le> 12 \<and>
      (jr_requireAuditedCanonical r \<or> jr_visibilityAttempts r = 0)) (js_queue s @ js_retries s) \<and>
    js_itemsSkipped s + js_conflictsResolved s + js_errors s \<le> js_itemsProcessed s"
  using janitor_inv_reachable [OF assms]
  by (simp add: janitor_inv_def request_ok_def [abs_def] janitorCapacity_def janitorMaxVisibilityRetries_def)

text \<open>C21: the janitor cannot keep itself busy: without new calls and without version conflicts every run
  of the worker and the retries ends, whatever the searches return.\<close>

theorem janitor_terminates: "wfp (\<lambda>s' s. janitor_settles env s s')"
  by (rule wfp_if_convertible_to_nat [of _ retry_weight]) (rule settling_weight)

section \<open>Witnesses\<close>

definition sample_hit :: "string \<Rightarrow> json gomap \<Rightarrow> VersionedDocument" where
  "sample_hit i source = \<lparr>vd_ID = i, vd_SeqNo = Some 1, vd_PrimaryTerm = Some 1, vd_Source = source\<rparr>"

definition sample_hits :: "VersionedDocument list" where
  "sample_hits = [sample_hit ''a'' [(''updated_at'', JStr ''2025-02'')], sample_hit ''b'' [(''deleted_at'', JStr ''2025-01'')]]"

lemma sample_keys: "equal_fold ''deleted_at'' ''deleted_at''" "\<not> equal_fold ''deleted_at'' ''created_at''"
  "\<not> equal_fold ''deleted_at'' ''updated_at''" "equal_fold ''updated_at'' ''updated_at''"
  "\<not> equal_fold ''updated_at'' ''created_at''"
  by (simp_all add: equal_fold_def rune_list_all_ascii byte_def fold_rune_def)

lemma sample_hits_decided:
  "\<not> list_ex (audited_canonical ''project:1'') sample_hits"
  "map_option vd_ID (find (\<lambda>d. deleted_at d \<noteq> None) sample_hits) = Some ''b''"
  by (simp_all add: sample_hits_def sample_hit_def audited_canonical_def deleted_at_def decode_stub_def
      decode_stub_member_def sample_keys present_def)

theorem winner_priority_witness: "list_all (\<lambda>d. vd_ID d \<noteq> []) sample_hits \<and> winning_id ''project:1'' sample_hits = ''b''"
  using winner_priority [of sample_hits "''project:1''"] sample_hits_decided
  by (auto simp: sample_hits_def sample_hit_def split: option.splits)

definition idle_env :: "unit janitor_env" where
  "idle_env = \<lparr>je_search = \<lambda>_ _ _. Reply 200 ''200 OK'' (Some []), je_update = \<lambda>_ _ _ _ _ _ w. (Reply 200 ''200 OK'' (), w), je_index = ''resources''\<rparr>"

lemma checked_reachable: "janitor_reachable idle_env (CheckAuditedItem ''project:1'' NewCleanupRepository)"
  by (rule janitor_reachable.step [OF janitor_reachable.initial janitor_step.check_audited])

theorem janitor_invariant_witness: "length (js_queue (CheckAuditedItem ''project:1'' NewCleanupRepository)) \<le> 50"
  using janitor_invariant [OF checked_reachable] by blast

end
