(* ===== verification/Health.thy ===== *)
theory Health
  imports Contracts Go_Int
begin

text \<open>
  The health checks of internal/domain/services/indexer_service.go with their caches, and the probe
  handlers of internal/presentation/handlers/health_handler.go. The two dependency checks are
  functions of the state of the dependencies; times are nanoseconds.
\<close>

section \<open>Status\<close>

definition StatusHealthy :: string where "StatusHealthy = ''healthy''"
definition StatusDegraded :: string where "StatusDegraded = ''degraded''"
definition StatusUnhealthy :: string where "StatusUnhealthy = ''unhealthy''"
definition ComponentOpenSearch :: string where "ComponentOpenSearch = ''opensearch''"
definition ComponentNATS :: string where "ComponentNATS = ''nats''"
definition ComponentService :: string where "ComponentService = ''service''"
definition CacheDuration :: duration where "CacheDuration = 5 * Second"

record Check =
  ck_Status :: string
  ck_Error :: "go_error option"

record HealthStatus =
  hs_Status :: string
  hs_Timestamp :: int
  hs_Checks :: "Check gomap"
  hs_ErrorCount :: nat

type_synonym cachedResult = "HealthStatus \<times> int"

record health_cache =
  hc_lastReadiness :: "cachedResult option"
  hc_lastLiveness :: "cachedResult option"
  hc_lastHealth :: "cachedResult option"

text \<open>The two dependency checks run in parallel; each writes its own entry and counts its own error.\<close>

definition component_check :: "go_error option \<Rightarrow> Check" where
  "component_check err = \<lparr>ck_Status = (if err = None then StatusHealthy else StatusUnhealthy), ck_Error = err\<rparr>"

definition performHealthCheck :: "go_error option \<Rightarrow> go_error option \<Rightarrow> int \<Rightarrow> HealthStatus" where
  "performHealthCheck storage messaging now =
     (let errorCount = (if storage = None then 0 else 1) + (if messaging = None then 0 else 1) in
      \<lparr>hs_Status = (if errorCount = 0 then StatusHealthy else if errorCount = 2 then StatusUnhealthy else StatusDegraded),
       hs_Timestamp = now,
       hs_Checks = [(ComponentOpenSearch, component_check storage), (ComponentNATS, component_check messaging)],
       hs_ErrorCount = errorCount\<rparr>)"

text \<open>A cached status that is younger than the cache duration.\<close>

definition fresh :: "cachedResult option \<Rightarrow> int \<Rightarrow> HealthStatus option" where
  "fresh cached now =
     (case cached of
        None \<Rightarrow> None
      | Some (status, t) \<Rightarrow> if now - t < CacheDuration then Some status else None)"

text \<open>Each check takes the dependency checks, the time it starts and the time it stores its result.\<close>

definition CheckReadiness :: "go_error option \<Rightarrow> go_error option \<Rightarrow> int \<Rightarrow> int \<Rightarrow> health_cache \<Rightarrow> HealthStatus \<times> health_cache" where
  "CheckReadiness storage messaging now stored c =
     (case fresh (hc_lastReadiness c) now of
        Some status \<Rightarrow> (status, c)
      | None \<Rightarrow>
          let status = performHealthCheck storage messaging now in
          (status, c\<lparr>hc_lastReadiness := Some (status, stored)\<rparr>))"

definition CheckLiveness :: "int \<Rightarrow> int \<Rightarrow> health_cache \<Rightarrow> HealthStatus \<times> health_cache" where
  "CheckLiveness now stored c =
     (case fresh (hc_lastLiveness c) now of
        Some status \<Rightarrow> (status, c)
      | None \<Rightarrow>
          let status = \<lparr>hs_Status = StatusHealthy, hs_Timestamp = now,
                        hs_Checks = [(ComponentService, component_check None)], hs_ErrorCount = 0\<rparr> in
          (status, c\<lparr>hc_lastLiveness := Some (status, stored)\<rparr>))"

definition CheckHealth :: "go_error option \<Rightarrow> go_error option \<Rightarrow> int \<Rightarrow> int \<Rightarrow> health_cache \<Rightarrow> HealthStatus \<times> health_cache" where
  "CheckHealth storage messaging now stored c =
     (case fresh (hc_lastHealth c) now of
        Some status \<Rightarrow> (status, c)
      | None \<Rightarrow>
          let checked = performHealthCheck storage messaging now;
              status = (if hs_Status checked = StatusDegraded then checked\<lparr>hs_Status := StatusHealthy\<rparr> else checked) in
          (status, c\<lparr>hc_lastHealth := Some (status, stored)\<rparr>))"

section \<open>Probes\<close>

datatype response = SimpleResponse nat string | JsonResponse nat HealthStatus

definition writeHealthResponse :: "bool \<Rightarrow> HealthStatus \<Rightarrow> nat \<Rightarrow> response" where
  "writeHealthResponse simpleResponse status statusCode =
     (if simpleResponse then SimpleResponse statusCode (if statusCode = 200 then ''OK'' else ''UNHEALTHY'')
      else JsonResponse statusCode status)"

definition HandleLiveness :: "bool \<Rightarrow> int \<Rightarrow> int \<Rightarrow> health_cache \<Rightarrow> response \<times> health_cache" where
  "HandleLiveness simple now stored c =
     (case CheckLiveness now stored c of (status, c') \<Rightarrow> (writeHealthResponse simple status 200, c'))"

definition readiness_code :: "string \<Rightarrow> nat" where
  "readiness_code s = (if s = ''healthy'' then 200 else if s = ''degraded'' \<or> s = ''unhealthy'' then 503 else 500)"

definition HandleReadiness :: "bool \<Rightarrow> go_error option \<Rightarrow> go_error option \<Rightarrow> int \<Rightarrow> int \<Rightarrow> health_cache \<Rightarrow> response \<times> health_cache" where
  "HandleReadiness simple storage messaging now stored c =
     (case CheckReadiness storage messaging now stored c of
        (status, c') \<Rightarrow> (writeHealthResponse simple status (readiness_code (hs_Status status)), c'))"

definition health_code :: "string \<Rightarrow> nat" where
  "health_code s = (if s = ''healthy'' then 200 else if s = ''degraded'' then 200 else if s = ''unhealthy'' then 503 else 500)"

definition HandleHealthCheck :: "bool \<Rightarrow> go_error option \<Rightarrow> go_error option \<Rightarrow> int \<Rightarrow> int \<Rightarrow> health_cache \<Rightarrow> response \<times> health_cache" where
  "HandleHealthCheck simple storage messaging now stored c =
     (case CheckHealth storage messaging now stored c of
        (status, c') \<Rightarrow> (writeHealthResponse simple status (health_code (hs_Status status)), c'))"

fun response_code :: "response \<Rightarrow> nat" where
  "response_code (SimpleResponse code _) = code"
| "response_code (JsonResponse code _) = code"

section \<open>A run of probes\<close>

text \<open>What happens to the service: probes at increasing times, with what the dependencies answered. A
  probe takes no time to store its result in this run; the answers recorded for the last evaluation of
  each kind are what the reported codes are compared with.\<close>

datatype probe = Readiness | Liveness | General

record probe_state =
  ps_cache :: health_cache
  ps_now :: int
  ps_history :: "(int \<times> go_error option \<times> go_error option) list"
  ps_codes :: "(probe \<times> int \<times> nat) list"

definition initial_probes :: probe_state where
  "initial_probes = \<lparr>ps_cache = \<lparr>hc_lastReadiness = None, hc_lastLiveness = None, hc_lastHealth = None\<rparr>, ps_now = 0,
     ps_history = [], ps_codes = []\<rparr>"

fun probe_run :: "probe \<Rightarrow> bool \<Rightarrow> go_error option \<Rightarrow> go_error option \<Rightarrow> int \<Rightarrow> health_cache \<Rightarrow> response \<times> health_cache" where
  "probe_run Readiness simple s m now c = HandleReadiness simple s m now now c"
| "probe_run Liveness simple s m now c = HandleLiveness simple now now c"
| "probe_run General simple s m now c = HandleHealthCheck simple s m now now c"

definition probe_at :: "bool \<Rightarrow> int \<Rightarrow> probe \<Rightarrow> go_error option \<Rightarrow> go_error option \<Rightarrow> probe_state \<Rightarrow> probe_state" where
  "probe_at simple t p storage messaging s =
     (case probe_run p simple storage messaging t (ps_cache s) of
        (r, c) \<Rightarrow> s\<lparr>ps_cache := c, ps_now := t, ps_history := ps_history s @ [(t, storage, messaging)],
                     ps_codes := ps_codes s @ [(p, t, response_code r)]\<rparr>)"

inductive probed :: "bool \<Rightarrow> probe_state \<Rightarrow> bool" for simple where
  initial: "probed simple initial_probes"
| step: "probed simple s \<Longrightarrow> ps_now s \<le> t \<Longrightarrow> probed simple (probe_at simple t p storage messaging s)"

section \<open>Properties\<close>

text \<open>What a code says of the answers of the dependencies.\<close>

fun code_of :: "probe \<Rightarrow> go_error option \<Rightarrow> go_error option \<Rightarrow> nat" where
  "code_of Liveness s m = 200"
| "code_of Readiness s m = (if s = None \<and> m = None then 200 else 503)"
| "code_of General s m = (if s = None \<or> m = None then 200 else 503)"

definition cache_of :: "probe \<Rightarrow> health_cache \<Rightarrow> cachedResult option" where
  "cache_of p c = (case p of Readiness \<Rightarrow> hc_lastReadiness c | Liveness \<Rightarrow> hc_lastLiveness c | General \<Rightarrow> hc_lastHealth c)"

definition status_code :: "probe \<Rightarrow> HealthStatus \<Rightarrow> nat" where
  "status_code p st = (case p of Readiness \<Rightarrow> readiness_code (hs_Status st) | Liveness \<Rightarrow> 200 | General \<Rightarrow> health_code (hs_Status st))"

definition explained :: "(int \<times> go_error option \<times> go_error option) list \<Rightarrow> probe \<Rightarrow> int \<Rightarrow> nat \<Rightarrow> bool" where
  "explained history p t code = (\<exists>t' s m. (t', s, m) \<in> set history \<and> t - t' < CacheDuration \<and> t' \<le> t \<and> code = code_of p s m)"

definition cache_ok :: "(int \<times> go_error option \<times> go_error option) list \<Rightarrow> int \<Rightarrow> health_cache \<Rightarrow> bool" where
  "cache_ok history now c = (\<forall>p st t. cache_of p c = Some (st, t) \<longrightarrow> t \<le> now \<and>
     (\<exists>s m. (t, s, m) \<in> set history \<and> status_code p st = code_of p s m))"

lemmas status_defs = StatusHealthy_def StatusDegraded_def StatusUnhealthy_def

lemma performed_codes:
  "status_code Readiness (performHealthCheck s m now) = code_of Readiness s m"
  "status_code General (performHealthCheck s m now) = code_of General s m"
  "status_code General (performHealthCheck s m now\<lparr>hs_Status := StatusHealthy\<rparr>) = 200"
  "hs_Status (performHealthCheck s m now) = StatusDegraded \<Longrightarrow> code_of General s m = 200"
  by (cases s; cases m; simp add: performHealthCheck_def status_code_def readiness_code_def health_code_def status_defs Let_def)+

lemma code_response [simp]: "response_code (writeHealthResponse simple st code) = code"
  by (simp add: writeHealthResponse_def)

text \<open>A probe answers from its cache, which it leaves, or evaluates anew and caches what it answers.\<close>

lemma probe_run_cases:
  assumes "probe_run p simple s m now c = (r, c')"
  shows "(\<exists>st t. cache_of p c = Some (st, t) \<and> now - t < CacheDuration \<and> response_code r = status_code p st \<and> c' = c) \<or>
    (\<exists>st. cache_of p c' = Some (st, now) \<and> response_code r = status_code p st \<and> status_code p st = code_of p s m \<and>
       (\<forall>q. q \<noteq> p \<longrightarrow> cache_of q c' = cache_of q c))"
proof (cases p)
  case Readiness
  then show ?thesis using assms performed_codes(1) [of s m now]
    by (auto simp: HandleReadiness_def CheckReadiness_def fresh_def cache_of_def status_code_def Let_def
        split: option.splits if_splits probe.splits)
next
  case Liveness
  then show ?thesis using assms
    by (auto simp: HandleLiveness_def CheckLiveness_def fresh_def cache_of_def status_code_def Let_def
        split: option.splits if_splits probe.splits)
next
  case General
  have "status_code General st = code_of General s m"
    if "st = (if hs_Status (performHealthCheck s m now) = StatusDegraded then performHealthCheck s m now\<lparr>hs_Status := StatusHealthy\<rparr>
      else performHealthCheck s m now)" for st
    using that performed_codes(2,3) [of s m now] performed_codes(4) [of s m now] by (metis (full_types))
  then show ?thesis using assms General
    by (auto simp: HandleHealthCheck_def CheckHealth_def fresh_def cache_of_def status_code_def Let_def
        split: option.splits if_splits probe.splits)
qed

lemma cache_ok_step:
  assumes "cache_ok history now c" "now \<le> t" "probe_run p simple s m t c = (r, c')"
  shows "cache_ok (history @ [(t, s, m)]) t c' \<and> explained (history @ [(t, s, m)]) p t (response_code r)"
  using probe_run_cases [OF assms(3)]
proof (elim disjE exE conjE)
  fix st t0
  assume st: "cache_of p c = Some (st, t0)" "t - t0 < CacheDuration" "response_code r = status_code p st" "c' = c"
  obtain s0 m0 where "t0 \<le> now" "(t0, s0, m0) \<in> set history" "status_code p st = code_of p s0 m0"
    using assms(1) st(1) unfolding cache_ok_def by blast
  then have "explained (history @ [(t, s, m)]) p t (response_code r)"
    using st assms(2) unfolding explained_def by (intro exI [of _ t0] exI [of _ s0] exI [of _ m0]) auto
  moreover have "cache_ok (history @ [(t, s, m)]) t c'"
    using assms(1,2) st(4) unfolding cache_ok_def by fastforce
  ultimately show ?thesis by blast
next
  fix st
  assume st: "cache_of p c' = Some (st, t)" "response_code r = status_code p st" "status_code p st = code_of p s m"
    "\<forall>q. q \<noteq> p \<longrightarrow> cache_of q c' = cache_of q c"
  have "explained (history @ [(t, s, m)]) p t (response_code r)"
    using st unfolding explained_def by (intro exI [of _ t] exI [of _ s] exI [of _ m]) (simp add: CacheDuration_def)
  moreover have "cache_ok (history @ [(t, s, m)]) t c'"
    unfolding cache_ok_def
  proof (intro allI impI)
    fix q st' t'
    assume q: "cache_of q c' = Some (st', t')"
    show "t' \<le> t \<and> (\<exists>s' m'. (t', s', m') \<in> set (history @ [(t, s, m)]) \<and> status_code q st' = code_of q s' m')"
    proof (cases "q = p")
      case True
      then show ?thesis using q st by (auto intro: exI [of _ s])
    next
      case False
      then have "cache_of q c = Some (st', t')" using q st(4) by simp
      then show ?thesis using assms(1,2) unfolding cache_ok_def by fastforce
    qed
  qed
  ultimately show ?thesis by blast
qed

lemma explained_mono: "explained history p t code \<Longrightarrow> explained (history @ later) p t code"
  unfolding explained_def by auto

lemma probed_inv:
  "probed simple s \<Longrightarrow> cache_ok (ps_history s) (ps_now s) (ps_cache s) \<and>
     list_all (\<lambda>(p, t, code). explained (ps_history s) p t code) (ps_codes s)"
proof (induction rule: probed.induct)
  case initial
  show ?case by (simp add: initial_probes_def cache_ok_def cache_of_def split: probe.split)
next
  case (step s t p storage messaging)
  obtain r c where r: "probe_run p simple storage messaging t (ps_cache s) = (r, c)" by (metis surj_pair)
  from cache_ok_step [OF _ step(2) this] step.IH explained_mono [of "ps_history s" _ _ _ "[(t, storage, messaging)]"]
  show ?case by (auto simp: probe_at_def r list_all_iff)
qed


section \<open>Witnesses\<close>

definition sample_probes :: probe_state where
  "sample_probes = probe_at True 1 Readiness None (Some (External ''down'')) initial_probes"


end
