(* ===== verification/Audit_Mapping.thy ===== *)
theory Audit_Mapping
  imports Storage
begin

text \<open>
  internal/infrastructure/storage/audit_mapping.go: the check at startup that the indices behind the
  audit stores have the mappings the stores rely on. The decoded mapping metadata is read from the
  cluster by a parameter.
\<close>

section \<open>Mappings\<close>

datatype auditMappingField = MField
  (mf_Type: string) (mf_Index: "bool option") (mf_DocValues: "bool option") (mf_Enabled: "bool option")
  (mf_Dynamic: string) (mf_Properties: "(string \<times> auditMappingField) list")

record auditMapping =
  am_Dynamic :: string
  am_Properties :: "auditMappingField gomap"
  am_SourceEnabled :: "bool option"
  am_SourceIncludes :: "string list"
  am_SourceExcludes :: "string list"

text \<open>The object type may be left out when properties are present.\<close>

definition effective_type :: "auditMappingField \<Rightarrow> string" where
  "effective_type f = (if mf_Type f = [] \<and> mf_Properties f \<noteq> [] then ''object'' else mf_Type f)"

definition field_matches :: "auditMappingField \<Rightarrow> auditMappingField \<Rightarrow> bool" where
  "field_matches f expected =
     (effective_type f = mf_Type expected \<and>
      (mf_Index expected = None \<or> mf_Index f = mf_Index expected) \<and>
      (mf_Enabled expected = None \<or> Some (mf_Enabled f \<noteq> Some False) = mf_Enabled expected) \<and>
      (mf_Dynamic expected = [] \<or> mf_Dynamic f = mf_Dynamic expected))"

fun auditFieldsMatch :: "auditMappingField gomap \<Rightarrow> auditMappingField gomap \<Rightarrow> bool" where
  "auditFieldsMatch actual [] = True"
| "auditFieldsMatch actual ((name, MField ty ix dv en dyn properties) # required) =
     (case map_of actual name of
        None \<Rightarrow> False
      | Some f \<Rightarrow> field_matches f (MField ty ix dv en dyn properties) \<and>
          auditFieldsMatch (mf_Properties f) properties \<and> auditFieldsMatch actual required)"

abbreviation typed :: "string \<Rightarrow> auditMappingField" where
  "typed ty \<equiv> MField ty None None None [] []"

definition auditPrivateFields :: "bool \<Rightarrow> auditMappingField gomap" where
  "auditPrivateFields history =
     [(''publisher'', typed ''keyword''), (''event_id'', typed ''keyword''),
      (''fingerprint'', MField ''keyword'' (Some False) None None [] []),
      (''erased'', typed ''boolean''), (''erased_at'', typed ''date'')] @
     (if \<not> history then [(''origin'', typed ''keyword'')]
      else
        map (\<lambda>name. (name, typed ''keyword'')) [''object_type'', ''object_id'', ''action'', ''history_check_object'', ''history_check_relation''] @
        [(''resource_revision'', typed ''long''), (''occurred_at'', typed ''date''), (''ingested_at'', typed ''date''),
         (''audit'', MField ''object'' None None (Some False) [] []),
         (''scope'', MField ''object'' None None (Some True) ''strict''
            [(''before'', typed ''keyword''), (''after'', typed ''keyword'')])])"

definition auditSourceRetained :: "auditMapping \<Rightarrow> bool" where
  "auditSourceRetained m = (am_SourceEnabled m \<noteq> Some False \<and> am_SourceIncludes m = [] \<and> am_SourceExcludes m = [])"

section \<open>Verification\<close>

definition historyIndex :: string where "historyIndex = ''resource-history-v1''"
definition auditDeliveryReceiptsIndex :: string where "auditDeliveryReceiptsIndex = ''resource-audit-deliveries-v1''"

text \<open>Mappings by the name of their backing index, \<open>None\<close> when the body does not decode.\<close>

definition readAuditMappings :: "(string \<Rightarrow> auditMapping gomap option reply) \<Rightarrow> string \<Rightarrow> go_error + auditMapping gomap" where
  "readAuditMappings request index =
     (case request index of
        Transport _ \<Rightarrow> fail (Text ''OpenSearch mapping transport failure'')
      | Reply status line body \<Rightarrow>
          if is_error status then failf (Text ''OpenSearch mapping status %d'') [line]
          else
            (case body of
               Some (m # ms) \<Rightarrow> Inr (m # ms)
             | _ \<Rightarrow> fail (Text ''invalid OpenSearch mapping response'')))"

definition ordering_fields :: "(string \<times> string) list" where
  "ordering_fields = [(''audit_source_revision'', ''long''), (''audit_event_key'', ''keyword''), (''audit_event_fingerprint'', ''keyword''),
     (''audit_mutation_key'', ''keyword''), (''audit_mutation_fingerprint'', ''keyword''),
     (''audit_projection_order_time'', ''keyword''), (''audit_projection_order_key'', ''keyword'')]"

text \<open>The order of the fields only decides which of two messages is reported.\<close>

definition check_ordering_field :: "auditMapping \<Rightarrow> string \<times> string \<Rightarrow> go_error + unit" where
  "check_ordering_field m e =
     (case map_of (am_Properties m) (fst e) of
        None \<Rightarrow> fail (Text ''current-resource audited ordering mapping is missing or indexed'')
      | Some p \<Rightarrow>
          if mf_Type p \<noteq> snd e \<or> mf_Index p \<noteq> Some False
          then fail (Text ''current-resource audited ordering mapping is missing or indexed'')
          else require (fst e \<noteq> ''audit_source_revision'' \<or> mf_DocValues p \<noteq> Some False)
            (Errorf (Text ''current-resource audit revision doc values must be enabled'') []))"

definition private_mapping :: "bool \<Rightarrow> auditMapping \<Rightarrow> bool" where
  "private_mapping history m =
     (auditSourceRetained m \<and> am_Dynamic m = ''strict'' \<and> auditFieldsMatch (am_Properties m) (auditPrivateFields history))"

definition verify_private :: "(string \<Rightarrow> auditMapping gomap option reply) \<Rightarrow> bool \<Rightarrow> string \<Rightarrow> string \<Rightarrow> string \<Rightarrow> string \<Rightarrow> go_error + unit" where
  "verify_private request history index unreadable several open =
     rbind (map_err (Wrapf (Text unreadable)) (readAuditMappings request index)) (\<lambda>ms.
     rbind (require (length ms = 1) (Errorf (Text several) [])) (\<lambda>_.
     rforeach (\<lambda>(_, m). require (private_mapping history m) (Errorf (Text open) [])) ms))"

definition VerifyAuditMappings :: "(string \<Rightarrow> auditMapping gomap option reply) \<Rightarrow> bool \<Rightarrow> string \<Rightarrow> int \<Rightarrow> go_error + unit" where
  "VerifyAuditMappings request client currentIndex timeout =
     (if \<not> client \<or> currentIndex = [] \<or> currentIndex = historyIndex \<or> timeout \<le> 0
      then fail (Text ''audit mapping verification is not configured'')
      else
        rbind (verify_private request True historyIndex ''read private history index mapping''
          ''history index must resolve to one backing index'' ''private history index mapping is not strict and unindexed'') (\<lambda>_.
        rbind (verify_private request False auditDeliveryReceiptsIndex ''read private audit deliveries index mapping''
          ''audit deliveries index must resolve to one backing index''
          ''private audit deliveries index mapping is not strict and unindexed'') (\<lambda>_.
        rbind (map_err (Wrapf (Text ''read current-resource index mapping'')) (readAuditMappings request currentIndex)) (\<lambda>ms.
        rbind (require (length ms = 1) (Errorf (Text ''current-resource index must resolve to one backing index'') [])) (\<lambda>_.
        rforeach (\<lambda>(_, m).
          rbind (require (auditSourceRetained m) (Errorf (Text ''current-resource source storage is disabled or filtered'') [])) (\<lambda>_.
          rforeach (check_ordering_field m) ordering_fields)) ms)))))"

section \<open>Properties\<close>

lemma auditFieldsMatch_field:
  "auditFieldsMatch actual required \<Longrightarrow> (name, expected) \<in> set required \<Longrightarrow>
     \<exists>f. map_of actual name = Some f \<and> field_matches f expected"
proof (induction actual required rule: auditFieldsMatch.induct)
  case (2 actual n ty ix dv en dyn properties required)
  then show ?case by (cases "map_of actual n") auto
qed simp

lemma verify_private_Inr:
  assumes "verify_private request history index a b c = Inr ()"
  shows "\<exists>status line n m. request index = Reply status line (Some [(n, m)]) \<and> private_mapping history m"
proof -
  obtain ms where ms: "readAuditMappings request index = Inr ms" "length ms = 1"
    "rforeach (\<lambda>(_, m). require (private_mapping history m) (Errorf (Text c) [])) ms = Inr ()"
    using assms by (auto simp: verify_private_def rbind_Inr_conv map_err_Inr_conv require_Inr_conv)
  then obtain n m where "ms = [(n, m)]" by (cases ms) auto
  then show ?thesis using ms
    by (auto simp: readAuditMappings_def rbind_Inr_conv require_Inr_conv split: reply.splits if_splits option.splits list.splits)
qed

text \<open>C30: when the verification succeeds, the history index and the delivery index are each one index that
  keeps its sources, refuses fields outside its mapping and does not index fingerprints, and the audit
  content of the history index is not indexed at all.\<close>

theorem verified_mappings_private:
  assumes "VerifyAuditMappings request client currentIndex timeout = Inr ()"
  shows "currentIndex \<noteq> historyIndex \<and>
    (\<exists>status line n m f a. request historyIndex = Reply status line (Some [(n, m)]) \<and> auditSourceRetained m \<and> am_Dynamic m = ''strict'' \<and>
       map_of (am_Properties m) ''fingerprint'' = Some f \<and> mf_Index f = Some False \<and>
       map_of (am_Properties m) ''audit'' = Some a \<and> mf_Enabled a = Some False) \<and>
    (\<exists>status line n m f. request auditDeliveryReceiptsIndex = Reply status line (Some [(n, m)]) \<and> auditSourceRetained m \<and>
       am_Dynamic m = ''strict'' \<and> map_of (am_Properties m) ''fingerprint'' = Some f \<and> mf_Index f = Some False)"
proof -
  have v: "currentIndex \<noteq> historyIndex" "\<exists>a b c. verify_private request True historyIndex a b c = Inr ()"
    "\<exists>a b c. verify_private request False auditDeliveryReceiptsIndex a b c = Inr ()"
    using assms by (auto simp: VerifyAuditMappings_def rbind_Inr_conv split: if_splits)
  have fp: "(''fingerprint'', MField ''keyword'' (Some False) None None [] []) \<in> set (auditPrivateFields history)" for history
    by (simp add: auditPrivateFields_def)
  have au: "(''audit'', MField ''object'' None None (Some False) [] []) \<in> set (auditPrivateFields True)"
    by (simp add: auditPrivateFields_def)
  from v(2) verify_private_Inr obtain status line n m where h: "request historyIndex = Reply status line (Some [(n, m)])"
    "private_mapping True m" by blast
  from v(3) verify_private_Inr obtain status' line' n' m' where d: "request auditDeliveryReceiptsIndex = Reply status' line' (Some [(n', m')])"
    "private_mapping False m'" by blast
  from auditFieldsMatch_field [OF _ fp] auditFieldsMatch_field [OF _ au] h d v(1) show ?thesis
    by (fastforce simp: private_mapping_def field_matches_def)
qed

section \<open>Witnesses\<close>

definition sample_mappings :: "string \<Rightarrow> auditMapping gomap option reply" where
  "sample_mappings index =
     (let m = (\<lambda>ps. Reply 200 ''200 OK'' (Some [(''i'', \<lparr>am_Dynamic = ''strict'', am_Properties = ps, am_SourceEnabled = None,
         am_SourceIncludes = [], am_SourceExcludes = []\<rparr>)])) in
      if index = historyIndex then m (auditPrivateFields True)
      else if index = auditDeliveryReceiptsIndex then m (auditPrivateFields False)
      else m (map (\<lambda>(f, ty). (f, MField ty (Some False) None None [] [])) ordering_fields))"

lemma sample_mappings_verified: "VerifyAuditMappings sample_mappings True ''resources'' 1 = Inr ()"
  by (simp add: VerifyAuditMappings_def verify_private_def readAuditMappings_def sample_mappings_def historyIndex_def
      auditDeliveryReceiptsIndex_def private_mapping_def auditSourceRetained_def auditPrivateFields_def field_matches_def
      effective_type_def ordering_fields_def check_ordering_field_def is_error_def Let_def)

theorem verified_mappings_private_witness:
  "\<exists>status line n m a. sample_mappings historyIndex = Reply status line (Some [(n, m)]) \<and>
     map_of (am_Properties m) ''audit'' = Some a \<and> mf_Enabled a = Some False"
  using verified_mappings_private [OF sample_mappings_verified] by blast

end
