(* ===== verification/Container.thy ===== *)
theory Container
  imports Config Message_Processor Auth Messaging Cleanup Health Audit_Mapping
begin

text \<open>
  internal/container/container.go: the configuration with
  the overrides of the command line, the checks of the initialization stages in their order, the
  wiring of the repositories and of the message processor, and the shutdown sequences. The libraries
  the stages call (URL parsing, NATS and OpenSearch clients, the JWT validator, the file system) are
  parameters.
\<close>

section \<open>Configuration\<close>

record CLIConfig =
  cl_Port :: string
  cl_Debug :: bool
  cl_Bind :: string
  cl_NoJanitor :: bool
  cl_SimpleHealth :: bool
  cl_ConfigCheck :: bool
  cl_Help :: bool
  cl_NATSPendingMsgLimit :: int
  cl_NATSPendingBytesLimit :: int
  cl_NATSWorkerCount :: int

definition apply_cli :: "CLIConfig \<Rightarrow> AppConfig \<Rightarrow> go_error + AppConfig" where
  "apply_cli cli c =
     rbind (if cl_Port cli = [] then Inr c
            else case Atoi (cl_Port cli) of
              None \<Rightarrow> failf (Text ''invalid port value from CLI: %s - %w'') [cl_Port cli]
            | Some port \<Rightarrow> Inr (c\<lparr>ac_Server := (ac_Server c)\<lparr>sv_Port := port\<rparr>\<rparr>)) (\<lambda>c.
     let c = (if cl_NoJanitor cli then c\<lparr>ac_Janitor := \<lparr>ja_Enabled = False\<rparr>\<rparr> else c);
         c = (if cl_Debug cli then c\<lparr>ac_Logging := (ac_Logging c)\<lparr>lo_Level := ''debug''\<rparr>\<rparr> else c);
         c = (if cl_SimpleHealth cli then c\<lparr>ac_Health := (ac_Health c)\<lparr>hc_EnableDetailedResponse := False\<rparr>\<rparr> else c);
         over = (\<lambda>v old. if v \<noteq> 0 then v else old) in
     Inr (update_nats (\<lambda>n. n\<lparr>na_PendingMsgLimit := over (cl_NATSPendingMsgLimit cli) (na_PendingMsgLimit n),
         na_PendingBytesLimit := over (cl_NATSPendingBytesLimit cli) (na_PendingBytesLimit n),
         na_WorkerCount := over (cl_NATSWorkerCount cli) (na_WorkerCount n)\<rparr>) c))"

definition container_config ::
    "(string \<Rightarrow> duration option) \<Rightarrow> (string \<Rightarrow> string) \<Rightarrow> CLIConfig option \<Rightarrow> go_error + AppConfig" where
  "container_config pd env cli =
     rbind (map_err (Wrapf (Text ''failed to load configuration'')) (LoadConfig pd env)) (\<lambda>c.
     rbind (case cli of None \<Rightarrow> Inr c | Some flags \<Rightarrow> apply_cli flags c) (\<lambda>c.
     rbind (map_err (Wrapf (Text ''configuration validation failed'')) (Validate c)) (\<lambda>_. Inr c)))"

section \<open>Addresses\<close>

text \<open>\<open>url.Parse\<close> yields the scheme and the host.\<close>

definition check_url :: "(string \<Rightarrow> go_error + string \<times> string) \<Rightarrow> string list \<Rightarrow> string \<Rightarrow> string \<Rightarrow> string \<Rightarrow> go_error + unit" where
  "check_url parse schemes empty_text expected url =
     (if url = [] then fail (Text empty_text)
      else rbind (map_err (Wrapf (Text ''invalid URL format'')) (parse url)) (\<lambda>(scheme, host).
        if scheme = [] then fail (Text (''URL missing scheme (expected: '' @ expected @ '')''))
        else if scheme \<notin> set schemes then failf (Text ''invalid URL scheme '') [scheme]
        else if host = [] then fail (Text ''URL missing host'')
        else Inr ()))"

definition validateNATSURL :: "(string \<Rightarrow> go_error + string \<times> string) \<Rightarrow> string \<Rightarrow> go_error + unit" where
  "validateNATSURL parse = check_url parse [''nats'', ''nats+tls'', ''ws'', ''wss''] ''NATS URL cannot be empty'' ''nats://''"

definition validateOpenSearchURL :: "(string \<Rightarrow> go_error + string \<times> string) \<Rightarrow> string \<Rightarrow> go_error + unit" where
  "validateOpenSearchURL parse = check_url parse [''http'', ''https''] ''OpenSearch URL cannot be empty'' ''http:// or https://''"

section \<open>Initialization\<close>

record container_env =
  ce_url_Parse :: "string \<Rightarrow> go_error + string \<times> string"
  ce_Connect :: "NATSConfig \<Rightarrow> go_error option"
  ce_NewClient :: "OpenSearchConfig \<Rightarrow> go_error option"
  ce_auditClient :: "OpenSearchConfig \<Rightarrow> bool"
  ce_url_error :: "string \<Rightarrow> go_error option"
  ce_new_validator :: "string \<Rightarrow> string list \<Rightarrow> int \<Rightarrow> go_error + jwt_validator"
  ce_mappings :: "string \<Rightarrow> auditMapping gomap option reply"
  ce_Stat :: "string \<Rightarrow> nat option"
  ce_ReadFile :: "string \<Rightarrow> string option"
  ce_decode_manifest :: "json \<Rightarrow> AuditPublisherManifest list option"

definition initializeOpenSearchClients :: "container_env \<Rightarrow> AppConfig \<Rightarrow> go_error + bool" where
  "initializeOpenSearchClients ce c =
     rbind (map_err (Wrapf (Text ''failed to create OpenSearch client'')) (validateOpenSearchURL (ce_url_Parse ce) (os_URL (ac_OpenSearch c)))) (\<lambda>_.
     case ce_NewClient ce (ac_OpenSearch c) of
       Some err \<Rightarrow> Inl (Wrapf (Text ''failed to create OpenSearch client'') err)
     | None \<Rightarrow>
         if au_Enabled (ac_Audit c) then
           (if ce_auditClient ce (ac_OpenSearch c) then Inr True
            else fail (Text ''failed to create private audit OpenSearch client''))
         else Inr False)"

text \<open>The result says whether there is a client for the audit indices.\<close>

definition initializeInfrastructure :: "container_env \<Rightarrow> AppConfig \<Rightarrow> go_error + bool" where
  "initializeInfrastructure ce c =
     rbind (map_err (Wrapf (Text ''failed to connect to NATS'')) (validateNATSURL (ce_url_Parse ce) (na_URL (ac_NATS c)))) (\<lambda>_.
     case ce_Connect ce (ac_NATS c) of
       Some err \<Rightarrow> Inl (Wrapf (Text ''failed to connect to NATS'') err)
     | None \<Rightarrow> initializeOpenSearchClients ce c)"

definition messaging_repository :: "AppConfig \<Rightarrow> ('s, 'c) MessagingRepository" where
  "messaging_repository c = NewMessagingRepository (na_DrainTimeout (ac_NATS c)) (na_PendingMsgLimit (ac_NATS c))
     (na_PendingBytesLimit (ac_NATS c)) (na_WorkerCount (ac_NATS c)) (na_AckWait (ac_NATS c)) (na_MaxAckPending (ac_NATS c))"

definition initializeRepositories ::
    "container_env \<Rightarrow> AppConfig \<Rightarrow> bool \<Rightarrow> go_error + AuthRepository \<times> ('s, 'c) MessagingRepository" where
  "initializeRepositories ce c auditClient =
     (if au_Enabled (ac_Audit c) \<and> \<not> auditClient then fail (Text ''audit OpenSearch client is not initialized'')
      else
        rbind (map_err (Wrapf (Text ''failed to create auth repository''))
          (NewAuthRepository (ce_url_error ce) (ce_new_validator ce) (jw_Issuer (ac_JWT c)) (jw_Audiences (ac_JWT c))
             (jw_JWKSURL (ac_JWT c)) (jw_ClockSkew (ac_JWT c)))) (\<lambda>authRepo.
        Inr (authRepo, messaging_repository c)))"

text \<open>The fence must cover every resource with a revision-dependent origin, and every fenced resource
  needs a publisher with an approved mutation schema.\<close>

definition fenced_origins :: "string \<times> AuditResourcePolicy \<Rightarrow> bool" where
  "fenced_origins r = list_ex RequiresLegacyFence (rp_Origins (snd r))"

definition approves_mutation :: "string \<Rightarrow> AuditPublisherPolicy \<Rightarrow> bool" where
  "approves_mutation resource p =
     (case map_of (pp_Resources p) resource of
        None \<Rightarrow> False
      | Some rp \<Rightarrow> AuditOriginMutation \<in> set (rp_Origins rp) \<and> rp_Schemas rp \<noteq> [])"

definition validateAuditPolicyCoverage :: "AuditPublisherPolicy list \<Rightarrow> string list \<Rightarrow> go_error + unit" where
  "validateAuditPolicyCoverage policies requiredTypes =
     rbind (rforeach (\<lambda>publisher. rforeach (\<lambda>r.
         require (\<not> fenced_origins r \<or> fst r \<in> set requiredTypes)
           (Errorf (Text ''mutation/reindex/sync audit policy resource must be audit-required'') [])) (pp_Resources publisher)) policies) (\<lambda>_.
     rforeach (\<lambda>resource. require (list_ex (approves_mutation resource) policies)
         (Errorf (Text ''audit-required resource type lacks an approved mutation schema'') [])) requiredTypes)"

definition read_policies :: "container_env \<Rightarrow> string \<Rightarrow> go_error + AuditPublisherPolicy list" where
  "read_policies ce file =
     (case ce_Stat ce file of
        None \<Rightarrow> fail (Text ''audited publisher policy is unavailable or too large'')
      | Some bytes \<Rightarrow>
          if bytes > MaxAuditEnvelopeBytes then fail (Text ''audited publisher policy is unavailable or too large'')
          else
            (case ce_ReadFile ce file of
               None \<Rightarrow> fail (Text ''read audited publisher policy: failed'')
             | Some policy \<Rightarrow>
                 map_err (Wrapf (Text ''invalid audited publisher policy'')) (DecodeAuditPolicies (ce_decode_manifest ce) policy)))"

definition audit_workflow ::
    "container_env \<Rightarrow> AppConfig \<Rightarrow> bool \<Rightarrow> (AuditPublisherPolicy gomap \<Rightarrow> audit_env) \<Rightarrow> 'w audit_stores \<Rightarrow> go_error + audit_env \<times> 'w audit_stores" where
  "audit_workflow ce c auditClient env st =
     rbind (map_err (Wrapf (Text ''audited index mappings not ready''))
       (VerifyAuditMappings (ce_mappings ce) auditClient (os_Index (ac_OpenSearch c)) (os_Timeout (ac_OpenSearch c)))) (\<lambda>_.
     rbind (read_policies ce (au_PolicyFile (ac_Audit c))) (\<lambda>policies.
     rbind (validateAuditPolicyCoverage policies (au_RequiredTypes (ac_Audit c))) (\<lambda>_.
     rbind (map_err (Wrapf (Text ''invalid audited publisher policy'')) (NewAuditAdmission policies)) (\<lambda>installed.
     rbind (map_err (Wrapf (Text ''initialize audited processing'')) (NewAuditWorkflow True True True True True True st)) (\<lambda>st.
     Inr (env installed, st))))))"

definition initializeApplication ::
    "container_env \<Rightarrow> AppConfig \<Rightarrow> bool \<Rightarrow> (AuditPublisherPolicy gomap \<Rightarrow> audit_env) \<Rightarrow> 'w audit_stores \<Rightarrow> 'w MessageProcessor
     \<Rightarrow> go_error + 'w MessageProcessor" where
  "initializeApplication ce c auditClient env st mp0 =
     (let mp = Configure (os_Index (ac_OpenSearch c)) (na_Queue (ac_NATS c)) (na_IndexingSubject (ac_NATS c)) (na_V1IndexingSubject (ac_NATS c)) mp0 in
      if au_Enabled (ac_Audit c)
      then rbind (audit_workflow ce c auditClient env st) (\<lambda>flow. SetAuditWorkflow (Some flow) (au_RequiredTypes (ac_Audit c)) mp)
      else Inr mp)"

record ('s, 'c, 'w) Container =
  ct_Config :: AppConfig
  ct_AuthRepository :: AuthRepository
  ct_MessagingRepository :: "('s, 'c) MessagingRepository"
  ct_CleanupRepository :: janitor_state
  ct_MessageProcessor :: "'w MessageProcessor"
  ct_simpleResponse :: bool

text \<open>\<open>NewContainer\<close>: the stages in order, each wrapping the error of its own. The message processor is built
  from the services of the repositories.\<close>

definition NewContainer ::
    "container_env \<Rightarrow> (string \<Rightarrow> duration option) \<Rightarrow> (string \<Rightarrow> string) \<Rightarrow> CLIConfig option \<Rightarrow> (AuditPublisherPolicy gomap \<Rightarrow> audit_env)
     \<Rightarrow> 'w audit_stores \<Rightarrow> (AuthRepository \<Rightarrow> ('s, 'c) MessagingRepository \<Rightarrow> 'w MessageProcessor) \<Rightarrow> go_error + ('s, 'c, 'w) Container" where
  "NewContainer ce pd getenv cli env st build =
     rbind (container_config pd getenv cli) (\<lambda>c.
     rbind (map_err (Wrapf (Text ''failed to initialize infrastructure'')) (initializeInfrastructure ce c)) (\<lambda>auditClient.
     rbind (map_err (Wrapf (Text ''failed to initialize repositories'')) (initializeRepositories ce c auditClient)) (\<lambda>(authRepo, messaging).
     rbind (map_err (Wrapf (Text ''failed to initialize application layer''))
       (initializeApplication ce c auditClient env st (build authRepo messaging))) (\<lambda>mp.
     Inr \<lparr>ct_Config = c, ct_AuthRepository = authRepo, ct_MessagingRepository = messaging,
          ct_CleanupRepository = NewCleanupRepository, ct_MessageProcessor = mp,
          ct_simpleResponse = (\<not> hc_EnableDetailedResponse (ac_Health c))\<rparr>))))"

section \<open>Running\<close>

definition StreamNameIndexEvents :: string where "StreamNameIndexEvents = ''index-events''"

definition SetupNATSSubscriptions ::
    "('k, 'c, 'v) jetstream \<Rightarrow> ('v \<Rightarrow> ('s, 'c) MessagingRepository) \<Rightarrow> ('s, 'c, 'w) Container \<Rightarrow> 'v \<Rightarrow> go_error option \<times> ('s, 'c, 'w) Container \<times> 'v" where
  "SetupNATSSubscriptions js current ct w =
     (case ConsumeWithJetStream js StreamNameIndexEvents
             [na_IndexingSubject (ac_NATS (ct_Config ct)), na_V1IndexingSubject (ac_NATS (ct_Config ct))] current (ct_MessagingRepository ct) w of
        (err, r, w') \<Rightarrow> (map_option (Wrapf (Text ''failed to start JetStream index consumer'')) err, ct\<lparr>ct_MessagingRepository := r\<rparr>, w'))"

definition StartServices ::
    "('k, 'c, 'v) jetstream \<Rightarrow> ('v \<Rightarrow> ('s, 'c) MessagingRepository) \<Rightarrow> ('s, 'c, 'w) Container \<Rightarrow> 'v \<Rightarrow> go_error option \<times> ('s, 'c, 'w) Container \<times> 'v" where
  "StartServices js current ct w =
     (case SetupNATSSubscriptions js current ct w of
        (Some err, ct', w') \<Rightarrow> (Some (Wrapf (Text ''failed to setup NATS subscriptions'') err), ct', w')
      | (None, ct', w') \<Rightarrow>
          (None, if ja_Enabled (ac_Janitor (ct_Config ct)) then ct'\<lparr>ct_CleanupRepository := StartItemLoop (ct_CleanupRepository ct')\<rparr> else ct', w'))"

text \<open>The readiness status decides; the names of the failed checks are the values of the error.\<close>

definition ContainerHealthCheck :: "HealthStatus \<Rightarrow> go_error option" where
  "ContainerHealthCheck status =
     (if hs_Status status = ''unhealthy''
      then Some (Errorf (Text ''health check failed: %s'')
             (map fst (filter (\<lambda>(_, ck). ck_Status ck = ''unhealthy'') (hs_Checks status))))
      else None)"

section \<open>Shutdown\<close>

text \<open>\<open>CleanupRepository.Shutdown\<close> as its caller sees it: it returns when the worker and the retries of a
  running janitor have ended.\<close>

definition shutdown_janitor :: "janitor_state \<Rightarrow> janitor_state option" where
  "shutdown_janitor s =
     (if js_isRunning s then map_option (\<lambda>s'. s'\<lparr>js_isRunning := False, js_retries := []\<rparr>) (Shutdown s) else Some s)"

record drain_inputs =
  di_conn :: conn_state
  di_events :: drain_events
  di_now :: int

definition drain_container :: "(duration \<Rightarrow> string) \<Rightarrow> drain_inputs \<Rightarrow> ('s, 'c, 'w) Container \<Rightarrow> go_error option \<times> ('s, 'c, 'w) Container" where
  "drain_container fmt d ct =
     (case DrainWithTimeout fmt (di_conn d) (di_events d) (di_now d) (ct_MessagingRepository ct) of
        (res, r) \<Rightarrow> (dr_error res, ct\<lparr>ct_MessagingRepository := r\<rparr>))"

text \<open>\<open>Shutdown\<close> stops the janitor, drains and closes; errors are only logged. A panic is \<open>None\<close>.\<close>

definition container_Shutdown ::
    "(duration \<Rightarrow> string) \<Rightarrow> ('s, 'v) nats_conn option \<Rightarrow> drain_inputs \<Rightarrow> ('s, 'c, 'w) Container \<Rightarrow> 'v \<Rightarrow> (('s, 'c, 'w) Container \<times> 'v) option" where
  "container_Shutdown fmt conn d ct w =
     map_option (\<lambda>js.
       let ct1 = snd (drain_container fmt d (ct\<lparr>ct_CleanupRepository := js\<rparr>)) in
       (case Close fmt conn (di_conn d) (di_events d) (di_now d) (ct_MessagingRepository ct1) w of
          (r, w') \<Rightarrow> (ct1\<lparr>ct_MessagingRepository := r\<rparr>, w'))) (shutdown_janitor (ct_CleanupRepository ct))"

definition GracefulShutdown ::
    "(duration \<Rightarrow> string) \<Rightarrow> ('s, 'v) nats_conn option \<Rightarrow> drain_inputs \<Rightarrow> drain_inputs \<Rightarrow> ('s, 'c, 'w) Container \<Rightarrow> 'v
     \<Rightarrow> (go_error option \<times> ('s, 'c, 'w) Container \<times> 'v) option" where
  "GracefulShutdown fmt conn d1 d2 ct w =
     (case drain_container fmt d1 ct of
        (err, ct1) \<Rightarrow>
          Option.bind (shutdown_janitor (ct_CleanupRepository ct1)) (\<lambda>js.
          map_option (\<lambda>(ct2, w'). (map_option (Wrapf (Text ''graceful shutdown completed with errors'')) err, ct2, w'))
            (container_Shutdown fmt conn d2 (ct1\<lparr>ct_CleanupRepository := js\<rparr>) w)))"

section \<open>Properties\<close>

lemma validateAuditPolicyCoverage_Inr:
  "validateAuditPolicyCoverage policies required = Inr () \<longleftrightarrow>
     list_all (\<lambda>p. list_all (\<lambda>r. \<not> fenced_origins r \<or> fst r \<in> set required) (pp_Resources p)) policies \<and>
     list_all (\<lambda>resource. list_ex (approves_mutation resource) policies) required"
  by (auto simp: validateAuditPolicyCoverage_def rbind_Inr_conv rforeach_Inr_conv require_Inr_conv list_all_iff)

lemma container_config_valid: "container_config pd getenv cli = Inr c \<Longrightarrow> Validate c = Inr ()"
  by (auto simp: container_config_def rbind_Inr_conv map_err_Inr_conv)

lemma NewContainer_stages:
  assumes "NewContainer ce pd getenv cli env st build = Inr ct"
  shows "Validate (ct_Config ct) = Inr () \<and> ct_MessagingRepository ct = messaging_repository (ct_Config ct) \<and>
    (\<exists>auditClient mp0. initializeApplication ce (ct_Config ct) auditClient env st mp0 = Inr (ct_MessageProcessor ct))"
proof -
  obtain c auditClient authRepo messaging mp where "container_config pd getenv cli = Inr c"
    "initializeRepositories ce c auditClient = Inr (authRepo, messaging)"
    "initializeApplication ce c auditClient env st (build authRepo messaging) = Inr mp"
    "ct_Config ct = c" "ct_MessagingRepository ct = messaging" "ct_MessageProcessor ct = mp"
    using assms by (auto simp: NewContainer_def rbind_Inr_conv map_err_Inr_conv split: prod.splits)
  moreover have "messaging = messaging_repository c"
    using calculation(2) by (auto simp: initializeRepositories_def rbind_Inr_conv split: if_splits)
  ultimately show ?thesis by (auto dest: container_config_valid)
qed

lemma SetAuditWorkflow_installs:
  "SetAuditWorkflow (Some flow) required mp = Inr mp' \<Longrightarrow> mp_auditWorkflow mp' = Some flow \<and> mp_auditRequiredTypes mp' = required"
  by (auto simp: SetAuditWorkflow_def rbind_Inr_conv)

text \<open>C7: a service that starts with auditing has the fence its policies need: the fenced types are not empty
  and are valid, the processor holds the workflow and exactly these types, every fenced type has a
  publisher with an approved mutation schema, and no publisher may write with a revision-dependent
  origin outside of them; the credentials are set and the index mappings were verified.\<close>

theorem started_with_fence:
  assumes "NewContainer ce pd getenv cli env st build = Inr ct" "au_Enabled (ac_Audit (ct_Config ct))"
  shows "\<exists>policies installed required. required = au_RequiredTypes (ac_Audit (ct_Config ct)) \<and> required \<noteq> [] \<and> list_all ValidAuditObjectType required \<and>
    mp_auditWorkflow (ct_MessageProcessor ct) = Some (env installed, st) \<and> mp_auditRequiredTypes (ct_MessageProcessor ct) = required \<and>
    read_policies ce (au_PolicyFile (ac_Audit (ct_Config ct))) = Inr policies \<and> NewAuditAdmission policies = Inr installed \<and>
    list_all (\<lambda>p. list_all (\<lambda>r. \<not> fenced_origins r \<or> fst r \<in> set required) (pp_Resources p)) policies \<and>
    list_all (\<lambda>resource. list_ex (approves_mutation resource) policies) required \<and>
    os_Username (ac_OpenSearch (ct_Config ct)) \<noteq> [] \<and> os_Password (ac_OpenSearch (ct_Config ct)) \<noteq> [] \<and>
    os_Index (ac_OpenSearch (ct_Config ct)) \<noteq> historyIndex"
proof -
  let ?c = "ct_Config ct"
  obtain auditClient mp0 where valid: "Validate ?c = Inr ()"
    and app: "initializeApplication ce ?c auditClient env st mp0 = Inr (ct_MessageProcessor ct)"
    using NewContainer_stages [OF assms(1)] by blast
  have audit: "au_RequiredTypes (ac_Audit ?c) \<noteq> []" "list_all ValidAuditObjectType (au_RequiredTypes (ac_Audit ?c))"
    "os_Username (ac_OpenSearch ?c) \<noteq> []" "os_Password (ac_OpenSearch ?c) \<noteq> []"
    using valid assms(2) by (simp_all add: Validate_Inr validateAudit_def Let_def)
  obtain flow where flow: "audit_workflow ce ?c auditClient env st = Inr flow"
    "mp_auditWorkflow (ct_MessageProcessor ct) = Some flow" "mp_auditRequiredTypes (ct_MessageProcessor ct) = au_RequiredTypes (ac_Audit ?c)"
    using app assms(2) by (auto simp: initializeApplication_def Let_def rbind_Inr_conv dest!: SetAuditWorkflow_installs)
  then obtain policies installed where p: "VerifyAuditMappings (ce_mappings ce) auditClient (os_Index (ac_OpenSearch ?c)) (os_Timeout (ac_OpenSearch ?c)) = Inr ()"
    "read_policies ce (au_PolicyFile (ac_Audit ?c)) = Inr policies" "validateAuditPolicyCoverage policies (au_RequiredTypes (ac_Audit ?c)) = Inr ()"
    "NewAuditAdmission policies = Inr installed" "flow = (env installed, st)"
    by (auto simp: audit_workflow_def rbind_Inr_conv map_err_Inr_conv NewAuditWorkflow_def)
  have "os_Index (ac_OpenSearch ?c) \<noteq> historyIndex" using p(1) by (auto simp: VerifyAuditMappings_def split: if_splits)
  then show ?thesis using audit flow p by (auto simp: validateAuditPolicyCoverage_Inr)
qed

text \<open>The consumer of a started service runs with the configured limits: no fallback of the messaging
  repository applies to a validated configuration.\<close>

theorem started_limits:
  assumes "NewContainer ce pd getenv cli env st build = Inr ct" "fits (ct_Config ct)"
  shows "let r = ct_MessagingRepository ct; n = ac_NATS (ct_Config ct) in
    int (mr_sem r) = na_WorkerCount n \<and> 0 < mr_sem r \<and> mr_ackWait r = na_AckWait n \<and> mr_maxAckPending r = na_MaxAckPending n \<and>
    mr_drainTimeout r = na_DrainTimeout n \<and> os_Timeout (ac_OpenSearch (ct_Config ct)) + os_BatchMaxWait (ac_OpenSearch (ct_Config ct)) < mr_ackWait r"
proof -
  let ?c = "ct_Config ct"
  have valid: "Validate ?c = Inr ()" and r: "ct_MessagingRepository ct = messaging_repository ?c"
    using NewContainer_stages [OF assms(1)] by blast+
  have "0 < os_Timeout (ac_OpenSearch ?c)" "0 < os_BatchMaxWait (ac_OpenSearch ?c)" "0 < na_WorkerCount (ac_NATS ?c)"
    "0 < na_MaxAckPending (ac_NATS ?c)" "minimumAckWait ?c \<le> na_AckWait (ac_NATS ?c)"
    using valid by (simp_all add: Validate_Inr validateOpenSearch_def validateNATS_def Let_def)
  moreover from this assms(2) have "os_Timeout (ac_OpenSearch ?c) + os_BatchMaxWait (ac_OpenSearch ?c) + 10 * Second \<le> minimumAckWait ?c"
    using fits_sums [of ?c] by (simp add: minimumAckWait_def ackWaitSafetyMargin_def auditMaxOpenSearchRequests_def Let_def)
  ultimately show ?thesis by (simp add: r messaging_repository_def NewMessagingRepository_def Let_def)
qed


section \<open>Witnesses\<close>

definition audit_getenv :: "string \<Rightarrow> string" where
  "audit_getenv k =
     (if k = ''AUDIT_ENABLED'' then ''true''
      else if k = ''AUDIT_POLICY_FILE'' then ''policy.json''
      else if k = ''AUDIT_REQUIRED_TYPES'' then ''project''
      else if k = ''OPENSEARCH_USERNAME'' then ''u''
      else if k = ''OPENSEARCH_PASSWORD'' then ''p''
      else if k = ''NATS_DRAIN_TIMEOUT'' then ''155s''
      else [])"

definition sample_container_env :: container_env where
  "sample_container_env = \<lparr>
     ce_url_Parse = \<lambda>url. Inr (if url = ''nats://nats:4222'' then ''nats'' else ''http'', ''host''),
     ce_Connect = \<lambda>_. None, ce_NewClient = \<lambda>_. None, ce_auditClient = \<lambda>_. True, ce_url_error = \<lambda>_. None,
     ce_new_validator = \<lambda>_ _ _. Inr sample_jwt, ce_mappings = sample_mappings, ce_Stat = \<lambda>_. Some 2, ce_ReadFile = \<lambda>_. Some ''{}'',
     ce_decode_manifest = \<lambda>_. Some [sample_manifest]\<rparr>"

definition sample_pd :: "string \<Rightarrow> duration option" where
  "sample_pd s = (if s = ''155s'' then Some (155 * Second) else None)"

definition audited_config :: AppConfig where
  "audited_config = update_nats (\<lambda>n. n\<lparr>na_AckWait := 160 * Second, na_MaxAckPending := 100\<rparr>) (env_config sample_pd audit_getenv)"

lemmas audited_config_defs = audited_config_def env_config_def env_server_def env_nats_def env_opensearch_def env_jwt_def
  env_health_def env_audit_def Let_def getEnvString_def getEnvInt_def getEnvBool_def getEnvDuration_def getEnvWith_def
  audit_getenv_def sample_pd_def

lemma audited_config_stages: "LoadConfig sample_pd audit_getenv = Inr audited_config" "Validate audited_config = Inr ()"
proof -
  show "LoadConfig sample_pd audit_getenv = Inr audited_config"
    by (simp add: LoadConfig_def resolve_ack_wait_def resolve_max_ack_pending_def minimumAckWait_def ackWaitSafetyMargin_def
        auditMaxOpenSearchRequests_def int64_def audited_config_defs ParseBool_def)
  show "Validate audited_config = Inr ()"
    by (simp add: validate_defs audited_config_defs default_names int64_def ParseBool_def grammar_defs byte_def)
qed

lemma audited_config_loaded: "container_config sample_pd audit_getenv None = Inr audited_config"
  by (simp add: container_config_def audited_config_stages)

definition sample_stores :: "message_effect list audit_stores" where
  "sample_stores = \<lparr>st_receipt_create = \<lambda>_ _ w. (WTransport, w), st_receipt_get = \<lambda>_ _. RTransport,
     st_history_create = \<lambda>_ _ w. (WTransport, w), st_history_get = \<lambda>_ _. RTransport,
     st_history_overwrite = \<lambda>_ _ w. (WTransport, w), st_update = \<lambda>_ _ w. (UTransport, w),
     st_check = \<lambda>_ w. w, st_publish = \<lambda>_ _ w. w\<rparr>"

definition sample_build :: "AuthRepository \<Rightarrow> (unit, unit) MessagingRepository \<Rightarrow> message_effect list MessageProcessor" where
  "sample_build _ _ = tracing (\<lambda>_ _ _. None) (\<lambda>_ _. None) (\<lambda>_. Inr [])"

lemma sample_container_built:
  assumes "container_config sample_pd audit_getenv cli = Inr audited_config"
  shows "\<exists>ct. NewContainer sample_container_env sample_pd audit_getenv cli (\<lambda>ps. sample_env\<lparr>en_policies := ps\<rparr>) sample_stores sample_build = Inr ct \<and>
     ct_Config ct = audited_config"
proof -
  have "initializeInfrastructure sample_container_env audited_config = Inr True"
    by (simp add: initializeInfrastructure_def initializeOpenSearchClients_def validateNATSURL_def validateOpenSearchURL_def check_url_def
        sample_container_env_def audited_config_defs ParseBool_def)
  moreover obtain authRepo where "initializeRepositories sample_container_env audited_config True = Inr (authRepo, messaging_repository audited_config :: (unit, unit) MessagingRepository)"
    by (simp add: initializeRepositories_def NewAuthRepository_def sample_container_env_def)
  moreover have cover: "validateAuditPolicyCoverage [sample_policy] [''project''] = Inr ()"
    by (simp add: validateAuditPolicyCoverage_Inr sample_policy_def approves_mutation_def fenced_origins_def)
  moreover have required: "au_RequiredTypes (ac_Audit audited_config) = [''project'']"
    by (simp add: audited_config_defs)
  moreover have "VerifyAuditMappings sample_mappings True (os_Index (ac_OpenSearch audited_config)) (os_Timeout (ac_OpenSearch audited_config)) = Inr ()"
    using sample_mappings_verified by (simp add: VerifyAuditMappings_def audited_config_defs)
  then have "audit_workflow sample_container_env audited_config True (\<lambda>ps. sample_env\<lparr>en_policies := ps\<rparr>) sample_stores =
      Inr (sample_env\<lparr>en_policies := [(''proj'', sample_policy)]\<rparr>, sample_stores)"
    using sample_manifest_decoded sample_policy_installed cover
    by (simp add: audit_workflow_def read_policies_def sample_container_env_def MaxAuditEnvelopeBytes_def NewAuditWorkflow_def required)
  then have "\<exists>mp. initializeApplication sample_container_env audited_config True (\<lambda>ps. sample_env\<lparr>en_policies := ps\<rparr>) sample_stores
      (sample_build authRepo (messaging_repository audited_config)) = Inr mp"
    by (simp add: initializeApplication_def SetAuditWorkflow_def audited_config_defs ParseBool_def grammar_defs byte_def)
  ultimately show ?thesis by (auto simp: NewContainer_def assms)
qed

lemmas sample_container_started = sample_container_built [OF audited_config_loaded]

theorem started_with_fence_witness:
  "\<exists>ct :: (unit, unit, message_effect list) Container. ct_Config ct = audited_config \<and> mp_auditRequiredTypes (ct_MessageProcessor ct) = [''project'']"
proof -
  obtain ct where ct: "NewContainer sample_container_env sample_pd audit_getenv None (\<lambda>ps. sample_env\<lparr>en_policies := ps\<rparr>) sample_stores sample_build = Inr ct"
    "ct_Config ct = audited_config" using sample_container_started by blast
  moreover have "au_Enabled (ac_Audit audited_config)" "au_RequiredTypes (ac_Audit audited_config) = [''project'']"
    by (simp_all add: audited_config_defs ParseBool_def)
  ultimately have "mp_auditRequiredTypes (ct_MessageProcessor ct) = [''project'']"
    using started_with_fence [OF ct(1)] by auto
  then show ?thesis using ct(2) by blast
qed

theorem started_limits_witness:
  "\<exists>ct :: (unit, unit, message_effect list) Container. ct_Config ct = audited_config \<and> int (mr_sem (ct_MessagingRepository ct)) = na_WorkerCount (ac_NATS audited_config)"
proof -
  obtain ct where ct: "NewContainer sample_container_env sample_pd audit_getenv None (\<lambda>ps. sample_env\<lparr>en_policies := ps\<rparr>) sample_stores sample_build = Inr ct"
    "ct_Config ct = audited_config" using sample_container_started by blast
  moreover have "fits audited_config" by (simp add: fits_def audited_config_defs)
  ultimately show ?thesis using started_limits [OF ct(1)] by (auto simp: Let_def)
qed

definition idle_container :: "(unit, unit, message_effect list) Container" where
  "idle_container = \<lparr>ct_Config = audited_config, ct_AuthRepository = sample_repository, ct_MessagingRepository = messaging_repository audited_config,
     ct_CleanupRepository = StartItemLoop NewCleanupRepository,
     ct_MessageProcessor = sample_build sample_repository (messaging_repository audited_config), ct_simpleResponse = True\<rparr>"


end
