(* ===== verification/Telemetry.thy ===== *)
theory Telemetry
  imports Config "HOL-Library.Multiset" Complex_Main
begin

text \<open>
  pkg/utils/otel.go and pkg/logging/logger.go: what is configured from the environment, the choice of the
  propagators and of the sampler, the set-up of the three providers and their shutdown, the options of the
  logger, and the values a context carries; the header carrier of
  internal/infrastructure/messaging/tracing.go. The exporters, the SDK and \<open>strconv.ParseFloat\<close> are parameters.
\<close>

section \<open>Configuration\<close>

definition OTelProtocolGRPC :: string where "OTelProtocolGRPC = ''grpc''"
definition OTelProtocolHTTP :: string where "OTelProtocolHTTP = ''http''"
definition OTelExporterNone :: string where "OTelExporterNone = ''none''"

record OTelConfig =
  ot_ServiceName :: string
  ot_ServiceVersion :: string
  ot_Protocol :: string
  ot_Endpoint :: string
  ot_Insecure :: bool
  ot_TracesExporter :: string
  ot_TracesSampler :: string
  ot_TracesSamplerArg :: string
  ot_MetricsExporter :: string
  ot_LogsExporter :: string
  ot_Propagators :: string

text \<open>Lower-casing is exact where the result is ASCII, which every name the sampler is compared with is.\<close>

definition OTelConfigFromEnv :: "(string \<Rightarrow> string) \<Rightarrow> OTelConfig" where
  "OTelConfigFromEnv env = \<lparr>
     ot_ServiceName = getEnvString env ''OTEL_SERVICE_NAME'' ''lfx-v2-indexer-service'',
     ot_ServiceVersion = env ''OTEL_SERVICE_VERSION'',
     ot_Protocol = getEnvString env ''OTEL_EXPORTER_OTLP_PROTOCOL'' OTelProtocolGRPC,
     ot_Endpoint = env ''OTEL_EXPORTER_OTLP_ENDPOINT'',
     ot_Insecure = (env ''OTEL_EXPORTER_OTLP_INSECURE'' = ''true''),
     ot_TracesExporter = getEnvString env ''OTEL_TRACES_EXPORTER'' OTelExporterNone,
     ot_TracesSampler = concat (map encode_rune (to_lower (trim_space (env ''OTEL_TRACES_SAMPLER'')))),
     ot_TracesSamplerArg = trim_space (env ''OTEL_TRACES_SAMPLER_ARG''),
     ot_MetricsExporter = getEnvString env ''OTEL_METRICS_EXPORTER'' OTelExporterNone,
     ot_LogsExporter = getEnvString env ''OTEL_LOGS_EXPORTER'' OTelExporterNone,
     ot_Propagators = getEnvString env ''OTEL_PROPAGATORS'' ''tracecontext,baggage''\<rparr>"

definition endpointURL :: "string \<Rightarrow> bool \<Rightarrow> string" where
  "endpointURL raw insecure =
     (if contains raw ''://'' then raw else if insecure then ''http://'' @ raw else ''https://'' @ raw)"

section \<open>Propagators and samplers\<close>

datatype propagator = TraceContext | Baggage | Jaeger

definition propagator_of :: "string \<Rightarrow> propagator option" where
  "propagator_of p =
     (let t = trim_space p in
      if t = ''tracecontext'' then Some TraceContext
      else if t = ''baggage'' then Some Baggage
      else if t = ''jaeger'' then Some Jaeger
      else None)"

definition newPropagator :: "OTelConfig \<Rightarrow> propagator list" where
  "newPropagator cfg =
     (let ps = List.map_filter propagator_of (split_on CHR '','' (ot_Propagators cfg)) in
      if ps = [] then [TraceContext, Baggage] else ps)"

text \<open>A \<open>float64\<close>: no comparison with \<open>NaN\<close> holds.\<close>

datatype go_float = NaN | PosInf | NegInf | Finite rat

fun float_less :: "go_float \<Rightarrow> go_float \<Rightarrow> bool" where
  "float_less NaN y = False"
| "float_less x NaN = False"
| "float_less NegInf y = (y \<noteq> NegInf)"
| "float_less x PosInf = (x \<noteq> PosInf)"
| "float_less (Finite a) (Finite b) = (a < b)"
| "float_less x y = False"

datatype sampler = AlwaysSample | NeverSample | TraceIDRatioBased go_float | ParentBased sampler

definition parseRatio :: "(string \<Rightarrow> go_float option) \<Rightarrow> OTelConfig \<Rightarrow> go_float" where
  "parseRatio ParseFloat cfg =
     (let arg = trim_space (ot_TracesSamplerArg cfg) in
      if arg = [] then Finite 1
      else case ParseFloat arg of
        None \<Rightarrow> Finite 1
      | Some r \<Rightarrow> if float_less r (Finite 0) \<or> float_less (Finite 1) r then Finite 1 else r)"

definition newSampler :: "(string \<Rightarrow> go_float option) \<Rightarrow> OTelConfig \<Rightarrow> sampler" where
  "newSampler ParseFloat cfg =
     (let s = ot_TracesSampler cfg; ratio = parseRatio ParseFloat cfg in
      if s = ''always_on'' then AlwaysSample
      else if s = ''always_off'' then NeverSample
      else if s = ''traceidratio'' then TraceIDRatioBased ratio
      else if s = ''parentbased_always_on'' then ParentBased AlwaysSample
      else if s = ''parentbased_always_off'' then ParentBased NeverSample
      else ParentBased (TraceIDRatioBased ratio))"

section \<open>Providers\<close>

datatype signal = Traces | Metrics | Logs

datatype exporter_option = WithEndpointURL string | WithInsecure

text \<open>An exporter is chosen by its protocol, which is gRPC unless it is \<open>http\<close>, and its options.\<close>

definition exporter_options :: "OTelConfig \<Rightarrow> exporter_option list" where
  "exporter_options cfg =
     (if ot_Endpoint cfg \<noteq> [] then [WithEndpointURL (ot_Endpoint cfg)] else []) @ (if ot_Insecure cfg then [WithInsecure] else [])"

text \<open>What the SDK does: merging the resource, and creating the exporter of a signal, may fail; the shutdown of a provider may.\<close>

record otel_sdk =
  sdk_resource :: "string \<Rightarrow> string \<Rightarrow> go_error option"
  sdk_exporter :: "signal \<Rightarrow> bool \<Rightarrow> exporter_option list \<Rightarrow> go_error option"
  sdk_shutdown :: "signal \<Rightarrow> go_error option"
  sdk_ParseFloat :: "string \<Rightarrow> go_float option"

text \<open>A tracer provider has its sampler and the timeout of its batches, a meter provider the interval of its reader.\<close>

datatype provider = TracerProvider sampler duration | MeterProvider duration | LoggerProvider

datatype otel_event =
    SetTextMapPropagator "propagator list"
  | Created signal
  | Installed provider
  | ProviderShutdown signal

definition new_exporter :: "otel_sdk \<Rightarrow> OTelConfig \<Rightarrow> signal \<Rightarrow> go_error + unit" where
  "new_exporter sdk cfg s =
     (case sdk_exporter sdk s (ot_Protocol cfg = OTelProtocolHTTP) (exporter_options cfg) of Some err \<Rightarrow> Inl err | None \<Rightarrow> Inr ())"

definition newTraceProvider :: "otel_sdk \<Rightarrow> OTelConfig \<Rightarrow> go_error + provider" where
  "newTraceProvider sdk cfg = rbind (new_exporter sdk cfg Traces) (\<lambda>_. Inr (TracerProvider (newSampler (sdk_ParseFloat sdk) cfg) Second))"

definition newMetricsProvider :: "otel_sdk \<Rightarrow> OTelConfig \<Rightarrow> go_error + provider" where
  "newMetricsProvider sdk cfg = rbind (new_exporter sdk cfg Metrics) (\<lambda>_. Inr (MeterProvider (30 * Second)))"

definition newLoggerProvider :: "otel_sdk \<Rightarrow> OTelConfig \<Rightarrow> go_error + provider" where
  "newLoggerProvider sdk cfg = rbind (new_exporter sdk cfg Logs) (\<lambda>_. Inr LoggerProvider)"

definition new_provider :: "otel_sdk \<Rightarrow> OTelConfig \<Rightarrow> signal \<Rightarrow> go_error + provider" where
  "new_provider sdk cfg s =
     (case s of Traces \<Rightarrow> newTraceProvider sdk cfg | Metrics \<Rightarrow> newMetricsProvider sdk cfg | Logs \<Rightarrow> newLoggerProvider sdk cfg)"

definition exporter_of :: "OTelConfig \<Rightarrow> signal \<Rightarrow> string" where
  "exporter_of cfg s = (case s of Traces \<Rightarrow> ot_TracesExporter cfg | Metrics \<Rightarrow> ot_MetricsExporter cfg | Logs \<Rightarrow> ot_LogsExporter cfg)"

text \<open>The state of the set-up: the registered shutdown functions, and what happened.\<close>

record otel_state =
  tl_shutdownFuncs :: "signal list"
  tl_log :: "otel_event list"

text \<open>\<open>shutdown\<close> calls every registered function, joins their errors and forgets them.\<close>

definition otel_shutdown :: "otel_sdk \<Rightarrow> otel_state \<Rightarrow> go_error list \<times> otel_state" where
  "otel_shutdown sdk s =
     (List.map_filter (sdk_shutdown sdk) (tl_shutdownFuncs s),
      s\<lparr>tl_shutdownFuncs := [], tl_log := tl_log s @ map ProviderShutdown (tl_shutdownFuncs s)\<rparr>)"

text \<open>The three blocks of the set-up, in their order; the first failure runs the shutdown functions.\<close>

fun setup_providers :: "otel_sdk \<Rightarrow> OTelConfig \<Rightarrow> signal list \<Rightarrow> otel_state \<Rightarrow> go_error list \<times> otel_state" where
  "setup_providers sdk cfg [] s = ([], s)"
| "setup_providers sdk cfg (sig # sigs) s =
     (if exporter_of cfg sig = OTelExporterNone then setup_providers sdk cfg sigs s
      else case new_provider sdk cfg sig of
        Inl err \<Rightarrow> (case otel_shutdown sdk s of (errs, s') \<Rightarrow> (err # errs, s'))
      | Inr p \<Rightarrow> setup_providers sdk cfg sigs (s\<lparr>tl_shutdownFuncs := tl_shutdownFuncs s @ [sig],
                  tl_log := tl_log s @ [Created sig, Installed p]\<rparr>))"

definition SetupOTelSDKWithConfig :: "otel_sdk \<Rightarrow> OTelConfig \<Rightarrow> otel_state \<Rightarrow> go_error list \<times> otel_state" where
  "SetupOTelSDKWithConfig sdk cfg0 s =
     (let cfg = (if ot_Endpoint cfg0 \<noteq> [] then cfg0\<lparr>ot_Endpoint := endpointURL (ot_Endpoint cfg0) (ot_Insecure cfg0)\<rparr> else cfg0) in
      case sdk_resource sdk (ot_ServiceName cfg) (ot_ServiceVersion cfg) of
        Some err \<Rightarrow> (case otel_shutdown sdk s of (errs, s') \<Rightarrow> (err # errs, s'))
      | None \<Rightarrow> setup_providers sdk cfg [Traces, Metrics, Logs] (s\<lparr>tl_log := tl_log s @ [SetTextMapPropagator (newPropagator cfg)]\<rparr>))"

section \<open>Logging\<close>

datatype log_level = LevelDebug | LevelInfo | LevelWarn | LevelError

definition parseLogLevel :: "string \<Rightarrow> log_level" where
  "parseLogLevel level =
     (if level = ''debug'' then LevelDebug else if level = ''warn'' then LevelWarn
      else if level = ''error'' then LevelError else LevelInfo)"

record logger_options =
  lg_json :: bool
  lg_Level :: log_level
  lg_AddSource :: bool

definition NewLogger :: "(string \<Rightarrow> string) \<Rightarrow> bool list \<Rightarrow> logger_options" where
  "NewLogger env debug =
     (let json = (getEnvString env ''LOG_FORMAT'' ''json'' = ''json'') in
      if debug \<noteq> [] \<and> hd debug then \<lparr>lg_json = json, lg_Level = LevelDebug, lg_AddSource = True\<rparr>
      else \<lparr>lg_json = json, lg_Level = parseLogLevel (getEnvString env ''LOG_LEVEL'' ''info''), lg_AddSource = False\<rparr>)"

definition hex_digit :: "nat \<Rightarrow> char" where
  "hex_digit n = (if n < 10 then char_of (48 + n) else char_of (87 + n))"

definition hex_encode :: "nat list \<Rightarrow> string" where
  "hex_encode bs = concat (map (\<lambda>b. [hex_digit (b div 16), hex_digit (b mod 16)]) bs)"

text \<open>The eight bytes are the argument.\<close>

definition NewRequestID :: "nat list \<Rightarrow> string" where
  "NewRequestID bytes = hex_encode bytes"

text \<open>A logger is the list of its attributes. A context is its chain of values, the newest first.\<close>

type_synonym logger = "(string \<times> string) list"

datatype context_value = CLogger logger | CRequestID string | CRefresh bool | COther string

type_synonym go_context = "context_value gomap"

definition requestLoggerKey :: string where "requestLoggerKey = ''request_logger''"
definition requestIDKey :: string where "requestIDKey = ''request_id''"
definition refreshWaitForKey :: string where "refreshWaitForKey = ''refresh_wait_for''"

definition WithValue :: "go_context \<Rightarrow> string \<Rightarrow> context_value \<Rightarrow> go_context" where
  "WithValue ctx k v = (k, v) # ctx"

definition WithRequestID :: "nat list \<Rightarrow> go_context \<Rightarrow> logger \<Rightarrow> go_context \<times> logger" where
  "WithRequestID bytes ctx base =
     (let i = NewRequestID bytes; enhanced = base @ [(''request_id'', i)] in
      (WithValue (WithValue ctx requestIDKey (CRequestID i)) requestLoggerKey (CLogger enhanced), enhanced))"

definition FromContext :: "go_context \<Rightarrow> logger \<Rightarrow> logger" where
  "FromContext ctx fallback = (case map_of ctx requestLoggerKey of Some (CLogger l) \<Rightarrow> l | _ \<Rightarrow> fallback)"

definition WithComponent :: "logger \<Rightarrow> string \<Rightarrow> logger" where
  "WithComponent l component = l @ [(''component'', component)]"

definition WithRefreshWaitFor :: "go_context \<Rightarrow> go_context" where
  "WithRefreshWaitFor ctx = WithValue ctx refreshWaitForKey (CRefresh True)"

definition NeedsRefreshWaitFor :: "go_context \<Rightarrow> bool" where
  "NeedsRefreshWaitFor ctx = (map_of ctx refreshWaitForKey = Some (CRefresh True))"

definition GetRequestID :: "go_context \<Rightarrow> string" where
  "GetRequestID ctx = (case map_of ctx requestIDKey of Some (CRequestID i) \<Rightarrow> i | _ \<Rightarrow> [])"

definition WithFields :: "logger \<Rightarrow> (string \<times> string) list \<Rightarrow> logger" where
  "WithFields l flds = l @ flds"

text \<open>The record a logger writes: its attributes, the error first among those of the call.\<close>

definition LogError :: "logger \<Rightarrow> string \<Rightarrow> string \<Rightarrow> (string \<times> string) list \<Rightarrow> log_level \<times> string \<times> logger" where
  "LogError l message err flds = (LevelError, message, l @ (''error'', err) # flds)"

section \<open>Header carrier\<close>

text \<open>Keys are not made canonical; a nil carrier, which is \<open>None\<close>, ignores a \<open>Set\<close>.\<close>

definition carrier_Get :: "string list gomap option \<Rightarrow> string \<Rightarrow> string" where
  "carrier_Get c key = (case c of None \<Rightarrow> [] | Some h \<Rightarrow> (case map_of h key of Some (v # _) \<Rightarrow> v | _ \<Rightarrow> []))"

definition carrier_Set :: "string list gomap option \<Rightarrow> string \<Rightarrow> string \<Rightarrow> string list gomap option" where
  "carrier_Set c key value = map_option (gomap_put key [value]) c"

definition carrier_Keys :: "string list gomap option \<Rightarrow> string list" where
  "carrier_Keys c = (case c of None \<Rightarrow> [] | Some h \<Rightarrow> map fst h)"

section \<open>Properties\<close>

lemma contains_scheme: "contains (a @ ''://'' @ b) ''://''"
  by (auto simp: contains_def sublist_def)

text \<open>What the exporters get is a URL with a scheme, and a second pass changes nothing.\<close>

theorem endpointURL_scheme: "contains (endpointURL raw insecure) ''://'' \<and> endpointURL (endpointURL raw insecure) b = endpointURL raw insecure"
proof -
  have "contains (endpointURL raw insecure) ''://''"
    using contains_scheme [of "''http''" raw] contains_scheme [of "''https''" raw] by (simp add: endpointURL_def)
  then show ?thesis by (simp add: endpointURL_def [of "endpointURL raw insecure"])
qed

text \<open>The ratio of a sampler is in the unit interval, or it is \<open>NaN\<close>, which passes both comparisons.\<close>

theorem parseRatio_range:
  "(\<exists>q. parseRatio ParseFloat cfg = Finite q \<and> 0 \<le> q \<and> q \<le> 1) \<or>
   (parseRatio ParseFloat cfg = NaN \<and> ParseFloat (trim_space (ot_TracesSamplerArg cfg)) = Some NaN)"
proof (cases "ParseFloat (trim_space (ot_TracesSamplerArg cfg))")
  case (Some r)
  then show ?thesis by (cases r) (auto simp: parseRatio_def Let_def)
qed (simp add: parseRatio_def Let_def)

text \<open>A provider that was created is registered or was shut down.\<close>

definition balanced :: "otel_state \<Rightarrow> bool" where
  "balanced s \<longleftrightarrow> (\<forall>sig. count (mset (tl_log s)) (Created sig) =
     count (mset (tl_log s)) (ProviderShutdown sig) + count (mset (tl_shutdownFuncs s)) sig)"

lemma count_map_ProviderShutdown [simp]:
  "count (mset (map ProviderShutdown xs)) (Created sig) = 0"
  "count (mset (map ProviderShutdown xs)) (ProviderShutdown sig) = count (mset xs) sig"
  by (induction xs) simp_all

lemma balanced_shutdown: "balanced s \<Longrightarrow> balanced (snd (otel_shutdown sdk s)) \<and> tl_shutdownFuncs (snd (otel_shutdown sdk s)) = []"
  by (simp add: balanced_def otel_shutdown_def del: mset_map)

lemma setup_providers_balanced:
  "balanced s \<Longrightarrow> balanced (snd (setup_providers sdk cfg sigs s)) \<and>
     (fst (setup_providers sdk cfg sigs s) \<noteq> [] \<longrightarrow> tl_shutdownFuncs (snd (setup_providers sdk cfg sigs s)) = [])"
proof (induction sigs arbitrary: s)
  case (Cons sig sigs)
  have "balanced (s\<lparr>tl_shutdownFuncs := tl_shutdownFuncs s @ [sig], tl_log := tl_log s @ [Created sig, Installed p]\<rparr>)" for p
    using Cons.prems by (simp add: balanced_def)
  then show ?case
    using Cons balanced_shutdown [OF Cons.prems, of sdk]
    by (cases "otel_shutdown sdk s") (simp split: sum.split)
qed simp

lemma created_once:
  "count (mset (tl_log (snd (setup_providers sdk cfg sigs s)))) (Created sig) \<le> count (mset (tl_log s)) (Created sig) + count (mset sigs) sig"
proof (induction sigs arbitrary: s)
  case (Cons x sigs)
  let ?s = "\<lambda>p. s\<lparr>tl_shutdownFuncs := tl_shutdownFuncs s @ [x], tl_log := tl_log s @ [Created x, Installed p]\<rparr>"
  show ?case
  proof (cases "exporter_of cfg x = OTelExporterNone")
    case True
    then show ?thesis using Cons.IH [of s] by simp
  next
    case False
    then show ?thesis
      using Cons.IH [of "?s p" for p] by (cases "new_provider sdk cfg x") (auto simp: otel_shutdown_def simp del: mset_map split: if_splits)
  qed
qed simp

declare setup_providers.simps(2) [simp del]

definition fresh_otel :: otel_state where
  "fresh_otel = \<lparr>tl_shutdownFuncs = [], tl_log = []\<rparr>"

definition propagating :: "OTelConfig \<Rightarrow> otel_state" where
  "propagating c = fresh_otel\<lparr>tl_log := [SetTextMapPropagator (newPropagator c)]\<rparr>"

lemma setup_stages:
  assumes "SetupOTelSDKWithConfig sdk cfg fresh_otel = (errs, s)"
  shows "s = fresh_otel \<or> (\<exists>c. setup_providers sdk c [Traces, Metrics, Logs] (propagating c) = (errs, s))"
proof -
  define c where "c = (if ot_Endpoint cfg \<noteq> [] then cfg\<lparr>ot_Endpoint := endpointURL (ot_Endpoint cfg) (ot_Insecure cfg)\<rparr> else cfg)"
  have "(case sdk_resource sdk (ot_ServiceName c) (ot_ServiceVersion c) of
      Some err \<Rightarrow> (case otel_shutdown sdk fresh_otel of (errs, s') \<Rightarrow> (err # errs, s'))
    | None \<Rightarrow> setup_providers sdk c [Traces, Metrics, Logs] (propagating c)) = (errs, s)"
    using assms [unfolded SetupOTelSDKWithConfig_def c_def [symmetric] Let_def] unfolding propagating_def
    by (simp only: fresh_otel_def otel_state.simps append_Nil)
  moreover have "snd (otel_shutdown sdk fresh_otel) = fresh_otel" by (simp add: otel_shutdown_def fresh_otel_def)
  ultimately show ?thesis by (auto split: option.splits prod.splits)
qed

lemma balanced_start: "balanced fresh_otel" "balanced (propagating c)"
  by (simp_all add: balanced_def fresh_otel_def propagating_def)

lemma setup_result:
  assumes "SetupOTelSDKWithConfig sdk cfg fresh_otel = (errs, s)"
  shows "balanced s" "errs \<noteq> [] \<Longrightarrow> tl_shutdownFuncs s = []" "count (mset (tl_log s)) (Created sig) \<le> 1"
proof -
  have one: "count (mset (tl_log (propagating c))) (Created sig) + count (mset [Traces, Metrics, Logs]) sig \<le> 1" for c
    by (cases sig) (simp_all add: propagating_def)
  have "balanced s \<and> (errs \<noteq> [] \<longrightarrow> tl_shutdownFuncs s = []) \<and> count (mset (tl_log s)) (Created sig) \<le> 1"
    using setup_stages [OF assms]
  proof
    assume "s = fresh_otel"
    then show ?thesis using balanced_start(1) by (simp add: fresh_otel_def)
  next
    assume "\<exists>c. setup_providers sdk c [Traces, Metrics, Logs] (propagating c) = (errs, s)"
    then obtain c where s: "setup_providers sdk c [Traces, Metrics, Logs] (propagating c) = (errs, s)" by blast
    show ?thesis
      using setup_providers_balanced [OF balanced_start(2), of sdk c "[Traces, Metrics, Logs]" c]
        created_once [of sdk c "[Traces, Metrics, Logs]" "propagating c" sig] one [of c] s by simp
  qed
  then show "balanced s" "errs \<noteq> [] \<Longrightarrow> tl_shutdownFuncs s = []" "count (mset (tl_log s)) (Created sig) \<le> 1" by simp_all
qed

text \<open>A set-up that fails has shut down every provider it created, and one that succeeded leaves that to the
  returned function, which may be called again: after the last call every provider was created at most
  once and shut down as often as it was created.\<close>

theorem telemetry_shutdown_once:
  assumes "SetupOTelSDKWithConfig sdk cfg fresh_otel = (errs, s)"
  shows "(errs \<noteq> [] \<longrightarrow> tl_shutdownFuncs s = []) \<and>
    (let l = mset (tl_log (snd (otel_shutdown sdk (snd (otel_shutdown sdk s))))) in
     count l (Created sig) \<le> 1 \<and> count l (ProviderShutdown sig) = count l (Created sig))"
proof -
  let ?once = "snd (otel_shutdown sdk s)" and ?twice = "snd (otel_shutdown sdk (snd (otel_shutdown sdk s)))"
  have "balanced ?once" "tl_shutdownFuncs ?once = []" using balanced_shutdown [OF setup_result(1) [OF assms]] by blast+
  then have "balanced ?twice" "tl_shutdownFuncs ?twice = []" using balanced_shutdown by blast+
  then have "count (mset (tl_log ?twice)) (ProviderShutdown sig) = count (mset (tl_log ?twice)) (Created sig)"
    by (simp add: balanced_def)
  moreover have "count (mset (tl_log (snd (otel_shutdown sdk x)))) (Created sig) = count (mset (tl_log x)) (Created sig)" for x
    by (simp add: otel_shutdown_def del: mset_map)
  ultimately show ?thesis using setup_result(2,3) [OF assms] by (auto simp only: Let_def)
qed

end
