(* ===== verification/Service_Main.thy ===== *)
theory Service_Main
  imports Container Telemetry
begin

text \<open>
  cmd/lfx-indexer: the command line (cli.go), the address and the traced paths of the HTTP server (server.go), and
  \<open>main\<close> (main.go) from the flags to the exit of the process, with \<open>StartServicesWithWaitGroup\<close> of
  internal/container/container.go. The package \<open>flag\<close>, which turns arguments into values, and the signal are
  parameters; logging is left out.
\<close>

section \<open>Command line\<close>

text \<open>The flags given on the command line; a flag that is not given is \<open>None\<close>.\<close>

record flag_args =
  fa_d :: "bool option"
  fa_p :: "string option"
  fa_bind :: "string option"
  fa_nojanitor :: "bool option"
  fa_simple_health :: "bool option"
  fa_nats_pending_msg_limit :: "int option"
  fa_nats_pending_bytes_limit :: "int option"
  fa_nats_worker_count :: "int option"
  fa_check_config :: "bool option"
  fa_help :: "bool option"

definition flag_or :: "'a option \<Rightarrow> 'a \<Rightarrow> 'a" where
  "flag_or given defaultValue = (case given of Some v \<Rightarrow> v | None \<Rightarrow> defaultValue)"

definition parseCLIFlags :: "(string \<Rightarrow> string) \<Rightarrow> flag_args \<Rightarrow> CLIConfig" where
  "parseCLIFlags env args = \<lparr>
     cl_Port = flag_or (fa_p args) (getEnvString env ''PORT'' ''8080''),
     cl_Debug = flag_or (fa_d args) (getEnvBool env ''DEBUG'' False),
     cl_Bind = flag_or (fa_bind args) (getEnvString env ''BIND'' ''*''),
     cl_NoJanitor = flag_or (fa_nojanitor args) False,
     cl_SimpleHealth = flag_or (fa_simple_health args) (getEnvBool env ''SIMPLE_HEALTH'' False),
     cl_ConfigCheck = flag_or (fa_check_config args) False,
     cl_Help = flag_or (fa_help args) False,
     cl_NATSPendingMsgLimit = flag_or (fa_nats_pending_msg_limit args) 0,
     cl_NATSPendingBytesLimit = flag_or (fa_nats_pending_bytes_limit args) 0,
     cl_NATSWorkerCount = flag_or (fa_nats_worker_count args) 0\<rparr>"

text \<open>The exit status, if the program ends here.\<close>

definition handleEarlyExits :: "CLIConfig \<Rightarrow> nat option" where
  "handleEarlyExits flags = (if cl_Help flags then Some 0 else if cl_ConfigCheck flags then Some 0 else None)"

section \<open>HTTP server\<close>

definition server_addr :: "string \<Rightarrow> int \<Rightarrow> string" where
  "server_addr bind port = (if bind = ''*'' then '':'' @ int_str port else bind @ '':'' @ int_str port)"

text \<open>The paths of requests that are traced.\<close>

definition traced_path :: "string \<Rightarrow> bool" where
  "traced_path p = (p \<noteq> ''/healthz'' \<and> p \<noteq> ''/livez'' \<and> p \<noteq> ''/readyz'')"

record http_server =
  sr_Addr :: string
  sr_ReadTimeout :: duration
  sr_WriteTimeout :: duration
  sr_ReadHeaderTimeout :: duration

definition createHTTPServer :: "AppConfig \<Rightarrow> string \<Rightarrow> http_server" where
  "createHTTPServer c bind = \<lparr>sr_Addr = server_addr bind (sv_Port (ac_Server c)), sr_ReadTimeout = sv_ReadTimeout (ac_Server c),
     sr_WriteTimeout = sv_WriteTimeout (ac_Server c), sr_ReadHeaderTimeout = 3 * Second\<rparr>"

text \<open>How \<open>ListenAndServe\<close> ended; the process exits with the status, unless the server was shut down.\<close>

datatype serve_error = ErrServerClosed | ServeFailed

definition startHTTPServer :: "serve_error option \<Rightarrow> nat option" where
  "startHTTPServer err = (if err = Some ServeFailed then Some 1 else None)"

section \<open>Starting\<close>

text \<open>The goroutines registered with the wait group; each waits for the cancellation first.\<close>

datatype background = DrainNATS | StopJanitor

definition StartServicesWithWaitGroup ::
    "('k, 'c, 'v) jetstream \<Rightarrow> ('v \<Rightarrow> ('s, 'c) MessagingRepository) \<Rightarrow> ('s, 'c, 'w) Container \<Rightarrow> 'v
     \<Rightarrow> (go_error option \<times> background list) \<times> ('s, 'c, 'w) Container \<times> 'v" where
  "StartServicesWithWaitGroup js current ct w =
     (case SetupNATSSubscriptions js current ct w of
        (Some err, ct', w') \<Rightarrow> ((Some (Wrapf (Text ''failed to setup NATS subscriptions'') err), []), ct', w')
      | (None, ct', w') \<Rightarrow>
          (if ja_Enabled (ac_Janitor (ct_Config ct))
           then ((None, [DrainNATS, StopJanitor]), ct'\<lparr>ct_CleanupRepository := StartItemLoop (ct_CleanupRepository ct')\<rparr>, w')
           else ((None, [DrainNATS]), ct', w')))"

text \<open>\<open>main\<close> until the service runs: a process that ended has its exit status and the state of the telemetry it
  leaves. \<open>os.Exit\<close> does not run the deferred shutdown of the telemetry; a return does.\<close>

datatype ('s, 'c, 'w, 'v) main_state =
    Exited nat otel_state
  | Serving "('s, 'c, 'w) Container" "background list" http_server otel_state 'v

record ('s, 'c, 'w, 'k, 'v) main_env =
  me_args :: flag_args
  me_getenv :: "string \<Rightarrow> string"
  me_version :: string
  me_sdk :: otel_sdk
  me_NewContainer :: "CLIConfig \<Rightarrow> go_error + ('s, 'c, 'w) Container"
  me_jetstream :: "('k, 'c, 'v) jetstream"
  me_current :: "'v \<Rightarrow> ('s, 'c) MessagingRepository"

definition main_otel_config :: "(string \<Rightarrow> string) \<Rightarrow> string \<Rightarrow> OTelConfig" where
  "main_otel_config env version =
     (let c = OTelConfigFromEnv env in if ot_ServiceVersion c = [] then c\<lparr>ot_ServiceVersion := version\<rparr> else c)"

definition main_start :: "('s, 'c, 'w, 'k, 'v) main_env \<Rightarrow> 'v \<Rightarrow> ('s, 'c, 'w, 'v) main_state" where
  "main_start m w =
     (let flags = parseCLIFlags (me_getenv m) (me_args m) in
      case handleEarlyExits flags of
        Some status \<Rightarrow> Exited status fresh_otel
      | None \<Rightarrow>
          (case SetupOTelSDKWithConfig (me_sdk m) (main_otel_config (me_getenv m) (me_version m)) fresh_otel of
             (errs, otel) \<Rightarrow>
               if errs \<noteq> [] then Exited 1 otel
               else case me_NewContainer m flags of
                 Inl err \<Rightarrow> Exited 1 otel
               | Inr ct \<Rightarrow>
                   (case StartServicesWithWaitGroup (me_jetstream m) (me_current m) ct w of
                      ((Some err, _), ct', w') \<Rightarrow> Exited 0 (snd (otel_shutdown (me_sdk m) otel))
                    | ((None, tasks), ct', w') \<Rightarrow> Serving ct' tasks (createHTTPServer (ct_Config ct') (cl_Bind flags)) otel w')))"

section \<open>Stopping\<close>

text \<open>What happens after the signal at \<open>sg_at\<close>: when the two goroutines wake up, the events of the drain, when the
  janitor's shutdown returns, when the HTTP server has no connection left, and when the telemetry is flushed. A goroutine
  runs concurrently with the other.\<close>

record stop_events =
  sg_at :: int
  sg_drain_wakes :: int
  sg_conn :: conn_state
  sg_drain :: drain_events
  sg_janitor_done :: event
  sg_seen :: bool
  sg_http_idle :: event
  sg_flushed :: event

record stop_report =
  st_graceful :: bool
  st_drain_error :: "go_error option"
  st_services_done :: int
  st_http_clean :: bool
  st_ended :: int
  st_otel :: otel_state

text \<open>The later of two events; \<open>seen\<close> stands for what \<open>select\<close> does at the moment the timer is due.\<close>

fun later :: "bool \<Rightarrow> event \<Rightarrow> event \<Rightarrow> event" where
  "later seen (At a x) (At b y) = At (max a b) seen"
| "later seen e f = Never"

definition task_done :: "(duration \<Rightarrow> string) \<Rightarrow> stop_events \<Rightarrow> ('s, 'c, 'w) Container \<Rightarrow> background \<Rightarrow> event" where
  "task_done fmt ev ct task =
     (case task of
        DrainNATS \<Rightarrow> At (dr_finished (fst (DrainWithTimeout fmt (sg_conn ev) (sg_drain ev) (sg_drain_wakes ev) (ct_MessagingRepository ct)))) (sg_seen ev)
      | StopJanitor \<Rightarrow> sg_janitor_done ev)"

definition wait_group :: "bool \<Rightarrow> event list \<Rightarrow> int \<Rightarrow> event" where
  "wait_group seen es now = foldr (later seen) es (At now seen)"

definition gracefulShutdownSeconds :: duration where "gracefulShutdownSeconds = 30 * Second"

definition main_stop :: "(duration \<Rightarrow> string) \<Rightarrow> otel_sdk \<Rightarrow> stop_events \<Rightarrow> ('s, 'c, 'w) Container \<Rightarrow> background list \<Rightarrow> otel_state \<Rightarrow> stop_report" where
  "main_stop fmt sdk ev ct tasks otel =
     (let budget = na_DrainTimeout (ac_NATS (ct_Config ct));
          (timedOut, t1) = await (sg_at ev) (sg_at ev + budget) (wait_group (sg_seen ev) (map (task_done fmt ev ct) tasks) (sg_at ev));
          (httpTimedOut, t2) = await t1 (t1 + 5 * Second) (sg_http_idle ev);
          (flushTimedOut, t3) = await t2 (t2 + gracefulShutdownSeconds) (sg_flushed ev) in
      \<lparr>st_graceful = (\<not> timedOut),
       st_drain_error = dr_error (fst (DrainWithTimeout fmt (sg_conn ev) (sg_drain ev) (sg_drain_wakes ev) (ct_MessagingRepository ct))),
       st_services_done = t1, st_http_clean = (\<not> httpTimedOut), st_ended = t3, st_otel = snd (otel_shutdown sdk otel)\<rparr>)"

section \<open>Properties\<close>

lemma main_start_Serving:
  assumes "main_start m w = Serving ct tasks srv otel w'"
  obtains flags ct0 where "me_NewContainer m flags = Inr ct0" "balanced otel" "ct_Config ct = ct_Config ct0"
    "\<exists>v. mr_drainTimeout (ct_MessagingRepository ct) = mr_drainTimeout (me_current m v)"
    "tasks = [DrainNATS] \<or> tasks = [DrainNATS, StopJanitor]"
proof -
  let ?flags = "parseCLIFlags (me_getenv m) (me_args m)"
  obtain errs s where otel: "SetupOTelSDKWithConfig (me_sdk m) (main_otel_config (me_getenv m) (me_version m)) fresh_otel = (errs, s)"
    by fastforce
  with assms obtain ct0 where ct0: "me_NewContainer m ?flags = Inr ct0" "s = otel"
    and started: "StartServicesWithWaitGroup (me_jetstream m) (me_current m) ct0 w = ((None, tasks), ct, w')"
    by (auto simp: main_start_def Let_def split: option.splits if_splits sum.splits prod.splits)
  show thesis
  proof (rule that [OF ct0(1)])
    show "balanced otel" using setup_result(1) [OF otel] ct0(2) by simp
  qed (use started in \<open>auto simp: StartServicesWithWaitGroup_def SetupNATSSubscriptions_def ConsumeWithJetStream_def Let_def
      split: option.splits sum.splits prod.splits if_splits\<close>)
qed

text \<open>A process that ends before it serves has status 1 just when the telemetry or the container failed; a service that
  could not subscribe ends with status 0. Only a container that failed leaves providers that were not shut down.\<close>

theorem main_exit_status:
  assumes "main_start m w = Exited status otel"
  defines "flags \<equiv> parseCLIFlags (me_getenv m) (me_args m)"
  shows "status \<le> 1 \<and>
    (status = 1 \<longleftrightarrow> handleEarlyExits flags = None \<and>
       (fst (SetupOTelSDKWithConfig (me_sdk m) (main_otel_config (me_getenv m) (me_version m)) fresh_otel) \<noteq> [] \<or>
        (\<exists>err. me_NewContainer m flags = Inl err))) \<and>
    (tl_shutdownFuncs otel \<noteq> [] \<longrightarrow> status = 1 \<and> (\<exists>err. me_NewContainer m flags = Inl err))"
  using assms setup_result(2) [of "me_sdk m" "main_otel_config (me_getenv m) (me_version m)"]
  by (auto simp: main_start_def handleEarlyExits_def otel_shutdown_def fresh_otel_def Let_def
      split: option.splits if_splits sum.splits prod.splits)

text \<open>Whatever happens, the process has ended when the drain timeout, the five seconds of the HTTP server and the thirty
  seconds of the telemetry have passed.\<close>

theorem main_stop_bounded:
  assumes "0 \<le> na_DrainTimeout (ac_NATS (ct_Config ct))"
  shows "sg_at ev \<le> st_ended (main_stop fmt sdk ev ct tasks otel) \<and>
    st_ended (main_stop fmt sdk ev ct tasks otel) \<le> sg_at ev + na_DrainTimeout (ac_NATS (ct_Config ct)) + 35 * Second"
proof -
  let ?budget = "na_DrainTimeout (ac_NATS (ct_Config ct))"
  define e where "e = wait_group (sg_seen ev) (map (task_done fmt ev ct) tasks) (sg_at ev)"
  define t1 where "t1 = snd (await (sg_at ev) (sg_at ev + ?budget) e)"
  define t2 where "t2 = snd (await t1 (t1 + 5 * Second) (sg_http_idle ev))"
  have "st_ended (main_stop fmt sdk ev ct tasks otel) = snd (await t2 (t2 + gracefulShutdownSeconds) (sg_flushed ev))"
    by (simp add: main_stop_def split_beta Let_def e_def t1_def t2_def)
  then show ?thesis
    using assms await_bounds(1,2) [of "sg_at ev" "sg_at ev + ?budget" e] await_bounds(1,2) [of t1 "t1 + 5 * Second" "sg_http_idle ev"]
      await_bounds(1,2) [of t2 "t2 + gracefulShutdownSeconds" "sg_flushed ev"]
    by (simp add: t1_def t2_def gracefulShutdownSeconds_def)
qed

section \<open>Shutdown within the configured times\<close>

definition by_time :: "int \<Rightarrow> event \<Rightarrow> bool" where
  "by_time limit ev = (case ev of Never \<Rightarrow> False | At t _ \<Rightarrow> t \<le> limit)"

lemma await_by_time:
  assumes "by_time limit ev" "now \<le> limit" "limit < deadline"
  shows "\<not> fst (await now deadline ev)" "snd (await now deadline ev) \<le> limit"
  using assms by (auto simp: by_time_def await_def split: event.splits)

lemma stop_consumers_by_time:
  assumes "list_all (by_time limit) evs" "now \<le> limit" "limit < deadline"
  shows "snd (stop_consumers now deadline evs) \<le> limit"
  using assms
proof (induction evs arbitrary: now)
  case (Cons ev evs)
  then show ?case using await_by_time(2) [of limit ev now deadline] by (simp add: split_beta)
qed simp

lemma by_time_later: "by_time limit e \<Longrightarrow> by_time limit f \<Longrightarrow> by_time limit (later seen e f)"
  by (cases e; cases f) (simp_all add: by_time_def)

lemma wait_group_by_time: "list_all (by_time limit) es \<Longrightarrow> now \<le> limit \<Longrightarrow> by_time limit (wait_group seen es now)"
  unfolding wait_group_def by (induction es) (auto simp: by_time_later, simp add: by_time_def)

text \<open>A drain is clean, and ends when the work in flight does, if that is before its deadline.\<close>

lemma drain_clean:
  assumes "now \<le> limit" "limit < now + mr_drainTimeout r"
    and "list_all (by_time limit) (de_jsIdle ev # de_connClosed ev # de_idle ev # de_closed ev)"
  shows "dr_error (fst (DrainWithTimeout fmt (OpenConn None) ev now r)) = None \<and>
    dr_finished (fst (DrainWithTimeout fmt (OpenConn None) ev now r)) \<le> limit"
proof -
  define deadline where "deadline = now + mr_drainTimeout r"
  note lim = assms(1,2) [folded deadline_def]
  obtain stopped t1 jsOut t2 drainOut t3 idleOut t4 where p:
    "stop_consumers now deadline (de_closed ev) = (stopped, t1)" "waitForJetStreamWorkers t1 deadline (de_jsIdle ev) = (jsOut, t2)"
    "await t2 deadline (de_connClosed ev) = (drainOut, t3)" "waitForHandlers t3 deadline (de_idle ev) = (idleOut, t4)"
    by (metis surj_pair)
  have ev: "by_time limit (de_jsIdle ev)" "by_time limit (de_connClosed ev)" "by_time limit (de_idle ev)" "list_all (by_time limit) (de_closed ev)"
    using assms(3) by simp_all
  have t1: "t1 \<le> limit" using stop_consumers_by_time [OF ev(4) lim] p(1) by simp
  then have t2: "\<not> jsOut" "t2 \<le> limit" using await_by_time [OF ev(1), of t1 deadline] lim p(2) by (auto simp: waitForJetStreamWorkers_def)
  then have t3: "\<not> drainOut" "t3 \<le> limit" using await_by_time [OF ev(2), of t2 deadline] lim p(3) by auto
  then have t4: "\<not> idleOut" "t4 \<le> limit" using await_by_time [OF ev(3), of t3 deadline] lim p(4) by (auto simp: waitForHandlers_def)
  show ?thesis using p t2 t3 t4 by (simp add: DrainWithTimeout_def Let_def deadline_def drain_error_def)
qed

text \<open>The drain timeout of a started service is longer than a request and a batch wait.\<close>

lemma started_drain_timeout:
  assumes "NewContainer ce pd getenv cli env st build = Inr ct" "fits (ct_Config ct)"
  shows "mr_drainTimeout (ct_MessagingRepository ct) = na_DrainTimeout (ac_NATS (ct_Config ct))"
    "0 < os_Timeout (ac_OpenSearch (ct_Config ct)) + os_BatchMaxWait (ac_OpenSearch (ct_Config ct))"
    "os_Timeout (ac_OpenSearch (ct_Config ct)) + os_BatchMaxWait (ac_OpenSearch (ct_Config ct)) < na_DrainTimeout (ac_NATS (ct_Config ct))"
proof -
  let ?c = "ct_Config ct"
  have valid: "Validate ?c = Inr ()" and r: "mr_drainTimeout (ct_MessagingRepository ct) = na_DrainTimeout (ac_NATS ?c)"
    using NewContainer_stages [OF assms(1)] by (auto simp: messaging_repository_def NewMessagingRepository_def Let_def)
  have pos: "0 < os_Timeout (ac_OpenSearch ?c)" "0 < os_BatchMaxWait (ac_OpenSearch ?c)" "minDrainTimeout ?c \<le> na_DrainTimeout (ac_NATS ?c)"
    using valid by (simp_all add: Validate_Inr validateOpenSearch_def validateNATS_def Let_def)
  moreover have "os_Timeout (ac_OpenSearch ?c) + os_BatchMaxWait (ac_OpenSearch ?c) + 5 * Second \<le> minDrainTimeout ?c"
    using fits_sums [OF assms(2) pos(1,2)] by (simp add: minDrainTimeout_def drainTimeoutSafetyMargin_def Let_def)
  ultimately show "mr_drainTimeout (ct_MessagingRepository ct) = na_DrainTimeout (ac_NATS ?c)"
    "0 < os_Timeout (ac_OpenSearch ?c) + os_BatchMaxWait (ac_OpenSearch ?c)"
    "os_Timeout (ac_OpenSearch ?c) + os_BatchMaxWait (ac_OpenSearch ?c) < na_DrainTimeout (ac_NATS ?c)"
    using r by simp_all
qed

lemma shutdown_clean:
  assumes "NewContainer ce pd getenv cli env st build = Inr ct" "fits (ct_Config ct)"
    and "limit = now + os_Timeout (ac_OpenSearch (ct_Config ct)) + os_BatchMaxWait (ac_OpenSearch (ct_Config ct))"
    and "list_all (by_time limit) (de_jsIdle ev # de_connClosed ev # de_idle ev # de_closed ev)"
  shows "dr_error (fst (DrainWithTimeout fmt (OpenConn None) ev now (ct_MessagingRepository ct))) = None \<and>
    dr_finished (fst (DrainWithTimeout fmt (OpenConn None) ev now (ct_MessagingRepository ct))) \<le> limit"
  by (rule drain_clean [OF _ _ assms(4)]) (use started_drain_timeout [OF assms(1,2)] assms(3) in simp_all)


section \<open>Witnesses\<close>

lemma audited_config_facts: "au_Enabled (ac_Audit audited_config)" "au_RequiredTypes (ac_Audit audited_config) = [''project'']"
  "os_Timeout (ac_OpenSearch audited_config) = 30 * Second" "os_BatchMaxWait (ac_OpenSearch audited_config) = 200 * Millisecond"
  by (simp_all add: audited_config_defs ParseBool_def)

definition no_flags :: flag_args where
  "no_flags = \<lparr>fa_d = None, fa_p = None, fa_bind = None, fa_nojanitor = None, fa_simple_health = None, fa_nats_pending_msg_limit = None,
     fa_nats_pending_bytes_limit = None, fa_nats_worker_count = None, fa_check_config = None, fa_help = None\<rparr>"

definition sample_flags :: CLIConfig where
  "sample_flags = \<lparr>cl_Port = ''8080'', cl_Debug = False, cl_Bind = ''*'', cl_NoJanitor = False, cl_SimpleHealth = False, cl_ConfigCheck = False,
     cl_Help = False, cl_NATSPendingMsgLimit = 0, cl_NATSPendingBytesLimit = 0, cl_NATSWorkerCount = 0\<rparr>"

lemma parse_sample_flags: "parseCLIFlags audit_getenv no_flags = sample_flags"
  by (simp add: parseCLIFlags_def no_flags_def sample_flags_def flag_or_def getEnvString_def getEnvBool_def getEnvWith_def audit_getenv_def)

lemma sample_flags_config: "container_config sample_pd audit_getenv (Some sample_flags) = Inr audited_config"
proof -
  have "apply_cli sample_flags audited_config = Inr audited_config"
    by (simp add: apply_cli_def sample_flags_def Atoi_def parse_digits_def is_digit_def in_int64_def digit_val_def byte_def audited_config_defs)
  then show ?thesis by (simp add: container_config_def audited_config_stages)
qed

definition sample_main :: "(unit, unit, message_effect list, unit, unit) main_env" where
  "sample_main = \<lparr>me_args = no_flags, me_getenv = audit_getenv, me_version = ''dev'',
     me_sdk = \<lparr>sdk_resource = \<lambda>_ _. None, sdk_exporter = \<lambda>_ _ _. None, sdk_shutdown = \<lambda>_. None, sdk_ParseFloat = \<lambda>_. None\<rparr>,
     me_NewContainer = \<lambda>flags. NewContainer sample_container_env sample_pd audit_getenv (Some flags)
       (\<lambda>ps. sample_env\<lparr>en_policies := ps\<rparr>) sample_stores sample_build,
     me_jetstream = \<lparr>jt_New = \<lambda>_. None, jt_CreateOrUpdateConsumer = \<lambda>_ _ w. (Inr (), w), jt_Consume = \<lambda>_ w. (Inr (), w), jt_Stop = \<lambda>_ w. w\<rparr>,
     me_current = \<lambda>_. messaging_repository audited_config\<rparr>"

definition sample_stop :: stop_events where
  "sample_stop = \<lparr>sg_at = 0, sg_drain_wakes = 0, sg_conn = OpenConn None, sg_drain = sample_events, sg_janitor_done = At 9 True,
     sg_seen = True, sg_http_idle = At 10 True, sg_flushed = Never\<rparr>"

lemma sample_main_serves:
  "\<exists>ct tasks srv otel. main_start sample_main () = Serving ct tasks srv otel () \<and> ct_Config ct = audited_config"
proof -
  obtain ct where ct: "NewContainer sample_container_env sample_pd audit_getenv (Some sample_flags) (\<lambda>ps. sample_env\<lparr>en_policies := ps\<rparr>) sample_stores sample_build = Inr ct"
    "ct_Config ct = audited_config" using sample_container_built [OF sample_flags_config] by blast
  have "handleEarlyExits sample_flags = None" by (simp add: handleEarlyExits_def sample_flags_def)
  moreover have "\<exists>s. SetupOTelSDKWithConfig (me_sdk sample_main) (main_otel_config audit_getenv ''dev'') fresh_otel = ([], s)"
    by (simp add: SetupOTelSDKWithConfig_def sample_main_def Let_def setup_providers.simps(2) new_provider_def new_exporter_def rbind_def newTraceProvider_def newMetricsProvider_def newLoggerProvider_def split: option.split)
  moreover have "\<not> mr_isShuttingDown (messaging_repository audited_config)"
    by (simp add: messaging_repository_def NewMessagingRepository_def Let_def)
  ultimately show ?thesis
    using ct by (auto simp: main_start_def sample_main_def parse_sample_flags StartServicesWithWaitGroup_def SetupNATSSubscriptions_def
        ConsumeWithJetStream_def Let_def)
qed


theorem main_exit_status_witness:
  "\<exists>otel. main_start (sample_main\<lparr>me_args := no_flags\<lparr>fa_help := Some True\<rparr>\<rparr>) () = Exited 0 otel \<and> tl_shutdownFuncs otel = []"
proof -
  have flags: "handleEarlyExits (parseCLIFlags audit_getenv (no_flags\<lparr>fa_help := Some True\<rparr>)) = Some 0"
    by (simp add: handleEarlyExits_def parseCLIFlags_def no_flags_def flag_or_def)
  then have s: "main_start (sample_main\<lparr>me_args := no_flags\<lparr>fa_help := Some True\<rparr>\<rparr>) () = Exited 0 fresh_otel"
    by (simp add: main_start_def sample_main_def)
  have "tl_shutdownFuncs fresh_otel = []"
    using main_exit_status [OF s] by auto
  then show ?thesis using s by blast
qed

end
