(* ===== verification/Reports.thy ===== *)
theory Reports
  imports Container Batch_Indexer Complex_Main
begin

text \<open>
  The read-only reports of the repositories (\<open>GetMetrics\<close>, \<open>GetConnectionStatus\<close>, \<open>GetAuthStatus\<close> and the getters), and the
  wiring of the services and handlers by internal/container/container.go. A report is the record of the
  members of the map the code builds; percentages are exact, their text is left out.
\<close>

section \<open>Messaging\<close>

text \<open>What the reports read from a connection, beside the requests of \<open>nats_conn\<close>.\<close>

record 'w conn_report =
  cr_Status :: "'w \<Rightarrow> string"
  cr_ConnectedUrl :: "'w \<Rightarrow> string"
  cr_IsReconnecting :: "'w \<Rightarrow> bool"

definition GetSubscriptionCount :: "('s, 'c) MessagingRepository \<Rightarrow> nat" where
  "GetSubscriptionCount r = length (mr_subscriptions r)"

record messaging_metrics =
  mm_connection_status :: string
  mm_connected :: bool
  mm_total_subscriptions :: nat
  mm_active_subscriptions :: nat
  mm_subscription_health :: rat
  mm_is_shutting_down :: bool
  mm_drain_timeout :: duration
  mm_auth_repo_configured :: bool
  mm_worker_capacity :: nat
  mm_workers_in_flight :: nat

definition percent :: "nat \<Rightarrow> nat \<Rightarrow> rat" where
  "percent part whole = (if 0 < whole then of_nat part / of_nat whole * 100 else 0)"

definition MessagingGetMetrics ::
    "(('s, 'w) nats_conn \<times> 'w conn_report) option \<Rightarrow> bool \<Rightarrow> pool \<Rightarrow> ('s, 'c) MessagingRepository \<Rightarrow> 'w \<Rightarrow> messaging_metrics" where
  "MessagingGetMetrics conn auth_configured pool r w =
     (let totalSubs = length (mr_subscriptions r);
          activeSubs = (case conn of None \<Rightarrow> 0 | Some (c, _) \<Rightarrow> length (filter (\<lambda>sub. nc_IsValid c sub w) (mr_subscriptions r))) in
      \<lparr>mm_connection_status = (case conn of None \<Rightarrow> ''unknown'' | Some (_, cr) \<Rightarrow> cr_Status cr w),
       mm_connected = IsConnected (map_option fst conn) w,
       mm_total_subscriptions = totalSubs, mm_active_subscriptions = activeSubs,
       mm_subscription_health = percent activeSubs totalSubs,
       mm_is_shutting_down = mr_isShuttingDown r, mm_drain_timeout = mr_drainTimeout r, mm_auth_repo_configured = auth_configured,
       mm_worker_capacity = pl_capacity pool, mm_workers_in_flight = pl_slots pool\<rparr>)"

record connection_status =
  cs_status :: string
  cs_subscription_count :: nat
  cs_is_shutting_down :: bool
  cs_connected_url :: "string option"

definition GetConnectionStatus ::
    "(('s, 'w) nats_conn \<times> 'w conn_report) option \<Rightarrow> ('s, 'c) MessagingRepository \<Rightarrow> 'w \<Rightarrow> connection_status" where
  "GetConnectionStatus conn r w =
     (let status = (\<lambda>s url. \<lparr>cs_status = s, cs_subscription_count = length (mr_subscriptions r),
            cs_is_shutting_down = mr_isShuttingDown r, cs_connected_url = url\<rparr>) in
      case conn of
        None \<Rightarrow> status ''initialized'' None
      | Some (c, cr) \<Rightarrow>
          if nc_IsConnected c w then status ''connected'' (if cr_ConnectedUrl cr w \<noteq> [] then Some (cr_ConnectedUrl cr w) else None)
          else if nc_IsClosed c w then status ''closed'' None
          else if cr_IsReconnecting cr w then status ''reconnecting'' None
          else status ''initialized'' None)"

section \<open>Janitor\<close>

record janitor_metrics =
  jm_queue_size :: nat
  jm_queue_length :: nat
  jm_queue_utilization :: rat
  jm_overflows :: nat
  jm_is_running :: bool
  jm_index :: string
  jm_health_status :: string

definition CleanupGetMetrics :: "string \<Rightarrow> janitor_state \<Rightarrow> janitor_metrics" where
  "CleanupGetMetrics index s =
     \<lparr>jm_queue_size = janitorCapacity, jm_queue_length = length (js_queue s),
      jm_queue_utilization = percent (length (js_queue s)) janitorCapacity, jm_overflows = js_overflows s,
      jm_is_running = js_isRunning s, jm_index = index,
      jm_health_status = getHealthStatus (queueUtilization s) (js_isRunning s)\<rparr>"

text \<open>The warning of \<open>logWorkerHealth\<close>.\<close>

definition queue_backing_up :: "janitor_state \<Rightarrow> bool" where
  "queue_backing_up s = (janitorCapacity div 2 < length (js_queue s))"

definition IsRunning :: "janitor_state \<Rightarrow> bool" where "IsRunning s = js_isRunning s"

definition getDocumentIDs :: "VersionedDocument list \<Rightarrow> string list" where "getDocumentIDs docs = map vd_ID docs"

section \<open>Authentication\<close>

record auth_metrics =
  am_issuer :: string
  am_audiences :: "string list"
  am_audiences_count :: nat
  am_validator_initialized :: bool

definition AuthGetMetrics :: "AuthRepository \<Rightarrow> auth_metrics" where
  "AuthGetMetrics r = \<lparr>am_issuer = ar_issuer r, am_audiences = ar_audiences r, am_audiences_count = length (ar_audiences r),
     am_validator_initialized = (ar_validator r \<noteq> None)\<rparr>"

record auth_status =
  at_status :: string
  at_issuer :: string
  at_audiences_count :: nat
  at_validator_ready :: bool

definition GetAuthStatus :: "AuthRepository \<Rightarrow> auth_status" where
  "GetAuthStatus r = \<lparr>at_status = ''initialized'', at_issuer = ar_issuer r, at_audiences_count = length (ar_audiences r),
     at_validator_ready = (ar_validator r \<noteq> None)\<rparr>"

definition GetIssuer :: "AuthRepository \<Rightarrow> string" where "GetIssuer r = ar_issuer r"

definition GetAudiences :: "AuthRepository \<Rightarrow> string list" where "GetAudiences r = ar_audiences r"

section \<open>Wiring\<close>

text \<open>The batch indexer, with the wait and the timeout of its flushes, and the health handler.\<close>

definition initializeServices :: "AppConfig \<Rightarrow> BatchIndexer \<times> duration \<times> duration" where
  "initializeServices c = (let o' = ac_OpenSearch c in (NewBatchIndexer (nat (os_BatchMaxSize o')), os_BatchMaxWait o', os_Timeout o'))"

definition health_simple_response :: "AppConfig \<Rightarrow> bool" where
  "health_simple_response c = (\<not> hc_EnableDetailedResponse (ac_Health c))"

section \<open>Properties\<close>

text \<open>What the reports say of a system that is running: the workers in flight fit the capacity, which is the configured
  one, and the health of the subscriptions is a percentage.\<close>

theorem messaging_metrics_bounded:
  assumes "random_below Int63n" "pool_reachable Int63n r s"
  shows "let m = MessagingGetMetrics conn auth_configured s r w in
    mm_workers_in_flight m \<le> mm_worker_capacity m \<and> mm_worker_capacity m = mr_sem r \<and>
    mm_active_subscriptions m \<le> mm_total_subscriptions m \<and> 0 \<le> mm_subscription_health m \<and> mm_subscription_health m \<le> 100"
proof -
  have "pl_slots s \<le> mr_sem r" "pl_capacity s = mr_sem r"
    using pool_inv_reachable [OF assms] by (simp_all add: pool_inv_def)
  moreover have "0 \<le> percent a b \<and> percent a b \<le> 100" if "a \<le> b" for a b
    using that by (simp add: percent_def divide_le_eq)
  ultimately show ?thesis by (simp add: MessagingGetMetrics_def Let_def split: option.split)
qed

text \<open>The health of a janitor follows the length of its queue, which holds at most fifty requests.\<close>

theorem janitor_metrics_health:
  assumes "janitor_reachable env s"
  shows "let m = CleanupGetMetrics index s in
    jm_queue_length m \<le> jm_queue_size m \<and> jm_queue_utilization m \<le> 100 \<and>
    (jm_health_status m = ''stopped'' \<longleftrightarrow> \<not> jm_is_running m) \<and>
    (jm_health_status m = ''critical'' \<longleftrightarrow> jm_is_running m \<and> 45 < jm_queue_length m) \<and>
    (jm_health_status m = ''healthy'' \<longleftrightarrow> jm_is_running m \<and> jm_queue_length m \<le> 35)"
  using janitor_inv_reachable [OF assms]
  by (auto simp: CleanupGetMetrics_def Let_def janitor_inv_def janitorCapacity_def percent_def getHealthStatus_def queueUtilization_def divide_le_eq)

text \<open>A started service batches at least one document and waits for a positive time.\<close>

theorem initializeServices_sized:
  assumes "NewContainer ce pd getenv cli env st build = Inr ct" "initializeServices (ct_Config ct) = (b, maxWait, flushTimeout)"
  shows "1 \<le> bi_maxBatchSize b \<and> int (bi_maxBatchSize b) = os_BatchMaxSize (ac_OpenSearch (ct_Config ct)) \<and> 0 < maxWait \<and> 0 < flushTimeout"
proof -
  have "Validate (ct_Config ct) = Inr ()" using NewContainer_stages [OF assms(1)] by blast
  then have "0 < os_BatchMaxSize (ac_OpenSearch (ct_Config ct))" "0 < os_BatchMaxWait (ac_OpenSearch (ct_Config ct))"
    "0 < os_Timeout (ac_OpenSearch (ct_Config ct))"
    by (simp_all add: Validate_Inr validateOpenSearch_def Let_def)
  then show ?thesis using assms(2) by (auto simp: initializeServices_def NewBatchIndexer_def Let_def)
qed

end
