(* ===== verification/Migration.thy ===== *)
theory Migration
  imports Storage Config Json_Print
begin

text \<open>
  scripts/migration/001_add_access_query_fields/main.go: the migration that adds the joined query
  fields to documents that have the object and the relation of a check but not its query. The client of the
  cluster is a parameter. The printed statistics are left out.
\<close>

section \<open>Documents\<close>

record MigrationConfig =
  mc_OpenSearchURL :: string
  mc_IndexName :: string
  mc_BatchSize :: int
  mc_DryRun :: bool
  mc_ScrollTimeout :: duration

definition loadConfig :: "(string \<Rightarrow> duration option) \<Rightarrow> (string \<Rightarrow> string) \<Rightarrow> MigrationConfig" where
  "loadConfig pd env = \<lparr>mc_OpenSearchURL = getEnvString env ''OPENSEARCH_URL'' ''http://localhost:9200'',
     mc_IndexName = getEnvString env ''OPENSEARCH_INDEX'' ''resources'',
     mc_BatchSize = getEnvInt env ''BATCH_SIZE'' 100, mc_DryRun = getEnvBool env ''DRY_RUN'' False,
     mc_ScrollTimeout = getEnvDuration pd env ''SCROLL_TIMEOUT'' (5 * Minute)\<rparr>"

record DocumentSource =
  ds_AccessCheckObject :: string
  ds_AccessCheckRelation :: string
  ds_HistoryCheckObject :: string
  ds_HistoryCheckRelation :: string
  ds_AccessCheckQuery :: string
  ds_HistoryCheckQuery :: string

record Document =
  dc_ID :: string
  dc_Source :: DocumentSource

record Stats =
  mg_Total :: int
  mg_Processed :: int
  mg_Updated :: int
  mg_Skipped :: int
  mg_Errored :: int

definition needsUpdate :: "DocumentSource \<Rightarrow> bool \<times> bool" where
  "needsUpdate d =
     (ds_AccessCheckQuery d = [] \<and> ds_AccessCheckObject d \<noteq> [] \<and> ds_AccessCheckRelation d \<noteq> [],
      ds_HistoryCheckQuery d = [] \<and> ds_HistoryCheckObject d \<noteq> [] \<and> ds_HistoryCheckRelation d \<noteq> [])"

definition buildQueryFields :: "DocumentSource \<Rightarrow> string \<times> string" where
  "buildQueryFields d =
     (if ds_AccessCheckObject d \<noteq> [] \<and> ds_AccessCheckRelation d \<noteq> [] then JoinFgaQuery (ds_AccessCheckObject d) (ds_AccessCheckRelation d) else [],
      if ds_HistoryCheckObject d \<noteq> [] \<and> ds_HistoryCheckRelation d \<noteq> [] then JoinFgaQuery (ds_HistoryCheckObject d) (ds_HistoryCheckRelation d) else [])"

definition update_doc :: "DocumentSource \<Rightarrow> string gomap" where
  "update_doc d =
     (case (needsUpdate d, buildQueryFields d) of
        ((na, nh), (aq, hq)) \<Rightarrow>
          (if na \<and> aq \<noteq> [] then [(''access_check_query'', aq)] else []) @
          (if nh \<and> hq \<noteq> [] then [(''history_check_query'', hq)] else []))"

section \<open>Batches\<close>

definition bulk_header :: "string \<Rightarrow> string \<Rightarrow> string" where
  \<open>bulk_header indexName docID = ''{"update":{"_index":"'' @ indexName @ ''","_id":"'' @ docID @ ''"}}''\<close>

definition bulk_lines :: "(json \<Rightarrow> string) \<Rightarrow> string \<Rightarrow> Document \<Rightarrow> string" where
  "bulk_lines marshal indexName doc =
     bulk_header indexName (dc_ID doc) @ [CHR 0x0A] @
     marshal (JObj [(''doc'', JObj (map (\<lambda>(k, v). (k, JStr v)) (update_doc (dc_Source doc))))]) @ [CHR 0x0A]"

record bulk_result =
  bk_Errors :: bool
  bk_Items :: "json gomap list"

text \<open>An item counts as failed when its \<open>update\<close> member is an object with an \<open>error\<close> member.\<close>

definition failed_item :: "json gomap \<Rightarrow> bool" where
  "failed_item item = (case field item ''update'' of JObj u \<Rightarrow> has_key u ''error'' | _ \<Rightarrow> False)"

definition scan_document :: "MigrationConfig \<Rightarrow> Document \<Rightarrow> Stats \<times> Document list \<Rightarrow> Stats \<times> Document list" where
  "scan_document cfg doc acc =
     (case acc of (s, docs) \<Rightarrow>
        let s = s\<lparr>mg_Processed := mg_Processed s + 1\<rparr> in
        if update_doc (dc_Source doc) = [] then (s\<lparr>mg_Skipped := mg_Skipped s + 1\<rparr>, docs)
        else if mc_DryRun cfg then (s\<lparr>mg_Updated := mg_Updated s + 1\<rparr>, docs)
        else (s, docs @ [doc]))"

definition processBatch ::
    "(string \<Rightarrow> 'w \<Rightarrow> bulk_result option reply \<times> 'w) \<Rightarrow> (json \<Rightarrow> string) \<Rightarrow> MigrationConfig \<Rightarrow> Document list \<Rightarrow> Stats \<Rightarrow> 'w
     \<Rightarrow> go_error option \<times> Stats \<times> 'w" where
  "processBatch bulk marshal cfg documents stats w =
     (case fold (scan_document cfg) documents (stats, []) of
        (s, docs) \<Rightarrow>
          if docs = [] then (None, s, w)
          else
            (case bulk (concat (map (bulk_lines marshal (mc_IndexName cfg)) docs)) w of
               (Transport err, w') \<Rightarrow>
                 (Some (Wrapf (Text ''failed to execute bulk update'') err), s\<lparr>mg_Errored := mg_Errored s + int (length docs)\<rparr>, w')
             | (Reply status line body, w') \<Rightarrow>
                 if is_error status then
                   (Some (Errorf (Text ''bulk update failed: %s'') [line]), s\<lparr>mg_Errored := mg_Errored s + int (length docs)\<rparr>, w')
                 else
                   (case body of
                      None \<Rightarrow> (Some (Errorf (Text ''failed to parse bulk response'') []), s, w')
                    | Some r \<Rightarrow>
                        if bk_Errors r then
                          (let errorCount = int (length (filter failed_item (bk_Items r))) in
                           (Some (Errorf (Text ''bulk update had %d errors out of %d updates'') []),
                            s\<lparr>mg_Errored := mg_Errored s + errorCount, mg_Updated := mg_Updated s + (int (length docs) - errorCount)\<rparr>, w'))
                        else (None, s\<lparr>mg_Updated := mg_Updated s + int (length docs)\<rparr>, w'))))"

section \<open>Requests\<close>

record SearchResponse =
  sr_ScrollID :: string
  sr_Total :: int
  sr_Hits :: "Document list"

text \<open>The client: its construction and \<open>Info\<close>, the requests, and whether the run was interrupted.\<close>

record 'w migration_client =
  ml_New :: "string \<Rightarrow> go_error option"
  ml_Info :: "'w \<Rightarrow> go_error option \<times> 'w"
  ml_Search :: "string list \<Rightarrow> json \<Rightarrow> duration \<Rightarrow> 'w \<Rightarrow> SearchResponse option reply \<times> 'w"
  ml_Scroll :: "json \<Rightarrow> 'w \<Rightarrow> SearchResponse option reply \<times> 'w"
  ml_Bulk :: "string \<Rightarrow> 'w \<Rightarrow> bulk_result option reply \<times> 'w"
  ml_ClearScroll :: "string list \<Rightarrow> 'w \<Rightarrow> 'w"
  ml_interrupted :: "'w \<Rightarrow> bool"

definition createOpenSearchClient :: "'w migration_client \<Rightarrow> MigrationConfig \<Rightarrow> 'w \<Rightarrow> go_error option \<times> 'w" where
  "createOpenSearchClient cl cfg w =
     (case ml_New cl (mc_OpenSearchURL cfg) of
        Some err \<Rightarrow> (Some (Wrapf (Text ''failed to create OpenSearch client'') err), w)
      | None \<Rightarrow>
          (case ml_Info cl w of
             (Some err, w') \<Rightarrow> (Some (Wrapf (Text ''failed to connect to OpenSearch'') err), w')
           | (None, w') \<Rightarrow> (None, w')))"

definition exists_query :: "string \<Rightarrow> json" where
  "exists_query f = JObj [(''exists'', JObj [(''field'', JStr f)])]"

definition missing_query :: "string \<Rightarrow> string \<Rightarrow> string \<Rightarrow> json" where
  "missing_query obj rel query = JObj [(''bool'', JObj [
     (''must'', JArr [exists_query obj, exists_query rel]), (''must_not'', JArr [exists_query query])])]"

definition search_query :: json where
  "search_query = JObj [(''bool'', JObj [
     (''should'', JArr [missing_query ''access_check_object'' ''access_check_relation'' ''access_check_query'',
        missing_query ''history_check_object'' ''history_check_relation'' ''history_check_query'']),
     (''minimum_should_match'', JNum ''1'')])]"

definition search_body :: "MigrationConfig \<Rightarrow> json" where
  "search_body cfg = JObj [(''query'', search_query), (''size'', JNum (int_str (mc_BatchSize cfg))),
     (''_source'', JArr (map JStr [''access_check_object'', ''access_check_relation'', ''history_check_object'',
        ''history_check_relation'', ''access_check_query'', ''history_check_query'']))]"

text \<open>How the reply to a search or a scroll is read.\<close>

definition read_search :: "string \<Rightarrow> SearchResponse option reply \<Rightarrow> go_error + SearchResponse" where
  "read_search what r =
     (case r of
        Transport err \<Rightarrow> Inl (Wrapf (Text (''failed to execute '' @ what)) err)
      | Reply status line body \<Rightarrow>
          if is_error status then failf (Text (what @ '' request failed: %s'')) [line]
          else case body of None \<Rightarrow> fail (Text (''failed to parse '' @ what @ '' response'')) | Some response \<Rightarrow> Inr response)"

definition searchDocuments :: "'w migration_client \<Rightarrow> MigrationConfig \<Rightarrow> 'w \<Rightarrow> (go_error + SearchResponse) \<times> 'w" where
  "searchDocuments cl cfg w =
     (case ml_Search cl [mc_IndexName cfg] (search_body cfg) (mc_ScrollTimeout cfg) w of (r, w') \<Rightarrow> (read_search ''search'' r, w'))"

text \<open>\<open>int(d.Minutes())\<close> truncates towards zero; the conversion through \<open>float64\<close> is exact below 2^18 minutes.\<close>

definition whole_minutes :: "duration \<Rightarrow> int" where
  "whole_minutes d = (if d < 0 then - (- d div Minute) else d div Minute)"

definition scroll_body :: "string \<Rightarrow> duration \<Rightarrow> json" where
  "scroll_body scrollID timeout = JObj [(''scroll_id'', JStr scrollID), (''scroll'', JStr (int_str (whole_minutes timeout) @ ''m''))]"

definition scrollDocuments :: "'w migration_client \<Rightarrow> string \<Rightarrow> duration \<Rightarrow> 'w \<Rightarrow> (go_error + SearchResponse) \<times> 'w" where
  "scrollDocuments cl scrollID timeout w =
     (case ml_Scroll cl (scroll_body scrollID timeout) w of (r, w') \<Rightarrow> (read_search ''scroll'' r, w'))"

definition clearScroll :: "'w migration_client \<Rightarrow> string \<Rightarrow> 'w \<Rightarrow> 'w" where
  "clearScroll cl scrollID w = (if scrollID = [] then w else ml_ClearScroll cl [scrollID] w)"

section \<open>The run\<close>

text \<open>The loop of \<open>main\<close>; a run that never ends is \<open>None\<close>. The error of a batch is logged and the run goes on. The
  result is the final count and the state of the cluster.\<close>

partial_function (option) migrate ::
    "'w migration_client \<Rightarrow> (json \<Rightarrow> string) \<Rightarrow> MigrationConfig \<Rightarrow> SearchResponse \<Rightarrow> string \<Rightarrow> Stats \<Rightarrow> 'w \<Rightarrow> (Stats \<times> 'w) option" where
  "migrate cl marshal cfg current scrollID stats w =
     (if ml_interrupted cl w then Some (stats, w)
      else
        (case processBatch (ml_Bulk cl) marshal cfg (sr_Hits current) stats w of
           (_, stats', w1) \<Rightarrow>
             if int (length (sr_Hits current)) < mc_BatchSize cfg then Some (stats', w1)
             else
               (case scrollDocuments cl scrollID (mc_ScrollTimeout cfg) w1 of
                  (Inl _, w2) \<Rightarrow> Some (stats', w2)
                | (Inr next, w2) \<Rightarrow>
                    if sr_Hits next = [] then Some (stats', w2)
                    else migrate cl marshal cfg next (if sr_ScrollID next \<noteq> [] then sr_ScrollID next else scrollID) stats' w2)))"

text \<open>\<open>main\<close>: a fatal error ends the process with status 1. The deferred clean-up has the first scroll identifier.\<close>

datatype migration_end = Fatal go_error | Finished Stats

definition migration_main ::
    "'w migration_client \<Rightarrow> (json \<Rightarrow> string) \<Rightarrow> MigrationConfig \<Rightarrow> 'w \<Rightarrow> (migration_end \<times> 'w) option" where
  "migration_main cl marshal cfg w =
     (case createOpenSearchClient cl cfg w of
        (Some err, w1) \<Rightarrow> Some (Fatal err, w1)
      | (None, w1) \<Rightarrow>
          (case searchDocuments cl cfg w1 of
             (Inl err, w2) \<Rightarrow> Some (Fatal err, w2)
           | (Inr response, w2) \<Rightarrow>
               let stats = \<lparr>mg_Total = sr_Total response, mg_Processed = 0, mg_Updated = 0, mg_Skipped = 0, mg_Errored = 0\<rparr> in
               if sr_Total response = 0 then Some (Finished stats, w2)
               else map_option (\<lambda>(stats', w3). (Finished stats', clearScroll cl (sr_ScrollID response) w3))
                      (migrate cl marshal cfg response (sr_ScrollID response) stats w2)))"

section \<open>Properties\<close>

text \<open>The document after a partial update.\<close>

definition apply_update :: "string gomap \<Rightarrow> DocumentSource \<Rightarrow> DocumentSource" where
  "apply_update u d =
     d\<lparr>ds_AccessCheckQuery := (case map_of u ''access_check_query'' of Some q \<Rightarrow> q | None \<Rightarrow> ds_AccessCheckQuery d),
       ds_HistoryCheckQuery := (case map_of u ''history_check_query'' of Some q \<Rightarrow> q | None \<Rightarrow> ds_HistoryCheckQuery d)\<rparr>"

lemma JoinFgaQuery_not_empty [simp]: "JoinFgaQuery a b \<noteq> []"
  by (simp add: JoinFgaQuery_def)

lemma update_doc_eq:
  "update_doc d =
     (if fst (needsUpdate d) then [(''access_check_query'', JoinFgaQuery (ds_AccessCheckObject d) (ds_AccessCheckRelation d))] else []) @
     (if snd (needsUpdate d) then [(''history_check_query'', JoinFgaQuery (ds_HistoryCheckObject d) (ds_HistoryCheckRelation d))] else [])"
  by (simp add: update_doc_def needsUpdate_def buildQueryFields_def)

lemma apply_update_eq:
  "apply_update (update_doc d) d =
     d\<lparr>ds_AccessCheckQuery := (if fst (needsUpdate d) then JoinFgaQuery (ds_AccessCheckObject d) (ds_AccessCheckRelation d) else ds_AccessCheckQuery d),
       ds_HistoryCheckQuery := (if snd (needsUpdate d) then JoinFgaQuery (ds_HistoryCheckObject d) (ds_HistoryCheckRelation d) else ds_HistoryCheckQuery d)\<rparr>"
  by (cases "fst (needsUpdate d)"; cases "snd (needsUpdate d)") (simp_all add: apply_update_def update_doc_eq)

text \<open>A migrated document needs no further update, keeps every field it had, and each query it gains is
  the joined object and relation of its check, the form the indexer writes.\<close>

theorem migration_idempotent:
  "needsUpdate (apply_update (update_doc d) d) = (False, False) \<and> update_doc (apply_update (update_doc d) d) = [] \<and>
   (ds_AccessCheckQuery (apply_update (update_doc d) d) =
      (if fst (needsUpdate d) then JoinFgaQuery (ds_AccessCheckObject d) (ds_AccessCheckRelation d) else ds_AccessCheckQuery d)) \<and>
   (ds_HistoryCheckQuery (apply_update (update_doc d) d) =
      (if snd (needsUpdate d) then JoinFgaQuery (ds_HistoryCheckObject d) (ds_HistoryCheckRelation d) else ds_HistoryCheckQuery d))"
proof -
  have "needsUpdate (apply_update (update_doc d) d) = (False, False)"
    unfolding apply_update_eq by (simp add: needsUpdate_def)
  moreover from this have "update_doc (apply_update (update_doc d) d) = []" by (simp add: update_doc_eq)
  ultimately show ?thesis unfolding apply_update_eq by simp
qed

definition accounted :: "Stats \<Rightarrow> int" where
  "accounted s = mg_Updated s + mg_Skipped s + mg_Errored s"

lemma scan_documents:
  "fold (scan_document cfg) documents (s, docs) = (s', docs') \<Longrightarrow>
     mg_Processed s' = mg_Processed s + int (length documents) \<and>
     accounted s' + int (length docs') = accounted s + int (length docs) + int (length documents) \<and> (\<not> mc_DryRun cfg \<or> docs' = docs)"
proof (induction documents arbitrary: s docs)
  case (Cons doc documents)
  obtain s1 docs1 where step: "scan_document cfg doc (s, docs) = (s1, docs1)" by (metis surj_pair)
  then have "mg_Processed s1 = mg_Processed s + 1" "accounted s1 + int (length docs1) = accounted s + int (length docs) + 1" "\<not> mc_DryRun cfg \<or> docs1 = docs"
    by (auto simp: scan_document_def accounted_def Let_def split: if_splits)
  then show ?case using Cons.IH [of s1 docs1] Cons.prems step by auto
qed simp

text \<open>A batch counts each of its documents once as processed, and a batch without error accounts for each
  of them as updated, skipped or failed; a dry run sends nothing.\<close>

theorem processBatch_accounts:
  assumes "processBatch bulk marshal cfg documents stats w = (err, stats', w')"
  shows "mg_Processed stats' = mg_Processed stats + int (length documents) \<and>
    (err = None \<longrightarrow> accounted stats' = accounted stats + int (length documents)) \<and> (mc_DryRun cfg \<longrightarrow> w' = w \<and> err = None)"
proof -
  obtain s docs where scan: "fold (scan_document cfg) documents (stats, []) = (s, docs)" by (metis surj_pair)
  have "mg_Processed s = mg_Processed stats + int (length documents)" "accounted s + int (length docs) = accounted stats + int (length documents)"
    "\<not> mc_DryRun cfg \<or> docs = []"
    using scan_documents [OF scan] by auto
  then show ?thesis using assms scan
    by (auto simp: processBatch_def accounted_def Let_def split: if_splits prod.splits reply.splits option.splits)
qed

text \<open>The header of a bulk line is built without escaping: a document identifier with a quotation mark,
  which the indexer accepts, makes it malformed JSON.\<close>

theorem bulk_header_unescaped: \<open>json_parse (bulk_header ''resources'' ''project:a"b'') = None\<close>
  by (simp add: bulk_header_def json_parse_def parse_value.simps parse_members.simps skip_space_def is_json_space_def byte_def
      max_depth_def encode_rune_def char_of_eq_iff)

section \<open>Witnesses\<close>

definition sample_migration :: MigrationConfig where
  "sample_migration = \<lparr>mc_OpenSearchURL = [], mc_IndexName = ''resources'', mc_BatchSize = 100, mc_DryRun = True, mc_ScrollTimeout = 5 * Minute\<rparr>"

definition sample_document :: Document where
  "sample_document = \<lparr>dc_ID = ''project:1'', dc_Source = \<lparr>ds_AccessCheckObject = ''project:1'', ds_AccessCheckRelation = ''viewer'',
     ds_HistoryCheckObject = [], ds_HistoryCheckRelation = [], ds_AccessCheckQuery = [], ds_HistoryCheckQuery = []\<rparr>\<rparr>"

theorem processBatch_accounts_witness:
  "mg_Processed (fst (snd (processBatch (\<lambda>_ w. (Transport (External ''down''), w)) (\<lambda>_. []) sample_migration [sample_document]
     \<lparr>mg_Total = 1, mg_Processed = 0, mg_Updated = 0, mg_Skipped = 0, mg_Errored = 0\<rparr> ()))) = 1"
  using processBatch_accounts [of "\<lambda>_ w. (Transport (External ''down''), w)" "\<lambda>_. []" sample_migration "[sample_document]"
      "\<lparr>mg_Total = 1, mg_Processed = 0, mg_Updated = 0, mg_Skipped = 0, mg_Errored = 0\<rparr>" "()"]
  by (simp add: prod_eq_iff)

end
