(* ===== verification/Migration_Run.thy ===== *)
theory Migration_Run
  imports Migration
begin

text \<open>
  A whole run of the migration script over a cluster that answers: what its search selects, that the loop ends, and
  that afterwards no document is left to migrate.
\<close>

section \<open>What the cluster promises\<close>

definition source_field :: "DocumentSource \<Rightarrow> string \<Rightarrow> string" where
  "source_field d f =
     (if f = ''access_check_object'' then ds_AccessCheckObject d
      else if f = ''access_check_relation'' then ds_AccessCheckRelation d
      else if f = ''history_check_object'' then ds_HistoryCheckObject d
      else if f = ''history_check_relation'' then ds_HistoryCheckRelation d
      else if f = ''access_check_query'' then ds_AccessCheckQuery d
      else if f = ''history_check_query'' then ds_HistoryCheckQuery d
      else [])"

text \<open>Documents whose identifier and fields are plain text, which the unescaped bulk header needs.\<close>

definition plain_document :: "string \<Rightarrow> DocumentSource \<Rightarrow> bool" where
  "plain_document docID d \<longleftrightarrow> plain docID \<and> plain (ds_AccessCheckObject d) \<and> plain (ds_AccessCheckRelation d) \<and>
     plain (ds_HistoryCheckObject d) \<and> plain (ds_HistoryCheckRelation d)"

text \<open>The effect of a bulk request on the stored documents: a partial update of each document of the batch.\<close>

definition store_update :: "Document \<Rightarrow> (string \<Rightarrow> DocumentSource option) \<Rightarrow> string \<Rightarrow> DocumentSource option" where
  "store_update doc store = store(dc_ID doc := map_option (apply_update (update_doc (dc_Source doc))) (store (dc_ID doc)))"

definition page :: "int \<Rightarrow> 'a list \<Rightarrow> 'a list" where "page n docs = take (nat n) docs"

text \<open>\<open>stored\<close> is the documents of the index, an absent field and an empty one being the same, and \<open>pending\<close> those of the open
  scroll that were not returned yet. A query is judged by \<open>matches\<close>: \<open>exists\<close>, and \<open>bool\<close> over \<open>must\<close>,
  \<open>must_not\<close> and \<open>should\<close>. A search opens a scroll over the matching documents, each once, and returns its first page; a scroll with
  a positive keep-alive returns the next page; a bulk request of updates to stored documents applies them.\<close>

locale scroll_cluster =
  fixes cl :: "'w migration_client" and marshal :: "json \<Rightarrow> string" and cfg :: MigrationConfig
    and stored :: "'w \<Rightarrow> string \<Rightarrow> DocumentSource option" and pending :: "'w \<Rightarrow> Document list"
    and matches :: "json \<Rightarrow> DocumentSource \<Rightarrow> bool"
  assumes exists_law: "matches (exists_query f) d \<longleftrightarrow> source_field d f \<noteq> []"
    and must_law: "matches (JObj [(''bool'', JObj [(''must'', JArr ms), (''must_not'', JArr ns)])]) d \<longleftrightarrow>
      (\<forall>q\<in>set ms. matches q d) \<and> (\<forall>q\<in>set ns. \<not> matches q d)"
    and should_law: "matches (JObj [(''bool'', JObj [(''should'', JArr qs), (''minimum_should_match'', JNum ''1'')])]) d \<longleftrightarrow>
      (\<exists>q\<in>set qs. matches q d)"
    and connects: "ml_New cl url = None" "\<exists>w'. ml_Info cl w = (None, w') \<and> stored w' = stored w"
    and uninterrupted: "\<not> ml_interrupted cl w"
    and search_law: "0 < mc_BatchSize cfg \<Longrightarrow> 0 < keep \<Longrightarrow> \<exists>line response w' docs.
      ml_Search cl [mc_IndexName cfg] (search_body cfg) keep w =
        (Reply 200 line (Some response), w') \<and> stored w' = stored w \<and> distinct (map dc_ID docs) \<and>
      (\<forall>doc. doc \<in> set docs \<longleftrightarrow> stored w (dc_ID doc) = Some (dc_Source doc) \<and> matches search_query (dc_Source doc)) \<and>
      sr_Total response = int (length docs) \<and> sr_Hits response = page (mc_BatchSize cfg) docs \<and> pending w' = drop (nat (mc_BatchSize cfg)) docs"
    and scroll_law: "0 < k \<Longrightarrow> \<exists>line response w'.
      ml_Scroll cl (JObj [(''scroll_id'', JStr i), (''scroll'', JStr (int_str k @ ''m''))]) w = (Reply 200 line (Some response), w') \<and>
      stored w' = stored w \<and> sr_Hits response = page (mc_BatchSize cfg) (pending w) \<and> pending w' = drop (nat (mc_BatchSize cfg)) (pending w)"
    and bulk_law: "docs \<noteq> [] \<Longrightarrow> \<forall>doc\<in>set docs. plain_document (dc_ID doc) (dc_Source doc) \<and> stored w (dc_ID doc) \<noteq> None \<and> update_doc (dc_Source doc) \<noteq> [] \<Longrightarrow>
      \<exists>line result w'. ml_Bulk cl (concat (map (bulk_lines marshal (mc_IndexName cfg)) docs)) w = (Reply 200 line (Some result), w') \<and>
        \<not> bk_Errors result \<and> stored w' = fold store_update docs (stored w) \<and> pending w' = pending w"
    and clear_law: "stored (ml_ClearScroll cl ids w) = stored w"
begin

text \<open>The search selects exactly the documents that need an update.\<close>

lemma selected: "matches search_query d \<longleftrightarrow> update_doc d \<noteq> []"
  by (simp add: search_query_def missing_query_def should_law must_law exists_law source_field_def update_doc_eq needsUpdate_def) blast

end

section \<open>Facts on batches\<close>

lemma scan_selected:
  assumes "\<not> mc_DryRun cfg" "\<forall>doc\<in>set docs. update_doc (dc_Source doc) \<noteq> []"
  shows "fold (scan_document cfg) docs (s, acc) = (s\<lparr>mg_Processed := mg_Processed s + int (length docs)\<rparr>, acc @ docs)"
  using assms(2)
proof (induction docs arbitrary: s acc)
  case (Cons doc docs)
  then show ?case using assms(1) by (simp add: scan_document_def Let_def add.assoc)
qed simp

lemma update_doc_again: "update_doc (apply_update (update_doc d) d) = []"
  unfolding apply_update_eq by (simp add: update_doc_eq needsUpdate_def)

definition migrated :: "DocumentSource \<Rightarrow> DocumentSource" where
  "migrated d = apply_update (update_doc d) d"

lemma migrated_done: "update_doc d = [] \<Longrightarrow> migrated d = d"
  by (simp add: migrated_def apply_update_def)

text \<open>Every stored document is either one of the given list and not yet migrated, or migrated with respect to the start.\<close>

definition progressed :: "(string \<Rightarrow> DocumentSource option) \<Rightarrow> Document list \<Rightarrow> (string \<Rightarrow> DocumentSource option) \<Rightarrow> bool" where
  "progressed start todo store \<longleftrightarrow>
     distinct (map dc_ID todo) \<and>
     (\<forall>doc\<in>set todo. update_doc (dc_Source doc) \<noteq> [] \<and> start (dc_ID doc) = Some (dc_Source doc) \<and> store (dc_ID doc) = Some (dc_Source doc)) \<and>
     (\<forall>i. i \<notin> dc_ID ` set todo \<longrightarrow> store i = map_option migrated (start i))"

lemma progressed_step:
  assumes "progressed start (doc # todo) store"
  shows "progressed start todo (store_update doc store)"
  using assms unfolding progressed_def store_update_def
  by (auto simp: migrated_def image_iff; metis)

lemma progressed_batch: "progressed start (docs @ todo) store \<Longrightarrow> progressed start todo (fold store_update docs store)"
proof (induction docs arbitrary: store)
  case (Cons doc docs)
  then show ?case using progressed_step [of start doc "docs @ todo" store] by simp
qed simp

section \<open>The loop ends\<close>

definition counted :: "nat \<Rightarrow> Stats \<Rightarrow> Stats" where
  "counted n s = s\<lparr>mg_Processed := mg_Processed s + int n, mg_Updated := mg_Updated s + int n\<rparr>"

lemma counted_simps [simp]: "counted 0 s = s" "counted m (counted n s) = counted (n + m) s"
  by (simp_all add: counted_def)

context scroll_cluster
begin

lemma batch_applied:
  assumes "\<not> mc_DryRun cfg" "progressed start (docs @ todo) (stored w)" "\<And>i d. start i = Some d \<Longrightarrow> plain_document i d"
  shows "\<exists>err w'. processBatch (ml_Bulk cl) marshal cfg docs stats w = (err, counted (length docs) stats, w') \<and>
    progressed start todo (stored w') \<and> pending w' = pending w"
proof (cases "docs = []")
  case True
  then show ?thesis using assms(2) by (simp add: processBatch_def)
next
  case False
  have docs: "update_doc (dc_Source doc) \<noteq> []" "plain_document (dc_ID doc) (dc_Source doc)" "stored w (dc_ID doc) \<noteq> None" if "doc \<in> set docs" for doc
    using assms(2,3) that by (auto simp: progressed_def)
  obtain line result w' where bulk: "ml_Bulk cl (concat (map (bulk_lines marshal (mc_IndexName cfg)) docs)) w = (Reply 200 line (Some result), w')"
    "\<not> bk_Errors result" "stored w' = fold store_update docs (stored w)" "pending w' = pending w"
    using bulk_law [OF False, of w] docs by blast
  have "fold (scan_document cfg) docs (stats, []) = (stats\<lparr>mg_Processed := mg_Processed stats + int (length docs)\<rparr>, docs)"
    using scan_selected [OF assms(1), of docs stats "[]"] docs(1) by simp
  then show ?thesis
    using False bulk progressed_batch [OF assms(2)] by (simp add: processBatch_def is_error_def counted_def)
qed

lemma next_page:
  assumes "Minute \<le> mc_ScrollTimeout cfg"
  shows "\<exists>nx w'. scrollDocuments cl i (mc_ScrollTimeout cfg) w = (Inr nx, w') \<and> stored w' = stored w \<and>
    sr_Hits nx @ pending w' = pending w \<and> sr_Hits nx = page (mc_BatchSize cfg) (pending w)"
proof -
  have "0 < whole_minutes (mc_ScrollTimeout cfg)" using assms by (simp add: whole_minutes_def pos_imp_zdiv_pos_iff)
  from scroll_law [OF this, of i w] show ?thesis
    by (auto simp: scrollDocuments_def scroll_body_def read_search_def is_error_def page_def)
qed

lemma migrate_completes:
  assumes "\<not> mc_DryRun cfg" "0 < mc_BatchSize cfg" "Minute \<le> mc_ScrollTimeout cfg" "\<And>i d. start i = Some d \<Longrightarrow> plain_document i d"
    and "progressed start (sr_Hits current @ pending w) (stored w)"
    and "sr_Hits current = page (mc_BatchSize cfg) (sr_Hits current @ pending w)"
  shows "\<exists>w'. migrate cl marshal cfg current scrollID stats w =
      Some (counted (length (sr_Hits current) + length (pending w)) stats, w') \<and> progressed start [] (stored w')"
  using assms(5,6)
proof (induction "length (pending w)" arbitrary: current scrollID stats w rule: less_induct)
  case less
  obtain err w1 where batch: "processBatch (ml_Bulk cl) marshal cfg (sr_Hits current) stats w = (err, counted (length (sr_Hits current)) stats, w1)"
    "progressed start (pending w) (stored w1)" "pending w1 = pending w"
    using batch_applied [OF assms(1) less.prems(1) assms(4)] by metis
  show ?case
  proof (cases "int (length (sr_Hits current)) < mc_BatchSize cfg")
    case True
    then have "pending w = []" using less.prems(2) by (auto simp: page_def dest!: arg_cong [of _ _ length])
    then show ?thesis using batch True uninterrupted by (simp add: migrate.simps)
  next
    case False
    obtain nx w2 where nxt: "scrollDocuments cl scrollID (mc_ScrollTimeout cfg) w1 = (Inr nx, w2)" "stored w2 = stored w1"
      "sr_Hits nx @ pending w2 = pending w" "sr_Hits nx = page (mc_BatchSize cfg) (pending w)"
      using next_page [OF assms(3), of scrollID w1] batch(3) by auto
    show ?thesis
    proof (cases "sr_Hits nx = []")
      case True
      then have "pending w = []" using nxt(4) assms(2) by (simp add: page_def)
      then show ?thesis using batch False nxt True uninterrupted by (simp add: migrate.simps [of cl _ _ current])
    next
      case more: False
      let ?id = "if sr_ScrollID nx \<noteq> [] then sr_ScrollID nx else scrollID"
      have "length (pending w2) < length (pending w)" using nxt(3) more by (metis add_less_cancel_right length_append length_greater_0_conv plus_nat.add_0)
      from less.hyps [OF this, of nx ?id "counted (length (sr_Hits current)) stats"]
      obtain w' where "migrate cl marshal cfg nx ?id (counted (length (sr_Hits current)) stats) w2 =
          Some (counted (length (sr_Hits current) + (length (sr_Hits nx) + length (pending w2))) stats, w')" "progressed start [] (stored w')"
        using batch(2) nxt(2-4) by (auto simp: add.assoc)
      moreover have "length (sr_Hits nx) + length (pending w2) = length (pending w)" using nxt(3) by (metis length_append)
      ultimately show ?thesis using batch(1) False nxt(1) more uninterrupted by (simp add: migrate.simps [of cl _ _ current])
    qed
  qed
qed

end


section \<open>A cluster\<close>

text \<open>A cluster that keeps the promises: it evaluates the query, keeps the pages of one scroll, and reads the text of a bulk
  request line by line.\<close>

type_synonym mini_cluster = "(string \<times> DocumentSource) list \<times> Document list"

fun dsl_matches :: "json \<Rightarrow> DocumentSource \<Rightarrow> bool" where
  "dsl_matches (JObj m) d =
     (case m of
        [(k, JObj b)] \<Rightarrow>
          if k = ''exists'' then (case b of [(_, JStr f)] \<Rightarrow> source_field d f \<noteq> [] | _ \<Rightarrow> False)
          else (case b of
             [(occur, JArr qs), (_, JArr ns)] \<Rightarrow> occur = ''must'' \<and> (\<forall>q\<in>set qs. dsl_matches q d) \<and> (\<forall>q\<in>set ns. \<not> dsl_matches q d)
           | [(occur, JArr qs), (_, JNum _)] \<Rightarrow> occur = ''should'' \<and> (\<exists>q\<in>set qs. dsl_matches q d)
           | _ \<Rightarrow> False)
      | _ \<Rightarrow> False)"
| "dsl_matches _ d = False"

definition mini_stored :: "mini_cluster \<Rightarrow> string \<Rightarrow> DocumentSource option" where
  "mini_stored w = map_of (fst w)"

definition mini_hits :: "json \<Rightarrow> mini_cluster \<Rightarrow> Document list" where
  "mini_hits query w = filter (\<lambda>doc. dsl_matches query (dc_Source doc))
     (map (\<lambda>i. \<lparr>dc_ID = i, dc_Source = the (mini_stored w i)\<rparr>) (remdups (map fst (fst w))))"

definition mini_search :: "MigrationConfig \<Rightarrow> json \<Rightarrow> mini_cluster \<Rightarrow> SearchResponse option reply \<times> mini_cluster" where
  "mini_search cfg body w =
     (let docs = mini_hits (case body of JObj m \<Rightarrow> field m ''query'' | _ \<Rightarrow> JNull) w in
      (Reply 200 ''200 OK'' (Some \<lparr>sr_ScrollID = ''scroll'', sr_Total = int (length docs), sr_Hits = page (mc_BatchSize cfg) docs\<rparr>),
       (fst w, drop (nat (mc_BatchSize cfg)) docs)))"

definition mini_scroll :: "MigrationConfig \<Rightarrow> mini_cluster \<Rightarrow> SearchResponse option reply \<times> mini_cluster" where
  "mini_scroll cfg w =
     (Reply 200 ''200 OK'' (Some \<lparr>sr_ScrollID = ''scroll'', sr_Total = 0, sr_Hits = page (mc_BatchSize cfg) (snd w)\<rparr>),
      (fst w, drop (nat (mc_BatchSize cfg)) (snd w)))"

definition put_source :: "string \<Rightarrow> (DocumentSource \<Rightarrow> DocumentSource) \<Rightarrow> (string \<times> DocumentSource) list \<Rightarrow> (string \<times> DocumentSource) list" where
  "put_source i f docs = map (\<lambda>(j, d). (j, if j = i then f d else d)) docs"

definition text_members :: "json gomap \<Rightarrow> string gomap" where
  "text_members m = List.map_filter (\<lambda>(k, v). case v of JStr s \<Rightarrow> Some (k, s) | _ \<Rightarrow> None) m"

definition bulk_one :: "json \<Rightarrow> json \<Rightarrow> (string \<times> DocumentSource) list \<Rightarrow> (string \<times> DocumentSource) list" where
  "bulk_one header body docs =
     (case (header, body) of
        (JObj h, JObj b) \<Rightarrow>
          (case (field h ''update'', field b ''doc'') of
             (JObj u, JObj m) \<Rightarrow> (case field u ''_id'' of JStr i \<Rightarrow> put_source i (apply_update (text_members m)) docs | _ \<Rightarrow> docs)
           | _ \<Rightarrow> docs)
      | _ \<Rightarrow> docs)"

fun bulk_apply :: "string list \<Rightarrow> (string \<times> DocumentSource) list \<Rightarrow> (string \<times> DocumentSource) list" where
  "bulk_apply (h # b # rest) docs =
     bulk_apply rest (case (json_parse h, json_parse b) of (Some hj, Some bj) \<Rightarrow> bulk_one hj bj docs | _ \<Rightarrow> docs)"
| "bulk_apply _ docs = docs"

definition mini_client :: "MigrationConfig \<Rightarrow> mini_cluster migration_client" where
  "mini_client cfg = \<lparr>ml_New = \<lambda>_. None, ml_Info = \<lambda>w. (None, w), ml_Search = \<lambda>_ body _ w. mini_search cfg body w,
     ml_Scroll = \<lambda>_ w. mini_scroll cfg w,
     ml_Bulk = \<lambda>body w. (Reply 200 ''200 OK'' (Some \<lparr>bk_Errors = False, bk_Items = []\<rparr>), (bulk_apply (split_on (CHR 0x0A) body) (fst w), snd w)),
     ml_ClearScroll = \<lambda>_ w. (fst w, []), ml_interrupted = \<lambda>_. False\<rparr>"

lemma map_of_put_source: "map_of (put_source i f docs) = (map_of docs)(i := map_option f (map_of docs i))"
  by (induction docs) (auto simp: put_source_def)

lemma plain_no_newline: "plain s \<Longrightarrow> CHR 0x0A \<notin> set s"
  by (auto simp: plain_def list_all_iff byte_def)

lemma bulk_header_printed:
  assumes "plain indexName" "plain docID"
  defines "header \<equiv> JObj [(''update'', JObj [(''_index'', JStr indexName), (''_id'', JStr docID)])]"
  shows "bulk_header indexName docID = json_print header" "printable 0 header" "CHR 0x0A \<notin> set (json_print header)"
  using assms(1,2) plain_no_newline [OF assms(1)] plain_no_newline [OF assms(2)]
  by (simp_all add: header_def bulk_header_def quoted_def) (simp add: plain_def byte_def max_depth_def)

definition update_tree :: "DocumentSource \<Rightarrow> json" where
  "update_tree d = JObj [(''doc'', JObj (map (\<lambda>(k, v). (k, JStr v)) (update_doc d)))]"

lemma text_members_update: "text_members (map (\<lambda>(k, v). (k, JStr v)) m) = m"
  by (induction m) (auto simp: text_members_def map_filter_simps)

lemma update_printed:
  assumes "plain_document docID d"
  shows "printable 0 (update_tree d)" "CHR 0x0A \<notin> set (json_print (update_tree d))"
proof -
  have "plain (JoinFgaQuery (ds_AccessCheckObject d) (ds_AccessCheckRelation d))" "plain (JoinFgaQuery (ds_HistoryCheckObject d) (ds_HistoryCheckRelation d))"
    using assms by (simp_all add: plain_document_def plain_def JoinFgaQuery_def byte_def)
  then show "printable 0 (update_tree d)" "CHR 0x0A \<notin> set (json_print (update_tree d))"
    using plain_no_newline
    by (simp_all add: update_tree_def update_doc_eq quoted_def) (simp add: plain_def byte_def max_depth_def)
qed

lemma bulk_one_update:
  "bulk_one (JObj [(''update'', JObj [(''_index'', JStr indexName), (''_id'', JStr docID)])]) (update_tree d) docs =
     put_source docID (apply_update (update_doc d)) docs"
  by (simp add: bulk_one_def update_tree_def text_members_update)

lemma mini_bulk:
  assumes "plain indexName" "\<forall>doc\<in>set batch. plain_document (dc_ID doc) (dc_Source doc)"
  shows "map_of (bulk_apply (split_on (CHR 0x0A) (concat (map (bulk_lines json_print indexName) batch))) docs) =
     fold store_update batch (map_of docs)"
  using assms(2)
proof (induction batch arbitrary: docs)
  case (Cons doc batch)
  let ?header = "JObj [(''update'', JObj [(''_index'', JStr indexName), (''_id'', JStr (dc_ID doc))])]"
  have plain: "plain (dc_ID doc)" "plain_document (dc_ID doc) (dc_Source doc)" using Cons.prems by (simp_all add: plain_document_def)
  note header = bulk_header_printed [OF assms(1) plain(1)] and update = update_printed [OF plain(2)]
  have "bulk_lines json_print indexName doc = json_print ?header @ CHR 0x0A # json_print (update_tree (dc_Source doc)) @ [CHR 0x0A]"
    by (simp add: bulk_lines_def header(1) update_tree_def)
  moreover have "split_on (CHR 0x0A) ((a @ CHR 0x0A # b @ [CHR 0x0A]) @ rest) = a # b # split_on (CHR 0x0A) rest"
    if "CHR 0x0A \<notin> set a" "CHR 0x0A \<notin> set b" for a b rest
    using split_on_Cons [OF that(1)] split_on_Cons [OF that(2)] by simp
  ultimately have "split_on (CHR 0x0A) (concat (map (bulk_lines json_print indexName) (doc # batch))) =
      json_print ?header # json_print (update_tree (dc_Source doc)) # split_on (CHR 0x0A) (concat (map (bulk_lines json_print indexName) batch))"
    using header(3) update(2) by (simp del: json_print.simps append_assoc append_Cons)
  then have "bulk_apply (split_on (CHR 0x0A) (concat (map (bulk_lines json_print indexName) (doc # batch)))) docs =
      bulk_apply (split_on (CHR 0x0A) (concat (map (bulk_lines json_print indexName) batch)))
        (put_source (dc_ID doc) (apply_update (update_doc (dc_Source doc))) docs)"
    using json_parse_print [OF header(2)] json_parse_print [OF update(1)] bulk_one_update by simp
  moreover have "map_of (put_source (dc_ID doc) (apply_update (update_doc (dc_Source doc))) docs) = store_update doc (map_of docs)"
    by (simp add: map_of_put_source store_update_def)
  ultimately show ?case using Cons.IH [of "put_source (dc_ID doc) (apply_update (update_doc (dc_Source doc))) docs"] Cons.prems by simp
qed simp

lemma mini_hits_found:
  "distinct (map dc_ID (mini_hits query w))"
  "doc \<in> set (mini_hits query w) \<longleftrightarrow> mini_stored w (dc_ID doc) = Some (dc_Source doc) \<and> dsl_matches query (dc_Source doc)"
proof -
  have "map dc_ID (map (\<lambda>i. \<lparr>dc_ID = i, dc_Source = the (mini_stored w i)\<rparr>) (remdups (map fst (fst w)))) = remdups (map fst (fst w))"
    by (simp add: o_def)
  then show "distinct (map dc_ID (mini_hits query w))"
    unfolding mini_hits_def by (metis distinct_map_filter distinct_remdups)
  define ids where "ids = remdups (map fst (fst w))"
  have "i \<in> set ids \<longleftrightarrow> mini_stored w i = Some (the (mini_stored w i))" for i
    unfolding ids_def by (metis list.set_map map_of_eq_None_iff mini_stored_def not_None_eq option.sel set_remdups)
  then show "doc \<in> set (mini_hits query w) \<longleftrightarrow> mini_stored w (dc_ID doc) = Some (dc_Source doc) \<and> dsl_matches query (dc_Source doc)"
    by (cases doc) (auto simp: mini_hits_def ids_def [symmetric])
qed

lemma mini_cluster_promises:
  assumes "plain (mc_IndexName cfg)"
  shows "scroll_cluster (mini_client cfg) json_print cfg mini_stored snd dsl_matches"
proof (unfold_locales, goal_cases)
  case (7 keep w)
  let ?docs = "mini_hits search_query w"
  show ?case
    by (intro exI [of _ "''200 OK''"] exI [of _ "\<lparr>sr_ScrollID = ''scroll'', sr_Total = int (length ?docs), sr_Hits = page (mc_BatchSize cfg) ?docs\<rparr>"]
        exI [of _ "(fst w, drop (nat (mc_BatchSize cfg)) ?docs)"] exI [of _ ?docs])
      (use mini_hits_found in \<open>simp add: mini_client_def mini_search_def search_body_def mini_stored_def Let_def\<close>)
next
  case (9 docs w)
  then show ?case using mini_bulk [OF assms, of docs "fst w"]
    by (simp add: mini_client_def mini_stored_def)
qed (auto simp: exists_query_def mini_client_def mini_scroll_def mini_stored_def page_def)

section \<open>The script with its defaults\<close>

definition default_run :: MigrationConfig where
  "default_run = loadConfig (\<lambda>_. None) (\<lambda>_. [])"

lemma default_run_fields: "mc_IndexName default_run = ''resources''" "mc_BatchSize default_run = 100" "\<not> mc_DryRun default_run"
  "mc_ScrollTimeout default_run = 5 * Minute"
  by (simp_all add: default_run_def loadConfig_def getEnvString_def getEnvInt_def getEnvBool_def getEnvDuration_def getEnvWith_def)

interpretation script: scroll_cluster "mini_client default_run" json_print default_run mini_stored snd dsl_matches
  by (rule mini_cluster_promises) (simp add: default_run_fields plain_def byte_def)


end
