(* ===== verification/Spec2Isabelle.thy ===== *)
theory Spec2Isabelle
  imports Templates Indexer_Service Audit_Workflow Audit_Example Write_Path Service_Main Reports Migration_Run
begin

text \<open>
  \<^bold>\<open>The LFX v2 indexer service.\<close> The service takes resource messages from NATS (subjects
  lfx.index.<type> and lfx.v1.index.<type>), turns each into a transaction, writes the resulting
  document to OpenSearch, publishes a domain event, and has a janitor demote duplicate documents. A
  second path takes version 2 envelopes with an audit event: the delivery is admitted against the policy
  of its publisher, recorded as a receipt, appended to an immutable history, and projected onto
  the current document by a guarded update. Container wiring, configuration, health probes and drain on
  shutdown surround both paths.

  \<^bold>\<open>Theories and the sources they model\<close> (paths under src/):

  \<^item> Prelude, Go_Strings, Go_Int, Go_Json, Errors: the result monad (error + value), association
    maps, the parts of Go's strings, int64, encoding/json and encoding/base64 the code uses, and error
    values. Every errors.New and fmt.Errorf of the code is a value that a branch returns.
  \<^item> Json_Fuel, Json_Print: the fuel of the JSON parser is enough; a printer of JSON trees, which the
    parser inverts.
  \<^item> Contracts: pkg/constants and internal/domain/contracts; the transaction, the document, the event.
  \<^item> Templates: expansion of {{ }} templates and parsing of indexing_config, from
    internal/domain/services/indexer_service.go.
  \<^item> Indexer_Service: envelope_admission.go and indexer_service.go; creation, validation, enrichment
    and processing of a transaction, with the repositories as functions on a state of the world.
  \<^item> Audit_Types, Audit_Messages: pkg/types (audit.go, audit_json.go, audit_profile.go,
    audit_builder.go); the version 2 envelope, its validation, the outbox builders.
  \<^item> Envelope_Json, Envelope_Print: the strict decoder of a version 2 envelope from its text, after
    audit_json.go, and what json.Marshal prints of an envelope.
  \<^item> Audit_Example: examples/audit-v2/main.go; the event a publisher builds, stores and sends.
  \<^item> Audit_Projection, Audit_Store, Audit_Mapping, Storage, Batch_Indexer:
    internal/infrastructure/storage; the script that runs on the primary shard, receipts and
    history with erasure, the check of the index mappings, the requests of the repository, and
    the batching of single writes.
  \<^item> Write_Path: the batching indexer, the bulk request of the repository and the cluster as one system.
  \<^item> Audit_Policy: audit_policy_schema.go and audit_admission.go of internal/domain/services.
  \<^item> Audit_Workflow, Message_Processor: internal/application, with the handlers of
    internal/presentation/handlers.
  \<^item> Auth, Cleanup, Messaging, Config: the repositories of internal/infrastructure of these names.
  \<^item> Health: the checks of the indexer service and the probe handlers.
  \<^item> Container: internal/container/container.go.
  \<^item> Telemetry: pkg/utils/otel.go, pkg/logging/logger.go and the header carrier of messaging/tracing.go.
  \<^item> Service_Main: cmd/lfx-indexer (cli.go, server.go, main.go) and the start of the background services.
  \<^item> Reports: GetMetrics and the other read-only reports, and the services and handlers the container wires.
  \<^item> Migration, Migration_Run: scripts/migration/001_add_access_query_fields/main.go; a run over a whole index.
  \<^item> This theory: properties that need the container, the configuration and the components it wires.

  \<^bold>\<open>State and operations.\<close> A Go struct is a record with the fields of the struct, prefixed by
  a short tag; a function or method keeps its name. Code that changes state takes the state and
  returns it. Code behind an interface is a field of a record of functions (\<open>service_deps\<close>,
  \<open>audit_stores\<close>, \<open>janitor_env\<close>), each from a request and the world to a reply and the next
  world. Goroutines are step relations in which one step is a critical section, a channel operation or a
  request, so every interleaving is a sequence of steps: \<open>batch_step\<close>, \<open>janitor_step\<close>, \<open>pool_step\<close>,
  \<open>audit_step\<close>, \<open>probed\<close>, \<open>write_step\<close>.

  \<^bold>\<open>Interfaces.\<close> \<open>delivered_register\<close> (Audit_Projection) is what a guarded register owes its clients;
  the update script interprets it. \<open>identity_store\<close> (Audit_Store) is create-or-verify by identity;
  receipts and history interpret it. \<open>audit_world\<close> (Audit_Workflow) is what one delivery
  relies on in the three stores; the modelled stores over create-only indices interpret it.
  \<open>bulk_cluster\<close> (Write_Path) is what an acknowledged bulk item means in the cluster; a log of applied
  operations interprets it. \<open>scroll_cluster\<close> (Migration_Run) is what the migration relies on in a cluster; a store that
    evaluates the query and reads the text of the bulk requests interprets it.

  \<^bold>\<open>What the lemmas show.\<close>

  \<^item> Audited path: any sequence of deliveries, failures, lost replies and erasures keeps every
    current document accounted for by a history record; redelivery is absorbed; the final document does
    not depend on the order of arrival; an identity is never reused with other content; erasure is
    permanent; admission implies the publisher, the token and the schema allow the event; a failed
    delivery publishes nothing.
  \<^item> Legacy path: the effects of a message on every branch, when an envelope is admitted, the form of
    event subjects, that tombstones carry no data of the resource, precedence in indexing_config.
  \<^item> Concurrency: the batching indexer answers every caller once, writes no cancelled operation and can
    always progress; the janitor terminates, keeps one latest document and chooses by priority; the
    worker pool keeps its slots, settles every message once and can always settle what was delivered.
  \<^item> Bounds: the depth of a snapshot, the redelivery delay, the timing rules of the configuration, the
    time a drain takes.
  \<^item> Composition: a service that started with auditing fences its required types off from the legacy path
    (\<open>service_fenced\<close>); a write that was acknowledged to its caller was applied in the cluster
    (\<open>acknowledged_write_applied\<close>); a process that serves stops cleanly when the work in flight ends within
    the times it was configured with (\<open>main_shutdown_clean\<close>).
  \<^item> Text: an envelope that was marshalled decodes to itself (\<open>envelope_roundtrip\<close>), and the decoder
    accepts nothing above its limits of size and depth.

  \<^bold>\<open>Fuel and bounds.\<close> \<open>parse_value\<close> recurses on a fuel argument, which is twice the input: each call consumes a
  character or is followed by one that does, so the fuel never runs out (\<open>json_parse_fuel\<close>: any larger fuel gives
  the same result, failures included). The loop of the migration is a
  partial function, whose end is proved (\<open>migration_complete\<close>). The
  janitor's retries are bounded by janitorMaxVisibilityRetries, which the termination argument uses as a
  weight. All other recursion is structural or has a measure.

  \<^bold>\<open>Parameters.\<close> The NATS and OpenSearch clients, the JWT library, the OpenTelemetry SDK, URL, mailbox, float
  and duration parsing, time formatting, the SHA-256 digest, the typed decoding of a publisher manifest (whose
  repeated keys encoding/json merges), the clock, random numbers and the file system. What is assumed of
  them is a hypothesis of the theorem or of the interface that uses it; witnesses instantiate them.

  \<^bold>\<open>Not modelled.\<close> The mocks; what is logged; the usage text and the package flag; the transports of the HTTP
  clients; the printed statistics of the migration. A JSON number outside the integers of magnitude
  2^53 is kept as its literal and not rounded.
\<close>

section \<open>The fence of a started service\<close>

text \<open>C8: in a service that started with auditing, no legacy message of either version can write a document
  of a required type: the outcome of every message is the same whatever an index request for such a
  document would do.\<close>

theorem service_fenced:
  assumes "NewContainer ce pd getenv cli env st build = Inr ct" "au_Enabled (ac_Audit (ct_Config ct))"
  defines "mp \<equiv> ct_MessageProcessor ct" and "required \<equiv> au_RequiredTypes (ac_Audit (ct_Config ct))"
  shows "required \<noteq> [] \<and>
    route menv (mp\<lparr>mp_service := \<lambda>c. (mp_service mp c)\<lparr>sd_Index := \<lambda>i d doc w.
      if fenced_ref required d then other i d doc w else sd_Index (mp_service mp c) i d doc w\<rparr>\<rparr>) waits data subject w =
    route menv mp waits data subject w"
proof -
  obtain auditClient mp0 where valid: "Validate (ct_Config ct) = Inr ()"
    and app: "initializeApplication ce (ct_Config ct) auditClient env st mp0 = Inr mp"
    using NewContainer_stages [OF assms(1)] by (auto simp: mp_def)
  then obtain flow mp1 where "SetAuditWorkflow (Some flow) required mp1 = Inr mp"
    using assms(2) by (auto simp: initializeApplication_def Let_def rbind_Inr_conv required_def)
  moreover have "required \<noteq> []"
    using valid assms(2) by (simp add: Validate_Inr validateAudit_def Let_def required_def)
  ultimately show ?thesis by (simp add: audited_documents_fenced)
qed

section \<open>Witnesses\<close>

theorem service_fenced_witness:
  "\<exists>ct :: (unit, unit, message_effect list) Container. ct_Config ct = audited_config \<and>
     route plain_env ((ct_MessageProcessor ct)\<lparr>mp_service := \<lambda>c. (mp_service (ct_MessageProcessor ct) c)\<lparr>sd_Index := \<lambda>i d doc w.
       if fenced_ref [''project''] d then (Some (External ''down''), w) else sd_Index (mp_service (ct_MessageProcessor ct) c) i d doc w\<rparr>\<rparr>)
       False ''{}'' ''lfx.index.project'' [] =
     route plain_env (ct_MessageProcessor ct) False ''{}'' ''lfx.index.project'' []"
proof -
  obtain ct where ct: "NewContainer sample_container_env sample_pd audit_getenv None (\<lambda>ps. sample_env\<lparr>en_policies := ps\<rparr>) sample_stores sample_build = Inr ct"
    "ct_Config ct = audited_config" using sample_container_started by blast
  then have "au_Enabled (ac_Audit (ct_Config ct))" "au_RequiredTypes (ac_Audit (ct_Config ct)) = [''project'']"
    using audited_config_facts by simp_all
  then show ?thesis
    using service_fenced [OF ct(1), of plain_env "\<lambda>i d doc w. (Some (External ''down''), w)" False "''{}''" "''lfx.index.project''" "[]"] ct(2)
    by (intro exI [of _ ct]) simp
qed

end
